(* ===== verification/Prelude.thy ===== *)
theory Prelude
  imports Main "HOL-Library.Char_ord" "HOL-Library.List_Lexorder" "HOL-Library.Multiset"
begin

text \<open>
  What every component of the development shares: Go's error results, statements that
  may fail over an explicit state, fault injection, and the generic arguments on runs of a
  state machine and on Go's \<open>sort.Slice\<close>.
\<close>

named_theorems go_defs \<open>definitions of Go library operations, unfolded by evaluation\<close>
named_theorems act_simps \<open>how sequenced fallible statements compute\<close>

section \<open>Results and fallible statements\<close>

text \<open>
  A Go function returning \<open>(T, error)\<close> is a value of \<open>string + T\<close>: \<open>Inl\<close> carries the
  error's text. A statement over a state \<open>'s\<close> (the database, the working tree) takes the
  state and returns the result with the state it leaves.
\<close>

type_synonym 'a result = "string + 'a"
type_synonym ('s, 'a) act = "'s \<Rightarrow> (string + 'a) \<times> 's"

definition ret :: "'a \<Rightarrow> ('s, 'a) act" where
  "ret x s = (Inr x, s)"

definition fail_with :: "string \<Rightarrow> ('s, 'a) act" where
  "fail_with e s = (Inl e, s)"

text \<open>
  \<open>seq m wrap k\<close> is \<open>x, err := m; if err != nil { return wrap(err) }; k(x)\<close>; the wrapper is
  the \<open>fmt.Errorf\<close> around the error, the identity for a bare \<open>return err\<close>.
\<close>

definition seq :: "('s, 'a) act \<Rightarrow> (string \<Rightarrow> string) \<Rightarrow> ('a \<Rightarrow> ('s, 'b) act) \<Rightarrow> ('s, 'b) act" where
  "seq m wrap k s = (case m s of (Inl e, s') \<Rightarrow> (Inl (wrap e), s') | (Inr x, s') \<Rightarrow> k x s')"

lemma ret_apply [act_simps, simp]: "ret x s = (Inr x, s)"
  by (simp add: ret_def)

lemma fail_with_apply [act_simps, simp]: "fail_with e s = (Inl e, s)"
  by (simp add: fail_with_def)

lemma seq_Inl [act_simps]: "m s = (Inl e, s') \<Longrightarrow> seq m w k s = (Inl (w e), s')"
  by (simp add: seq_def)

lemma seq_Inr [act_simps]: "m s = (Inr x, s') \<Longrightarrow> seq m w k s = k x s'"
  by (simp add: seq_def)

lemma seq_Inr_E:
  assumes "seq m w k s = (Inr y, s'')"
  obtains x s' where "m s = (Inr x, s')" "k x s' = (Inr y, s'')"
  using assms by (auto simp: seq_def split: prod.splits sum.splits)

lemma seq_cases:
  obtains e s' where "m s = (Inl e, s')" "seq m w k s = (Inl (w e), s')"
  | x s' where "m s = (Inr x, s')" "seq m w k s = k x s'"
proof (cases "m s")
  case (Pair r s')
  then show ?thesis by (cases r) (auto simp: seq_def intro: that)
qed

text \<open>An invariant that both halves keep is kept by the sequence.\<close>

definition keeps :: "('s \<Rightarrow> bool) \<Rightarrow> ('s, 'a) act \<Rightarrow> bool" where
  "keeps P m \<longleftrightarrow> (\<forall>s. P s \<longrightarrow> P (snd (m s)))"

lemma keepsI: "(\<And>s. P s \<Longrightarrow> P (snd (m s))) \<Longrightarrow> keeps P m"
  by (simp add: keeps_def)

lemma keepsD: "keeps P m \<Longrightarrow> P s \<Longrightarrow> P (snd (m s))"
  by (simp add: keeps_def)

lemma keeps_ret [intro, simp]: "keeps P (ret x)"
  by (simp add: keeps_def)

lemma keeps_fail [intro, simp]: "keeps P (fail_with e)"
  by (simp add: keeps_def)

lemma keeps_Pair [intro, simp]: "keeps P (Pair r)"
  by (simp add: keeps_def)

lemma keeps_seq [intro]:
  assumes "keeps P m" and "\<And>x. keeps P (k x)"
  shows "keeps P (seq m w k)"
proof (rule keepsI)
  fix s assume "P s"
  obtain r s' where m: "m s = (r, s')" by (cases "m s")
  with keepsD [OF assms(1) \<open>P s\<close>] have "P s'" by simp
  with assms(2) m show "P (snd (seq m w k s))"
    by (cases r) (auto simp: seq_def keeps_def)
qed

text \<open>
  A triple: from a state in \<open>P\<close>, success ends in \<open>Q\<close> of the result and failure in \<open>R\<close> of the
  error's text.
\<close>

definition triple :: "('s \<Rightarrow> bool) \<Rightarrow> ('s, 'a) act \<Rightarrow> ('a \<Rightarrow> 's \<Rightarrow> bool) \<Rightarrow> (string \<Rightarrow> 's \<Rightarrow> bool) \<Rightarrow> bool" where
  "triple P m Q R \<longleftrightarrow> (\<forall>s. P s \<longrightarrow> (case m s of (Inr x, s') \<Rightarrow> Q x s' | (Inl e, s') \<Rightarrow> R e s'))"

lemma tripleD: "triple P m Q R \<Longrightarrow> P s \<Longrightarrow> (case m s of (Inr x, s') \<Rightarrow> Q x s' | (Inl e, s') \<Rightarrow> R e s')"
  by (simp add: triple_def)

lemma tripleI:
  "(\<And>s x s'. P s \<Longrightarrow> m s = (Inr x, s') \<Longrightarrow> Q x s') \<Longrightarrow> (\<And>s e s'. P s \<Longrightarrow> m s = (Inl e, s') \<Longrightarrow> R e s')
    \<Longrightarrow> triple P m Q R"
  by (auto simp: triple_def split: prod.split sum.split)

lemma triple_seq:
  assumes "triple P m Q' R'" and "\<And>e s. R' e s \<Longrightarrow> R (w e) s" and "\<And>x. triple (Q' x) (k x) Q R"
  shows "triple P (seq m w k) Q R"
proof -
  have "case seq m w k s of (Inr x, s') \<Rightarrow> Q x s' | (Inl e, s') \<Rightarrow> R e s'" if "P s" for s
    using tripleD [OF assms(1) that] assms(2) tripleD [OF assms(3)]
    by (rule_tac seq_cases [of m s w k]) auto
  then show ?thesis by (simp add: triple_def)
qed

lemma triple_ret: "(\<And>s. P s \<Longrightarrow> Q x s) \<Longrightarrow> triple P (ret x) Q R"
  by (simp add: triple_def)

lemma triple_fail: "(\<And>s. P s \<Longrightarrow> R e s) \<Longrightarrow> triple P (fail_with e) Q R"
  by (simp add: triple_def)

lemma triple_mono:
  "triple P m Q R \<Longrightarrow> (\<And>s. P' s \<Longrightarrow> P s) \<Longrightarrow> (\<And>x s. Q x s \<Longrightarrow> Q' x s) \<Longrightarrow> (\<And>e s. R e s \<Longrightarrow> R' e s)
    \<Longrightarrow> triple P' m Q' R'"
proof -
  assume t: "triple P m Q R" and "\<And>s. P' s \<Longrightarrow> P s" "\<And>x s. Q x s \<Longrightarrow> Q' x s" "\<And>e s. R e s \<Longrightarrow> R' e s"
  then show ?thesis
    by (intro tripleI) (use tripleD [OF t] in \<open>fastforce\<close>)+
qed

lemma triple_given: "(C \<Longrightarrow> triple P m Q R) \<Longrightarrow> triple (\<lambda>s. P s \<and> C) m Q R"
  by (auto simp: triple_def)

lemma triple_frame: "triple P m Q R \<Longrightarrow> triple (\<lambda>s. P s \<and> C) m (\<lambda>x s. Q x s \<and> C) (\<lambda>e s. R e s \<and> C)"
  by (rule triple_given, erule triple_mono) auto

section \<open>Runs of a state machine\<close>

text \<open>
  Several components are state machines driven by an environment: the build store by its
  handlers, the snapshot cache by polls and refreshes, the log emitter by its worker. Each is
  a step function together with the condition under which the environment may offer an event.
  The invariant argument is done once here.
\<close>

fun run :: "('s \<Rightarrow> 'e \<Rightarrow> 's) \<Rightarrow> 's \<Rightarrow> 'e list \<Rightarrow> 's" where
  "run f s [] = s"
| "run f s (e # es) = run f (f s e) es"

fun admissible :: "('s \<Rightarrow> 'e \<Rightarrow> 's) \<Rightarrow> ('s \<Rightarrow> 'e \<Rightarrow> bool) \<Rightarrow> 's \<Rightarrow> 'e list \<Rightarrow> bool" where
  "admissible f ok s [] = True"
| "admissible f ok s (e # es) = (ok s e \<and> admissible f ok (f s e) es)"

lemma run_append [simp]: "run f s (xs @ ys) = run f (run f s xs) ys"
  by (induction xs arbitrary: s) auto

lemma admissible_append [simp]:
  "admissible f ok s (xs @ ys) \<longleftrightarrow> admissible f ok s xs \<and> admissible f ok (run f s xs) ys"
  by (induction xs arbitrary: s) auto

lemma admissible_True [simp]: "admissible f (\<lambda>_ _. True) s es"
  by (induction es arbitrary: s) auto

locale machine =
  fixes step :: "'s \<Rightarrow> 'e \<Rightarrow> 's"
    and ok :: "'s \<Rightarrow> 'e \<Rightarrow> bool"
    and inv :: "'s \<Rightarrow> bool"
  assumes step_inv: "inv s \<Longrightarrow> ok s e \<Longrightarrow> inv (step s e)"
begin

lemma run_inv: "inv s \<Longrightarrow> admissible step ok s es \<Longrightarrow> inv (run step s es)"
  by (induction es arbitrary: s) (auto intro: step_inv)

text \<open>A reflexive and transitive relation every step respects relates the ends of a run.\<close>

lemma run_relates:
  assumes "\<And>s. R s s" and "\<And>a b c. R a b \<Longrightarrow> R b c \<Longrightarrow> R a c"
    and step: "\<And>s e. inv s \<Longrightarrow> ok s e \<Longrightarrow> R s (step s e)"
  shows "inv s \<Longrightarrow> admissible step ok s es \<Longrightarrow> R s (run step s es)"
proof (induction es arbitrary: s)
  case Nil
  show ?case by (simp add: assms(1))
next
  case (Cons e es)
  then have "R s (step s e)" and "R (step s e) (run step (step s e) es)"
    by (auto intro: step step_inv)
  then show ?case by (auto intro: assms(2))
qed

end

section \<open>sort.Slice\<close>

text \<open>
  \<open>sort.Slice\<close> promises a permutation ordered by the key, and nothing about the order of
  equal keys. A component that calls it takes the sorter as an argument; this is the promise.
\<close>

definition sorts_by :: "('a \<Rightarrow> 'k::linorder) \<Rightarrow> ('a list \<Rightarrow> 'a list) \<Rightarrow> bool" where
  "sorts_by key srt \<longleftrightarrow> (\<forall>xs. mset (srt xs) = mset xs \<and> sorted (map key (srt xs)))"

lemma sorts_by_sort_key [simp]: "sorts_by key (sort_key key)"
  by (simp add: sorts_by_def)

lemma sorts_by_mset: "sorts_by key srt \<Longrightarrow> mset (srt xs) = mset xs"
  by (simp add: sorts_by_def)

lemma sorts_by_set: "sorts_by key srt \<Longrightarrow> set (srt xs) = set xs"
  by (metis sorts_by_mset mset_eq_setD)

lemma sorts_by_length: "sorts_by key srt \<Longrightarrow> length (srt xs) = length xs"
  by (metis sorts_by_mset size_mset)

lemma sorts_by_sorted: "sorts_by key srt \<Longrightarrow> sorted (map key (srt xs))"
  by (simp add: sorts_by_def)

lemma sorts_by_distinct_map:
  assumes "sorts_by key srt" shows "distinct (map f (srt xs)) \<longleftrightarrow> distinct (map f xs)"
proof -
  have "mset (map f (srt xs)) = mset (map f xs)"
    using sorts_by_mset [OF assms] by simp
  then show ?thesis by (metis mset_eq_imp_distinct_iff)
qed

section \<open>Lists\<close>

lemma map_of_rev: "distinct (map fst xs) \<Longrightarrow> map_of (rev xs) = map_of xs"
proof (induction xs)
  case (Cons x xs)
  then have "map_of xs (fst x) = None" by (simp add: map_of_eq_None_iff)
  with Cons show ?case by (cases x) (auto simp: map_add_def fun_eq_iff split: option.split)
qed simp

lemma map_of_filter_key: "map_of (filter (\<lambda>(k, v). P k) xs) k = (if P k then map_of xs k else None)"
  by (induction xs) auto

lemma filter_map_id: "(\<And>x. x \<in> set xs \<Longrightarrow> \<not> P x \<Longrightarrow> f x = x) \<Longrightarrow>
    (\<And>x. P (f x) = P x) \<Longrightarrow> filter (\<lambda>x. \<not> P x) (map f xs) = filter (\<lambda>x. \<not> P x) xs"
  by (induction xs) auto

end
