(* ===== verification/GoStrings.thy ===== *)
theory GoStrings
  imports Prelude
begin

text \<open>
  The part of Go's \<open>strings\<close>, \<open>fmt\<close> and \<open>strconv\<close> packages the platform uses, on Go
  strings: a \<open>string\<close> is the list of the string's bytes. Case mapping and quoting take Go's
  ASCII fast path here; their Unicode-table path, reached only by non-ASCII input, is an
  argument (\<open>uni\<close>) of the definitions.
\<close>

section \<open>Prefixes, suffixes, substrings\<close>

definition has_prefix :: "string \<Rightarrow> string \<Rightarrow> bool" where
  "has_prefix s p \<longleftrightarrow> take (length p) s = p"

definition has_suffix :: "string \<Rightarrow> string \<Rightarrow> bool" where
  "has_suffix s p \<longleftrightarrow> has_prefix (rev s) (rev p)"

definition trim_prefix :: "string \<Rightarrow> string \<Rightarrow> string" where
  "trim_prefix s p = (if has_prefix s p then drop (length p) s else s)"

definition trim_suffix :: "string \<Rightarrow> string \<Rightarrow> string" where
  "trim_suffix s p = (if has_suffix s p then take (length s - length p) s else s)"

fun str_contains :: "string \<Rightarrow> string \<Rightarrow> bool" where
  "str_contains [] sub = (sub = [])"
| "str_contains (c # cs) sub = (has_prefix (c # cs) sub \<or> str_contains cs sub)"

lemma has_prefix_Nil [simp]: "has_prefix s []"
  by (simp add: has_prefix_def)

lemma has_prefix_Nil2 [simp]: "has_prefix [] p \<longleftrightarrow> p = []"
  by (auto simp: has_prefix_def)

lemma has_prefix_Cons [simp]: "has_prefix (c # s) (d # p) \<longleftrightarrow> c = d \<and> has_prefix s p"
  by (auto simp: has_prefix_def)

lemma has_prefix_iff: "has_prefix s p \<longleftrightarrow> (\<exists>t. s = p @ t)"
  unfolding has_prefix_def by (metis append_eq_conv_conj append_take_drop_id)

lemma has_prefix_append [simp]: "has_prefix (p @ t) p"
  by (auto simp: has_prefix_iff)

lemma has_prefix_length: "has_prefix s p \<Longrightarrow> length p \<le> length s"
  by (auto simp: has_prefix_iff)

lemma has_prefix_same_append [simp]: "has_prefix (p @ s) (p @ q) \<longleftrightarrow> has_prefix s q"
  by (auto simp: has_prefix_iff)

lemma has_suffix_iff: "has_suffix s p \<longleftrightarrow> (\<exists>t. s = t @ p)"
  unfolding has_suffix_def has_prefix_iff by (metis rev_append rev_rev_ident)

lemma trim_prefix_same [simp]: "trim_prefix (p @ s) p = s"
  by (simp add: trim_prefix_def)

lemma trim_suffix_same [simp]: "trim_suffix (s @ p) p = s"
  by (simp add: trim_suffix_def has_suffix_iff)

lemma trim_prefix_unchanged_iff: "p \<noteq> [] \<Longrightarrow> trim_prefix s p = s \<longleftrightarrow> \<not> has_prefix s p"
  by (auto simp: trim_prefix_def has_prefix_iff)

lemma str_contains_iff: "str_contains s sub \<longleftrightarrow> (\<exists>u v. s = u @ sub @ v)"
proof (induction s)
  case Nil
  show ?case by auto
next
  case (Cons c s)
  show ?case
  proof
    assume "str_contains (c # s) sub"
    then consider t where "c # s = sub @ t" | u v where "s = u @ sub @ v"
      using Cons.IH by (auto simp: has_prefix_iff)
    then show "\<exists>u v. c # s = u @ sub @ v"
      by cases (metis append_Nil, metis append_Cons)
  next
    assume "\<exists>u v. c # s = u @ sub @ v"
    then obtain u v where eq: "c # s = u @ sub @ v" by blast
    show "str_contains (c # s) sub"
    proof (cases u)
      case Nil
      with eq have "has_prefix (c # s) sub" by (auto simp: has_prefix_iff)
      then show ?thesis by simp
    next
      case (Cons d u')
      with eq Cons.IH show ?thesis by auto
    qed
  qed
qed

section \<open>Trimming white space\<close>

text \<open>
  \<open>strings.TrimSpace\<close> removes the runes of \<open>unicode.IsSpace\<close>: six ASCII characters and the
  UTF-8 encodings of U+0085, U+00A0, U+1680, U+2000-U+200A, U+2028, U+2029, U+202F, U+205F
  and U+3000.
\<close>

definition go_spaces :: "string list" where
  "go_spaces =
     [[CHR 0x20], [CHR 0x09], [CHR 0x0A], [CHR 0x0B], [CHR 0x0C], [CHR 0x0D],
      [CHR 0xC2, CHR 0x85], [CHR 0xC2, CHR 0xA0], [CHR 0xE1, CHR 0x9A, CHR 0x80],
      [CHR 0xE2, CHR 0x80, CHR 0x80], [CHR 0xE2, CHR 0x80, CHR 0x81],
      [CHR 0xE2, CHR 0x80, CHR 0x82], [CHR 0xE2, CHR 0x80, CHR 0x83],
      [CHR 0xE2, CHR 0x80, CHR 0x84], [CHR 0xE2, CHR 0x80, CHR 0x85],
      [CHR 0xE2, CHR 0x80, CHR 0x86], [CHR 0xE2, CHR 0x80, CHR 0x87],
      [CHR 0xE2, CHR 0x80, CHR 0x88], [CHR 0xE2, CHR 0x80, CHR 0x89],
      [CHR 0xE2, CHR 0x80, CHR 0x8A], [CHR 0xE2, CHR 0x80, CHR 0xA8],
      [CHR 0xE2, CHR 0x80, CHR 0xA9], [CHR 0xE2, CHR 0x80, CHR 0xAF],
      [CHR 0xE2, CHR 0x81, CHR 0x9F], [CHR 0xE3, CHR 0x80, CHR 0x80]]"

function strip_front :: "string list \<Rightarrow> string \<Rightarrow> string" where
  "strip_front ws s =
     (case find (\<lambda>w. w \<noteq> [] \<and> has_prefix s w) ws of
        None \<Rightarrow> s
      | Some w \<Rightarrow> strip_front ws (drop (length w) s))"
  by pat_completeness auto
termination
proof (relation "measure (\<lambda>(ws, s). length s)")
  fix ws and s w :: string
  assume "find (\<lambda>w. w \<noteq> [] \<and> has_prefix s w) ws = Some w"
  then have "w \<noteq> []" and "has_prefix s w"
    by (auto simp: find_Some_iff)
  then show "((ws, drop (length w) s), ws, s) \<in> measure (\<lambda>(ws, s). length s)"
    using has_prefix_length [of s w] by (cases w) auto
qed simp

declare strip_front.simps [simp del]

definition trim_left :: "string \<Rightarrow> string" where
  "trim_left s = strip_front go_spaces s"

definition trim_right :: "string \<Rightarrow> string" where
  "trim_right s = rev (strip_front (map rev go_spaces) (rev s))"

definition trim_space :: "string \<Rightarrow> string" where
  "trim_space s = trim_right (trim_left s)"

text \<open>A string is at rest when no listed word starts it.\<close>

definition at_rest :: "string list \<Rightarrow> string \<Rightarrow> bool" where
  "at_rest ws s \<longleftrightarrow> (\<forall>w \<in> set ws. w \<noteq> [] \<longrightarrow> \<not> has_prefix s w)"

lemma strip_front_rest: "at_rest ws s \<Longrightarrow> strip_front ws s = s"
proof -
  assume "at_rest ws s"
  then have "find (\<lambda>w. w \<noteq> [] \<and> has_prefix s w) ws = None"
    by (auto simp: at_rest_def find_None_iff)
  then show ?thesis by (subst strip_front.simps) simp
qed

lemma strip_front_at_rest: "at_rest ws (strip_front ws s)"
proof (induction ws s rule: strip_front.induct)
  case (1 ws s)
  show ?case
  proof (cases "find (\<lambda>w. w \<noteq> [] \<and> has_prefix s w) ws")
    case None
    then have "at_rest ws s" by (auto simp: at_rest_def find_None_iff)
    then show ?thesis by (simp add: strip_front_rest)
  next
    case (Some w)
    with 1 have "at_rest ws (strip_front ws (drop (length w) s))" by blast
    moreover have "strip_front ws s = strip_front ws (drop (length w) s)"
      by (subst strip_front.simps) (simp add: Some)
    ultimately show ?thesis by simp
  qed
qed

lemma strip_front_suffix: "\<exists>u. s = u @ strip_front ws s"
proof (induction ws s rule: strip_front.induct)
  case (1 ws s)
  show ?case
  proof (cases "find (\<lambda>w. w \<noteq> [] \<and> has_prefix s w) ws")
    case None
    then show ?thesis by (subst strip_front.simps) simp
  next
    case (Some w)
    then obtain u where u: "drop (length w) s = u @ strip_front ws (drop (length w) s)"
      using 1 by blast
    have "strip_front ws s = strip_front ws (drop (length w) s)"
      by (subst strip_front.simps) (simp add: Some)
    with u have "s = (take (length w) s @ u) @ strip_front ws s"
      by (metis append.assoc append_take_drop_id)
    then show ?thesis by blast
  qed
qed

lemma at_rest_prefix: "at_rest ws (s @ t) \<Longrightarrow> at_rest ws s"
  by (auto simp: at_rest_def has_prefix_iff)

lemma trim_space_front: "at_rest go_spaces (trim_space s)"
proof -
  obtain u where u: "rev (trim_left s) = u @ strip_front (map rev go_spaces) (rev (trim_left s))"
    using strip_front_suffix by blast
  have "trim_left s = rev (u @ strip_front (map rev go_spaces) (rev (trim_left s)))"
    by (metis u rev_rev_ident)
  then have "trim_left s = trim_space s @ rev u"
    by (simp only: trim_space_def trim_right_def rev_append)
  then show ?thesis
    using strip_front_at_rest [of go_spaces s] at_rest_prefix by (metis trim_left_def)
qed

lemma trim_space_back: "at_rest (map rev go_spaces) (rev (trim_space s))"
  by (simp add: trim_space_def trim_right_def strip_front_at_rest)

text \<open>Trimming is idempotent, so a handler may trim what an earlier handler trimmed.\<close>

lemma trim_space_idem [simp]: "trim_space (trim_space s) = trim_space s"
proof -
  have "trim_left (trim_space s) = trim_space s"
    by (simp add: trim_left_def strip_front_rest trim_space_front)
  then have "trim_space (trim_space s) = rev (strip_front (map rev go_spaces) (rev (trim_space s)))"
    by (simp add: trim_space_def [of "trim_space s"] trim_right_def)
  then show ?thesis by (simp add: strip_front_rest trim_space_back)
qed

lemma trim_space_rest:
  "at_rest go_spaces s \<Longrightarrow> at_rest (map rev go_spaces) (rev s) \<Longrightarrow> trim_space s = s"
  by (simp add: trim_space_def trim_left_def trim_right_def strip_front_rest)

text \<open>A string without any byte of a space is left alone.\<close>

definition space_bytes :: "char set" where
  "space_bytes = \<Union> (set ` set go_spaces)"

lemma at_rest_no_bytes:
  assumes "\<And>w. w \<in> set ws \<Longrightarrow> set w \<subseteq> B" and "set s \<inter> B = {}"
  shows "at_rest ws s"
  using assms by (force simp: at_rest_def has_prefix_iff neq_Nil_conv)

lemma trim_space_no_bytes:
  assumes "set s \<inter> space_bytes = {}" shows "trim_space s = s"
proof (rule trim_space_rest)
  show "at_rest go_spaces s"
    by (rule at_rest_no_bytes [where B = space_bytes]) (use assms in \<open>auto simp: space_bytes_def\<close>)
  show "at_rest (map rev go_spaces) (rev s)"
    by (rule at_rest_no_bytes [where B = space_bytes]) (use assms in \<open>auto simp: space_bytes_def\<close>)
qed

section \<open>Replacing\<close>

text \<open>
  \<open>strings.ReplaceAll\<close> with a non-empty old string, the only use here: leftmost
  non-overlapping occurrences. \<open>replace_first\<close> is \<open>strings.Replace\<close> with count 1.
\<close>

function replace_all :: "string \<Rightarrow> string \<Rightarrow> string \<Rightarrow> string" where
  "replace_all old new [] = []"
| "replace_all old new (c # cs) =
     (if old \<noteq> [] \<and> has_prefix (c # cs) old
      then new @ replace_all old new (drop (length old - 1) cs)
      else c # replace_all old new cs)"
  by pat_completeness auto
termination by (relation "measure (\<lambda>(old, new, s). length s)") auto

fun replace_first :: "string \<Rightarrow> string \<Rightarrow> string \<Rightarrow> string" where
  "replace_first old new [] = []"
| "replace_first old new (c # cs) =
     (if has_prefix (c # cs) old then new @ drop (length old) (c # cs)
      else c # replace_first old new cs)"

lemma replace_all_occurrence:
  "old \<noteq> [] \<Longrightarrow> replace_all old new (old @ s) = new @ replace_all old new s"
  by (cases old) auto

lemma replace_all_absent: "\<not> str_contains s old \<Longrightarrow> replace_all old new s = s"
  by (induction old new s rule: replace_all.induct) auto

lemma replace_first_absent: "\<not> str_contains s old \<Longrightarrow> replace_first old new s = s"
  by (induction old new s rule: replace_first.induct) auto

section \<open>Cutting and splitting\<close>

text \<open>\<open>strings.Cut\<close> and \<open>strings.Split\<close> at a one-byte separator; \<open>strings.TrimRight(s, "/")\<close>.\<close>

fun cut :: "char \<Rightarrow> string \<Rightarrow> (string \<times> string) option" where
  "cut sep [] = None"
| "cut sep (c # cs) =
     (if c = sep then Some ([], cs) else map_option (\<lambda>(a, b). (c # a, b)) (cut sep cs))"

lemma cut_Some: "cut sep s = Some (a, b) \<Longrightarrow> s = a @ sep # b \<and> sep \<notin> set a"
  by (induction s arbitrary: a) (auto split: if_splits)

lemma cut_None: "cut sep s = None \<longleftrightarrow> sep \<notin> set s"
  by (induction s) auto

fun split_on :: "char \<Rightarrow> string \<Rightarrow> string list" where
  "split_on sep [] = [[]]"
| "split_on sep (c # cs) =
     (if c = sep then [] # split_on sep cs
      else (case split_on sep cs of [] \<Rightarrow> [[c]] | w # ws \<Rightarrow> (c # w) # ws))"

lemma split_on_block: "c \<notin> set xs \<Longrightarrow> split_on c (xs @ c # ys) = xs # split_on c ys"
  by (induction xs) auto

lemma split_on_last: "c \<notin> set xs \<Longrightarrow> split_on c xs = [xs]"
  by (induction xs) auto

definition trim_right_char :: "char \<Rightarrow> string \<Rightarrow> string" where
  "trim_right_char c s = rev (dropWhile (\<lambda>x. x = c) (rev s))"

fun join_with :: "string \<Rightarrow> string list \<Rightarrow> string" where
  "join_with sep [] = []"
| "join_with sep [w] = w"
| "join_with sep (w # v # ws) = w @ sep @ join_with sep (v # ws)"

section \<open>Case mapping\<close>

definition is_ascii :: "string \<Rightarrow> bool" where
  "is_ascii s \<longleftrightarrow> list_all (\<lambda>c. (of_char c :: nat) < 128) s"

definition lower_byte :: "char \<Rightarrow> char" where
  "lower_byte c = (let n = (of_char c :: nat) in if 65 \<le> n \<and> n \<le> 90 then char_of (n + 32) else c)"

definition upper_byte :: "char \<Rightarrow> char" where
  "upper_byte c = (let n = (of_char c :: nat) in if 97 \<le> n \<and> n \<le> 122 then char_of (n - 32) else c)"

definition to_lower :: "(string \<Rightarrow> string) \<Rightarrow> string \<Rightarrow> string" where
  "to_lower uni s = (if is_ascii s then map lower_byte s else uni s)"

definition to_upper :: "(string \<Rightarrow> string) \<Rightarrow> string \<Rightarrow> string" where
  "to_upper uni s = (if is_ascii s then map upper_byte s else uni s)"

lemma lower_byte_idem [simp]: "lower_byte (lower_byte c) = lower_byte c"
proof -
  have "\<not> (65 \<le> (of_char (lower_byte c) :: nat) \<and> (of_char (lower_byte c) :: nat) \<le> 90)"
    by (auto simp: lower_byte_def Let_def of_char_of split: if_splits)
  then show ?thesis by (subst lower_byte_def) (auto simp: Let_def)
qed

lemma lower_byte_ascii: "(of_char c :: nat) < 128 \<Longrightarrow> (of_char (lower_byte c) :: nat) < 128"
  by (auto simp: lower_byte_def Let_def of_char_of)

lemma is_ascii_lower: "is_ascii s \<Longrightarrow> is_ascii (map lower_byte s)"
  by (auto simp: is_ascii_def list_all_iff lower_byte_ascii)

lemma is_ascii_append [simp]: "is_ascii (s @ t) \<longleftrightarrow> is_ascii s \<and> is_ascii t"
  by (simp add: is_ascii_def)

lemma is_ascii_Cons [simp]: "is_ascii (c # s) \<longleftrightarrow> (of_char c :: nat) < 128 \<and> is_ascii s"
  by (simp add: is_ascii_def)

lemma is_ascii_Nil [simp]: "is_ascii []"
  by (simp add: is_ascii_def)

section \<open>Numbers and quoted strings\<close>

text \<open>\<open>%d\<close> of an \<open>int\<close>.\<close>

fun digits :: "nat \<Rightarrow> string" where
  "digits n = (if n < 10 then [char_of (48 + n)] else digits (n div 10) @ [char_of (48 + n mod 10)])"

declare digits.simps [simp del]

lemma char_of_digit [simp]:
    "char_of (48::nat) = CHR ''0''"
    "char_of (49::nat) = CHR ''1''"
    "char_of (50::nat) = CHR ''2''"
    "char_of (51::nat) = CHR ''3''"
    "char_of (52::nat) = CHR ''4''"
    "char_of (53::nat) = CHR ''5''"
    "char_of (54::nat) = CHR ''6''"
    "char_of (55::nat) = CHR ''7''"
    "char_of (56::nat) = CHR ''8''"
    "char_of (57::nat) = CHR ''9''"
  by (simp_all add: char_of_def bit_Suc_0_iff)

definition fmt_int :: "int \<Rightarrow> string" where
  "fmt_int i = (if i < 0 then CHR ''-'' # digits (nat (- i)) else digits (nat i))"

definition is_digit :: "char \<Rightarrow> bool" where
  "is_digit c \<longleftrightarrow> 48 \<le> (of_char c :: nat) \<and> (of_char c :: nat) \<le> 57"

lemma digits_are_digits: "list_all is_digit (digits n)"
proof (induction n rule: digits.induct)
  case (1 n)
  show ?case
  proof (cases "n < 10")
    case True
    then show ?thesis by (subst digits.simps) (simp add: is_digit_def of_char_of)
  next
    case False
    with 1 have "list_all is_digit (digits (n div 10))" by blast
    with False show ?thesis by (subst digits.simps) (simp add: is_digit_def of_char_of)
  qed
qed

text \<open>
  \<open>%q\<close> of a string (\<open>strconv.Quote\<close>). A non-ASCII string needs Go's table of printable
  runes, the argument \<open>uni\<close>.
\<close>

definition hex_digit :: "nat \<Rightarrow> char" where
  "hex_digit n = (if n < 10 then char_of (48 + n) else char_of (87 + n))"

definition quote_byte :: "char \<Rightarrow> string" where
  "quote_byte c = (let n = (of_char c :: nat) in
     if c = CHR 0x22 then [CHR 0x5C, CHR 0x22]
     else if c = CHR 0x5C then [CHR 0x5C, CHR 0x5C]
     else if 32 \<le> n \<and> n < 127 then [c]
     else if n = 7 then [CHR 0x5C, CHR ''a'']
     else if n = 8 then [CHR 0x5C, CHR ''b'']
     else if n = 12 then [CHR 0x5C, CHR ''f'']
     else if n = 10 then [CHR 0x5C, CHR ''n'']
     else if n = 13 then [CHR 0x5C, CHR ''r'']
     else if n = 9 then [CHR 0x5C, CHR ''t'']
     else if n = 11 then [CHR 0x5C, CHR ''v'']
     else [CHR 0x5C, CHR ''x'', hex_digit (n div 16), hex_digit (n mod 16)])"

definition go_quote :: "(string \<Rightarrow> string) \<Rightarrow> string \<Rightarrow> string" where
  "go_quote uni s =
     (if is_ascii s then CHR 0x22 # concat (map quote_byte s) @ [CHR 0x22] else uni s)"

lemmas [go_defs] = has_prefix_def has_suffix_def trim_prefix_def trim_suffix_def to_lower_def
  to_upper_def go_quote_def fmt_int_def trim_right_char_def

end
