(* ===== verification/Templates.thy ===== *)
theory Templates
  imports GoStrings
begin

text \<open>
  The manifest templates of internal/manifests/generator.go, line by line, and the placeholder
  substitution \<open>replaceVars\<close>. Go iterates over the map of placeholders in an unspecified order,
  so the substitution takes the order it happens to use; where no value contains a brace the
  order does not show in the result.
\<close>

section \<open>Templates\<close>

text \<open>
  A template is the list of its lines; a line is a list of literal pieces and placeholders. The
  text of the Go constant is \<open>template_text\<close>.
\<close>

datatype placeholder = AppName | Image | Tag | Replicas | PortNo | EnvVars

datatype piece = Lit string | Ph placeholder

type_synonym template = "piece list list"

definition newline :: string where
  "newline = [CHR 0x0A]"

definition placeholder_key :: "placeholder \<Rightarrow> string" where
  "placeholder_key p = (case p of
     AppName \<Rightarrow> ''{{APP_NAME}}'' | Image \<Rightarrow> ''{{IMAGE}}'' | Tag \<Rightarrow> ''{{TAG}}''
   | Replicas \<Rightarrow> ''{{REPLICAS}}'' | PortNo \<Rightarrow> ''{{PORT}}'' | EnvVars \<Rightarrow> ''{{ENV_VARS}}'')"

definition template_pieces :: "template \<Rightarrow> piece list" where
  "template_pieces t = concat (map (\<lambda>l. l @ [Lit newline]) t)"

definition piece_text :: "(placeholder \<Rightarrow> string) \<Rightarrow> piece \<Rightarrow> string" where
  "piece_text \<sigma> x = (case x of Lit s \<Rightarrow> s | Ph p \<Rightarrow> \<sigma> p)"

definition fill :: "(placeholder \<Rightarrow> string) \<Rightarrow> template \<Rightarrow> string" where
  "fill \<sigma> t = concat (map (piece_text \<sigma>) (template_pieces t))"

definition template_text :: "template \<Rightarrow> string" where
  "template_text t = fill placeholder_key t"

definition namespace_template :: template where
  "namespace_template =
    [[Lit ''apiVersion: v1''],
     [Lit ''kind: Namespace''],
     [Lit ''metadata:''],
     [Lit ''  name: '', Ph AppName],
     [Lit ''  labels:''],
     [Lit ''    tinycloud.io/managed-by: platform''],
     [Lit ''    app.kubernetes.io/name: '', Ph AppName]]"

definition deployment_template :: template where
  "deployment_template =
    [[Lit ''apiVersion: apps/v1''],
     [Lit ''kind: Deployment''],
     [Lit ''metadata:''],
     [Lit ''  name: '', Ph AppName],
     [Lit ''  labels:''],
     [Lit ''    app.kubernetes.io/name: '', Ph AppName],
     [Lit ''    app.kubernetes.io/managed-by: tinycloud''],
     [Lit ''    tinycloud.io/managed-by: platform''],
     [Lit ''spec:''],
     [Lit ''  replicas: '', Ph Replicas],
     [Lit ''  selector:''],
     [Lit ''    matchLabels:''],
     [Lit ''      app.kubernetes.io/name: '', Ph AppName],
     [Lit ''  template:''],
     [Lit ''    metadata:''],
     [Lit ''      labels:''],
     [Lit ''        app.kubernetes.io/name: '', Ph AppName],
     [Lit ''        tinycloud.io/managed-by: platform''],
     [Lit ''    spec:''],
     [Lit ''      imagePullSecrets:''],
     [Lit ''        - name: ghcr-creds''],
     [Lit ''      containers:''],
     [Lit ''        - name: '', Ph AppName],
     [Lit ''          image: '', Ph Image, Lit '':'', Ph Tag],
     [Lit ''          imagePullPolicy: Always''],
     [Lit ''          ports:''],
     [Lit ''            - containerPort: '', Ph PortNo],
     [Lit ''              name: http''],
     [Ph EnvVars],
     [Lit ''          # Probes check for a listening socket rather than an HTTP health path,''],
     [Lit ''          # so an app needs no particular endpoint to deploy healthily.''],
     [Lit ''          readinessProbe:''],
     [Lit ''            tcpSocket:''],
     [Lit ''              port: http''],
     [Lit ''            initialDelaySeconds: 5''],
     [Lit ''            periodSeconds: 5''],
     [Lit ''          livenessProbe:''],
     [Lit ''            tcpSocket:''],
     [Lit ''              port: http''],
     [Lit ''            initialDelaySeconds: 15''],
     [Lit ''            periodSeconds: 10''],
     [Lit ''          # Requests sized near real usage, not far below it. The scheduler packs''],
     [Lit ''          # by requests alone, so a 4x gap between request and limit let it keep''],
     [Lit ''          # placing pods on a node that reported 11% memory while actually being''],
     [Lit ''          # close to full.''],
     [Lit ''          resources:''],
     [Lit ''            requests:''],
     [Lit ''              cpu: 100m''],
     [Lit ''              memory: 128Mi''],
     [Lit ''            limits:''],
     [Lit ''              cpu: 250m''],
     [Lit ''              memory: 256Mi'']]"

definition service_template :: template where
  "service_template =
    [[Lit ''apiVersion: v1''],
     [Lit ''kind: Service''],
     [Lit ''metadata:''],
     [Lit ''  name: '', Ph AppName],
     [Lit ''  labels:''],
     [Lit ''    app.kubernetes.io/name: '', Ph AppName],
     [Lit ''    tinycloud.io/managed-by: platform''],
     [Lit ''spec:''],
     [Lit ''  selector:''],
     [Lit ''    app.kubernetes.io/name: '', Ph AppName],
     [Lit ''  ports:''],
     [Lit ''    - port: 80''],
     [Lit ''      targetPort: http''],
     [Lit ''      name: http'']]"

definition resource_quota_template :: template where
  "resource_quota_template =
    [[Lit ''apiVersion: v1''],
     [Lit ''kind: ResourceQuota''],
     [Lit ''metadata:''],
     [Lit ''  name: '', Ph AppName, Lit ''-quota''],
     [Lit ''spec:''],
     [Lit (''  # Sized to hold maxReplicas pods at the deployment'' @ [CHR 0x27] @ ''s requests and limits.'')],
     [Lit ''  # Previously an app could pass validation at 10 replicas and then be refused''],
     [Lit ''  # by this quota at 6.''],
     [Lit ''  hard:''],
     [Lit (''    requests.cpu: '' @ [CHR 0x22] @ ''600m'' @ [CHR 0x22])],
     [Lit (''    requests.memory: '' @ [CHR 0x22] @ ''704Mi'' @ [CHR 0x22])],
     [Lit (''    limits.cpu: '' @ [CHR 0x22] @ ''1500m'' @ [CHR 0x22])],
     [Lit (''    limits.memory: '' @ [CHR 0x22] @ ''1408Mi'' @ [CHR 0x22])],
     [Lit (''    pods: '' @ [CHR 0x22] @ ''5'' @ [CHR 0x22])]]"

definition network_policies_template :: template where
  "network_policies_template =
    [[Lit ''apiVersion: networking.k8s.io/v1''],
     [Lit ''kind: NetworkPolicy''],
     [Lit ''metadata:''],
     [Lit ''  name: default-deny''],
     [Lit ''spec:''],
     [Lit ''  podSelector: {}''],
     [Lit ''  policyTypes:''],
     [Lit ''    - Ingress''],
     [Lit ''    - Egress''],
     [Lit ''---''],
     [Lit ''apiVersion: networking.k8s.io/v1''],
     [Lit ''kind: NetworkPolicy''],
     [Lit ''metadata:''],
     [Lit ''  name: allow-platform-ingress''],
     [Lit ''spec:''],
     [Lit ''  podSelector: {}''],
     [Lit ''  policyTypes:''],
     [Lit ''    - Ingress''],
     [Lit ''  ingress:''],
     [Lit ''    - from:''],
     [Lit ''        - namespaceSelector:''],
     [Lit ''            matchLabels:''],
     [Lit ''              kubernetes.io/metadata.name: tinycloud''],
     [Lit ''      ports:''],
     [Lit ''        - protocol: TCP''],
     [Lit ''          port: '', Ph PortNo],
     [Lit ''---''],
     [Lit ''apiVersion: networking.k8s.io/v1''],
     [Lit ''kind: NetworkPolicy''],
     [Lit ''metadata:''],
     [Lit ''  name: allow-monitoring-ingress''],
     [Lit ''spec:''],
     [Lit ''  podSelector: {}''],
     [Lit ''  policyTypes:''],
     [Lit ''    - Ingress''],
     [Lit ''  ingress:''],
     [Lit ''    - from:''],
     [Lit ''        - namespaceSelector:''],
     [Lit ''            matchLabels:''],
     [Lit ''              kubernetes.io/metadata.name: monitoring''],
     [Lit ''      ports:''],
     [Lit ''        - protocol: TCP''],
     [Lit ''          port: '', Ph PortNo],
     [Lit ''---''],
     [Lit ''apiVersion: networking.k8s.io/v1''],
     [Lit ''kind: NetworkPolicy''],
     [Lit ''metadata:''],
     [Lit ''  name: allow-dns-egress''],
     [Lit ''spec:''],
     [Lit ''  podSelector: {}''],
     [Lit ''  policyTypes:''],
     [Lit ''    - Egress''],
     [Lit ''  egress:''],
     [Lit ''    - to:''],
     [Lit ''        - namespaceSelector:''],
     [Lit ''            matchLabels:''],
     [Lit ''              kubernetes.io/metadata.name: kube-system''],
     [Lit ''          podSelector:''],
     [Lit ''            matchLabels:''],
     [Lit ''              k8s-app: kube-dns''],
     [Lit ''      ports:''],
     [Lit ''        - protocol: UDP''],
     [Lit ''          port: 53''],
     [Lit ''        - protocol: TCP''],
     [Lit ''          port: 53'']]"

definition pull_secret_template :: template where
  "pull_secret_template =
    [[Lit ''apiVersion: external-secrets.io/v1beta1''],
     [Lit ''kind: ExternalSecret''],
     [Lit ''metadata:''],
     [Lit ''  name: ghcr-creds''],
     [Lit ''  namespace: '', Ph AppName],
     [Lit ''  labels:''],
     [Lit ''    app.kubernetes.io/name: '', Ph AppName],
     [Lit ''    app.kubernetes.io/managed-by: tinycloud''],
     [Lit ''spec:''],
     [Lit ''  refreshInterval: 1h''],
     [Lit ''  secretStoreRef:''],
     [Lit ''    name: oci-vault''],
     [Lit ''    kind: ClusterSecretStore''],
     [Lit ''  target:''],
     [Lit ''    name: ghcr-creds''],
     [Lit ''    creationPolicy: Orphan''],
     [Lit ''    deletionPolicy: Retain''],
     [Lit ''    template:''],
     [Lit ''      # CRD defaults, written out so the generated app does not sit permanently''],
     [Lit ''      # OutOfSync against fields the API server fills in.''],
     [Lit ''      engineVersion: v2''],
     [Lit ''      mergePolicy: Replace''],
     [Lit ''      type: kubernetes.io/dockerconfigjson''],
     [Lit ''      data:''],
     [Lit (''        .dockerconfigjson: '' @ [CHR 0x27] @ ''{{ index . '' @ [CHR 0x22] @ ''.dockerconfigjson'' @ [CHR 0x22] @ '' }}'' @ [CHR 0x27])],
     [Lit ''  dataFrom:''],
     [Lit ''    - extract:''],
     [Lit ''        key: ghcr-creds''],
     [Lit ''        # CRD defaults again, on the extract this time. The template block above''],
     [Lit ''        # needed the same treatment; both are fields the API server fills in and''],
     [Lit ''        # git has to claim, or the diff never closes.''],
     [Lit ''        conversionStrategy: Default''],
     [Lit ''        decodingStrategy: None''],
     [Lit ''        metadataPolicy: None'']]"

definition kustomization_template :: template where
  "kustomization_template =
    [[Lit ''apiVersion: kustomize.config.k8s.io/v1beta1''],
     [Lit ''kind: Kustomization''],
     [],
     [Lit ''namespace: '', Ph AppName],
     [],
     [Lit ''resources:''],
     [Lit ''  - namespace.yaml''],
     [Lit ''  - pull-secret.yaml''],
     [Lit ''  - deployment.yaml''],
     [Lit ''  - service.yaml''],
     [Lit ''  - resource-quota.yaml''],
     [Lit ''  - network-policies.yaml''],
     [],
     [Lit ''images:''],
     [Lit ''  - name: '', Ph Image],
     [Lit ''    newTag: '', Ph Tag]]"

definition image_updater_template :: template where
  "image_updater_template =
    [[Lit ''apiVersion: argocd-image-updater.argoproj.io/v1alpha1''],
     [Lit ''kind: ImageUpdater''],
     [Lit ''metadata:''],
     [Lit ''  name: '', Ph AppName],
     [Lit ''  namespace: argocd''],
     [Lit ''spec:''],
     [Lit ''  commonUpdateSettings:''],
     [Lit ''    updateStrategy: newest-build''],
     [Lit (''    allowTags: '' @ [CHR 0x22] @ ''regexp:^[a-f0-9]{40}$'' @ [CHR 0x22])],
     [Lit ''    pullSecret: pullsecret:argocd/ghcr-creds''],
     [],
     [Lit ''  writeBackConfig:''],
     [Lit ''    method: git''],
     [Lit ''    gitConfig:''],
     [Lit ''      branch: main''],
     [],
     [Lit ''  applicationRefs:''],
     [Lit ''    - namePattern: '', Ph AppName],
     [Lit ''      images:''],
     [Lit ''        - alias: app''],
     [Lit ''          imageName: '', Ph Image]]"

definition all_templates :: "template list" where
  "all_templates = [namespace_template, deployment_template, service_template,
     resource_quota_template, network_policies_template, pull_secret_template,
     kustomization_template, image_updater_template]"

section \<open>replaceVars\<close>

text \<open>\<open>vars\<close> in the order Go's map iteration yields it.\<close>

definition replace_vars :: "string \<Rightarrow> (string \<times> string) list \<Rightarrow> string" where
  "replace_vars template vars = foldl (\<lambda>out (k, v). replace_all k v out) template vars"

section \<open>The iteration order does not matter for brace-free values\<close>

text \<open>A text clean for a key neither contains it nor can start it across its end.\<close>

fun clean :: "string \<Rightarrow> string \<Rightarrow> bool" where
  "clean k [] = True"
| "clean k (c # s) = (\<not> has_prefix (c # s) k \<and> \<not> has_prefix k (c # s) \<and> clean k s)"

lemma has_prefix_append_cases:
  "has_prefix (u @ r) k \<Longrightarrow> has_prefix u k \<or> has_prefix k u"
  by (auto simp: has_prefix_iff append_eq_append_conv2)

lemma replace_all_clean:
  "k \<noteq> [] \<Longrightarrow> clean k s \<Longrightarrow> replace_all k v (s @ r) = s @ replace_all k v r"
proof (induction s)
  case (Cons c s)
  then have "\<not> has_prefix ((c # s) @ r) k"
    using has_prefix_append_cases [of "c # s" r k] by auto
  with Cons show ?case by simp
qed simp

definition brace_free :: "string \<Rightarrow> bool" where
  "brace_free s \<longleftrightarrow> list_all (\<lambda>c. c \<noteq> CHR 0x7B) s"

lemma placeholder_key_brace: "\<exists>t. placeholder_key p = CHR 0x7B # t"
  by (cases p) (simp_all add: placeholder_key_def)

lemma placeholder_key_nonempty [simp]: "placeholder_key p \<noteq> []"
  using placeholder_key_brace [of p] by auto

lemma brace_free_clean: "brace_free s \<Longrightarrow> clean (placeholder_key p) s"
  using placeholder_key_brace [of p] by (induction s) (auto simp: brace_free_def)

lemma placeholder_keys_clean: "p \<noteq> q \<Longrightarrow> clean (placeholder_key p) (placeholder_key q)"
  by (cases p; cases q) (simp_all add: placeholder_key_def)

lemma placeholder_key_inj: "placeholder_key p = placeholder_key q \<longleftrightarrow> p = q"
  by (cases p; cases q) (simp_all add: placeholder_key_def)

text \<open>The literal pieces of the eight templates are clean for every key.\<close>

definition clean_piece :: "piece \<Rightarrow> bool" where
  "clean_piece x = (case x of
     Lit s \<Rightarrow> brace_free s \<or>
       list_all (\<lambda>p. clean (placeholder_key p) s) [AppName, Image, Tag, Replicas, PortNo, EnvVars]
   | Ph p \<Rightarrow> True)"

lemma clean_piece_Lit: "clean_piece (Lit s) \<Longrightarrow> clean (placeholder_key p) s"
  by (cases p) (auto simp: clean_piece_def brace_free_clean)

lemma templates_clean: "list_all (\<lambda>t. list_all clean_piece (template_pieces t)) all_templates"
  by code_simp

lemma template_pieces_clean:
  "t \<in> set all_templates \<Longrightarrow> x \<in> set (template_pieces t) \<Longrightarrow> clean_piece x"
  using templates_clean by (auto simp: list_all_iff)

text \<open>One substitution step moves one placeholder from its key to its value.\<close>

definition after_keys :: "(placeholder \<Rightarrow> string) \<Rightarrow> placeholder set \<Rightarrow> placeholder \<Rightarrow> string" where
  "after_keys \<sigma> D p = (if p \<in> D then \<sigma> p else placeholder_key p)"

lemma replace_one:
  assumes "\<And>x. x \<in> set xs \<Longrightarrow> clean_piece x" and "\<And>p. brace_free (\<sigma> p)" and "q \<notin> D"
  shows "replace_all (placeholder_key q) (\<sigma> q) (concat (map (piece_text (after_keys \<sigma> D)) xs)) =
    concat (map (piece_text (after_keys \<sigma> (insert q D))) xs)"
  using assms(1)
proof (induction xs)
  case (Cons x xs)
  let ?rest = "concat (map (piece_text (after_keys \<sigma> D)) xs)"
  let ?r = "replace_all (placeholder_key q) (\<sigma> q)"
  have IH: "?r ?rest = concat (map (piece_text (after_keys \<sigma> (insert q D))) xs)"
    using Cons by simp
  have "?r (piece_text (after_keys \<sigma> D) x @ ?rest) =
      piece_text (after_keys \<sigma> (insert q D)) x @ ?r ?rest"
  proof (cases x)
    case (Lit s)
    have "clean (placeholder_key q) s" using Cons.prems [of x] Lit by (simp add: clean_piece_Lit)
    with Lit show ?thesis by (simp add: piece_text_def replace_all_clean)
  next
    case (Ph p)
    show ?thesis
    proof (cases "p = q")
      case True
      with Ph assms(3) show ?thesis
        by (simp add: piece_text_def after_keys_def replace_all_occurrence)
    next
      case False
      then have "clean (placeholder_key q) (after_keys \<sigma> D p)"
        using assms(2) by (auto simp: after_keys_def brace_free_clean placeholder_keys_clean)
      with Ph False show ?thesis
        by (simp add: piece_text_def replace_all_clean) (simp add: after_keys_def)
    qed
  qed
  with IH show ?case by simp
qed simp

lemma replace_in_order:
  assumes "\<And>x. x \<in> set (template_pieces t) \<Longrightarrow> clean_piece x" and "\<And>p. brace_free (\<sigma> p)"
    and "distinct ps" and "set ps \<inter> D = {}"
  shows "replace_vars (fill (after_keys \<sigma> D) t) (map (\<lambda>p. (placeholder_key p, \<sigma> p)) ps) =
    fill (after_keys \<sigma> (set ps \<union> D)) t"
  using assms(3,4)
proof (induction ps arbitrary: D)
  case Nil
  show ?case by (simp add: replace_vars_def)
next
  case (Cons q ps)
  have "replace_all (placeholder_key q) (\<sigma> q) (fill (after_keys \<sigma> D) t) =
      fill (after_keys \<sigma> (insert q D)) t"
    unfolding fill_def using Cons.prems by (intro replace_one assms(1,2)) auto
  moreover have "replace_vars (fill (after_keys \<sigma> (insert q D)) t)
      (map (\<lambda>p. (placeholder_key p, \<sigma> p)) ps) = fill (after_keys \<sigma> (set ps \<union> insert q D)) t"
    using Cons.prems by (intro Cons.IH) auto
  ultimately show ?case by (simp add: replace_vars_def)
qed

lemma replace_vars_fill:
  assumes "t \<in> set all_templates" and "\<And>p. brace_free (\<sigma> p)"
    and "distinct ps" and "set ps = UNIV"
  shows "replace_vars (template_text t) (map (\<lambda>p. (placeholder_key p, \<sigma> p)) ps) = fill \<sigma> t"
proof -
  have "template_text t = fill (after_keys \<sigma> {}) t"
    unfolding template_text_def by (rule arg_cong [where f = "\<lambda>f. fill f t"]) (simp add: fun_eq_iff after_keys_def)
  moreover have "fill (after_keys \<sigma> (set ps \<union> {})) t = fill \<sigma> t"
    by (rule arg_cong [where f = "\<lambda>f. fill f t"]) (simp add: fun_eq_iff after_keys_def assms(4))
  ultimately show ?thesis
    using replace_in_order [of t \<sigma> ps "{}"] template_pieces_clean [OF assms(1)] assms(2,3) by simp
qed

end
