(* ===== verification/GoRegex.thy ===== *)
theory GoRegex
  imports GoStrings
begin

text \<open>
  The three anchored patterns of the repository (\<open>regexp.MustCompile\<close> in
  internal/manifests/generator.go and internal/api/handlers/apps.go) are written as regular
  expressions over byte classes and matched by derivatives. RE2 semantics of an anchored match
  is membership in the language, which the matcher is proved to decide. The classes used are
  ASCII, so matching bytes and matching runes agree.
\<close>

datatype rx =
    RNone
  | REmpty
  | RClass "char \<Rightarrow> bool"
  | RThen rx rx
  | ROr rx rx
  | RMany rx

definition rx_opt :: "rx \<Rightarrow> rx" where
  "rx_opt r = ROr REmpty r"

definition rx_some :: "rx \<Rightarrow> rx" where
  "rx_some r = RThen r (RMany r)"

fun rx_times :: "nat \<Rightarrow> rx \<Rightarrow> rx" where
  "rx_times 0 r = REmpty"
| "rx_times (Suc n) r = RThen r (rx_times n r)"

section \<open>Language\<close>

inductive in_lang :: "rx \<Rightarrow> string \<Rightarrow> bool" where
  empty: "in_lang REmpty []"
| "class": "p c \<Longrightarrow> in_lang (RClass p) [c]"
| "then": "in_lang r s \<Longrightarrow> in_lang q t \<Longrightarrow> in_lang (RThen r q) (s @ t)"
| or_left: "in_lang r s \<Longrightarrow> in_lang (ROr r q) s"
| or_right: "in_lang q s \<Longrightarrow> in_lang (ROr r q) s"
| many_done: "in_lang (RMany r) []"
| many_more: "in_lang r s \<Longrightarrow> in_lang (RMany r) t \<Longrightarrow> in_lang (RMany r) (s @ t)"

inductive_simps in_lang_simps:
  "in_lang RNone s" "in_lang REmpty s" "in_lang (RClass p) s" "in_lang (RThen r q) s"
  "in_lang (ROr r q) s"

inductive_cases in_many_E: "in_lang (RMany r) s"

section \<open>The matcher\<close>

fun accepts_empty :: "rx \<Rightarrow> bool" where
  "accepts_empty RNone = False"
| "accepts_empty REmpty = True"
| "accepts_empty (RClass p) = False"
| "accepts_empty (RThen r q) = (accepts_empty r \<and> accepts_empty q)"
| "accepts_empty (ROr r q) = (accepts_empty r \<or> accepts_empty q)"
| "accepts_empty (RMany r) = True"

fun after_char :: "char \<Rightarrow> rx \<Rightarrow> rx" where
  "after_char c RNone = RNone"
| "after_char c REmpty = RNone"
| "after_char c (RClass p) = (if p c then REmpty else RNone)"
| "after_char c (RThen r q) =
     (case after_char c r of
        RNone \<Rightarrow> (if accepts_empty r then after_char c q else RNone)
      | r' \<Rightarrow> (if accepts_empty r then ROr (RThen r' q) (after_char c q) else RThen r' q))"
| "after_char c (ROr r q) =
     (case after_char c r of RNone \<Rightarrow> after_char c q | r' \<Rightarrow> ROr r' (after_char c q))"
| "after_char c (RMany r) = (case after_char c r of RNone \<Rightarrow> RNone | r' \<Rightarrow> RThen r' (RMany r))"

fun rx_match :: "rx \<Rightarrow> string \<Rightarrow> bool" where
  "rx_match r [] = accepts_empty r"
| "rx_match r (c # cs) = rx_match (after_char c r) cs"

lemma accepts_empty_iff: "accepts_empty r \<longleftrightarrow> in_lang r []"
  by (induction r) (auto simp: in_lang_simps intro: in_lang.intros)

lemma in_many_Cons:
  "in_lang (RMany r) (c # s) \<longleftrightarrow> (\<exists>u v. s = u @ v \<and> in_lang r (c # u) \<and> in_lang (RMany r) v)"
proof
  assume "in_lang (RMany r) (c # s)"
  then show "\<exists>u v. s = u @ v \<and> in_lang r (c # u) \<and> in_lang (RMany r) v"
  proof (induction "RMany r" "c # s" rule: in_lang.induct)
    case (many_more u v)
    show ?case
    proof (cases u)
      case Nil
      with many_more show ?thesis by auto
    next
      case (Cons d u')
      with many_more show ?thesis by auto
    qed
  qed
next
  assume "\<exists>u v. s = u @ v \<and> in_lang r (c # u) \<and> in_lang (RMany r) v"
  then show "in_lang (RMany r) (c # s)"
    using in_lang.many_more by fastforce
qed

lemma in_then_Cons:
  "in_lang (RThen r q) (c # s) \<longleftrightarrow>
     (\<exists>u v. s = u @ v \<and> in_lang r (c # u) \<and> in_lang q v) \<or> (in_lang r [] \<and> in_lang q (c # s))"
    (is "?l \<longleftrightarrow> ?r")
proof
  assume ?l
  then obtain u v where uv: "c # s = u @ v" "in_lang r u" "in_lang q v"
    by (auto simp: in_lang_simps)
  then show ?r by (cases u) auto
next
  assume ?r
  then show ?l
  proof
    assume "\<exists>u v. s = u @ v \<and> in_lang r (c # u) \<and> in_lang q v"
    then obtain u v where "s = u @ v" "in_lang r (c # u)" "in_lang q v" by blast
    then show ?l using in_lang.then [of r "c # u" q v] by simp
  next
    assume "in_lang r [] \<and> in_lang q (c # s)"
    then show ?l using in_lang.then [of r "[]" q "c # s"] by simp
  qed
qed

lemma in_lang_or_none [simp]: "in_lang (RThen RNone q) s \<longleftrightarrow> False"
  by (simp add: in_lang_simps)

lemma after_char_iff: "in_lang (after_char c r) s \<longleftrightarrow> in_lang r (c # s)"
proof (induction r arbitrary: s)
  case (RThen r q)
  have "in_lang (after_char c (RThen r q)) s \<longleftrightarrow>
      in_lang (RThen (after_char c r) q) s \<or> (accepts_empty r \<and> in_lang (after_char c q) s)"
    by (auto simp: in_lang_simps split: rx.splits)
  also have "\<dots> \<longleftrightarrow> in_lang (RThen r q) (c # s)"
    by (auto simp: in_then_Cons in_lang_simps(4) [of "after_char c r"] RThen.IH accepts_empty_iff)
  finally show ?case .
next
  case (ROr r q)
  have "in_lang (after_char c (ROr r q)) s \<longleftrightarrow> in_lang (after_char c r) s \<or> in_lang (after_char c q) s"
    by (auto simp: in_lang_simps split: rx.splits)
  then show ?case by (simp add: ROr.IH in_lang_simps(5))
next
  case (RMany r)
  have "in_lang (after_char c (RMany r)) s \<longleftrightarrow> in_lang (RThen (after_char c r) (RMany r)) s"
    by (auto simp: in_lang_simps split: rx.splits)
  also have "\<dots> \<longleftrightarrow> in_lang (RMany r) (c # s)"
    by (simp add: in_many_Cons in_lang_simps(4) RMany.IH)
  finally show ?case .
qed (auto simp: in_lang_simps)

lemma rx_match_iff: "rx_match r s \<longleftrightarrow> in_lang r s"
  by (induction s arbitrary: r) (auto simp: accepts_empty_iff after_char_iff)

section \<open>Reading the patterns as predicates\<close>

lemma in_many_class: "in_lang (RMany (RClass p)) s \<longleftrightarrow> list_all p s"
proof (induction s)
  case Nil
  show ?case by (auto intro: in_lang.many_done)
next
  case (Cons c s)
  then show ?case by (auto simp: in_many_Cons in_lang_simps)
qed

lemma in_times_class: "in_lang (rx_times n (RClass p)) s \<longleftrightarrow> length s = n \<and> list_all p s"
proof (induction n arbitrary: s)
  case 0
  show ?case by (auto simp: in_lang_simps)
next
  case (Suc n)
  show ?case
    by (cases s) (simp_all add: in_then_Cons in_lang_simps(3) in_lang_simps(4) [of _ _ "[]"] Suc.IH, auto)
qed

lemma in_opt: "in_lang (rx_opt r) s \<longleftrightarrow> s = [] \<or> in_lang r s"
  by (auto simp: rx_opt_def in_lang_simps)

text \<open>Every byte of a matched string is in some class of the pattern.\<close>

fun classes :: "rx \<Rightarrow> char \<Rightarrow> bool" where
  "classes RNone c = False"
| "classes REmpty c = False"
| "classes (RClass p) c = p c"
| "classes (RThen r q) c = (classes r c \<or> classes q c)"
| "classes (ROr r q) c = (classes r c \<or> classes q c)"
| "classes (RMany r) c = classes r c"

lemma in_lang_classes: "in_lang r s \<Longrightarrow> list_all (classes r) s"
  by (induction rule: in_lang.induct) (auto simp: list_all_iff)

lemma rx_match_classes: "rx_match r s \<Longrightarrow> list_all (classes r) s"
  by (simp add: rx_match_iff in_lang_classes)

end
