(* ===== verification/GoTime.thy ===== *)
theory GoTime
  imports GoStrings
begin

text \<open>
  Wall-clock times as the build store keeps them: UTC calendar fields with nanoseconds, their
  RFC 3339 text (\<open>formatTime\<close>, \<open>parseTime\<close> of internal/build/coordinator/store.go) and how
  the text order SQLite sorts by relates to the order of the times.
\<close>

record gotime =
  year :: nat
  month :: nat
  day :: nat
  hour :: nat
  minute :: nat
  second :: nat
  nanos :: nat

definition zero_time :: gotime where
  "zero_time = \<lparr>year = 1, month = 1, day = 1, hour = 0, minute = 0, second = 0, nanos = 0\<rparr>"

definition leap_year :: "nat \<Rightarrow> bool" where
  "leap_year y \<longleftrightarrow> 4 dvd y \<and> (\<not> 100 dvd y \<or> 400 dvd y)"

definition days_in :: "nat \<Rightarrow> nat \<Rightarrow> nat" where
  "days_in m y = (if m = 2 then (if leap_year y then 29 else 28)
                  else if m \<in> {4, 6, 9, 11} then 30 else 31)"

definition valid_time :: "gotime \<Rightarrow> bool" where
  "valid_time t \<longleftrightarrow> year t < 10000 \<and> 1 \<le> month t \<and> month t \<le> 12 \<and>
     1 \<le> day t \<and> day t \<le> days_in (month t) (year t) \<and>
     hour t < 24 \<and> minute t < 60 \<and> second t < 60 \<and> nanos t < 10 ^ 9"

section \<open>Fixed-width decimals\<close>

definition digit_char :: "nat \<Rightarrow> char" where
  "digit_char n = char_of (48 + n)"

definition digit_val :: "char \<Rightarrow> nat" where
  "digit_val c = of_char c - 48"

fun pad :: "nat \<Rightarrow> nat \<Rightarrow> string" where
  "pad 0 n = []"
| "pad (Suc w) n = pad w (n div 10) @ [digit_char (n mod 10)]"

definition num_of :: "string \<Rightarrow> nat" where
  "num_of ds = foldl (\<lambda>a c. a * 10 + digit_val c) 0 ds"

lemma digit_val_char [simp]: "n < 10 \<Longrightarrow> digit_val (digit_char n) = n"
  by (simp add: digit_val_def digit_char_def of_char_of)

lemma is_digit_char [simp]: "n < 10 \<Longrightarrow> is_digit (digit_char n)"
  by (simp add: is_digit_def digit_char_def of_char_of)

lemma length_pad [simp]: "length (pad w n) = w"
  by (induction w arbitrary: n) auto

lemma pad_digits [simp]: "list_all is_digit (pad w n)"
  by (induction w arbitrary: n) auto

lemma num_of_append: "num_of (xs @ [c]) = num_of xs * 10 + digit_val c"
  by (simp add: num_of_def)

lemma num_of_pad [simp]: "n < 10 ^ w \<Longrightarrow> num_of (pad w n) = n"
proof (induction w arbitrary: n)
  case 0
  then show ?case by (simp add: num_of_def)
next
  case (Suc w)
  then have "n div 10 < 10 ^ w" by (simp add: less_mult_imp_div_less mult.commute)
  then show ?case by (simp add: num_of_append Suc.IH)
qed

text \<open>Equal-length blocks are compared block by block.\<close>

lemma less_append_block:
  fixes a c :: string
  assumes "length a = length c"
  shows "a @ b < c @ d \<longleftrightarrow> a < c \<or> (a = c \<and> b < d)"
  using assms by (induction a c rule: list_induct2) auto

lemma digit_char_less: "n < 10 \<Longrightarrow> m < 10 \<Longrightarrow> digit_char n < digit_char m \<longleftrightarrow> n < m"
  by (simp add: digit_char_def less_char_def of_char_of)

lemma digit_order:
  "(b::nat) < 10 \<Longrightarrow> b' < 10 \<Longrightarrow> a < a' \<or> (a = a' \<and> b < b') \<longleftrightarrow> 10 * a + b < 10 * a' + b'"
  by arith

lemma pad_less:
  assumes "n < 10 ^ w" "m < 10 ^ w"
  shows "pad w n < pad w m \<longleftrightarrow> n < m"
  using assms
proof (induction w arbitrary: n m)
  case 0
  then show ?case by simp
next
  case (Suc w)
  have d: "n div 10 < 10 ^ w" "m div 10 < 10 ^ w"
    using Suc.prems by (simp_all add: less_mult_imp_div_less mult.commute)
  have eq: "pad w (n div 10) = pad w (m div 10) \<longleftrightarrow> n div 10 = m div 10"
    using num_of_pad d by metis
  have "pad (Suc w) n < pad (Suc w) m \<longleftrightarrow>
      n div 10 < m div 10 \<or> (n div 10 = m div 10 \<and> n mod 10 < m mod 10)"
    by (simp add: less_append_block eq Suc.IH [OF d] digit_char_less)
  also have "\<dots> \<longleftrightarrow> n < m"
    using digit_order [of "n mod 10" "m mod 10" "n div 10" "m div 10"] by simp
  finally show ?case .
qed

lemma pad_eq: "n < 10 ^ w \<Longrightarrow> m < 10 ^ w \<Longrightarrow> pad w n = pad w m \<longleftrightarrow> n = m"
  by (metis num_of_pad)

section \<open>formatTime\<close>

text \<open>
  \<open>time.RFC3339Nano\<close>: the fraction loses its trailing zeros, and its point when nothing is
  left. The year is printed with at least four digits; \<open>valid_time\<close> keeps it to four.
\<close>

definition frac_digits :: "nat \<Rightarrow> string" where
  "frac_digits n = trim_right_char (CHR ''0'') (pad 9 n)"

definition frac :: "nat \<Rightarrow> string" where
  "frac n = (let ds = frac_digits n in if ds = [] then [] else CHR ''.'' # ds)"

definition format_seconds :: "gotime \<Rightarrow> string" where
  "format_seconds t =
     pad 4 (year t) @ ''-'' @ pad 2 (month t) @ ''-'' @ pad 2 (day t) @ ''T'' @
     pad 2 (hour t) @ '':'' @ pad 2 (minute t) @ '':'' @ pad 2 (second t)"

definition format_time :: "gotime \<Rightarrow> string" where
  "format_time t = format_seconds t @ frac (nanos t) @ ''Z''"

lemma length_format_seconds [simp]: "length (format_seconds t) = 19"
  by (simp add: format_seconds_def)

definition second_key :: "gotime \<Rightarrow> nat list" where
  "second_key t = [year t, month t, day t, hour t, minute t, second t]"

definition time_key :: "gotime \<Rightarrow> nat list" where
  "time_key t = second_key t @ [nanos t]"

text \<open>\<open>t.Before(u)\<close>.\<close>

definition before :: "gotime \<Rightarrow> gotime \<Rightarrow> bool" where
  "before t u \<longleftrightarrow> time_key t < time_key u"

lemma days_in_le: "days_in m y \<le> 31"
  by (simp add: days_in_def)

lemma valid_time_bounds:
  assumes "valid_time t"
  shows "year t < 10000" "month t < 100" "day t < 100" "hour t < 100"
    "minute t < 100" "second t < 100" "nanos t < 10 ^ 9"
  using assms days_in_le [of "month t" "year t"] by (auto simp: valid_time_def)

lemma format_seconds_less:
  assumes "valid_time t" "valid_time u"
  shows "format_seconds t < format_seconds u \<longleftrightarrow> second_key t < second_key u"
proof -
  note b = valid_time_bounds [OF assms(1)] valid_time_bounds [OF assms(2)]
  show ?thesis
    unfolding format_seconds_def second_key_def
    by (auto simp: less_append_block pad_less pad_eq b)
qed

lemma format_seconds_eq:
  assumes "valid_time t" "valid_time u"
  shows "format_seconds t = format_seconds u \<longleftrightarrow> second_key t = second_key u"
proof -
  note b = valid_time_bounds [OF assms(1)] valid_time_bounds [OF assms(2)]
  show ?thesis
    unfolding format_seconds_def second_key_def
    by (auto simp: append_eq_append_conv pad_eq b)
qed

text \<open>
  Down to the second the text order is the time order. Within one second it is the order of
  the trimmed fractions, which is not.
\<close>

lemma format_time_less:
  assumes "valid_time t" "valid_time u"
  shows "format_time t < format_time u \<longleftrightarrow>
    second_key t < second_key u \<or>
    (second_key t = second_key u \<and> frac (nanos t) @ ''Z'' < frac (nanos u) @ ''Z'')"
  unfolding format_time_def
  by (simp add: less_append_block format_seconds_less format_seconds_eq assms)

section \<open>parseTime\<close>

text \<open>
  Go's RFC 3339 reader, for texts in UTC (\<open>Z\<close>), the only ones \<open>formatTime\<close> writes. A text
  with a numeric offset is outside the model and read as unparsable.
\<close>

definition parse_fixed :: "nat \<Rightarrow> string \<Rightarrow> (nat \<times> string) option" where
  "parse_fixed w s =
     (if w \<le> length s \<and> list_all is_digit (take w s) then Some (num_of (take w s), drop w s) else None)"

definition expect :: "char \<Rightarrow> string \<Rightarrow> string option" where
  "expect c s = (case s of [] \<Rightarrow> None | d # t \<Rightarrow> if d = c then Some t else None)"

definition nanos_of :: "string \<Rightarrow> nat" where
  "nanos_of ds = num_of (take 9 ds) * 10 ^ (9 - length (take 9 ds))"

definition parse_frac :: "string \<Rightarrow> nat \<times> string" where
  "parse_frac s = (case s of
     c # d # t \<Rightarrow> if c = CHR ''.'' \<and> is_digit d
                then (nanos_of (takeWhile is_digit (d # t)), dropWhile is_digit (d # t)) else (0, s)
   | _ \<Rightarrow> (0, s))"

definition parse_time :: "string \<Rightarrow> gotime option" where
  "parse_time s0 =
     Option.bind (parse_fixed 4 s0) (\<lambda>(y, s). Option.bind (expect (CHR ''-'') s) (\<lambda>s.
     Option.bind (parse_fixed 2 s) (\<lambda>(mo, s). Option.bind (expect (CHR ''-'') s) (\<lambda>s.
     Option.bind (parse_fixed 2 s) (\<lambda>(d, s). Option.bind (expect (CHR ''T'') s) (\<lambda>s.
     Option.bind (parse_fixed 2 s) (\<lambda>(h, s). Option.bind (expect (CHR '':'') s) (\<lambda>s.
     Option.bind (parse_fixed 2 s) (\<lambda>(mi, s). Option.bind (expect (CHR '':'') s) (\<lambda>s.
     Option.bind (parse_fixed 2 s) (\<lambda>(sec, s).
       (let (ns, r) = parse_frac s;
            t = \<lparr>year = y, month = mo, day = d, hour = h, minute = mi, second = sec, nanos = ns\<rparr>
        in if r = ''Z'' \<and> valid_time t then Some t else None))))))))))))"

lemma parse_fixed_pad [simp]: "n < 10 ^ w \<Longrightarrow> parse_fixed w (pad w n @ s) = Some (n, s)"
  by (simp add: parse_fixed_def)

lemma expect_Cons [simp]: "expect c (c # s) = Some s"
  by (simp add: expect_def)

lemma trimmed_zeros:
  "\<exists>k. xs = trim_right_char c xs @ replicate k c"
proof -
  have "takeWhile (\<lambda>x. x = c) (rev xs) = replicate (length (takeWhile (\<lambda>x. x = c) (rev xs))) c"
    by (metis (mono_tags, lifting) replicate_eqI set_takeWhileD)
  then have "xs = rev (dropWhile (\<lambda>x. x = c) (rev xs)) @
      replicate (length (takeWhile (\<lambda>x. x = c) (rev xs))) c"
    by (metis rev_append rev_replicate rev_rev_ident takeWhile_dropWhile_id)
  then show ?thesis by (auto simp: trim_right_char_def)
qed

lemma num_of_zeros: "num_of (xs @ replicate k (CHR ''0'')) = num_of xs * 10 ^ k"
proof (induction k)
  case (Suc k)
  have "xs @ replicate (Suc k) (CHR ''0'') = (xs @ replicate k (CHR ''0'')) @ [CHR ''0'']"
    by (simp add: replicate_append_same)
  then show ?case
    using Suc num_of_append [of "xs @ replicate k (CHR ''0'')" "CHR ''0''"]
    by (simp add: digit_val_def)
qed simp

lemma frac_digits_props:
  assumes "n < 10 ^ 9"
  shows "list_all is_digit (frac_digits n)" "nanos_of (frac_digits n) = n"
proof -
  obtain k where k: "pad 9 n = frac_digits n @ replicate k (CHR ''0'')"
    unfolding frac_digits_def using trimmed_zeros by blast
  then have l: "9 = length (frac_digits n) + k"
    by (metis length_append length_pad length_replicate)
  show "list_all is_digit (frac_digits n)"
    using k pad_digits [of 9 n] by simp
  have "n = num_of (frac_digits n) * 10 ^ k"
    using k num_of_pad [OF assms] num_of_zeros by metis
  moreover have "take 9 (frac_digits n) = frac_digits n" "9 - length (frac_digits n) = k"
    using l by simp_all
  ultimately show "nanos_of (frac_digits n) = n" by (metis nanos_of_def)
qed

lemma takeWhile_digits_Z:
  "list_all is_digit ds \<Longrightarrow> takeWhile is_digit (ds @ ''Z'') = ds \<and> dropWhile is_digit (ds @ ''Z'') = ''Z''"
  by (induction ds) (auto simp: is_digit_def)

lemma parse_frac_frac: "n < 10 ^ 9 \<Longrightarrow> parse_frac (frac n @ ''Z'') = (n, ''Z'')"
proof (cases "frac_digits n")
  case Nil
  assume "n < 10 ^ 9"
  with Nil have "n = 0" using frac_digits_props(2) [of n] by (simp add: nanos_of_def num_of_def)
  with Nil show ?thesis by (simp add: frac_def parse_frac_def)
next
  case (Cons d ds)
  assume n: "n < 10 ^ 9"
  then have dig: "is_digit d" "list_all is_digit (d # ds)"
    using frac_digits_props(1) [of n] Cons by auto
  have "nanos_of (d # ds) = n" using frac_digits_props(2) [OF n] Cons by simp
  with takeWhile_digits_Z [OF dig(2)] dig Cons show ?thesis
    by (simp add: frac_def parse_frac_def)
qed

text \<open>What the store writes it reads back.\<close>

lemma parse_format_time: "valid_time t \<Longrightarrow> parse_time (format_time t) = Some t"
proof -
  assume v: "valid_time t"
  note b = valid_time_bounds [OF v]
  show ?thesis
    unfolding parse_time_def format_time_def format_seconds_def
    using v by (simp add: b parse_frac_frac [OF b(7)] Let_def valid_time_def)
qed

lemma format_time_inj: "valid_time t \<Longrightarrow> valid_time u \<Longrightarrow> format_time t = format_time u \<Longrightarrow> t = u"
  by (metis option.inject parse_format_time)

end
