(* ===== verification/BuildTypes.thy ===== *)
theory BuildTypes
  imports GoTime
begin

text \<open>
  internal/build/types/types.go: a build job, its log lines and the payloads exchanged with
  clients and runners. A job is a record over the type of its times: \<open>gotime\<close> for the Go struct,
  \<open>string\<close> for the row of the \<open>build_jobs\<close> table, which keeps times as text.
\<close>

definition status_queued :: string where "status_queued = ''queued''"
definition status_running :: string where "status_running = ''running''"
definition status_succeeded :: string where "status_succeeded = ''succeeded''"
definition status_failed :: string where "status_failed = ''failed''"

lemmas status_defs = status_queued_def status_running_def status_succeeded_def status_failed_def

lemma status_distinct [simp]:
  "status_queued \<noteq> status_running" "status_running \<noteq> status_queued"
  "status_queued \<noteq> status_succeeded" "status_succeeded \<noteq> status_queued"
  "status_queued \<noteq> status_failed" "status_failed \<noteq> status_queued"
  "status_running \<noteq> status_succeeded" "status_succeeded \<noteq> status_running"
  "status_running \<noteq> status_failed" "status_failed \<noteq> status_running"
  "status_succeeded \<noteq> status_failed" "status_failed \<noteq> status_succeeded"
  by (simp_all add: status_defs)

definition build_statuses :: "string set" where
  "build_statuses = {status_queued, status_running, status_succeeded, status_failed}"

text \<open>A Go map of strings, as the list of its entries in some iteration order.\<close>

type_synonym env_map = "(string \<times> string) list"

record create_build_request =
  cb_name :: string
  cb_app_name :: string
  cb_repo_url :: string
  cb_ref :: string
  cb_replicas :: int
  cb_port :: int
  cb_env :: env_map

record create_build_response =
  cr_app_name :: string
  cr_build_id :: string
  cr_status :: string

record 't build_job =
  j_id :: string
  j_app_name :: string
  j_repo_url :: string
  j_ref :: string
  j_commit_sha :: string
  j_framework :: string
  j_image :: string
  j_tag :: string
  j_status :: string
  j_attempts :: int
  j_replicas :: int
  j_port :: int
  j_env :: env_map
  j_gitops_commit_sha :: string
  j_gitops_path :: string
  j_deploy_status :: string
  j_argo_sync_status :: string
  j_argo_health :: string
  j_app_url :: string
  j_verification_error :: string
  j_error :: string
  j_created_at :: 't
  j_updated_at :: 't
  j_started_at :: "'t option"
  j_finished_at :: "'t option"

type_synonym job = "gotime build_job"

record build_log_line =
  bl_sequence :: int
  bl_timestamp :: gotime
  bl_stream :: string
  bl_message :: string

record runner_log_request =
  rl_stream :: string
  rl_message :: string

record runner_status_request =
  rs_status :: string
  rs_commit_sha :: string
  rs_framework :: string
  rs_image :: string
  rs_tag :: string
  rs_gitops_commit_sha :: string
  rs_gitops_path :: string
  rs_deploy_status :: string
  rs_app_url :: string
  rs_verification_error :: string
  rs_error :: string

text \<open>
  The request with every field but status and error left at its zero value, as the handlers
  build it to record a failure.
\<close>

definition failure_report :: "string \<Rightarrow> runner_status_request" where
  "failure_report e = \<lparr>rs_status = status_failed, rs_commit_sha = [], rs_framework = [], rs_image = [],
     rs_tag = [], rs_gitops_commit_sha = [], rs_gitops_path = [], rs_deploy_status = [],
     rs_app_url = [], rs_verification_error = [], rs_error = e\<rparr>"

end
