(* ===== verification/Manifests.thy ===== *)
theory Manifests
  imports Templates GoRegex BuildTypes
begin

text \<open>
  internal/manifests/generator.go: what an app may be called and run (validation), the defaults
  (normalisation), and the files committed for it (generation). \<open>Env\<close> is the Go map as the
  list of its entries in some iteration order; its keys are distinct.
\<close>

section \<open>Patterns and limits\<close>

definition lower_alnum :: "char \<Rightarrow> bool" where
  "lower_alnum c \<longleftrightarrow> (let n = (of_char c :: nat) in (97 \<le> n \<and> n \<le> 122) \<or> (48 \<le> n \<and> n \<le> 57))"

definition dash_alnum :: "char \<Rightarrow> bool" where
  "dash_alnum c \<longleftrightarrow> c = CHR ''-'' \<or> lower_alnum c"

definition lower_hex :: "char \<Rightarrow> bool" where
  "lower_hex c \<longleftrightarrow> (let n = (of_char c :: nat) in (97 \<le> n \<and> n \<le> 102) \<or> (48 \<le> n \<and> n \<le> 57))"

definition name_sep :: "char \<Rightarrow> bool" where
  "name_sep c \<longleftrightarrow> c = CHR ''.'' \<or> c = CHR ''_'' \<or> c = CHR ''-''"

definition app_name_regex :: rx where
  "app_name_regex = RThen (RClass lower_alnum)
     (rx_opt (RThen (RMany (RClass dash_alnum)) (RClass lower_alnum)))"

definition commit_sha_regex :: rx where
  "commit_sha_regex = rx_times 40 (RClass lower_hex)"

definition image_part :: rx where
  "image_part = RThen (rx_some (RClass lower_alnum))
     (RMany (RThen (RClass name_sep) (rx_some (RClass lower_alnum))))"

definition image_regex :: rx where
  "image_regex = RThen image_part (rx_some (RThen (RClass (\<lambda>c. c = CHR ''/'')) image_part))"

definition reserved_names :: "string list" where
  "reserved_names = [''tinycloud-api'', ''tinycloud-ui'', ''tinycloud-platform'',
     ''nginx-proxy'', ''oauth2-proxy'', ''traefik'', ''kube-system'', ''monitoring'', ''argocd'',
     ''cert-manager'', ''kube-dns'', ''default'']"

definition max_replicas :: int where
  "max_replicas = 5"

definition app_port :: int where
  "app_port = 8080"

definition placeholder_tag :: string where
  "placeholder_tag = ''0000000000000000000000000000000000000000''"

section \<open>Requests\<close>

record create_app_request =
  car_name :: string
  car_image :: string
  car_tag :: string
  car_replicas :: int
  car_port :: int
  car_env :: env_map

definition app_base_url :: "string \<Rightarrow> string" where
  "app_base_url name = ''https://'' @ trim_space name @ ''.'' @ ''sasiru.lk'' @ ''/''"

section \<open>ValidateCreateAppRequest\<close>

definition validate_name :: "string \<Rightarrow> unit result" where
  "validate_name raw = (let name = trim_space raw in
     if name = [] then Inl ''name is required''
     else if length name > 63 then Inl ''name must be at most 63 characters''
     else if \<not> rx_match app_name_regex name
       then Inl ''name must be DNS-1123 lowercase alphanumeric with hyphens''
     else if name \<in> set reserved_names
       then Inl (''name '' @ [CHR 0x27] @ name @ [CHR 0x27] @ '' is reserved and cannot be used'')
     else Inr ())"

definition validate_image :: "(string \<Rightarrow> string) \<Rightarrow> string \<Rightarrow> unit result" where
  "validate_image uni raw = (let image = trim_space raw in
     if image = [] then Inl ''image is required''
     else if str_contains image '':'' then Inl ''image must not include a tag; use the tag field''
     else if \<not> rx_match image_regex (to_lower uni image)
       then Inl ''image must be a valid container image reference''
     else Inr ())"

definition validate_tag :: "string \<Rightarrow> unit result" where
  "validate_tag raw = (let tag = trim_space raw in
     if tag = [] then Inl ''tag is required''
     else if \<not> rx_match commit_sha_regex tag
       then Inl ''tag must be a 40-character git commit SHA (lowercase hex)''
     else Inr ())"

definition validate_limits :: "int \<Rightarrow> int \<Rightarrow> env_map \<Rightarrow> unit result" where
  "validate_limits replicas port env =
     (if replicas < 1 \<or> replicas > max_replicas
        then Inl (''replicas must be between 1 and '' @ fmt_int max_replicas)
      else if port \<noteq> app_port
        then Inl (''port must be '' @ fmt_int app_port @ '' for the current platform contract'')
      else (case map_of env ''PORT'' of
          Some env_port \<Rightarrow>
            if trim_space env_port \<noteq> fmt_int app_port
            then Inl (''env PORT must be '' @ fmt_int app_port @ '' for the current platform contract'')
            else Inr ()
        | None \<Rightarrow> Inr ()))"

definition and_then :: "unit result \<Rightarrow> unit result \<Rightarrow> unit result" where
  "and_then a b = (case a of Inl e \<Rightarrow> Inl e | Inr _ \<Rightarrow> b)"

definition validate_create_app_request ::
    "(string \<Rightarrow> string) \<Rightarrow> create_app_request option \<Rightarrow> unit result" where
  "validate_create_app_request uni req = (case req of
     None \<Rightarrow> Inl ''request body is required''
   | Some r \<Rightarrow> and_then (validate_name (car_name r))
               (and_then (validate_image uni (car_image r))
               (and_then (validate_tag (car_tag r))
                         (validate_limits (car_replicas r) (car_port r) (car_env r)))))"

definition normalize_create_app_request :: "create_app_request \<Rightarrow> create_app_request" where
  "normalize_create_app_request r =
     r\<lparr>car_name := trim_space (car_name r), car_image := trim_space (car_image r),
       car_tag := trim_space (car_tag r), car_port := app_port,
       car_replicas := (if car_replicas r = 0 then 1 else car_replicas r)\<rparr>"

section \<open>renderEnvVars\<close>

text \<open>The exchange sort of the two nested loops, on indices as the code has it.\<close>

function sort_inner :: "nat \<Rightarrow> nat \<Rightarrow> string list \<Rightarrow> string list" where
  "sort_inner i j keys =
     (if j < length keys
      then sort_inner i (Suc j)
             (if keys ! j < keys ! i then keys[i := keys ! j, j := keys ! i] else keys)
      else keys)"
  by pat_completeness auto
termination by (relation "measure (\<lambda>(i, j, keys). length keys - j)") auto

declare sort_inner.simps [simp del]

lemma length_sort_inner [simp]: "length (sort_inner i j keys) = length keys"
proof (induction i j keys rule: sort_inner.induct)
  case (1 i j keys)
  then show ?case by (subst sort_inner.simps) simp
qed

function sort_outer :: "nat \<Rightarrow> string list \<Rightarrow> string list" where
  "sort_outer i keys =
     (if i < length keys then sort_outer (Suc i) (sort_inner i (Suc i) keys) else keys)"
  by pat_completeness auto
termination by (relation "measure (\<lambda>(i, keys). length keys - i)") auto

declare sort_outer.simps [simp del]

definition env_keys :: "env_map \<Rightarrow> string list" where
  "env_keys env = sort_outer 0 (filter (\<lambda>k. k \<noteq> ''PORT'') (map fst env))"

definition env_line :: "(string \<Rightarrow> string) \<Rightarrow> string \<Rightarrow> string \<Rightarrow> string" where
  "env_line uni k v =
     ''            - name: '' @ k @ newline @ ''              value: '' @ go_quote uni v @ newline"

definition render_env_vars :: "(string \<Rightarrow> string) \<Rightarrow> env_map \<Rightarrow> string" where
  "render_env_vars uni env =
     ''          env:'' @ newline @ env_line uni ''PORT'' (fmt_int app_port) @
     concat (map (\<lambda>k. env_line uni k (case map_of env k of Some v \<Rightarrow> v | None \<Rightarrow> [])) (env_keys env))"

section \<open>GenerateAppFiles\<close>

definition var_value :: "(string \<Rightarrow> string) \<Rightarrow> create_app_request \<Rightarrow> placeholder \<Rightarrow> string" where
  "var_value uni r p = (case p of
     AppName \<Rightarrow> trim_space (car_name r) | Image \<Rightarrow> trim_space (car_image r)
   | Tag \<Rightarrow> trim_space (car_tag r) | Replicas \<Rightarrow> fmt_int (car_replicas r)
   | PortNo \<Rightarrow> fmt_int (car_port r) | EnvVars \<Rightarrow> render_env_vars uni (car_env r))"

text \<open>
  \<open>ord path\<close> is the order in which the call of \<open>replaceVars\<close> for that file happens to iterate
  the map of placeholders.
\<close>

definition file_templates :: "string \<Rightarrow> (string \<times> template) list" where
  "file_templates name = (let app_path = ''apps/'' @ name in
     [(app_path @ ''/namespace.yaml'', namespace_template),
      (app_path @ ''/deployment.yaml'', deployment_template),
      (app_path @ ''/service.yaml'', service_template),
      (app_path @ ''/resource-quota.yaml'', resource_quota_template),
      (app_path @ ''/network-policies.yaml'', network_policies_template),
      (app_path @ ''/pull-secret.yaml'', pull_secret_template),
      (app_path @ ''/kustomization.yaml'', kustomization_template),
      (''argocd/imageupdater-'' @ name @ ''.yaml'', image_updater_template)])"

definition generate_app_files ::
    "(string \<Rightarrow> string) \<Rightarrow> (string \<Rightarrow> placeholder list) \<Rightarrow> create_app_request \<Rightarrow>
     (string \<times> string) list" where
  "generate_app_files uni ord r =
     map (\<lambda>(path, t). (path, replace_vars (template_text t)
            (map (\<lambda>p. (placeholder_key p, var_value uni r p)) (ord path))))
         (file_templates (car_name r))"

section \<open>The patterns as predicates\<close>

definition dns_label :: "string \<Rightarrow> bool" where
  "dns_label s \<longleftrightarrow> s \<noteq> [] \<and> list_all dash_alnum s \<and> lower_alnum (hd s) \<and> lower_alnum (last s)"

lemma app_name_tail:
  "in_lang (rx_opt (RThen (RMany (RClass dash_alnum)) (RClass lower_alnum))) t \<longleftrightarrow>
     t = [] \<or> (list_all dash_alnum (butlast t) \<and> lower_alnum (last t) \<and> t \<noteq> [])"
proof -
  have "in_lang (RThen (RMany (RClass dash_alnum)) (RClass lower_alnum)) t \<longleftrightarrow>
      (\<exists>u c. t = u @ [c] \<and> list_all dash_alnum u \<and> lower_alnum c)"
    by (auto simp: in_lang_simps in_many_class)
  also have "\<dots> \<longleftrightarrow> list_all dash_alnum (butlast t) \<and> lower_alnum (last t) \<and> t \<noteq> []"
    by (cases t rule: rev_cases) auto
  finally show ?thesis by (simp add: in_opt)
qed

lemma app_name_regex_iff: "rx_match app_name_regex s \<longleftrightarrow> dns_label s"
proof (cases s)
  case Nil
  then show ?thesis by (simp add: app_name_regex_def dns_label_def)
next
  case (Cons c t)
  have "rx_match app_name_regex s \<longleftrightarrow> lower_alnum c \<and>
      (t = [] \<or> (list_all dash_alnum (butlast t) \<and> lower_alnum (last t) \<and> t \<noteq> []))"
    unfolding rx_match_iff app_name_regex_def Cons
    by (simp add: in_then_Cons in_lang_simps(3) app_name_tail)
  also have "\<dots> \<longleftrightarrow> dns_label s"
    by (cases t rule: rev_cases) (auto simp: Cons dns_label_def dash_alnum_def)
  finally show ?thesis .
qed

lemma commit_sha_regex_iff: "rx_match commit_sha_regex s \<longleftrightarrow> length s = 40 \<and> list_all lower_hex s"
  by (simp add: rx_match_iff commit_sha_regex_def in_times_class)

lemma image_regex_classes:
  "rx_match image_regex s \<Longrightarrow> list_all (\<lambda>c. lower_alnum c \<or> name_sep c \<or> c = CHR ''/'') s"
  using rx_match_classes [of image_regex s]
  by (auto simp: image_regex_def image_part_def rx_some_def list_all_iff)

lemma brace_not_alnum:
  "lower_alnum c \<Longrightarrow> c \<noteq> CHR 0x7B" "dash_alnum c \<Longrightarrow> c \<noteq> CHR 0x7B"
  "lower_hex c \<Longrightarrow> c \<noteq> CHR 0x7B" "name_sep c \<Longrightarrow> c \<noteq> CHR 0x7B"
  "is_digit c \<Longrightarrow> c \<noteq> CHR 0x7B"
  by (auto simp: lower_alnum_def dash_alnum_def lower_hex_def name_sep_def is_digit_def)

lemma brace_free_list_all:
  "list_all P s \<Longrightarrow> (\<And>c. P c \<Longrightarrow> c \<noteq> CHR 0x7B) \<Longrightarrow> brace_free s"
  by (auto simp: brace_free_def list_all_iff)

lemma brace_free_append [simp]: "brace_free (s @ t) \<longleftrightarrow> brace_free s \<and> brace_free t"
  by (simp add: brace_free_def)

lemma brace_free_fmt_int [simp]: "brace_free (fmt_int i)"
proof -
  have "brace_free (digits n)" for n
    by (rule brace_free_list_all [OF digits_are_digits]) (rule brace_not_alnum)
  then show ?thesis by (auto simp: fmt_int_def brace_free_def)
qed

section \<open>What validation accepts\<close>

text \<open>The readable contract: an app the platform can run.\<close>

definition acceptable_app :: "(string \<Rightarrow> string) \<Rightarrow> create_app_request \<Rightarrow> bool" where
  "acceptable_app uni r \<longleftrightarrow>
     dns_label (trim_space (car_name r)) \<and> length (trim_space (car_name r)) \<le> 63 \<and>
     trim_space (car_name r) \<notin> set reserved_names \<and>
     rx_match image_regex (to_lower uni (trim_space (car_image r))) \<and>
     trim_space (car_image r) \<noteq> [] \<and> CHR '':'' \<notin> set (trim_space (car_image r)) \<and>
     length (trim_space (car_tag r)) = 40 \<and> list_all lower_hex (trim_space (car_tag r)) \<and>
     1 \<le> car_replicas r \<and> car_replicas r \<le> 5 \<and> car_port r = 8080 \<and>
     (\<forall>v. map_of (car_env r) ''PORT'' = Some v \<longrightarrow> trim_space v = ''8080'')"

lemma fmt_app_port [simp]: "fmt_int app_port = ''8080''"
  by (simp add: fmt_int_def app_port_def digits.simps)

lemma str_contains_char: "str_contains s [c] \<longleftrightarrow> c \<in> set s"
  by (auto simp: str_contains_iff in_set_conv_decomp)

lemma validate_name_iff:
  "validate_name raw = Inr () \<longleftrightarrow> dns_label (trim_space raw) \<and> length (trim_space raw) \<le> 63 \<and>
     trim_space raw \<notin> set reserved_names"
  by (auto simp: validate_name_def Let_def app_name_regex_iff dns_label_def)

lemma validate_image_iff:
  "validate_image uni raw = Inr () \<longleftrightarrow> trim_space raw \<noteq> [] \<and> CHR '':'' \<notin> set (trim_space raw) \<and>
     rx_match image_regex (to_lower uni (trim_space raw))"
  by (auto simp: validate_image_def Let_def str_contains_char)

lemma validate_tag_iff:
  "validate_tag raw = Inr () \<longleftrightarrow>
     length (trim_space raw) = 40 \<and> list_all lower_hex (trim_space raw)"
  by (auto simp: validate_tag_def Let_def commit_sha_regex_iff)

lemma validate_limits_iff:
  "validate_limits n port env = Inr () \<longleftrightarrow> 1 \<le> n \<and> n \<le> 5 \<and> port = 8080 \<and>
     (\<forall>v. map_of env ''PORT'' = Some v \<longrightarrow> trim_space v = ''8080'')"
  by (auto simp: validate_limits_def max_replicas_def app_port_def [symmetric] split: option.splits)

lemma and_then_Inr [simp]: "and_then a b = Inr () \<longleftrightarrow> a = Inr () \<and> b = Inr ()"
  by (auto simp: and_then_def split: sum.splits)

end
