(* ===== verification/ManifestFacts.thy ===== *)
theory ManifestFacts
  imports Manifests
begin

text \<open>
  Properties of internal/manifests/generator.go: what validation accepts, that the hand-written
  exchange sort sorts, and which files are generated with which content.
\<close>

section \<open>The exchange sort\<close>

lemma mset_sort_inner: "i < j \<Longrightarrow> mset (sort_inner i j keys) = mset keys"
proof (induction i j keys rule: sort_inner.induct)
  case (1 i j keys)
  show ?case
  proof (cases "j < length keys")
    case True
    with 1 show ?thesis
      by (subst sort_inner.simps) (simp add: mset_swap)
  next
    case False
    then show ?thesis by (subst sort_inner.simps) simp
  qed
qed

lemma sort_inner_before: "i < j \<Longrightarrow> k < i \<Longrightarrow> sort_inner i j keys ! k = keys ! k"
proof (induction i j keys rule: sort_inner.induct)
  case (1 i j keys)
  then show ?case by (subst sort_inner.simps) auto
qed

lemma sort_inner_least:
  "i < j \<Longrightarrow> i < length keys \<Longrightarrow> (\<And>k. i < k \<Longrightarrow> k < j \<Longrightarrow> k < length keys \<Longrightarrow> keys ! i \<le> keys ! k) \<Longrightarrow>
   i < k \<Longrightarrow> k < length keys \<Longrightarrow> sort_inner i j keys ! i \<le> sort_inner i j keys ! k"
proof (induction i j keys arbitrary: k rule: sort_inner.induct)
  case (1 i j keys)
  show ?case
  proof (cases "j < length keys")
    case True
    let ?keys = "if keys ! j < keys ! i then keys[i := keys ! j, j := keys ! i] else keys"
    have "?keys ! i \<le> ?keys ! k'" if "i < k'" "k' < Suc j" "k' < length ?keys" for k'
    proof (cases "k' = j")
      case True
      with that "1.prems" show ?thesis by auto
    next
      case False
      with that "1.prems"(3) [of k'] \<open>i < j\<close> show ?thesis by auto
    qed
    moreover have "length ?keys = length keys" by simp
    ultimately have "sort_inner i (Suc j) ?keys ! i \<le> sort_inner i (Suc j) ?keys ! k"
      using "1.IH" [of k] True "1.prems" by auto
    then show ?thesis by (subst (1 2) sort_inner.simps) (simp add: True)
  next
    case False
    with "1.prems" show ?thesis by (subst (1 2) sort_inner.simps) simp
  qed
qed

lemma in_set_drop_iff: "x \<in> set (drop i xs) \<longleftrightarrow> (\<exists>k. i \<le> k \<and> k < length xs \<and> x = xs ! k)"
proof
  assume "x \<in> set (drop i xs)"
  then obtain n where "n < length xs - i" "x = drop i xs ! n"
    by (auto simp: in_set_conv_nth)
  then show "\<exists>k. i \<le> k \<and> k < length xs \<and> x = xs ! k"
    by (intro exI [of _ "i + n"]) auto
next
  assume "\<exists>k. i \<le> k \<and> k < length xs \<and> x = xs ! k"
  then obtain k where "i \<le> k" "k < length xs" "x = xs ! k" by blast
  then have "x = drop i xs ! (k - i)" "k - i < length (drop i xs)" by auto
  then show "x \<in> set (drop i xs)" by (metis nth_mem)
qed

text \<open>Positions before \<open>i\<close> hold their final keys.\<close>

definition settled :: "nat \<Rightarrow> string list \<Rightarrow> bool" where
  "settled i keys \<longleftrightarrow> (\<forall>a < i. \<forall>b. a < b \<and> b < length keys \<longrightarrow> keys ! a \<le> keys ! b)"

lemma sort_inner_drop:
  assumes "i < length keys"
  shows "set (drop i (sort_inner i (Suc i) keys)) = set (drop i keys)"
proof -
  have t: "take i (sort_inner i (Suc i) keys) = take i keys"
    by (rule nth_equalityI) (auto simp: sort_inner_before)
  have "mset (take i (sort_inner i (Suc i) keys)) + mset (drop i (sort_inner i (Suc i) keys)) =
      mset (take i keys) + mset (drop i keys)"
    using mset_sort_inner [of i "Suc i" keys] by (simp flip: mset_append)
  with t have "mset (drop i (sort_inner i (Suc i) keys)) = mset (drop i keys)" by simp
  then show ?thesis by (metis mset_eq_setD)
qed

lemma settled_sort_inner:
  assumes "settled i keys" "i < length keys"
  shows "settled (Suc i) (sort_inner i (Suc i) keys)"
proof -
  let ?ks = "sort_inner i (Suc i) keys"
  have "?ks ! a \<le> ?ks ! b" if a: "a < Suc i" and b: "a < b" "b < length ?ks" for a b
  proof (cases "a = i")
    case True
    with b assms(2) show ?thesis by (auto intro!: sort_inner_least)
  next
    case False
    with a have "a < i" by simp
    show ?thesis
    proof (cases "b < i")
      case True
      with \<open>a < i\<close> b assms(1) show ?thesis by (simp add: sort_inner_before settled_def)
    next
      case False
      then have "?ks ! b \<in> set (drop i ?ks)"
        using b by (auto simp: in_set_drop_iff intro!: exI [of _ b])
      then obtain c where "i \<le> c" "c < length keys" "?ks ! b = keys ! c"
        using assms(2) by (auto simp: sort_inner_drop in_set_drop_iff)
      with \<open>a < i\<close> assms(1) show ?thesis by (auto simp: sort_inner_before settled_def)
    qed
  qed
  then show ?thesis by (simp add: settled_def)
qed

lemma sort_outer_sorts:
  "settled i keys \<Longrightarrow> i \<le> length keys \<Longrightarrow> mset (sort_outer i keys) = mset keys \<and> sorted (sort_outer i keys)"
proof (induction i keys rule: sort_outer.induct)
  case (1 i keys)
  show ?case
  proof (cases "i < length keys")
    case True
    with 1 have "mset (sort_outer (Suc i) (sort_inner i (Suc i) keys)) = mset keys \<and>
        sorted (sort_outer (Suc i) (sort_inner i (Suc i) keys))"
      by (simp add: settled_sort_inner mset_sort_inner)
    with True show ?thesis by (subst (1 2) sort_outer.simps) simp
  next
    case False
    with "1.prems" have "sorted keys"
      by (auto simp: settled_def sorted_iff_nth_mono_less)
    with False show ?thesis by (subst (1 2) sort_outer.simps) simp
  qed
qed

lemma sort_outer_eq_sort: "sort_outer 0 keys = sort keys"
  using sort_outer_sorts [of 0 keys] by (simp add: settled_def properties_for_sort [symmetric])

lemma sort_filter_mset_cong:
  "mset xs = mset ys \<Longrightarrow> sort (filter P xs) = sort (filter P ys)"
  by (metis mset_filter mset_sort properties_for_sort sorted_sort)

text \<open>
  The two nested loops of \<open>renderEnvVars\<close> compute the sorted list of the environment's keys
  other than \<open>PORT\<close>: the rendered block does not depend on the order Go iterates the map in.
\<close>

theorem render_env_vars_order_independent:
  assumes "distinct (map fst env)" and "mset env = mset env'"
  shows "env_keys env = sort (filter (\<lambda>k. k \<noteq> ''PORT'') (map fst env)) \<and>
    render_env_vars uni env = render_env_vars uni env'"
proof -
  have "mset (map fst env) = mset (map fst env')"
    using assms(2) by simp
  then have keys: "env_keys env = env_keys env'"
    by (simp add: env_keys_def sort_outer_eq_sort sort_filter_mset_cong)
  have "distinct (map fst env')"
    using assms by (metis mset_eq_imp_distinct_iff mset_map)
  then have "map_of env = map_of env'"
    using assms(1) mset_eq_setD [OF assms(2)] by (simp add: map_of_inject_set)
  with keys show ?thesis
    by (simp add: render_env_vars_def) (simp add: env_keys_def sort_outer_eq_sort)
qed

theorem render_env_vars_order_independent_witness:
  "render_env_vars (\<lambda>s. s) [(''B'', ''2''), (''PORT'', ''8080''), (''A'', ''1'')] =
   render_env_vars (\<lambda>s. s) [(''A'', ''1''), (''B'', ''2''), (''PORT'', ''8080'')]"
  by (rule conjunct2 [OF render_env_vars_order_independent]) (simp_all add: add_mset_commute)

section \<open>Validation\<close>

text \<open>
  C23. \<open>ValidateCreateAppRequest\<close> accepts exactly the requests of the readable contract: a DNS
  label of at most 63 bytes that is not reserved, a container image without a tag, a tag of 40
  lowercase hex digits, one to five replicas, port 8080 and, when the environment sets
  \<open>PORT\<close>, 8080 there too.
\<close>

theorem validate_create_app_request_iff:
  "validate_create_app_request uni req = Inr () \<longleftrightarrow> (\<exists>r. req = Some r \<and> acceptable_app uni r)"
  by (cases req)
     (auto simp: validate_create_app_request_def validate_name_iff validate_image_iff
        validate_tag_iff validate_limits_iff acceptable_app_def)

text \<open>
  Normalising first makes validation independent of the port the caller sent and lets an
  omitted replica count through; it never changes what is said about name, image or tag.
\<close>

lemma validate_normalized:
  "validate_create_app_request uni (Some (normalize_create_app_request r)) = Inr () \<longleftrightarrow>
   validate_create_app_request uni
     (Some (r\<lparr>car_port := 8080, car_replicas := (if car_replicas r = 0 then 1 else car_replicas r)\<rparr>)) = Inr ()"
  by (auto simp: validate_create_app_request_iff acceptable_app_def normalize_create_app_request_def
        app_port_def)

text \<open>
  A normalised request that validates carries trimmed fields, so the path its files are
  written under (from the raw name) is the name they are rendered with, and normalising it
  again changes nothing.
\<close>

theorem normalize_then_validate:
  assumes "r' = normalize_create_app_request r"
    and "validate_create_app_request uni (Some r') = Inr ()"
  shows "car_name r' = trim_space (car_name r') \<and> dns_label (car_name r') \<and>
    normalize_create_app_request r' = r' \<and> 1 \<le> car_replicas r' \<and> car_replicas r' \<le> 5"
  using assms by (auto simp: validate_create_app_request_iff acceptable_app_def
      normalize_create_app_request_def)

definition sample_request :: create_app_request where
  "sample_request = \<lparr>car_name = ''web'', car_image = ''ghcr.io/acme/web'', car_tag = placeholder_tag,
     car_replicas = 1, car_port = 8080, car_env = [(''A'', ''{{TAG}}'')]\<rparr>"

lemma sample_trimmed:
  "trim_space ''web'' = ''web''" "trim_space ''ghcr.io/acme/web'' = ''ghcr.io/acme/web''"
  "trim_space placeholder_tag = placeholder_tag"
  by code_simp+

lemma sample_acceptable: "acceptable_app (\<lambda>s. s) (sample_request\<lparr>car_env := env\<rparr>) \<longleftrightarrow>
    (\<forall>v. map_of env ''PORT'' = Some v \<longrightarrow> trim_space v = ''8080'')"
proof -
  have "rx_match image_regex (to_lower (\<lambda>s. s) ''ghcr.io/acme/web'')"
    and "dns_label ''web''" and "length placeholder_tag = 40 \<and> list_all lower_hex placeholder_tag"
    by code_simp+
  then show ?thesis
    by (simp add: acceptable_app_def sample_request_def sample_trimmed reserved_names_def)
qed

theorem normalize_then_validate_witness:
  "dns_label (car_name (normalize_create_app_request (sample_request\<lparr>car_env := []\<rparr>)))"
proof -
  have n: "normalize_create_app_request (sample_request\<lparr>car_env := []\<rparr>) = sample_request\<lparr>car_env := []\<rparr>"
    by (simp add: normalize_create_app_request_def sample_request_def sample_trimmed app_port_def)
  have "validate_create_app_request (\<lambda>s. s) (Some (sample_request\<lparr>car_env := []\<rparr>)) = Inr ()"
    by (simp add: validate_create_app_request_iff sample_acceptable)
  then show ?thesis
    using normalize_then_validate [OF n [symmetric], of "\<lambda>s. s"] n by simp
qed

section \<open>Generation\<close>

lemma brace_free_concat: "brace_free (concat xs) \<longleftrightarrow> list_all brace_free xs"
  by (induction xs) (auto simp: brace_free_def)

lemma brace_free_newline [simp]: "brace_free newline"
  by (simp add: brace_free_def newline_def)

lemma brace_free_Cons [simp]: "brace_free (c # s) \<longleftrightarrow> c \<noteq> CHR 0x7B \<and> brace_free s"
  by (simp add: brace_free_def)

lemma brace_free_Nil [simp]: "brace_free []"
  by (simp add: brace_free_def)

lemma brace_free_env_line:
  "brace_free k \<Longrightarrow> brace_free (go_quote uni v) \<Longrightarrow> brace_free (env_line uni k v)"
  by (simp add: env_line_def)

lemma set_env_keys: "set (env_keys env) = {k \<in> fst ` set env. k \<noteq> ''PORT''}"
  by (auto simp: env_keys_def sort_outer_eq_sort)

lemma brace_free_quoted_port: "brace_free (go_quote uni (fmt_int app_port))"
  by (simp add: go_quote_def is_ascii_def quote_byte_def brace_free_def)

lemma brace_free_render:
  assumes "\<forall>(k, v) \<in> set env. brace_free k \<and> brace_free (go_quote uni v)"
  shows "brace_free (render_env_vars uni env)"
proof -
  have "brace_free (env_line uni k (case map_of env k of Some v \<Rightarrow> v | None \<Rightarrow> []))"
    if "k \<in> set (env_keys env)" for k
  proof -
    from that have "k \<in> dom (map_of env)"
      by (simp add: set_env_keys dom_map_of_conv_image_fst)
    then obtain v where "map_of env k = Some v" by blast
    moreover from this have "(k, v) \<in> set env" by (rule map_of_SomeD)
    ultimately show ?thesis using assms by (auto intro: brace_free_env_line)
  qed
  then have "list_all brace_free
      (map (\<lambda>k. env_line uni k (case map_of env k of Some v \<Rightarrow> v | None \<Rightarrow> [])) (env_keys env))"
    by (simp add: list_all_iff)
  moreover have "brace_free (env_line uni ''PORT'' (fmt_int app_port))"
    by (rule brace_free_env_line [OF _ brace_free_quoted_port]) simp
  ultimately show ?thesis
    by (simp add: render_env_vars_def brace_free_concat del: fmt_app_port)
qed

lemma acceptable_brace_free:
  assumes "acceptable_app uni r" and "\<And>s. brace_free (uni s) \<Longrightarrow> brace_free s"
  shows "brace_free (trim_space (car_name r))" "brace_free (trim_space (car_image r))"
    "brace_free (trim_space (car_tag r))"
proof -
  have "list_all dash_alnum (trim_space (car_name r))"
    using assms(1) by (simp add: acceptable_app_def dns_label_def)
  then show "brace_free (trim_space (car_name r))"
    by (rule brace_free_list_all) (rule brace_not_alnum)
  have "list_all lower_hex (trim_space (car_tag r))"
    using assms(1) by (simp add: acceptable_app_def)
  then show "brace_free (trim_space (car_tag r))"
    by (rule brace_free_list_all) (rule brace_not_alnum)
  have "rx_match image_regex (to_lower uni (trim_space (car_image r)))"
    using assms(1) by (simp add: acceptable_app_def)
  then have "brace_free (to_lower uni (trim_space (car_image r)))"
    by (intro brace_free_list_all [OF image_regex_classes]) (auto dest: brace_not_alnum)
  moreover have "brace_free s" if "brace_free (map lower_byte s)" for s
    using that by (induction s) (auto simp: lower_byte_def)
  ultimately show "brace_free (trim_space (car_image r))"
    by (cases "is_ascii (trim_space (car_image r))") (auto simp: to_lower_def intro: assms(2))
qed

text \<open>
  C13. For a validated request whose environment holds no brace, the generated files are the
  templates with every placeholder filled in: no order in which Go iterates the placeholder
  map changes a byte, and no placeholder is left. The hypothesis on \<open>uni\<close> is that lower-casing
  keeps braces.
\<close>

theorem generate_app_files_filled:
  assumes "validate_create_app_request uni (Some r) = Inr ()"
    and "\<forall>(k, v) \<in> set (car_env r). brace_free k \<and> brace_free (go_quote uni_q v)"
    and "\<And>s. brace_free (uni s) \<Longrightarrow> brace_free s"
    and "\<And>path. distinct (ord path) \<and> set (ord path) = UNIV"
  shows "generate_app_files uni_q ord r =
    map (\<lambda>(path, t). (path, fill (var_value uni_q r) t)) (file_templates (car_name r))"
proof -
  have acc: "acceptable_app uni r" using assms(1) by (simp add: validate_create_app_request_iff)
  have "brace_free (var_value uni_q r p)" for p
    using acceptable_brace_free [OF acc assms(3)] brace_free_render [OF assms(2)]
    by (cases p) (simp_all add: var_value_def)
  then have "replace_vars (template_text t) (map (\<lambda>p. (placeholder_key p, var_value uni_q r p)) (ord path)) =
      fill (var_value uni_q r) t" if "t \<in> set all_templates" for t path
    using that assms(4) by (intro replace_vars_fill) auto
  moreover have "t \<in> set all_templates" if "(path, t) \<in> set (file_templates (car_name r))" for path t
    using that by (auto simp: file_templates_def all_templates_def Let_def)
  ultimately show ?thesis
    unfolding generate_app_files_def by (intro map_cong refl) (simp only: split_paired_all prod.case)
qed

theorem generate_app_files_filled_witness:
  "generate_app_files (\<lambda>s. s) (\<lambda>_. [EnvVars, PortNo, AppName, Tag, Image, Replicas]) (sample_request\<lparr>car_env := []\<rparr>) =
   map (\<lambda>(path, t). (path, fill (var_value (\<lambda>s. s) (sample_request\<lparr>car_env := []\<rparr>)) t)) (file_templates ''web'')"
proof -
  have "validate_create_app_request (\<lambda>s. s) (Some (sample_request\<lparr>car_env := []\<rparr>)) = Inr ()"
    by (simp add: validate_create_app_request_iff sample_acceptable)
  moreover have "distinct [EnvVars, PortNo, AppName, Tag, Image, Replicas] \<and>
      set [EnvVars, PortNo, AppName, Tag, Image, Replicas] = UNIV"
    by (auto intro: placeholder.exhaust)
  moreover have "car_name (sample_request\<lparr>car_env := []\<rparr>) = ''web''"
    by (simp add: sample_request_def)
  ultimately show ?thesis
    using generate_app_files_filled [of "\<lambda>s. s" "sample_request\<lparr>car_env := []\<rparr>" "\<lambda>s. s"
        "\<lambda>_. [EnvVars, PortNo, AppName, Tag, Image, Replicas]"] by simp
qed

lemma sample_env: "render_env_vars (\<lambda>s. s) (car_env sample_request) =
    ''          env:'' @ newline @ ''            - name: PORT'' @ newline @
    ''              value: '' @ [CHR 0x22] @ ''8080'' @ [CHR 0x22] @ newline @
    ''            - name: A'' @ newline @
    ''              value: '' @ [CHR 0x22] @ ''{{TAG}}'' @ [CHR 0x22] @ newline"
  by (simp add: sample_request_def render_env_vars_def env_keys_def sort_outer.simps sort_inner.simps
      env_line_def go_quote_def is_ascii_def quote_byte_def newline_def)

text \<open>
  With a placeholder inside an environment value the rendering depends on the iteration
  order: the environment line of the deployment manifest comes out in two ways, and in one of
  them the value the user asked for has been rewritten.
\<close>

theorem replace_vars_order_dependent:
  "[Ph EnvVars] \<in> set deployment_template \<and> acceptable_app (\<lambda>s. s) sample_request \<and>
   (let line = fill placeholder_key [[Ph EnvVars]];
        vars = map (\<lambda>p. (placeholder_key p, var_value (\<lambda>s. s) sample_request p))
    in replace_vars line (vars [EnvVars, Tag, Image, AppName, Replicas, PortNo]) \<noteq>
       replace_vars line (vars [Tag, Image, AppName, Replicas, PortNo, EnvVars]))"
proof -
  have acc: "acceptable_app (\<lambda>s. s) sample_request"
    using sample_acceptable [of "[(''A'', ''{{TAG}}'')]"] by (simp add: sample_request_def)
  have vals: "var_value (\<lambda>s. s) sample_request Tag = placeholder_tag"
    "var_value (\<lambda>s. s) sample_request Image = ''ghcr.io/acme/web''"
    "var_value (\<lambda>s. s) sample_request AppName = ''web''"
    "var_value (\<lambda>s. s) sample_request Replicas = ''1''"
    "var_value (\<lambda>s. s) sample_request PortNo = ''8080''"
    by (simp_all add: var_value_def sample_request_def sample_trimmed fmt_int_def digits.simps)
  have env: "var_value (\<lambda>s. s) sample_request EnvVars = render_env_vars (\<lambda>s. s) (car_env sample_request)"
    by (simp add: var_value_def)
  have "[Ph EnvVars] \<in> set deployment_template" by (simp add: deployment_template_def)
  then show ?thesis
    using acc
    by (simp add: Let_def vals env sample_env replace_vars_def fill_def template_pieces_def
        piece_text_def placeholder_key_def newline_def) (simp add: placeholder_tag_def)
qed

section \<open>The kustomization\<close>

definition kustomization_resources :: "string list" where
  "kustomization_resources =
     map (drop 4) (filter (\<lambda>s. has_prefix s ''  - '' \<and> \<not> has_prefix s ''  - name:'')
       (concat (map (\<lambda>l. case l of [Lit s] \<Rightarrow> [s] | _ \<Rightarrow> []) kustomization_template)))"

text \<open>
  The generated \<open>kustomization.yaml\<close> names exactly the other manifests generated for the app:
  \<open>kubectl apply -k\<close> finds every resource it lists and no generated manifest is left out. The
  one file outside the app's directory is its image updater.
\<close>

theorem kustomization_lists_generated_files:
  "set (map fst (generate_app_files uni ord r)) =
     (\<lambda>x. ''apps/'' @ car_name r @ CHR ''/'' # x) ` (insert ''kustomization.yaml'' (set kustomization_resources))
     \<union> {''argocd/imageupdater-'' @ car_name r @ ''.yaml''}"
proof -
  have res: "kustomization_resources = [''namespace.yaml'', ''pull-secret.yaml'', ''deployment.yaml'',
      ''service.yaml'', ''resource-quota.yaml'', ''network-policies.yaml'']"
    by code_simp
  have "set kustomization_resources = {''namespace.yaml'', ''pull-secret.yaml'', ''deployment.yaml'',
      ''service.yaml'', ''resource-quota.yaml'', ''network-policies.yaml''}"
    unfolding res by (simp only: list.set)
  moreover have "map fst (generate_app_files uni ord r) = map fst (file_templates (car_name r))"
    by (simp add: generate_app_files_def split_def)
  moreover have sets: "{a, b, c, d, e, f, g, h} = {g, a, f, b, c, d, e} \<union> {h}" for a b c d e f g h :: string
    by blast
  ultimately show ?thesis
    unfolding file_templates_def Let_def
    by (simp only: list.map list.set fst_conv image_insert image_empty append_assoc sets)
qed

end
