(* ===== verification/Store.thy ===== *)
theory Store
  imports BuildTypes
begin

text \<open>
  internal/build/coordinator/store.go: the build queue in SQLite. The two tables are lists of
  rows in rowid order; each SQL statement of the source is a transformation of them. A
  statement may also fail in the driver without effect: \<open>faults\<close> says which of the coming
  statements do, and with what error. An exhausted list means no more failures.

  SQLite's conventions used here: a new row takes the largest rowid plus one; \<open>TEXT\<close> compares
  bytewise; the scan behind an \<open>ORDER BY\<close> visits equal keys in rowid order; foreign keys are
  not enforced unless switched on, which this code does not do. The \<open>env_json\<close> column is
  identified with the map it encodes.
\<close>

section \<open>Tables and statements\<close>

record job_row =
  rowid :: nat
  cols :: "string build_job"

record log_row =
  l_id :: nat
  l_job_id :: string
  l_sequence :: int
  l_timestamp :: string
  l_stream :: string
  l_message :: string

record store =
  jobs :: "job_row list"
  logs :: "log_row list"
  log_counter :: nat
  faults :: "string option list"

definition empty_store :: store where
  "empty_store = \<lparr>jobs = [], logs = [], log_counter = 0, faults = []\<rparr>"

definition db_stmt :: "(store, 'a) act \<Rightarrow> (store, 'a) act" where
  "db_stmt f s = (case faults s of
     [] \<Rightarrow> f s
   | Some e # fs \<Rightarrow> (Inl e, s\<lparr>faults := fs\<rparr>)
   | None # fs \<Rightarrow> f (s\<lparr>faults := fs\<rparr>))"

text \<open>A read and a write that cannot fail of themselves; a bare round trip (BEGIN, COMMIT).\<close>

definition db_query :: "(store \<Rightarrow> 'a) \<Rightarrow> (store, 'a) act" where
  "db_query q = db_stmt (\<lambda>s. (Inr (q s), s))"

definition db_exec :: "(store \<Rightarrow> store) \<Rightarrow> (store, unit) act" where
  "db_exec f = db_stmt (\<lambda>s. (Inr (), f s))"

definition db_ping :: "(store, unit) act" where
  "db_ping = db_exec (\<lambda>s. s)"

definition job_where :: "string \<Rightarrow> job_row \<Rightarrow> bool" where
  "job_where jid r \<longleftrightarrow> j_id (cols r) = jid"

definition update_where :: "string \<Rightarrow> (string build_job \<Rightarrow> string build_job) \<Rightarrow> store \<Rightarrow> store" where
  "update_where jid f s =
     s\<lparr>jobs := map (\<lambda>r. if job_where jid r then r\<lparr>cols := f (cols r)\<rparr> else r) (jobs s)\<rparr>"

definition next_rowid :: "job_row list \<Rightarrow> nat" where
  "next_rowid rs = (if rs = [] then 1 else Suc (Max (set (map rowid rs))))"

definition by_created :: "job_row list \<Rightarrow> job_row list" where
  "by_created rs = sort_key (\<lambda>r. j_created_at (cols r)) rs"

section \<open>scanJob\<close>

definition scan_time :: "string \<Rightarrow> gotime" where
  "scan_time v = (case parse_time v of Some t \<Rightarrow> t | None \<Rightarrow> zero_time)"

definition scan_job :: "job_row \<Rightarrow> job" where
  "scan_job r = (let c = cols r in
     \<lparr>j_id = j_id c, j_app_name = j_app_name c, j_repo_url = j_repo_url c, j_ref = j_ref c,
      j_commit_sha = j_commit_sha c, j_framework = j_framework c, j_image = j_image c,
      j_tag = j_tag c, j_status = j_status c, j_attempts = j_attempts c,
      j_replicas = j_replicas c, j_port = j_port c, j_env = j_env c,
      j_gitops_commit_sha = j_gitops_commit_sha c, j_gitops_path = j_gitops_path c,
      j_deploy_status = j_deploy_status c, j_argo_sync_status = j_argo_sync_status c,
      j_argo_health = j_argo_health c, j_app_url = j_app_url c,
      j_verification_error = j_verification_error c, j_error = j_error c,
      j_created_at = scan_time (j_created_at c), j_updated_at = scan_time (j_updated_at c),
      j_started_at = map_option scan_time (j_started_at c),
      j_finished_at = map_option scan_time (j_finished_at c)\<rparr>)"

definition no_rows :: string where
  "no_rows = ''sql: no rows in result set''"

section \<open>Reading and writing jobs\<close>

definition get_job_by_app_name :: "string \<Rightarrow> (store, job option) act" where
  "get_job_by_app_name app = db_query (\<lambda>s.
     case rev (by_created (filter (\<lambda>r. j_app_name (cols r) = app) (jobs s))) of
       [] \<Rightarrow> None
     | r # _ \<Rightarrow> Some (scan_job r))"

definition get_job :: "string \<Rightarrow> (store, job) act" where
  "get_job jid = db_stmt (\<lambda>s. case filter (job_where jid) (jobs s) of
       [] \<Rightarrow> (Inl no_rows, s)
     | r # _ \<Rightarrow> (Inr (scan_job r), s))"

definition delete_job :: "string \<Rightarrow> (store, unit) act" where
  "delete_job jid =
     seq (db_exec (\<lambda>s. s\<lparr>logs := filter (\<lambda>l. l_job_id l \<noteq> jid) (logs s)\<rparr>)) (\<lambda>e. e)
       (\<lambda>_. db_exec (\<lambda>s. s\<lparr>jobs := filter (\<lambda>r. \<not> job_where jid r) (jobs s)\<rparr>))"

text \<open>The INSERT names eleven columns; the others take their defaults.\<close>

definition new_row :: "job \<Rightarrow> string build_job" where
  "new_row job =
     \<lparr>j_id = j_id job, j_app_name = j_app_name job, j_repo_url = j_repo_url job, j_ref = j_ref job,
      j_commit_sha = [], j_framework = [], j_image = [], j_tag = [], j_status = j_status job,
      j_attempts = j_attempts job, j_replicas = j_replicas job, j_port = j_port job,
      j_env = j_env job, j_gitops_commit_sha = [], j_gitops_path = [], j_deploy_status = [],
      j_argo_sync_status = [], j_argo_health = [], j_app_url = [], j_verification_error = [],
      j_error = [], j_created_at = format_time (j_created_at job),
      j_updated_at = format_time (j_updated_at job), j_started_at = None, j_finished_at = None\<rparr>"

definition unique_failed :: string where
  "unique_failed = ''constraint failed: UNIQUE constraint failed: build_jobs.id (1555)''"

definition create_job :: "gotime \<Rightarrow> job \<Rightarrow> (store, job) act" where
  "create_job now job0 = (let job = job0\<lparr>j_created_at := now, j_updated_at := now\<rparr> in
     db_stmt (\<lambda>s. if list_ex (job_where (j_id job)) (jobs s) then (Inl unique_failed, s)
       else (Inr job, s\<lparr>jobs := jobs s @ [\<lparr>rowid = next_rowid (jobs s), cols = new_row job\<rparr>]\<rparr>)))"

section \<open>Claiming\<close>

text \<open>A transaction whose body fails is rolled back by the deferred \<open>tx.Rollback\<close>.\<close>

definition in_tx :: "(store, 'a) act \<Rightarrow> (store, 'a) act" where
  "in_tx body s = (case body s of
     (Inr x, s') \<Rightarrow> (Inr x, s')
   | (Inl e, s') \<Rightarrow> (Inl e, s'\<lparr>jobs := jobs s, logs := logs s, log_counter := log_counter s\<rparr>))"

definition next_queued :: "int \<Rightarrow> store \<Rightarrow> job option" where
  "next_queued max_attempts s =
     (case by_created (filter (\<lambda>r. j_status (cols r) = status_queued \<and> j_attempts (cols r) < max_attempts) (jobs s)) of
        [] \<Rightarrow> None
      | r # _ \<Rightarrow> Some (scan_job r))"

definition coalesce :: "'a option \<Rightarrow> 'a \<Rightarrow> 'a option" where
  "coalesce x y = (case x of None \<Rightarrow> Some y | Some v \<Rightarrow> Some v)"

definition mark_running :: "gotime \<Rightarrow> string build_job \<Rightarrow> string build_job" where
  "mark_running now c = (if j_status c = status_queued
     then c\<lparr>j_status := status_running, j_attempts := j_attempts c + 1,
            j_updated_at := format_time now, j_started_at := coalesce (j_started_at c) (format_time now)\<rparr>
     else c)"

definition claim_tx :: "gotime \<Rightarrow> int \<Rightarrow> (store, string option) act" where
  "claim_tx now max_attempts = seq (db_query (next_queued max_attempts)) (\<lambda>e. e) (\<lambda>found.
     case found of
       None \<Rightarrow> ret None
     | Some job \<Rightarrow> seq (db_exec (update_where (j_id job) (mark_running now))) (\<lambda>e. e)
         (\<lambda>_. seq db_ping (\<lambda>e. e) (\<lambda>_. ret (Some (j_id job)))))"

definition claim_next_queued_job :: "gotime \<Rightarrow> int \<Rightarrow> (store, job option) act" where
  "claim_next_queued_job now max_attempts =
     seq db_ping (\<lambda>e. e) (\<lambda>_. seq (in_tx (claim_tx now max_attempts)) (\<lambda>e. e) (\<lambda>claimed.
       case claimed of
         None \<Rightarrow> ret None
       | Some jid \<Rightarrow> seq (get_job jid) (\<lambda>e. e) (\<lambda>job. ret (Some job))))"

section \<open>Logs\<close>

text \<open>\<open>AppendLog\<close> is two statements: the next sequence number is read, then the row inserted.\<close>

definition next_sequence :: "string \<Rightarrow> store \<Rightarrow> int" where
  "next_sequence job_id s =
     (case map l_sequence (filter (\<lambda>l. l_job_id l = job_id) (logs s)) of
        [] \<Rightarrow> 0
      | x # xs \<Rightarrow> foldl max x xs) + 1"

definition insert_log :: "gotime \<Rightarrow> string \<Rightarrow> int \<Rightarrow> string \<Rightarrow> string \<Rightarrow> store \<Rightarrow> store" where
  "insert_log now job_id sq stream message s =
     s\<lparr>logs := logs s @ [\<lparr>l_id = Suc (log_counter s), l_job_id = job_id, l_sequence = sq,
                           l_timestamp = format_time now, l_stream = stream, l_message = message\<rparr>],
       log_counter := Suc (log_counter s)\<rparr>"

definition append_log :: "gotime \<Rightarrow> string \<Rightarrow> string \<Rightarrow> string \<Rightarrow> (store, unit) act" where
  "append_log now job_id stream message =
     seq (db_query (next_sequence job_id)) (\<lambda>e. e)
       (\<lambda>sq. db_exec (insert_log now job_id sq stream message))"

definition scan_log :: "log_row \<Rightarrow> build_log_line" where
  "scan_log l = \<lparr>bl_sequence = l_sequence l, bl_timestamp = scan_time (l_timestamp l),
     bl_stream = l_stream l, bl_message = l_message l\<rparr>"

definition list_logs :: "string \<Rightarrow> int \<Rightarrow> (store, build_log_line list) act" where
  "list_logs job_id after = db_query (\<lambda>s.
     map scan_log (sort_key l_sequence
       (filter (\<lambda>l. l_job_id l = job_id \<and> l_sequence l > after) (logs s))))"

section \<open>Runner reports\<close>

definition report_running :: "gotime \<Rightarrow> runner_status_request \<Rightarrow> string build_job \<Rightarrow> string build_job" where
  "report_running now req c = c\<lparr>j_commit_sha := rs_commit_sha req, j_framework := rs_framework req,
     j_deploy_status := [], j_argo_sync_status := [], j_argo_health := [],
     j_verification_error := [], j_updated_at := format_time now\<rparr>"

definition report_succeeded :: "gotime \<Rightarrow> runner_status_request \<Rightarrow> string build_job \<Rightarrow> string build_job" where
  "report_succeeded now req c = c\<lparr>j_status := status_succeeded, j_commit_sha := rs_commit_sha req,
     j_framework := rs_framework req, j_image := rs_image req, j_tag := rs_tag req,
     j_gitops_commit_sha := rs_gitops_commit_sha req, j_gitops_path := rs_gitops_path req,
     j_deploy_status := rs_deploy_status req, j_app_url := rs_app_url req,
     j_verification_error := rs_verification_error req, j_error := [],
     j_updated_at := format_time now, j_finished_at := Some (format_time now)\<rparr>"

definition report_failed :: "gotime \<Rightarrow> runner_status_request \<Rightarrow> string build_job \<Rightarrow> string build_job" where
  "report_failed now req c = c\<lparr>j_status := status_failed, j_error := rs_error req,
     j_updated_at := format_time now, j_finished_at := Some (format_time now)\<rparr>"

definition update_runner_status ::
    "(string \<Rightarrow> string) \<Rightarrow> gotime \<Rightarrow> string \<Rightarrow> runner_status_request \<Rightarrow> (store, unit) act" where
  "update_runner_status quoted now job_id req =
     (if rs_status req = status_running then db_exec (update_where job_id (report_running now req))
      else if rs_status req = status_succeeded then db_exec (update_where job_id (report_succeeded now req))
      else if rs_status req = status_failed then db_exec (update_where job_id (report_failed now req))
      else fail_with (''unsupported status '' @ quoted (rs_status req)))"

section \<open>Listings\<close>

definition list_jobs :: "int \<Rightarrow> (store, job list) act" where
  "list_jobs limit0 = (let limit = (if limit0 \<le> 0 \<or> limit0 > 200 then 50 else limit0) in
     db_query (\<lambda>s. map scan_job (take (nat limit) (rev (by_created (rev (jobs s)))))))"

record app_repo =
  ar_app_name :: string
  ar_repo_url :: string
  ar_ref :: string

definition max_rowid_of_app :: "string \<Rightarrow> job_row list \<Rightarrow> nat" where
  "max_rowid_of_app app rs = Max (set (map rowid (filter (\<lambda>r. j_app_name (cols r) = app) rs)))"

definition list_app_repos :: "(store, app_repo list) act" where
  "list_app_repos = db_query (\<lambda>s.
     map (\<lambda>r. \<lparr>ar_app_name = j_app_name (cols r), ar_repo_url = j_repo_url (cols r), ar_ref = j_ref (cols r)\<rparr>)
       (filter (\<lambda>r. rowid r \<in> set (map (\<lambda>q. max_rowid_of_app (j_app_name (cols q)) (jobs s)) (jobs s)))
          (jobs s)))"

end
