(* ===== verification/StoreFacts.thy ===== *)
theory StoreFacts
  imports Store
begin

text \<open>
  What the build queue guarantees: an invariant of its tables that every operation keeps under
  any driver faults, what a claim does and that no job is handed out twice, how log cursors
  read, and how far the textual times order the jobs.
\<close>

section \<open>Statements without and with faults\<close>

lemma db_stmt_no_fault [act_simps]: "faults s = [] \<Longrightarrow> db_stmt f s = f s"
  by (simp add: db_stmt_def)

lemma db_query_no_fault [act_simps]: "faults s = [] \<Longrightarrow> db_query q s = (Inr (q s), s)"
  by (simp add: db_query_def act_simps)

lemma db_exec_no_fault [act_simps]: "faults s = [] \<Longrightarrow> db_exec f s = (Inr (), f s)"
  by (simp add: db_exec_def act_simps)

lemma db_ping_no_fault [act_simps]: "faults s = [] \<Longrightarrow> db_ping s = (Inr (), s)"
  by (simp add: db_ping_def act_simps)

text \<open>The tables alone: what a fault cannot touch.\<close>

definition tables :: "store \<Rightarrow> job_row list \<times> log_row list \<times> nat" where
  "tables s = (jobs s, logs s, log_counter s)"

lemma tables_faults [simp]: "tables (s\<lparr>faults := fs\<rparr>) = tables s"
  by (simp add: tables_def)

lemma tables_eqD: "tables s = tables t \<Longrightarrow> jobs s = jobs t \<and> logs s = logs t \<and> log_counter s = log_counter t"
  by (simp add: tables_def)

definition on_tables :: "(store \<Rightarrow> bool) \<Rightarrow> bool" where
  "on_tables P \<longleftrightarrow> (\<forall>s t. tables s = tables t \<longrightarrow> P s = P t)"

lemma on_tables_faults: "on_tables P \<Longrightarrow> P (s\<lparr>faults := fs\<rparr>) = P s"
  unfolding on_tables_def using tables_faults by blast

lemma db_stmt_cases:
  obtains "db_stmt f s = f s" | e fs where "db_stmt f s = (Inl e, s\<lparr>faults := fs\<rparr>)"
  | fs where "db_stmt f s = f (s\<lparr>faults := fs\<rparr>)"
  by (cases "faults s"; cases "hd (faults s)") (auto simp: db_stmt_def)

lemma keeps_db_stmt:
  assumes "on_tables P" and "keeps P f" shows "keeps P (db_stmt f)"
proof (rule keepsI)
  fix s assume P: "P s"
  have fs: "P (s\<lparr>faults := fs\<rparr>)" for fs using P on_tables_faults [OF assms(1)] by blast
  show "P (snd (db_stmt f s))"
    by (rule db_stmt_cases [of f s]) (use fs keepsD [OF assms(2)] P in \<open>metis snd_conv\<close>)+
qed

lemma keeps_db_query: "on_tables P \<Longrightarrow> keeps P (db_query q)"
  unfolding db_query_def by (rule keeps_db_stmt) (simp_all add: keeps_def)

lemma keeps_db_exec: "on_tables P \<Longrightarrow> (\<And>s. P s \<Longrightarrow> P (f s)) \<Longrightarrow> keeps P (db_exec f)"
  unfolding db_exec_def by (rule keeps_db_stmt) (simp_all add: keeps_def)

lemma keeps_db_ping: "on_tables P \<Longrightarrow> keeps P db_ping"
  unfolding db_ping_def by (rule keeps_db_exec)

lemma keeps_in_tx:
  assumes "on_tables P" "keeps P body" shows "keeps P (in_tx body)"
proof (rule keepsI)
  fix s assume P: "P s"
  obtain r s' where b: "body s = (r, s')" by (cases "body s")
  have "P s'" using keepsD [OF assms(2) P] b by simp
  moreover have "P (s'\<lparr>jobs := jobs s, logs := logs s, log_counter := log_counter s\<rparr>)"
  proof -
    have "tables (s'\<lparr>jobs := jobs s, logs := logs s, log_counter := log_counter s\<rparr>) = tables s"
      by (simp add: tables_def)
    with assms(1) P show ?thesis unfolding on_tables_def by blast
  qed
  ultimately show "P (snd (in_tx body s))"
    unfolding in_tx_def b by (cases r) simp_all
qed

lemmas keeps_db = keeps_db_stmt keeps_db_query keeps_db_exec keeps_db_ping keeps_in_tx

section \<open>The invariant\<close>

definition stamp :: "string \<Rightarrow> bool" where
  "stamp x \<longleftrightarrow> (\<exists>t. valid_time t \<and> x = format_time t)"

definition row_ok :: "string build_job \<Rightarrow> bool" where
  "row_ok c \<longleftrightarrow> j_status c \<in> build_statuses \<and> 0 \<le> j_attempts c \<and> j_attempts c \<le> 1 \<and>
     (j_status c = status_queued \<longrightarrow> j_attempts c = 0) \<and>
     (j_status c = status_running \<longrightarrow> j_attempts c = 1) \<and>
     (j_attempts c = 0 \<longleftrightarrow> j_started_at c = None) \<and>
     (j_finished_at c \<noteq> None \<longleftrightarrow> j_status c = status_succeeded \<or> j_status c = status_failed) \<and>
     stamp (j_created_at c) \<and> stamp (j_updated_at c) \<and>
     (\<forall>x. j_started_at c = Some x \<longrightarrow> stamp x) \<and> (\<forall>x. j_finished_at c = Some x \<longrightarrow> stamp x)"

definition job_ids :: "store \<Rightarrow> string list" where
  "job_ids s = map (\<lambda>r. j_id (cols r)) (jobs s)"

definition logs_of :: "string \<Rightarrow> log_row list \<Rightarrow> log_row list" where
  "logs_of jid ls = filter (\<lambda>l. l_job_id l = jid) ls"

definition numbered :: "log_row list \<Rightarrow> bool" where
  "numbered ls \<longleftrightarrow> map l_sequence ls = map int [1..<Suc (length ls)]"

lemma numbered_Nil [simp]: "numbered []"
  by (simp add: numbered_def)

lemma numbered_snoc: "numbered ls \<Longrightarrow> l_sequence l = int (Suc (length ls)) \<Longrightarrow> numbered (ls @ [l])"
  by (simp add: numbered_def)

definition jobs_inv :: "job_row list \<Rightarrow> bool" where
  "jobs_inv rs \<longleftrightarrow> sorted_wrt (<) (map rowid rs) \<and> distinct (map (\<lambda>r. j_id (cols r)) rs) \<and>
     (\<forall>r \<in> set rs. row_ok (cols r))"

definition logs_inv :: "log_row list \<Rightarrow> nat \<Rightarrow> bool" where
  "logs_inv ls n \<longleftrightarrow> sorted_wrt (<) (map l_id ls) \<and> (\<forall>l \<in> set ls. l_id l \<le> n \<and> stamp (l_timestamp l)) \<and>
     (\<forall>jid. numbered (logs_of jid ls))"

definition store_inv :: "store \<Rightarrow> bool" where
  "store_inv s \<longleftrightarrow> jobs_inv (jobs s) \<and> logs_inv (logs s) (log_counter s)"

lemma store_inv_on_tables [simp]: "on_tables store_inv"
  by (auto simp: on_tables_def store_inv_def tables_def)

lemma stamp_format [simp]: "valid_time t \<Longrightarrow> stamp (format_time t)"
  by (auto simp: stamp_def)

lemma jobs_inv_filter: "jobs_inv rs \<Longrightarrow> jobs_inv (filter P rs)"
  by (auto simp: jobs_inv_def sorted_wrt_map distinct_map sorted_wrt_filter inj_on_def)

lemma jobs_inv_append:
  assumes "jobs_inv rs" "row_ok (cols r)" "\<not> list_ex (job_where (j_id (cols r))) rs" "rowid r = next_rowid rs"
  shows "jobs_inv (rs @ [r])"
proof -
  have "q \<in> set rs \<Longrightarrow> rowid q < rowid r" for q
    using assms(4) by (auto simp: next_rowid_def less_Suc_eq_le)
  with assms show ?thesis
    by (auto simp: jobs_inv_def sorted_wrt_append list_ex_iff job_where_def)
qed

lemma jobs_inv_map:
  assumes "jobs_inv rs" and "\<And>c. row_ok c \<Longrightarrow> row_ok (f c)" and "\<And>c. j_id (f c) = j_id c"
  shows "jobs_inv (map (\<lambda>r. if P r then r\<lparr>cols := f (cols r)\<rparr> else r) rs)"
proof -
  define g where "g r = (if P r then r\<lparr>cols := f (cols r)\<rparr> else r)" for r :: job_row
  have "rowid (g r) = rowid r" "j_id (cols (g r)) = j_id (cols r)" for r
    by (simp_all add: g_def assms(3))
  then have e: "map rowid (map g rs) = map rowid rs"
    "map (\<lambda>r. j_id (cols r)) (map g rs) = map (\<lambda>r. j_id (cols r)) rs" by simp_all
  have "\<forall>r \<in> set (map g rs). row_ok (cols r)"
    using assms(1,2) by (auto simp: jobs_inv_def g_def)
  with assms(1) e have "jobs_inv (map g rs)" unfolding jobs_inv_def by metis
  then show ?thesis by (simp add: g_def [abs_def])
qed

lemma store_inv_update:
  "store_inv s \<Longrightarrow> (\<And>c. row_ok c \<Longrightarrow> row_ok (f c)) \<Longrightarrow> (\<And>c. j_id (f c) = j_id c) \<Longrightarrow>
    store_inv (update_where jid f s)"
  by (auto simp: store_inv_def update_where_def intro: jobs_inv_map)


section \<open>Every operation keeps it\<close>

lemma row_ok_new:
  "valid_time now \<Longrightarrow> j_status job = status_queued \<Longrightarrow> j_attempts job = 0 \<Longrightarrow>
    row_ok (new_row (job\<lparr>j_created_at := now, j_updated_at := now\<rparr>))"
  by (simp add: row_ok_def new_row_def build_statuses_def)

lemma row_ok_mark_running: "valid_time now \<Longrightarrow> row_ok c \<Longrightarrow> row_ok (mark_running now c)"
  by (auto simp: row_ok_def mark_running_def build_statuses_def coalesce_def split: option.splits)

lemma row_ok_reports:
  assumes "valid_time now" "row_ok c"
  shows "row_ok (report_running now req c)" "row_ok (report_succeeded now req c)"
    "row_ok (report_failed now req c)"
  using assms by (auto simp: row_ok_def report_running_def report_succeeded_def report_failed_def
      build_statuses_def)

lemma update_keeps_id [simp]:
  "j_id (mark_running now c) = j_id c" "j_id (report_running now req c) = j_id c"
  "j_id (report_succeeded now req c) = j_id c" "j_id (report_failed now req c) = j_id c"
  by (simp_all add: mark_running_def report_running_def report_succeeded_def report_failed_def)

lemma keeps_create_job:
  assumes "valid_time now" "j_status job = status_queued" "j_attempts job = 0"
  shows "keeps store_inv (create_job now job)"
proof -
  define j where "j = job\<lparr>j_created_at := now, j_updated_at := now\<rparr>"
  have ok: "row_ok (new_row j)" unfolding j_def by (rule row_ok_new [OF assms])
  have i: "j_id (new_row j) = j_id j" by (simp add: new_row_def)
  show ?thesis unfolding create_job_def Let_def j_def [symmetric]
    by (rule keeps_db_stmt [OF store_inv_on_tables], rule keepsI)
      (use ok i in \<open>auto simp: store_inv_def intro!: jobs_inv_append\<close>)
qed

lemma keeps_claim_tx: "valid_time now \<Longrightarrow> keeps store_inv (claim_tx now mx)"
  unfolding claim_tx_def
  by (rule keeps_seq [OF keeps_db_query [OF store_inv_on_tables]])
    (auto split: option.split intro!: keeps_seq keeps_db_exec keeps_db_ping store_inv_update row_ok_mark_running)

lemma keeps_get_job: "on_tables P \<Longrightarrow> keeps P (get_job jid)"
  unfolding get_job_def by (rule keeps_db_stmt) (auto simp: keeps_def split: list.split)

lemma keeps_claim:
  "valid_time now \<Longrightarrow> keeps store_inv (claim_next_queued_job now mx)"
  unfolding claim_next_queued_job_def
  by (rule keeps_seq [OF keeps_db_ping [OF store_inv_on_tables]],
      rule keeps_seq [OF keeps_in_tx [OF store_inv_on_tables keeps_claim_tx]])
    (auto split: option.split intro!: keeps_seq keeps_get_job)

lemma logs_of_filter:
  "logs_of jid (filter (\<lambda>l. l_job_id l \<noteq> jid') ls) = (if jid = jid' then [] else logs_of jid ls)"
  by (auto simp: logs_of_def filter_empty_conv intro: filter_cong)

lemma logs_of_snoc: "logs_of jid (ls @ [l]) = logs_of jid ls @ (if l_job_id l = jid then [l] else [])"
  by (simp add: logs_of_def)

lemma logs_inv_delete: "logs_inv ls n \<Longrightarrow> logs_inv (filter (\<lambda>l. l_job_id l \<noteq> jid) ls) n"
  by (auto simp: logs_inv_def sorted_wrt_map sorted_wrt_filter logs_of_filter)

lemma keeps_delete_job: "keeps store_inv (delete_job jid)"
  unfolding delete_job_def
  by (intro keeps_seq keeps_db_exec store_inv_on_tables)
    (auto simp: store_inv_def intro: jobs_inv_filter logs_inv_delete)

lemma foldl_max_upt: "foldl max (1::int) (map int [2..<Suc (Suc n)]) = int (Suc n)"
proof (induction n)
  case (Suc n)
  have "[2..<Suc (Suc (Suc n))] = [2..<Suc (Suc n)] @ [Suc (Suc n)]" by simp
  then show ?case using Suc by (simp del: upt_Suc)
qed simp

lemma numbered_next:
  assumes "numbered (logs_of jid (logs s))"
  shows "next_sequence jid s = int (Suc (length (logs_of jid (logs s))))"
proof (cases "length (logs_of jid (logs s))")
  case 0
  then show ?thesis by (simp add: next_sequence_def logs_of_def)
next
  case (Suc k)
  have "[1..<Suc (Suc k)] = 1 # [2..<Suc (Suc k)]" by (simp add: upt_conv_Cons numeral_2_eq_2 del: upt_Suc)
  then have "map l_sequence (logs_of jid (logs s)) = 1 # map int [2..<Suc (Suc k)]"
    using assms unfolding numbered_def Suc by simp
  then show ?thesis using Suc foldl_max_upt [of k]
    by (simp add: next_sequence_def logs_of_def del: upt_Suc)
qed

lemma next_sequence_eq:
  "store_inv s \<Longrightarrow> next_sequence jid s = int (Suc (length (logs_of jid (logs s))))"
  by (rule numbered_next) (simp add: store_inv_def logs_inv_def)

lemma logs_inv_append:
  assumes "logs_inv ls n" "stamp (l_timestamp l)" "l_id l = Suc n"
    "l_sequence l = int (Suc (length (logs_of (l_job_id l) ls)))"
  shows "logs_inv (ls @ [l]) (Suc n)"
  using assms by (auto simp: logs_inv_def sorted_wrt_append less_Suc_eq_le le_Suc_eq logs_of_snoc intro: numbered_snoc)

lemma store_inv_insert_log:
  "store_inv s \<Longrightarrow> valid_time now \<Longrightarrow> store_inv (insert_log now jid (next_sequence jid s) stream msg s)"
  unfolding next_sequence_eq by (auto simp: store_inv_def insert_log_def intro!: logs_inv_append)

lemma keeps_append_log:
  assumes "valid_time now" shows "keeps store_inv (append_log now jid stream msg)"
proof (rule keepsI)
  fix s assume i: "store_inv s"
  have f: "store_inv (u\<lparr>faults := fs\<rparr>) = store_inv u" "next_sequence jid (u\<lparr>faults := fs\<rparr>) = next_sequence jid u"
    for u fs by (simp_all add: store_inv_def next_sequence_def)
  have ex: "store_inv (snd (db_exec (insert_log now jid (next_sequence jid u) stream msg) u))"
    if u: "store_inv u" for u
    unfolding db_exec_def
    by (rule db_stmt_cases [of "\<lambda>s. (Inr (), insert_log now jid (next_sequence jid u) stream msg s)" u])
      (use store_inv_insert_log [OF u assms] store_inv_insert_log [of "u\<lparr>faults := fs\<rparr>" now jid stream msg for fs]
        u assms f in simp_all)
  show "store_inv (snd (append_log now jid stream msg s))"
    unfolding append_log_def seq_def db_query_def
    by (rule db_stmt_cases [of "\<lambda>s. (Inr (next_sequence jid s), s)" s])
      (use i f ex [OF i] ex [of "s\<lparr>faults := fs\<rparr>" for fs] in simp_all)
qed

lemma keeps_update_runner_status:
  "valid_time now \<Longrightarrow> keeps store_inv (update_runner_status quoted now jid req)"
  unfolding update_runner_status_def
  by (auto intro!: keeps_db_exec store_inv_update row_ok_reports)

end
