(* ===== verification/StoreRuns.thy ===== *)
theory StoreRuns
  imports StoreFacts
begin

text \<open>
  The build queue as a machine driven by its callers, and what holds along every history of
  calls, driver faults included: the invariant, and that a job is handed to one runner only.
\<close>

section \<open>The machine\<close>

datatype store_event =
    Create gotime job
  | Delete string
  | Claim gotime int
  | AppendLog gotime string string string
  | Report gotime string runner_status_request

definition store_step :: "(string \<Rightarrow> string) \<Rightarrow> store \<Rightarrow> store_event \<Rightarrow> store" where
  "store_step quoted s e = (case e of
     Create now job \<Rightarrow> snd (create_job now job s)
   | Delete jid \<Rightarrow> snd (delete_job jid s)
   | Claim now mx \<Rightarrow> snd (claim_next_queued_job now mx s)
   | AppendLog now jid stream msg \<Rightarrow> snd (append_log now jid stream msg s)
   | Report now jid req \<Rightarrow> snd (update_runner_status quoted now jid req s))"

text \<open>The clock shows a real time, and a job is created queued and untried, as both handlers do.\<close>

definition store_ok :: "store \<Rightarrow> store_event \<Rightarrow> bool" where
  "store_ok s e = (case e of
     Create now job \<Rightarrow> valid_time now \<and> j_status job = status_queued \<and> j_attempts job = 0
   | Delete jid \<Rightarrow> True
   | Claim now mx \<Rightarrow> valid_time now
   | AppendLog now jid stream msg \<Rightarrow> valid_time now
   | Report now jid req \<Rightarrow> valid_time now)"

lemmas keeps_store = keeps_create_job keeps_delete_job keeps_claim keeps_append_log keeps_update_runner_status

interpretation queue: machine "store_step quoted" store_ok store_inv
  by unfold_locales (auto simp: store_step_def store_ok_def split: store_event.splits intro!: keepsD [OF keeps_store(1)]
      keepsD [OF keeps_store(2)] keepsD [OF keeps_store(3)] keepsD [OF keeps_store(4)] keepsD [OF keeps_store(5)])

lemma store_inv_empty: "store_inv (empty_store\<lparr>faults := fs\<rparr>)"
  by (simp add: empty_store_def store_inv_def jobs_inv_def logs_inv_def logs_of_def)

text \<open>
  C1. Whatever sequence of creations, deletions, claims, log lines and runner reports the
  coordinator performs, and whichever statements the database refuses, the tables stay well
  formed: row ids increase, job ids are unique, every row has one of the four statuses with
  attempts, start and finish times that fit it (so a job is tried at most once), all stored
  times parse, and each job's log lines are numbered 1, 2, 3, ...
\<close>

theorem store_reachable_inv:
  assumes "admissible (store_step quoted) store_ok (empty_store\<lparr>faults := fs\<rparr>) es"
  shows "store_inv (run (store_step quoted) (empty_store\<lparr>faults := fs\<rparr>) es)"
  using assms by (rule queue.run_inv [OF store_inv_empty])

definition noon :: gotime where
  "noon = \<lparr>year = 2024, month = 5, day = 1, hour = 12, minute = 0, second = 0, nanos = 0\<rparr>"

definition sample_job :: job where
  "sample_job = \<lparr>j_id = ''b1'', j_app_name = ''shop'', j_repo_url = ''https://github.com/a/shop'',
     j_ref = ''main'', j_commit_sha = [], j_framework = [], j_image = [], j_tag = [],
     j_status = status_queued, j_attempts = 0, j_replicas = 2, j_port = 8080, j_env = [],
     j_gitops_commit_sha = [], j_gitops_path = [], j_deploy_status = [], j_argo_sync_status = [],
     j_argo_health = [], j_app_url = [], j_verification_error = [], j_error = [],
     j_created_at = zero_time, j_updated_at = zero_time, j_started_at = None, j_finished_at = None\<rparr>"

lemma valid_noon [simp]: "valid_time noon"
  by (simp add: noon_def valid_time_def days_in_def leap_year_def)

theorem store_reachable_inv_witness:
  "store_inv (run (store_step id) (empty_store\<lparr>faults := [None, None, Some ''disk I/O error'']\<rparr>)
     [Create noon sample_job, AppendLog noon ''b1'' ''stdout'' ''cloning'', Claim noon 2])"
  by (rule store_reachable_inv) (simp add: store_ok_def sample_job_def)

section \<open>Claiming\<close>

lemma by_created_mset [simp]: "mset (by_created rs) = mset rs"
  by (simp add: by_created_def)

lemma by_created_set [simp]: "set (by_created rs) = set rs"
  by (simp add: by_created_def)

lemma by_created_Nil [simp]: "by_created [] = []"
  by (simp add: by_created_def)

lemma by_created_eq_Nil [simp]: "by_created rs = [] \<longleftrightarrow> rs = []"
  by (metis by_created_set set_empty)

lemma by_created_filter: "by_created (filter P rs) = filter P (by_created rs)"
  by (simp add: by_created_def filter_sort)

lemma by_created_sorted: "sorted (map (\<lambda>r. j_created_at (cols r)) (by_created rs))"
  by (simp add: by_created_def)

lemma map_update_at:
  assumes "distinct (map (\<lambda>r. j_id (cols r)) (xs @ r # ys))"
  shows "map (\<lambda>q. if job_where (j_id (cols r)) q then f q else q) (xs @ r # ys) = xs @ f r # ys"
proof -
  have "map (\<lambda>q. if job_where (j_id (cols r)) q then f q else q) zs = zs"
    if "\<forall>z \<in> set zs. j_id (cols z) \<noteq> j_id (cols r)" for zs
    using that by (induction zs) (auto simp: job_where_def)
  moreover have "\<forall>z \<in> set xs. j_id (cols z) \<noteq> j_id (cols r)" "\<forall>z \<in> set ys. j_id (cols z) \<noteq> j_id (cols r)"
    using assms by (auto simp: image_iff)
  ultimately show ?thesis by (simp add: job_where_def)
qed

lemma filter_unique:
  assumes "distinct (map (\<lambda>r. j_id (cols r)) (xs @ r # ys))"
  shows "filter (job_where (j_id (cols r))) (xs @ r # ys) = [r]"
proof -
  have "filter (job_where (j_id (cols r))) zs = []" if "\<forall>z \<in> set zs. j_id (cols z) \<noteq> j_id (cols r)" for zs
    using that by (simp add: job_where_def filter_empty_conv)
  moreover have "\<forall>z \<in> set xs. j_id (cols z) \<noteq> j_id (cols r)" "\<forall>z \<in> set ys. j_id (cols z) \<noteq> j_id (cols r)"
    using assms by (auto simp: image_iff)
  ultimately show ?thesis by (simp add: job_where_def)
qed

text \<open>The head of a stable sort: the least key, and the first row having it.\<close>

lemma insort_key_neq_Nil: "insort_key f x xs \<noteq> []"
  by (cases xs) auto

lemma hd_insort: "hd (insort_key f x xs) = (if xs = [] \<or> f x \<le> f (hd xs) then x else hd xs)"
  by (cases xs) auto

lemma sort_key_hd:
  assumes "sort_key f rs = r # qs"
  obtains xs ys where "rs = xs @ r # ys" "\<forall>x \<in> set xs. f r < f x" "\<forall>y \<in> set ys. f r \<le> f y"
  using assms
proof (induction rs arbitrary: r qs thesis)
  case Nil
  then show ?case by simp
next
  case (Cons a rs)
  show ?case
  proof (cases "sort_key f rs")
    case Nil
    then have "rs = []" by (metis set_empty set_sort)
    with Cons.prems show ?thesis by (intro Cons.prems(1) [of "[]" "[]"]) auto
  next
    case (Cons b bs)
    from Cons.IH [OF _ Cons] obtain xs ys
      where s: "rs = xs @ b # ys" "\<forall>x \<in> set xs. f b < f x" "\<forall>y \<in> set ys. f b \<le> f y" by blast
    have r: "r = (if f a \<le> f b then a else b)"
      using Cons.prems(2) Cons hd_insort [of f a "b # bs"] by (metis list.sel(1) list.discI sort_key_simps(2))
    show ?thesis
    proof (cases "f a \<le> f b")
      case True
      with s r show ?thesis
        by (intro Cons.prems(1) [of "[]" rs]) (auto intro: order_trans less_imp_le)
    next
      case False
      with s r show ?thesis by (intro Cons.prems(1) [of "a # xs" ys]) auto
    qed
  qed
qed

definition claimable :: "int \<Rightarrow> job_row \<Rightarrow> bool" where
  "claimable mx r \<longleftrightarrow> j_status (cols r) = status_queued \<and> j_attempts (cols r) < mx"

definition queue_rows :: "int \<Rightarrow> store \<Rightarrow> job_row list" where
  "queue_rows mx s = by_created (filter (claimable mx) (jobs s))"

lemma next_queued_alt:
  "next_queued mx s = (case queue_rows mx s of [] \<Rightarrow> None | r # _ \<Rightarrow> Some (scan_job r))"
  by (simp add: next_queued_def queue_rows_def claimable_def [abs_def])

lemma scan_job_id [simp]: "j_id (scan_job r) = j_id (cols r)"
  by (simp add: scan_job_def Let_def)

text \<open>
  Which row a claim looks at: the first claimable one in order of creation text, and in
  insertion order among equal texts.
\<close>

definition earliest :: "int \<Rightarrow> job_row list \<Rightarrow> job_row \<Rightarrow> job_row list \<Rightarrow> bool" where
  "earliest mx xs r ys \<longleftrightarrow> claimable mx r \<and>
     (\<forall>x \<in> set xs. claimable mx x \<longrightarrow> j_created_at (cols r) < j_created_at (cols x)) \<and>
     (\<forall>y \<in> set ys. claimable mx y \<longrightarrow> j_created_at (cols r) \<le> j_created_at (cols y))"

lemma filter_split:
  "filter P zs = xs @ r # ys \<Longrightarrow> \<exists>us vs. zs = us @ r # vs \<and> filter P us = xs \<and> filter P vs = ys"
proof (induction zs arbitrary: xs)
  case (Cons z zs)
  show ?case
  proof (cases "P z \<and> xs = []")
    case True
    with Cons.prems show ?thesis by (intro exI [of _ "[]"] exI [of _ zs]) auto
  next
    case False
    then obtain ws where w: "filter P zs = ws @ r # ys" "xs = (if P z then [z] else []) @ ws"
      using Cons.prems by (cases xs) (auto split: if_splits)
    from Cons.IH [OF w(1)] obtain us vs
      where "zs = us @ r # vs" "filter P us = ws" "filter P vs = ys" by blast
    with w(2) show ?thesis by (intro exI [of _ "z # us"] exI [of _ vs]) simp
  qed
qed simp

lemma queue_head:
  assumes "queue_rows mx s = r # qs"
  obtains xs ys where "jobs s = xs @ r # ys" "earliest mx xs r ys"
proof -
  obtain us vs where uv: "filter (claimable mx) (jobs s) = us @ r # vs"
    "\<forall>x \<in> set us. j_created_at (cols r) < j_created_at (cols x)"
    "\<forall>y \<in> set vs. j_created_at (cols r) \<le> j_created_at (cols y)"
    using assms unfolding queue_rows_def by_created_def by (rule sort_key_hd)
  then obtain xs ys where "jobs s = xs @ r # ys" "filter (claimable mx) xs = us" "filter (claimable mx) ys = vs"
    by (metis filter_split)
  moreover have "claimable mx r"
    using arg_cong [OF uv(1), of set] by auto
  ultimately show ?thesis using uv that by (auto simp: earliest_def)
qed

lemma queue_empty: "queue_rows mx s = [] \<longleftrightarrow> (\<forall>r \<in> set (jobs s). \<not> claimable mx r)"
  by (metis by_created_set empty_filter_conv queue_rows_def set_empty)

definition marked :: "gotime \<Rightarrow> job_row \<Rightarrow> job_row" where
  "marked now r = r\<lparr>cols := mark_running now (cols r)\<rparr>"

lemma update_marked:
  assumes "store_inv s" "jobs s = xs @ r # ys"
  shows "update_where (j_id (cols r)) (mark_running now) s = s\<lparr>jobs := xs @ marked now r # ys\<rparr>"
proof -
  have "distinct (map (\<lambda>r. j_id (cols r)) (xs @ r # ys))"
    using assms by (simp add: store_inv_def jobs_inv_def)
  from map_update_at [OF this, of "marked now"] show ?thesis
    by (simp only: update_where_def assms(2) marked_def)
qed

lemma get_marked:
  assumes "store_inv s" "jobs s = xs @ r # ys"
  shows "filter (job_where (j_id (cols r))) (xs @ marked now r # ys) = [marked now r]"
proof -
  have i: "j_id (cols (marked now r)) = j_id (cols r)" by (simp add: marked_def)
  have "distinct (map (\<lambda>r. j_id (cols r)) (xs @ marked now r # ys))"
    using assms by (simp add: store_inv_def jobs_inv_def i)
  from filter_unique [OF this] i show ?thesis by simp
qed

lemma claim_when_queued:
  assumes "store_inv s" "faults s = []" "queue_rows mx s = r # qs" "jobs s = xs @ r # ys"
  shows "claim_next_queued_job now mx s =
    (Inr (Some (scan_job (marked now r))), s\<lparr>jobs := xs @ marked now r # ys\<rparr>)"
  using assms(2,3) get_marked [OF assms(1,4)]
  by (simp add: claim_next_queued_job_def claim_tx_def in_tx_def seq_def act_simps next_queued_alt
      update_marked [OF assms(1,4)] get_job_def)

lemma claim_when_empty:
  assumes "faults s = []" "queue_rows mx s = []"
  shows "claim_next_queued_job now mx s = (Inr None, s)"
  using assms by (simp add: claim_next_queued_job_def claim_tx_def in_tx_def seq_def act_simps next_queued_alt)

text \<open>
  C5. A claim on a healthy database: with no queued job it returns nothing and changes nothing.
  Otherwise it picks the queued job with the least creation text, the first inserted among
  equals, changes that row alone - to running, its only attempt counted, started now - and
  returns that job with every other field as it was created.
\<close>

theorem claim_functional:
  assumes "store_inv s" "faults s = []" "valid_time now"
  shows "case claim_next_queued_job now 2 s of
      (Inl e, s') \<Rightarrow> False
    | (Inr None, s') \<Rightarrow> s' = s \<and> (\<forall>r \<in> set (jobs s). j_status (cols r) \<noteq> status_queued)
    | (Inr (Some j), s') \<Rightarrow> \<exists>xs r ys. jobs s = xs @ r # ys \<and> earliest 2 xs r ys \<and>
        s' = s\<lparr>jobs := xs @ r\<lparr>cols := (cols r)\<lparr>j_status := status_running, j_attempts := 1,
                 j_updated_at := format_time now, j_started_at := Some (format_time now)\<rparr>\<rparr> # ys\<rparr> \<and>
        j = (scan_job r)\<lparr>j_status := status_running, j_attempts := 1,
              j_updated_at := now, j_started_at := Some now\<rparr>"
proof (cases "queue_rows 2 s")
  case Nil
  have "claimable 2 r" if "r \<in> set (jobs s)" "j_status (cols r) = status_queued" for r
    using assms(1) that by (auto simp: claimable_def store_inv_def jobs_inv_def row_ok_def)
  with Nil show ?thesis by (auto simp: claim_when_empty [OF assms(2)] queue_empty)
next
  case (Cons r qs)
  from queue_head [OF Cons] obtain xs ys
    where s: "jobs s = xs @ r # ys" and e: "earliest 2 xs r ys" by blast
  have q: "j_status (cols r) = status_queued" using e by (simp add: earliest_def claimable_def)
  have ok: "row_ok (cols r)" using assms(1) s by (simp add: store_inv_def jobs_inv_def)
  have z: "j_attempts (cols r) = 0" "j_started_at (cols r) = None" using ok q by (auto simp: row_ok_def)
  have m: "marked now r = r\<lparr>cols := (cols r)\<lparr>j_status := status_running, j_attempts := 1,
      j_updated_at := format_time now, j_started_at := Some (format_time now)\<rparr>\<rparr>"
    by (simp add: marked_def mark_running_def q z coalesce_def)
  have "scan_job (marked now r) = (scan_job r)\<lparr>j_status := status_running, j_attempts := 1,
      j_updated_at := now, j_started_at := Some now\<rparr>"
    by (simp add: m scan_job_def Let_def scan_time_def parse_format_time [OF assms(3)])
  with claim_when_queued [OF assms(1,2) Cons s, of now] s e m show ?thesis by auto
qed

definition one_queued :: store where
  "one_queued = snd (create_job noon sample_job empty_store)"

lemma one_queued_inv [simp]: "store_inv one_queued" "faults one_queued = []"
  using keepsD [OF keeps_create_job [of noon sample_job] store_inv_empty [of "[]"]]
  by (simp_all add: one_queued_def sample_job_def create_job_def Let_def db_stmt_def empty_store_def)

theorem claim_functional_witness:
  "case claim_next_queued_job noon 2 one_queued of
      (Inl e, s') \<Rightarrow> False
    | (Inr None, s') \<Rightarrow> False
    | (Inr (Some j), s') \<Rightarrow> j_status j = status_running \<and> j_started_at j = Some noon"
proof -
  have "\<exists>r \<in> set (jobs one_queued). j_status (cols r) = status_queued"
    by (simp add: one_queued_def create_job_def Let_def db_stmt_def empty_store_def new_row_def sample_job_def)
  with claim_functional [OF one_queued_inv valid_noon] show ?thesis
    by (auto split: prod.splits sum.splits option.splits)
qed

section \<open>A job is handed out once\<close>

definition never_queued :: "string \<Rightarrow> store \<Rightarrow> bool" where
  "never_queued jid s \<longleftrightarrow> (\<forall>r \<in> set (jobs s). j_id (cols r) = jid \<longrightarrow> j_status (cols r) \<noteq> status_queued)"

lemma never_queued_tables [simp]: "on_tables (never_queued jid)"
  by (auto simp: on_tables_def never_queued_def tables_def)

lemma never_queued_faults [simp]: "never_queued jid (s\<lparr>faults := fs\<rparr>) = never_queued jid s"
  by (simp add: never_queued_def)

lemma never_queued_update:
  assumes "never_queued jid s" "\<And>c. j_id (f c) = j_id c"
    "\<And>c. j_status c \<noteq> status_queued \<Longrightarrow> j_status (f c) \<noteq> status_queued"
  shows "never_queued jid (update_where jid' f s)"
  using assms by (auto simp: never_queued_def update_where_def)

lemma status_after:
  "j_status c \<noteq> status_queued \<Longrightarrow> j_status (mark_running now c) \<noteq> status_queued"
  "j_status c \<noteq> status_queued \<Longrightarrow> j_status (report_running now req c) \<noteq> status_queued"
  "j_status (report_succeeded now req c) \<noteq> status_queued" "j_status (report_failed now req c) \<noteq> status_queued"
  by (simp_all add: mark_running_def report_running_def report_succeeded_def report_failed_def)

definition creates :: "store_event \<Rightarrow> string option" where
  "creates e = (case e of Create now job \<Rightarrow> Some (j_id job) | _ \<Rightarrow> None)"

lemma never_queued_create: "j_id job \<noteq> jid \<Longrightarrow> keeps (never_queued jid) (create_job now job)"
  unfolding create_job_def Let_def
  by (rule keeps_db_stmt [OF never_queued_tables]) (auto simp: keeps_def never_queued_def new_row_def)

lemma never_queued_delete: "keeps (never_queued jid) (delete_job jid')"
  unfolding delete_job_def
  by (intro keeps_seq keeps_db_exec never_queued_tables) (auto simp: never_queued_def)

lemma never_queued_claim: "keeps (never_queued jid) (claim_next_queued_job now mx)"
  unfolding claim_next_queued_job_def claim_tx_def
  by (auto split: option.split intro!: keeps_seq keeps_in_tx keeps_db_query keeps_db_exec keeps_db_ping
      keeps_get_job never_queued_update status_after)

lemma never_queued_log: "keeps (never_queued jid) (append_log now jid' stream msg)"
  unfolding append_log_def
  by (intro keeps_seq keeps_db_query keeps_db_exec never_queued_tables) (simp add: never_queued_def insert_log_def)

lemma never_queued_report: "keeps (never_queued jid) (update_runner_status quoted now jid' req)"
  unfolding update_runner_status_def
  by (auto intro!: keeps_db_exec never_queued_update status_after)

lemmas keeps_never_queued = never_queued_create never_queued_delete never_queued_claim never_queued_log
  never_queued_report

interpretation handed_out: machine "store_step quoted" "\<lambda>s e. creates e \<noteq> Some jid" "never_queued jid"
proof
  fix s e assume "never_queued jid s" "creates e \<noteq> Some jid"
  then show "never_queued jid (store_step quoted s e)"
    unfolding store_step_def creates_def
    by (cases e) (auto intro: keepsD [OF keeps_never_queued(1)] keepsD [OF keeps_never_queued(2)]
        keepsD [OF keeps_never_queued(3)] keepsD [OF keeps_never_queued(4)] keepsD [OF keeps_never_queued(5)])
qed

lemma db_stmt_Inr: "db_stmt f s = (Inr x, s') \<Longrightarrow> \<exists>fs. f (s\<lparr>faults := fs\<rparr>) = (Inr x, s')"
proof (rule db_stmt_cases [of f s])
  assume "db_stmt f s = (Inr x, s')" "db_stmt f s = f s"
  then show ?thesis by (intro exI [of _ "faults s"]) simp
qed auto

lemma db_query_Inr: "db_query q s = (Inr x, s') \<Longrightarrow> \<exists>fs. s' = s\<lparr>faults := fs\<rparr> \<and> x = q s'"
  unfolding db_query_def by (drule db_stmt_Inr) auto

lemma db_exec_Inr: "db_exec f s = (Inr x, s') \<Longrightarrow> \<exists>fs. s' = f (s\<lparr>faults := fs\<rparr>)"
  unfolding db_exec_def by (drule db_stmt_Inr) auto

lemma in_tx_Inr: "in_tx b s = (Inr x, s') \<Longrightarrow> b s = (Inr x, s')"
  by (auto simp: in_tx_def split: prod.splits sum.splits)

lemma next_queued_faults [simp]: "next_queued mx (s\<lparr>faults := fs\<rparr>) = next_queued mx s"
  by (simp add: next_queued_def)

lemma next_queued_Some:
  assumes "next_queued mx s = Some j"
  shows "\<exists>r \<in> set (jobs s). j_id (cols r) = j_id j \<and> j_status (cols r) = status_queued"
proof -
  from assms obtain r qs where r: "queue_rows mx s = r # qs" "j = scan_job r"
    by (auto simp: next_queued_alt split: list.splits)
  from queue_head [OF r(1)] obtain xs ys where "jobs s = xs @ r # ys" "earliest mx xs r ys" by blast
  with r(2) show ?thesis by (auto simp: earliest_def claimable_def)
qed

lemma status_marked: "j_status (mark_running now c) \<noteq> status_queued"
  by (simp add: mark_running_def)

lemma never_queued_marked: "never_queued jid (update_where jid (mark_running now) s)"
proof -
  have "\<forall>r \<in> set (map (\<lambda>r. if job_where jid r then r\<lparr>cols := mark_running now (cols r)\<rparr> else r) rs).
      j_id (cols r) = jid \<longrightarrow> j_status (cols r) \<noteq> status_queued" for rs
    by (induction rs) (simp_all add: job_where_def status_marked)
  then show ?thesis by (simp add: never_queued_def update_where_def)
qed

lemma get_job_Inr:
  assumes "get_job jid s = (Inr j, s')"
  obtains r fs where "r \<in> set (jobs s)" "j_id (cols r) = jid" "j = scan_job r" "s' = s\<lparr>faults := fs\<rparr>"
proof -
  from assms obtain fs where "(case filter (job_where jid) (jobs s) of [] \<Rightarrow> (Inl no_rows, s\<lparr>faults := fs\<rparr>)
      | r # _ \<Rightarrow> (Inr (scan_job r), s\<lparr>faults := fs\<rparr>)) = (Inr j, s')"
    unfolding get_job_def by (auto dest!: db_stmt_Inr)
  then obtain r rs where f: "filter (job_where jid) (jobs s) = r # rs" "j = scan_job r" "s' = s\<lparr>faults := fs\<rparr>"
    by (auto split: list.splits)
  from f(1) have "r \<in> set (filter (job_where jid) (jobs s))" by simp
  then have "r \<in> set (jobs s)" "j_id (cols r) = jid" by (simp_all add: job_where_def)
  with f(2,3) show ?thesis using that by blast
qed

lemma claim_tx_Some:
  assumes "claim_tx now mx s = (Inr (Some jid), s')"
  obtains fs fs' j where "next_queued mx s = Some j" "j_id j = jid"
    "s' = (update_where jid (mark_running now) (s\<lparr>faults := fs\<rparr>))\<lparr>faults := fs'\<rparr>"
proof -
  from assms obtain j s1 s2 s3 where
    "db_query (next_queued mx) s = (Inr (Some j), s1)"
    "db_exec (update_where (j_id j) (mark_running now)) s1 = (Inr (), s2)"
    "db_ping s2 = (Inr (), s3)" "j_id j = jid" "s' = s3"
    unfolding claim_tx_def by (auto elim!: seq_Inr_E split: option.splits)
  then obtain fs fs' fs'' where "s1 = s\<lparr>faults := fs\<rparr>" "Some j = next_queued mx s1"
    "s2 = update_where jid (mark_running now) (s1\<lparr>faults := fs'\<rparr>)" "s' = s2\<lparr>faults := fs''\<rparr>"
    unfolding db_ping_def by (metis db_query_Inr db_exec_Inr)
  then show ?thesis
    using that [of j fs'' fs'] \<open>j_id j = jid\<close> by (auto simp: update_where_def)
qed

lemma claim_Some:
  assumes "claim_next_queued_job now mx s = (Inr (Some j), s')"
  shows "\<not> never_queued (j_id j) s" "never_queued (j_id j) s'"
proof -
  from assms obtain jid s1 s2 where
    1: "db_ping s = (Inr (), s1)" "claim_tx now mx s1 = (Inr (Some jid), s2)" "get_job jid s2 = (Inr j, s')"
    unfolding claim_next_queued_job_def
    by (auto elim!: seq_Inr_E dest!: in_tx_Inr split: option.splits)
  from 1(3) have j: "j_id j = jid" "\<exists>fs. s' = s2\<lparr>faults := fs\<rparr>"
    by (auto elim: get_job_Inr)
  from 1(1) obtain fs where s1: "s1 = s\<lparr>faults := fs\<rparr>" by (auto simp: db_ping_def dest!: db_exec_Inr)
  from claim_tx_Some [OF 1(2)] obtain fs' fs'' q where
    q: "next_queued mx s1 = Some q" "j_id q = jid"
    "s2 = (update_where jid (mark_running now) (s1\<lparr>faults := fs'\<rparr>))\<lparr>faults := fs''\<rparr>" .
  show "\<not> never_queued (j_id j) s" using next_queued_Some [OF q(1)] q(2) j(1) s1 by (auto simp: never_queued_def)
  show "never_queued (j_id j) s'" using j q(3) never_queued_marked by auto
qed

text \<open>
  C2. A job a runner has been given is given to no runner again: after a claim that returned
  it, no later history of calls (driver faults included, and no second creation under the same
  id, which is a fresh UUID) leads to a state where a claim returns it once more.
\<close>

theorem claimed_once:
  assumes "claim_next_queued_job now mx s = (Inr (Some j), s1)"
    and "\<forall>e \<in> set es. creates e \<noteq> Some (j_id j)"
  shows "claim_next_queued_job now' mx' (run (store_step quoted) s1 es) = (Inr (Some j'), s2) \<Longrightarrow> j_id j' \<noteq> j_id j"
proof -
  have "admissible (store_step quoted) (\<lambda>s e. creates e \<noteq> Some (j_id j)) t es" for t
    using assms(2) by (induction es arbitrary: t) auto
  then have "never_queued (j_id j) (run (store_step quoted) s1 es)"
    by (rule handed_out.run_inv [OF claim_Some(2) [OF assms(1)]])
  then show "claim_next_queued_job now' mx' (run (store_step quoted) s1 es) = (Inr (Some j'), s2) \<Longrightarrow> ?thesis"
    using claim_Some(1) by metis
qed

lemma one_queued_rows: "queue_rows 2 one_queued \<noteq> []"
  by (simp add: one_queued_def create_job_def Let_def db_stmt_def empty_store_def new_row_def sample_job_def
      queue_rows_def claimable_def by_created_def)

theorem claimed_once_witness:
  "\<exists>j s1. claim_next_queued_job noon 2 one_queued = (Inr (Some j), s1) \<and>
     (\<forall>j' s2. claim_next_queued_job noon 2
         (run (store_step id) s1 [Report noon (j_id j) (failure_report ''oom''), Claim noon 2]) = (Inr (Some j'), s2)
       \<longrightarrow> j_id j' \<noteq> j_id j)"
proof -
  obtain r qs where q: "queue_rows 2 one_queued = r # qs" using one_queued_rows by (cases "queue_rows 2 one_queued") auto
  from queue_head [OF q] obtain xs ys where x: "jobs one_queued = xs @ r # ys" by blast
  note c = claim_when_queued [OF one_queued_inv q x, of noon]
  let ?j = "scan_job (marked noon r)"
  have "\<forall>e \<in> set [Report noon (j_id ?j) (failure_report ''oom''), Claim noon 2]. creates e \<noteq> Some (j_id ?j)"
    by (simp add: creates_def)
  note claimed_once [OF c this, of noon 2 id]
  with c show ?thesis by blast
qed

end
