(* ===== verification/StoreReads.thy ===== *)
theory StoreReads
  imports StoreRuns
begin

text \<open>
  What readers of the build queue see: a created job reads back, log cursors deliver every
  line once, histories are newest first, and the two places where they do not - log lines
  appended by overlapping requests, and jobs created within one second.
\<close>

section \<open>Jobs\<close>

text \<open>A job as the handlers make it: nothing known yet of its build.\<close>

definition unbuilt :: "job \<Rightarrow> bool" where
  "unbuilt job \<longleftrightarrow> j_commit_sha job = [] \<and> j_framework job = [] \<and> j_image job = [] \<and> j_tag job = [] \<and>
     j_gitops_commit_sha job = [] \<and> j_gitops_path job = [] \<and> j_deploy_status job = [] \<and>
     j_argo_sync_status job = [] \<and> j_argo_health job = [] \<and> j_app_url job = [] \<and>
     j_verification_error job = [] \<and> j_error job = [] \<and> j_started_at job = None \<and> j_finished_at job = None"



text \<open>
  The claim that gets lost: when the read after the commit fails, the caller gets an error
  and no job, but the job is already running, and from then on no claim offers it.
\<close>

theorem claim_lost_after_commit:
  assumes "store_inv s" "queue_rows 2 s = r # qs"
  shows "case claim_next_queued_job now 2 (s\<lparr>faults := [None, None, None, None, Some e]\<rparr>) of (res, s') \<Rightarrow>
    res = Inl e \<and> r\<lparr>cols := mark_running now (cols r)\<rparr> \<in> set (jobs s') \<and>
    (\<forall>es now' mx' j s''. (\<forall>ev \<in> set es. creates ev \<noteq> Some (j_id (cols r))) \<longrightarrow>
       claim_next_queued_job now' mx' (run (store_step quoted) s' es) = (Inr (Some j), s'') \<longrightarrow> j_id j \<noteq> j_id (cols r))"
proof -
  let ?t = "s\<lparr>faults := [None, None, None, None, Some e]\<rparr>"
  from queue_head [OF assms(2)] obtain xs ys where s: "jobs s = xs @ r # ys" by blast
  let ?s' = "s\<lparr>faults := [], jobs := xs @ marked now r # ys\<rparr>"
  have nq: "next_queued 2 s = Some (scan_job r)" using assms(2) by (simp add: next_queued_alt)
  have u: "update_where (j_id (cols r)) (mark_running now) (s\<lparr>faults := fs\<rparr>) = s\<lparr>faults := fs, jobs := xs @ marked now r # ys\<rparr>" for fs
    using update_marked [of "s\<lparr>faults := fs\<rparr>"] assms(1) s by (simp add: store_inv_def)
  have n: "\<And>fs. next_queued 2 (s\<lparr>faults := fs\<rparr>) = Some (scan_job r)" using nq by simp
  have tx: "claim_tx now 2 (s\<lparr>faults := [None, None, None, Some e]\<rparr>) =
      (Inr (Some (j_id (cols r))), s\<lparr>faults := [Some e], jobs := xs @ marked now r # ys\<rparr>)"
    by (simp add: claim_tx_def seq_def db_query_def db_exec_def db_ping_def db_stmt_def n nq u)
  have p: "db_ping ?t = (Inr (), s\<lparr>faults := [None, None, None, Some e]\<rparr>)"
    by (simp add: db_ping_def db_exec_def db_stmt_def)
  have itx: "in_tx (claim_tx now 2) (s\<lparr>faults := [None, None, None, Some e]\<rparr>) =
      (Inr (Some (j_id (cols r))), s\<lparr>faults := [Some e], jobs := xs @ marked now r # ys\<rparr>)"
    by (simp add: in_tx_def tx)
  have g: "get_job (j_id (cols r)) (s\<lparr>faults := [Some e], jobs := xs @ marked now r # ys\<rparr>) = (Inl e, ?s')"
    by (simp add: get_job_def db_stmt_def)
  have c: "claim_next_queued_job now 2 ?t = (Inl e, ?s')"
    by (simp add: claim_next_queued_job_def seq_def p itx g)
  have nq': "never_queued (j_id (cols r)) ?s'"
    using never_queued_marked [of "j_id (cols r)" now "s\<lparr>faults := []\<rparr>"] u [of "[]"] by simp
  have lost: "j_id j \<noteq> j_id (cols r)" if "\<forall>ev \<in> set es. creates ev \<noteq> Some (j_id (cols r))"
    "claim_next_queued_job now' mx' (run (store_step quoted) ?s' es) = (Inr (Some j), s'')" for es now' mx' j s''
  proof -
    have "admissible (store_step quoted) (\<lambda>s e. creates e \<noteq> Some (j_id (cols r))) t es" for t
      using that(1) by (induction es arbitrary: t) auto
    from handed_out.run_inv [OF nq' this] claim_Some(1) [OF that(2)] show ?thesis by metis
  qed
  show ?thesis unfolding c prod.case
    by (intro conjI allI impI, simp, simp add: marked_def, rule lost)
qed

theorem claim_lost_after_commit_witness:
  "\<exists>r qs. queue_rows 2 one_queued = r # qs \<and>
     fst (claim_next_queued_job noon 2 (one_queued\<lparr>faults := [None, None, None, None, Some ''disk I/O error'']\<rparr>))
       = Inl ''disk I/O error''"
proof -
  obtain r qs where q: "queue_rows 2 one_queued = r # qs"
    using one_queued_rows by (cases "queue_rows 2 one_queued") auto
  from claim_lost_after_commit [OF one_queued_inv(1) q, where now = noon and e = "''disk I/O error''" and quoted = id] q
  show ?thesis by (auto split: prod.splits)
qed

section \<open>Logs\<close>

lemma sort_key_sorted_id: "sorted (map f xs) \<Longrightarrow> sort_key f xs = xs"
  by (rule sort_key_id_if_sorted)

lemma numbered_sorted: "numbered ls \<Longrightarrow> sorted (map l_sequence ls)"
  unfolding numbered_def by (simp add: sorted_map del: upt_Suc)

lemma numbered_nth: "numbered ls \<Longrightarrow> i < length ls \<Longrightarrow> l_sequence (ls ! i) = int (Suc i)"
proof -
  assume n: "numbered ls" and i: "i < length ls"
  have "l_sequence (ls ! i) = map l_sequence ls ! i" using i by simp
  also have "\<dots> = map int [1..<Suc (length ls)] ! i" using n by (simp only: numbered_def)
  also have "\<dots> = int (Suc i)" using i by (simp del: upt_Suc)
  finally show ?thesis .
qed

lemma numbered_after:
  assumes "numbered ls" shows "filter (\<lambda>l. l_sequence l > int k) ls = drop k ls"
proof -
  have t: "filter (\<lambda>l. l_sequence l > int k) (take k ls) = []"
    using numbered_nth [OF assms] by (auto simp: filter_empty_conv in_set_conv_nth)
  have d: "filter (\<lambda>l. l_sequence l > int k) (drop k ls) = drop k ls"
    using numbered_nth [OF assms] by (auto simp: filter_id_conv in_set_conv_nth)
  have "filter (\<lambda>l. l_sequence l > int k) ls = filter (\<lambda>l. l_sequence l > int k) (take k ls @ drop k ls)"
    by simp
  then show ?thesis by (simp only: filter_append t d append_Nil)
qed

lemma list_logs_drop:
  assumes "store_inv s" "faults s = []"
  shows "list_logs jid (int k) s = (Inr (map scan_log (drop k (logs_of jid (logs s)))), s)"
proof -
  let ?ls = "logs_of jid (logs s)"
  have n: "numbered ?ls" using assms(1) by (simp add: store_inv_def logs_inv_def)
  have f: "filter (\<lambda>l. l_job_id l = jid \<and> l_sequence l > int k) (logs s) = drop k ?ls"
    using numbered_after [OF n, of k] by (simp add: logs_of_def conj_commute)
  have "sorted (map l_sequence (drop k ?ls))"
    using numbered_sorted [OF n] by (metis drop_map sorted_wrt_drop)
  then show ?thesis
    by (simp add: list_logs_def db_query_no_fault [OF assms(2)] f sort_key_sorted_id)
qed

lemma append_log_no_fault:
  "faults s = [] \<Longrightarrow> append_log now jid stream msg s = (Inr (), insert_log now jid (next_sequence jid s) stream msg s)"
  by (simp add: append_log_def seq_def act_simps)

text \<open>
  C30. The cursor of the log view: in every reachable store, a client that passes the number of
  lines it has seen gets exactly the remaining lines of the job, in the order they were
  appended. After a further append, a client that had seen all lines gets that line alone, and
  readers of other jobs see nothing new.
\<close>

theorem list_logs_cursor:
  assumes "store_inv s" "faults s = []" "valid_time now"
  shows "list_logs jid (int k) s = (Inr (map scan_log (drop k (logs_of jid (logs s)))), s) \<and>
    (case append_log now jid stream msg s of (r, s') \<Rightarrow> r = Inr () \<and>
      list_logs jid (int (length (logs_of jid (logs s)))) s' =
        (Inr [\<lparr>bl_sequence = int (Suc (length (logs_of jid (logs s)))), bl_timestamp = now,
               bl_stream = stream, bl_message = msg\<rparr>], s') \<and>
      (\<forall>other. other \<noteq> jid \<longrightarrow> fst (list_logs other (int k) s') = fst (list_logs other (int k) s)))"
proof -
  define n where "n = length (logs_of jid (logs s))"
  let ?s' = "insert_log now jid (next_sequence jid s) stream msg s"
  have i: "store_inv ?s'" "faults ?s' = []"
    using store_inv_insert_log [OF assms(1,3)] assms(2) by (simp_all add: insert_log_def)
  have l: "logs ?s' = logs s @ [\<lparr>l_id = Suc (log_counter s), l_job_id = jid,
      l_sequence = int (Suc n), l_timestamp = format_time now, l_stream = stream, l_message = msg\<rparr>]"
    using next_sequence_eq [OF assms(1), of jid] by (simp add: insert_log_def n_def)
  have "list_logs jid (int n) ?s' = (Inr [\<lparr>bl_sequence = int (Suc n), bl_timestamp = now,
        bl_stream = stream, bl_message = msg\<rparr>], ?s')"
    using list_logs_drop [OF i, of jid n]
    by (simp add: l logs_of_snoc n_def scan_log_def scan_time_def parse_format_time [OF assms(3)])
  moreover have "fst (list_logs other (int k) ?s') = fst (list_logs other (int k) s)" if "other \<noteq> jid" for other
    using list_logs_drop [OF i, of other k] list_logs_drop [OF assms(1,2), of other k] that
    by (simp add: l logs_of_snoc)
  ultimately show ?thesis
    unfolding append_log_no_fault [OF assms(2)] n_def list_logs_drop [OF assms(1,2)] by simp
qed

theorem list_logs_cursor_witness:
  "fst (list_logs ''b1'' 0 (snd (append_log noon ''b1'' ''stdout'' ''go build'' one_queued)))
     = Inr [\<lparr>bl_sequence = 1, bl_timestamp = noon, bl_stream = ''stdout'', bl_message = ''go build''\<rparr>]"
proof -
  have n: "logs_of ''b1'' (logs one_queued) = []"
    by (simp add: one_queued_def create_job_def Let_def db_stmt_def empty_store_def logs_of_def)
  show ?thesis
    using list_logs_cursor [OF one_queued_inv valid_noon, of "''b1''" 0 "''stdout''" "''go build''"] n
    by (auto split: prod.splits)
qed

text \<open>
  The two statements of \<open>AppendLog\<close> are not one: when two requests append to a job and both
  read the next sequence number before either inserts, both lines get the same number, and a
  client whose cursor has reached it after the first insert never receives the second line.
\<close>

theorem append_log_interleaved:
  assumes "store_inv s" "faults s = []"
  shows "case db_query (next_sequence jid) s of (Inl e, _) \<Rightarrow> False
    | (Inr n, _) \<Rightarrow>
       (case snd (db_exec (insert_log now jid n out1 msg1) s) of s1 \<Rightarrow>
        case snd (db_exec (insert_log now' jid n out2 msg2) s1) of s2 \<Rightarrow>
         map (\<lambda>l. (bl_sequence l, bl_message l)) (projr (fst (list_logs jid (n - 1) s1))) = [(n, msg1)] \<and>
         map (\<lambda>l. (bl_sequence l, bl_message l)) (projr (fst (list_logs jid (n - 1) s2))) = [(n, msg1), (n, msg2)] \<and>
         fst (list_logs jid n s2) = Inr [])"
proof -
  define n where "n = next_sequence jid s"
  have le: "l_sequence l \<le> n - 1" if "l \<in> set (logs s)" "l_job_id l = jid" for l
  proof -
    have "numbered (logs_of jid (logs s))" using assms(1) by (simp add: store_inv_def logs_inv_def)
    moreover have "l \<in> set (logs_of jid (logs s))" using that by (simp add: logs_of_def)
    ultimately show ?thesis
      using numbered_nth by (fastforce simp: n_def next_sequence_eq [OF assms(1)] in_set_conv_nth)
  qed
  have e: "filter (\<lambda>l. l_job_id l = jid \<and> n - 1 < l_sequence l) (logs s) = []"
    "filter (\<lambda>l. l_job_id l = jid \<and> n < l_sequence l) (logs s) = []"
    using le by (force simp: filter_empty_conv)+
  show ?thesis
    by (simp add: act_simps assms(2) n_def [symmetric] insert_log_def list_logs_def e scan_log_def)
qed

theorem append_log_interleaved_witness:
  "fst (list_logs ''b1'' 1 (snd (db_exec (insert_log noon ''b1'' 1 ''stderr'' ''b'')
     (snd (db_exec (insert_log noon ''b1'' 1 ''stdout'' ''a'') one_queued))))) = Inr []"
proof -
  have "next_sequence ''b1'' one_queued = 1"
    by (simp add: one_queued_def create_job_def Let_def db_stmt_def empty_store_def next_sequence_def)
  then show ?thesis
    using append_log_interleaved [OF one_queued_inv, of "''b1''" noon "''stdout''" "''a''" noon "''stderr''" "''b''"]
    by (simp add: db_query_no_fault)
qed

section \<open>Which build is the newest\<close>

definition created :: "job_row \<Rightarrow> gotime" where
  "created r = scan_time (j_created_at (cols r))"

lemma created_stamp:
  assumes "store_inv s" "r \<in> set (jobs s)"
  shows "valid_time (created r)" "j_created_at (cols r) = format_time (created r)"
proof -
  have "stamp (j_created_at (cols r))" using assms by (auto simp: store_inv_def jobs_inv_def row_ok_def)
  then obtain t where "valid_time t" "j_created_at (cols r) = format_time t" by (auto simp: stamp_def)
  then show "valid_time (created r)" "j_created_at (cols r) = format_time (created r)"
    by (simp_all add: created_def scan_time_def parse_format_time)
qed

lemma created_le:
  assumes "store_inv s" "r \<in> set (jobs s)" "q \<in> set (jobs s)" "j_created_at (cols q) \<le> j_created_at (cols r)"
  shows "second_key (created q) \<le> second_key (created r)"
proof (rule ccontr)
  assume "\<not> ?thesis"
  then have "second_key (created r) < second_key (created q)" by simp
  then have "format_time (created r) < format_time (created q)"
    by (simp add: format_time_less created_stamp [OF assms(1)] assms(2,3))
  with assms(4) created_stamp(2) [OF assms(1,2)] created_stamp(2) [OF assms(1,3)] show False by simp
qed

lemma sorted_map_last: "sorted (map f xs) \<Longrightarrow> x \<in> set xs \<Longrightarrow> xs \<noteq> [] \<Longrightarrow> f x \<le> f (last xs)"
  by (induction xs) auto

lemma get_job_by_app_name_no_fault:
  "faults s = [] \<Longrightarrow> get_job_by_app_name app s =
    (Inr (case rev (by_created (filter (\<lambda>r. j_app_name (cols r) = app) (jobs s))) of
       [] \<Rightarrow> None | r # _ \<Rightarrow> Some (scan_job r)), s)"
  by (simp add: get_job_by_app_name_def db_query_no_fault)

lemma scan_job_fields [simp]:
  "j_app_name (scan_job r) = j_app_name (cols r)" "j_status (scan_job r) = j_status (cols r)"
  "j_created_at (scan_job r) = created r"
  by (simp_all add: scan_job_def Let_def created_def)

text \<open>
  The status check of every handler reads the app's newest build, to the second: in a
  reachable store the job returned for an app is one of its rows, no row of the app was created
  in a later second, and nothing is returned only when the app has no row.
\<close>

theorem get_job_by_app_name_newest:
  assumes "store_inv s" "faults s = []"
  shows "case get_job_by_app_name app s of (Inl e, s') \<Rightarrow> False
    | (Inr None, s') \<Rightarrow> s' = s \<and> (\<forall>q \<in> set (jobs s). j_app_name (cols q) \<noteq> app)
    | (Inr (Some j), s') \<Rightarrow> s' = s \<and> (\<exists>r \<in> set (jobs s). j = scan_job r \<and> j_app_name (cols r) = app \<and>
         (\<forall>q \<in> set (jobs s). j_app_name (cols q) = app \<longrightarrow>
            second_key (created q) \<le> second_key (j_created_at j)))"
proof -
  let ?P = "\<lambda>r. j_app_name (cols r) = app"
  let ?rs = "by_created (filter ?P (jobs s))"
  show ?thesis
  proof (cases "rev ?rs")
    case Nil
    then have "set ?rs = {}" by simp
    then have "\<forall>q \<in> set (jobs s). \<not> ?P q" unfolding by_created_set by auto
    then show ?thesis by (simp add: get_job_by_app_name_no_fault [OF assms(2)] Nil del: by_created_set)
  next
    case (Cons r qs)
    then have l: "?rs \<noteq> []" "last ?rs = r" by (auto simp: rev_swap)
    then have "r \<in> set ?rs" by (metis last_in_set)
    then have r: "r \<in> set (jobs s)" "?P r" by simp_all
    have "second_key (created q) \<le> second_key (created r)" if "q \<in> set (jobs s)" "?P q" for q
    proof -
      have "q \<in> set ?rs" using that by simp
      then have "j_created_at (cols q) \<le> j_created_at (cols r)"
        using sorted_map_last [OF by_created_sorted _ l(1), of q] l(2) by simp
      then show ?thesis by (rule created_le [OF assms(1) r(1) that(1)])
    qed
    with r show ?thesis
      by (auto simp: get_job_by_app_name_no_fault [OF assms(2)] Cons)
  qed
qed

theorem get_job_by_app_name_newest_witness:
  "case get_job_by_app_name ''shop'' one_queued of (Inr (Some j), s') \<Rightarrow> j_app_name j = ''shop'' | _ \<Rightarrow> False"
proof -
  have "\<exists>q \<in> set (jobs one_queued). j_app_name (cols q) = ''shop''"
    by (simp add: one_queued_def create_job_def Let_def db_stmt_def empty_store_def new_row_def sample_job_def)
  with get_job_by_app_name_newest [OF one_queued_inv, of "''shop''"] show ?thesis
    by (auto split: prod.splits sum.splits option.splits)
qed

definition at_nanos :: "nat \<Rightarrow> gotime" where
  "at_nanos n = noon\<lparr>nanos := n\<rparr>"

definition two_builds :: store where
  "two_builds =
     snd (create_job (at_nanos 120000000) (sample_job\<lparr>j_id := ''b2''\<rparr>)
       (snd (update_runner_status id (at_nanos 110000000) ''b1'' (failure_report ''no Dockerfile'')
         (snd (create_job (at_nanos 100000000) sample_job empty_store)))))"

lemma same_second_text:
  "format_time (at_nanos 120000000) < format_time (at_nanos 100000000)"
proof -
  have v: "valid_time (at_nanos 100000000)" "valid_time (at_nanos 120000000)"
    by (simp_all add: at_nanos_def noon_def valid_time_def days_in_def leap_year_def)
  have nine: "9 = Suc (Suc (Suc (Suc (Suc (Suc (Suc (Suc (Suc 0))))))))" by simp
  have p: "pad 9 100000000 = ''100000000''" "pad 9 120000000 = ''120000000''"
    unfolding nine pad.simps by (simp_all add: digit_char_def)
  show ?thesis
    unfolding format_time_less [OF v(2,1)]
    by (simp add: at_nanos_def noon_def second_key_def frac_def frac_digits_def p trim_right_char_def)
qed

text \<open>
  Within one second it need not be the newest. Times are stored with the zeros of their
  fraction cut, and compared as text: a job created at 12:00:00.1 sorts after one created at
  12:00:00.12. So for an app whose first build failed and whose second is queued a moment later,
  the handlers are shown the failed one, and let a third build start beside the queued one.
\<close>

theorem newest_job_within_second:
  "before (at_nanos 100000000) (at_nanos 120000000) \<and>
   map (\<lambda>r. (j_id (cols r), j_status (cols r))) (jobs two_builds) = [(''b1'', status_failed), (''b2'', status_queued)] \<and>
   map_option (\<lambda>j. (j_id j, j_status j)) (projr (fst (get_job_by_app_name ''shop'' two_builds))) = Some (''b1'', status_failed)"
proof -
  define r1 where "r1 = \<lparr>rowid = 1, cols = report_failed (at_nanos 110000000) (failure_report ''no Dockerfile'')
      (new_row (sample_job\<lparr>j_created_at := at_nanos 100000000, j_updated_at := at_nanos 100000000\<rparr>))\<rparr>"
  define r2 where "r2 = \<lparr>rowid = 2, cols = new_row (sample_job\<lparr>j_id := ''b2'', j_created_at := at_nanos 120000000,
      j_updated_at := at_nanos 120000000\<rparr>)\<rparr>"
  have j: "jobs two_builds = [r1, r2]" and f: "faults two_builds = []"
    by (simp_all add: two_builds_def create_job_def update_runner_status_def db_exec_def db_stmt_def Let_def
        empty_store_def failure_report_def job_where_def update_where_def report_failed_def new_row_def
        sample_job_def next_rowid_def r1_def r2_def)
  have c: "j_created_at (cols r1) = format_time (at_nanos 100000000)"
    "j_created_at (cols r2) = format_time (at_nanos 120000000)"
    "j_app_name (cols r1) = ''shop''" "j_app_name (cols r2) = ''shop''"
    "j_id (cols r1) = ''b1''" "j_id (cols r2) = ''b2''"
    "j_status (cols r1) = status_failed" "j_status (cols r2) = status_queued"
    by (simp_all add: r1_def r2_def report_failed_def new_row_def sample_job_def)
  have "by_created [r1, r2] = [r2, r1]"
    using same_second_text by (simp add: by_created_def c)
  then show ?thesis
    by (simp add: j c get_job_by_app_name_no_fault [OF f] before_def time_key_def second_key_def at_nanos_def noon_def)
qed

section \<open>Listings\<close>

definition clamp_limit :: "int \<Rightarrow> nat" where
  "clamp_limit n = (if n \<le> 0 \<or> n > 200 then 50 else nat n)"

definition newest_first :: "job_row list \<Rightarrow> job_row list" where
  "newest_first rs = rev (by_created (rev rs))"

lemma newest_first_mset [simp]: "mset (newest_first rs) = mset rs"
  by (simp add: newest_first_def)

lemma newest_first_sorted:
  "sorted_wrt (\<lambda>q r. j_created_at (cols r) \<le> j_created_at (cols q)) (newest_first rs)"
  using by_created_sorted [of "rev rs"] by (simp add: newest_first_def sorted_wrt_rev sorted_map)

text \<open>
  The build history is bounded and holds the newest builds: for a healthy, reachable store
  it is the first 1 to 200 rows (50 when the limit is out of range) of a rearrangement of all
  rows in which no row comes before one created in a later second.
\<close>

theorem list_jobs_newest:
  assumes "store_inv s" "faults s = []"
  shows "\<exists>rs. mset rs = mset (jobs s) \<and> length (take (clamp_limit n) rs) \<le> 200 \<and>
    sorted_wrt (\<lambda>q r. second_key (created r) \<le> second_key (created q)) rs \<and>
    list_jobs n s = (Inr (map scan_job (take (clamp_limit n) rs)), s)"
proof (intro exI conjI)
  let ?rs = "newest_first (jobs s)"
  show "mset ?rs = mset (jobs s)" by simp
  show "length (take (clamp_limit n) ?rs) \<le> 200" by (auto simp: clamp_limit_def)
  have "set ?rs = set (jobs s)" by (metis newest_first_mset mset_eq_setD)
  then show "sorted_wrt (\<lambda>q r. second_key (created r) \<le> second_key (created q)) ?rs"
    using newest_first_sorted [of "jobs s"] created_le [OF assms(1)]
    by (auto elim!: sorted_wrt_mono_rel [rotated])
  show "list_jobs n s = (Inr (map scan_job (take (clamp_limit n) ?rs)), s)"
    by (simp add: list_jobs_def Let_def db_query_no_fault assms(2) newest_first_def clamp_limit_def)
qed

theorem list_jobs_newest_witness:
  "\<exists>js. list_jobs 0 one_queued = (Inr js, one_queued) \<and> length js = 1"
proof -
  have "length (jobs one_queued) = 1"
    by (simp add: one_queued_def create_job_def Let_def db_stmt_def empty_store_def)
  with list_jobs_newest [OF one_queued_inv, of 0] show ?thesis
    by (auto simp: clamp_limit_def dest!: mset_eq_length)
qed

lemma max_rowid_mem:
  assumes "\<exists>r \<in> set rs. j_app_name (cols r) = app"
  shows "\<exists>r \<in> set rs. j_app_name (cols r) = app \<and> rowid r = max_rowid_of_app app rs"
proof -
  let ?S = "set (map rowid (filter (\<lambda>r. j_app_name (cols r) = app) rs))"
  have "Max ?S \<in> ?S" using assms by (intro Max_in) (auto simp: filter_empty_conv)
  then show ?thesis by (auto simp: max_rowid_of_app_def)
qed

lemma max_rowid_ge:
  "q \<in> set rs \<Longrightarrow> rowid q \<le> max_rowid_of_app (j_app_name (cols q)) rs"
  unfolding max_rowid_of_app_def by (rule Max_ge) auto

definition last_of_app :: "job_row list \<Rightarrow> job_row \<Rightarrow> bool" where
  "last_of_app rs r \<longleftrightarrow> (\<forall>q \<in> set rs. j_app_name (cols q) = j_app_name (cols r) \<longrightarrow> rowid q \<le> rowid r)"

definition repo_of :: "job_row \<Rightarrow> app_repo" where
  "repo_of r = \<lparr>ar_app_name = j_app_name (cols r), ar_repo_url = j_repo_url (cols r), ar_ref = j_ref (cols r)\<rparr>"

lemma repo_of_name [simp]: "ar_app_name (repo_of r) = j_app_name (cols r)"
  by (simp add: repo_of_def)

lemma kept_rows:
  assumes d: "distinct (map rowid rs)" and r: "r \<in> set rs"
  shows "rowid r \<in> set (map (\<lambda>q. max_rowid_of_app (j_app_name (cols q)) rs) rs) \<longleftrightarrow> last_of_app rs r"
proof
  assume "rowid r \<in> set (map (\<lambda>q. max_rowid_of_app (j_app_name (cols q)) rs) rs)"
  then obtain q where q: "q \<in> set rs" "rowid r = max_rowid_of_app (j_app_name (cols q)) rs" by auto
  from max_rowid_mem [of rs "j_app_name (cols q)"] q obtain m
    where m: "m \<in> set rs" "j_app_name (cols m) = j_app_name (cols q)" "rowid m = rowid r" by auto
  with d r have "m = r" by (auto simp: distinct_map inj_on_def)
  then show "last_of_app rs r"
    using m q unfolding last_of_app_def by (metis max_rowid_ge)
next
  assume l: "last_of_app rs r"
  from max_rowid_mem [of rs "j_app_name (cols r)"] r obtain m
    where m: "m \<in> set rs" "j_app_name (cols m) = j_app_name (cols r)"
      "rowid m = max_rowid_of_app (j_app_name (cols r)) rs" by auto
  with l max_rowid_ge [OF r] have "rowid r = max_rowid_of_app (j_app_name (cols r)) rs"
    by (simp add: last_of_app_def) (metis dual_order.antisym)
  with r show "rowid r \<in> set (map (\<lambda>q. max_rowid_of_app (j_app_name (cols q)) rs) rs)" by auto
qed

lemma last_of_app_inj:
  assumes "distinct (map rowid rs)"
  shows "distinct (map (\<lambda>r. j_app_name (cols r)) (filter (last_of_app rs) rs))"
proof -
  have "inj_on (\<lambda>r. j_app_name (cols r)) {r \<in> set rs. last_of_app rs r}"
  proof (rule inj_onI)
    fix q r assume "q \<in> {r \<in> set rs. last_of_app rs r}" "r \<in> {r \<in> set rs. last_of_app rs r}"
      "j_app_name (cols q) = j_app_name (cols r)"
    then have "q \<in> set rs" "r \<in> set rs" "rowid q = rowid r"
      by (auto simp: last_of_app_def intro: dual_order.antisym)
    with assms show "q = r" by (auto simp: distinct_map inj_on_def)
  qed
  moreover have "distinct rs" using assms by (simp add: distinct_map)
  ultimately show ?thesis by (simp add: distinct_map)
qed

lemma sorted_wrt_less_distinct: "sorted_wrt (<) (xs :: nat list) \<Longrightarrow> distinct xs"
  by (induction xs) auto

text \<open>
  The webhook looks at each app once, at its last build: for a reachable store, the rows
  \<open>ListAppRepos\<close> keeps are exactly those no later row (by row id) of the same app follows, in
  insertion order; so every app with a build is listed exactly once, and nothing else is.
\<close>

theorem list_app_repos_last:
  assumes "store_inv s" "faults s = []"
  shows "\<exists>rs. list_app_repos s = (Inr (map repo_of rs), s) \<and> rs = filter (last_of_app (jobs s)) (jobs s) \<and>
    distinct (map (\<lambda>r. j_app_name (cols r)) rs) \<and>
    set (map (\<lambda>r. j_app_name (cols r)) rs) = set (map (\<lambda>r. j_app_name (cols r)) (jobs s))"
proof (intro exI conjI)
  let ?rs = "filter (last_of_app (jobs s)) (jobs s)"
  have d: "distinct (map rowid (jobs s))"
    using assms(1) by (auto simp: store_inv_def jobs_inv_def intro: sorted_wrt_less_distinct)
  have "filter (\<lambda>r. rowid r \<in> set (map (\<lambda>q. max_rowid_of_app (j_app_name (cols q)) (jobs s)) (jobs s))) (jobs s) = ?rs"
    by (rule filter_cong [OF refl kept_rows [OF d]])
  then show "list_app_repos s = (Inr (map repo_of ?rs), s)"
    unfolding list_app_repos_def db_query_no_fault [OF assms(2)] repo_of_def by simp
  show "?rs = ?rs" ..
  show "distinct (map (\<lambda>r. j_app_name (cols r)) ?rs)" by (rule last_of_app_inj [OF d])
  have "j_app_name (cols q) \<in> (\<lambda>r. j_app_name (cols r)) ` set ?rs" if "q \<in> set (jobs s)" for q
  proof -
    from max_rowid_mem [of "jobs s" "j_app_name (cols q)"] that obtain m
      where "m \<in> set (jobs s)" "j_app_name (cols m) = j_app_name (cols q)"
        "rowid m = max_rowid_of_app (j_app_name (cols q)) (jobs s)" by auto
    moreover from this have "last_of_app (jobs s) m"
      unfolding last_of_app_def by (metis max_rowid_ge)
    ultimately show ?thesis by (metis (mono_tags, lifting) image_eqI mem_Collect_eq set_filter)
  qed
  then show "set (map (\<lambda>r. j_app_name (cols r)) ?rs) = set (map (\<lambda>r. j_app_name (cols r)) (jobs s))" by auto
qed

theorem list_app_repos_last_witness:
  "projr (fst (list_app_repos one_queued)) = [\<lparr>ar_app_name = ''shop'', ar_repo_url = ''https://github.com/a/shop'', ar_ref = ''main''\<rparr>]"
proof -
  have "jobs one_queued = [\<lparr>rowid = 1, cols = new_row (sample_job\<lparr>j_created_at := noon, j_updated_at := noon\<rparr>)\<rparr>]"
    by (simp add: one_queued_def create_job_def Let_def db_stmt_def empty_store_def next_rowid_def)
  then show ?thesis
    using list_app_repos_last [OF one_queued_inv]
    by (auto simp: last_of_app_def repo_of_def new_row_def sample_job_def)
qed

end
