(* ===== verification/GitOps.thy ===== *)
theory GitOps
  imports GoStrings
begin

text \<open>
  internal/git/gitops.go: every write of the platform to its GitOps repository. go-git, the
  file system and the YAML library are not part of the sources, so they are arguments: a record
  of actions over a world \<open>'w\<close> holding the server, the clone and the disk, and a pair of YAML
  functions per document type. The code uses one working directory, so a repository handle
  carries nothing and is not represented.
\<close>

section \<open>Paths\<close>

text \<open>\<open>path.Clean\<close>, \<open>filepath.Join\<close> and \<open>filepath.Dir\<close> on Unix.\<close>

definition clean_step :: "bool \<Rightarrow> string list \<Rightarrow> string \<Rightarrow> string list" where
  "clean_step rooted st c =
     (if c = [] \<or> c = ''.'' then st
      else if c = ''..'' then
        (if st \<noteq> [] \<and> last st \<noteq> ''..'' then butlast st else if rooted then st else st @ [c])
      else st @ [c])"

definition path_clean :: "string \<Rightarrow> string" where
  "path_clean p = (let rooted = has_prefix p ''/'';
       st = foldl (clean_step rooted) [] (split_on (CHR ''/'') p)
     in if rooted then ''/'' @ join_with ''/'' st
        else if st = [] then ''.'' else join_with ''/'' st)"

definition path_join :: "string list \<Rightarrow> string" where
  "path_join ps = (let qs = filter (\<lambda>p. p \<noteq> []) ps
     in if qs = [] then [] else path_clean (join_with ''/'' qs))"

definition path_dir :: "string \<Rightarrow> string" where
  "path_dir p = path_clean (rev (dropWhile (\<lambda>c. c \<noteq> CHR ''/'') (rev p)))"

section \<open>What the code calls\<close>

datatype os_error = Not_exist string | Os_failed string
datatype push_error = Already_up_to_date | Push_failed string

fun os_text :: "os_error \<Rightarrow> string" where
  "os_text (Not_exist e) = e"
| "os_text (Os_failed e) = e"

record 'w git_env =
  ge_remove_all :: "string \<Rightarrow> 'w \<Rightarrow> 'w"
  ge_plain_clone :: "string \<Rightarrow> string \<Rightarrow> ('w, unit) act"
  ge_worktree :: "('w, unit) act"
  ge_checkout :: "string \<Rightarrow> ('w, unit) act"
  ge_stat :: "string \<Rightarrow> 'w \<Rightarrow> (os_error + unit) \<times> 'w"
  ge_mkdir_all :: "string \<Rightarrow> ('w, unit) act"
  ge_read_file :: "string \<Rightarrow> 'w \<Rightarrow> (os_error + string) \<times> 'w"
  ge_write_file :: "string \<Rightarrow> string \<Rightarrow> ('w, unit) act"
  ge_add :: "string \<Rightarrow> ('w, unit) act"
  ge_commit :: "string \<Rightarrow> string \<Rightarrow> string \<Rightarrow> ('w, string) act"
  ge_push :: "string list \<Rightarrow> 'w \<Rightarrow> (push_error + unit) \<times> 'w"
  ge_create_branch :: "string \<Rightarrow> string \<Rightarrow> string \<Rightarrow> ('w, unit) act"
  ge_set_reference :: "string \<Rightarrow> string \<Rightarrow> ('w, unit) act"
  ge_head :: "('w, string) act"
  ge_commit_object :: "string \<Rightarrow> ('w, unit) act"

record git_ops =
  g_username :: string
  g_token :: string
  g_work_dir :: string

definition gitops_repo_url :: string where
  "gitops_repo_url = ''https://github.com/sasiruLK/gitops-lab.git''"

definition new_gitops :: "(string \<Rightarrow> string) \<Rightarrow> git_ops" where
  "new_gitops getenv = \<lparr>g_username = getenv ''GITHUB_USERNAME'', g_token = getenv ''GITHUB_TOKEN'',
     g_work_dir = ''/tmp/gitops-lab''\<rparr>"

definition main_branch :: string where
  "main_branch = ''refs/heads/main''"

section \<open>Cloning and publishing\<close>

definition clone_repo :: "'w git_env \<Rightarrow> git_ops \<Rightarrow> ('w, unit) act" where
  "clone_repo E g w =
     (let url = (if g_username g \<noteq> [] \<and> g_token g \<noteq> []
                 then ''https://'' @ g_username g @ '':'' @ g_token g @ ''@github.com/sasiruLK/gitops-lab.git''
                 else gitops_repo_url)
      in seq (ge_plain_clone E (g_work_dir g) url) (\<lambda>e. ''failed to clone repo: '' @ e) ret
           (ge_remove_all E (g_work_dir g) w))"

text \<open>Clone, Worktree, Checkout of main: how every operation on main begins.\<close>

definition open_main :: "'w git_env \<Rightarrow> git_ops \<Rightarrow> ('w, unit) act" where
  "open_main E g =
     seq (clone_repo E g) (\<lambda>e. e) (\<lambda>_. seq (ge_worktree E) (\<lambda>e. e)
       (\<lambda>_. seq (ge_checkout E main_branch) (\<lambda>e. ''failed to checkout main: '' @ e) ret))"

definition path_exists :: "'w git_env \<Rightarrow> git_ops \<Rightarrow> string \<Rightarrow> ('w, bool) act" where
  "path_exists E g rel = seq (open_main E g) (\<lambda>e. e) (\<lambda>_ w.
     case ge_stat E (path_join [g_work_dir g, rel]) w of
       (Inr _, w') \<Rightarrow> (Inr True, w')
     | (Inl (Not_exist _), w') \<Rightarrow> (Inr False, w')
     | (Inl (Os_failed e), w') \<Rightarrow> (Inl e, w'))"

definition push_to :: "'w git_env \<Rightarrow> string list \<Rightarrow> string \<Rightarrow> ('w, unit) act" where
  "push_to E refspecs prefix w = (case ge_push E refspecs w of
       (Inr _, w') \<Rightarrow> (Inr (), w')
     | (Inl Already_up_to_date, w') \<Rightarrow> (Inr (), w')
     | (Inl (Push_failed e), w') \<Rightarrow> (Inl (prefix @ e), w'))"

definition email_of :: "string \<Rightarrow> string" where
  "email_of author = author @ ''@tinycloud.local''"

text \<open>The files of a commit are a Go map; the argument lists it in iteration order.\<close>

definition write_and_stage :: "'w git_env \<Rightarrow> git_ops \<Rightarrow> string \<Rightarrow> string \<Rightarrow> ('w, unit) act" where
  "write_and_stage E g rel content = (let full = path_join [g_work_dir g, rel] in
     seq (ge_mkdir_all E (path_dir full)) (\<lambda>e. ''failed to create directory for '' @ rel @ '': '' @ e)
      (\<lambda>_. seq (ge_write_file E full content) (\<lambda>e. ''failed to write '' @ rel @ '': '' @ e)
      (\<lambda>_. seq (ge_add E rel) (\<lambda>e. ''failed to stage '' @ rel @ '': '' @ e) ret)))"

fun write_all :: "'w git_env \<Rightarrow> git_ops \<Rightarrow> (string \<times> string) list \<Rightarrow> ('w, unit) act" where
  "write_all E g [] = ret ()"
| "write_all E g ((rel, content) # files) =
     seq (write_and_stage E g rel content) (\<lambda>e. e) (\<lambda>_. write_all E g files)"

definition commit_files ::
    "'w git_env \<Rightarrow> git_ops \<Rightarrow> string \<Rightarrow> (string \<times> string) list \<Rightarrow> string \<Rightarrow> ('w, string) act" where
  "commit_files E g message files author =
     seq (open_main E g) (\<lambda>e. e) (\<lambda>_.
     seq (write_all E g files) (\<lambda>e. e) (\<lambda>_.
     let author = (if author = [] then ''tinycloud-api'' else author) in
     seq (ge_commit E message author (email_of author)) (\<lambda>e. ''failed to commit: '' @ e) (\<lambda>hash.
     seq (push_to E [] ''failed to push commit: '') (\<lambda>e. e) (\<lambda>_. ret hash))))"

section \<open>Suspending an app\<close>

text \<open>
  YAML values as gopkg.in/yaml.v2 builds them in an \<open>interface{}\<close>: a mapping is a
  \<open>map[string]interface{}\<close> (\<open>Y_strmap\<close>) or a \<open>map[interface{}]interface{}\<close> (\<open>Y_map\<close>), two
  different types to a Go type assertion.
\<close>

datatype yaml = Y_null | Y_bool bool | Y_int int | Y_str string | Y_seq "yaml list"
  | Y_map "(yaml \<times> yaml) list" | Y_strmap "(string \<times> yaml) list"

type_synonym yaml_doc = "(string \<times> yaml) list"

record 'a yaml_codec =
  y_unmarshal :: "string \<Rightarrow> 'a result"
  y_marshal :: "'a \<Rightarrow> string result"

fun set_key :: "'k \<Rightarrow> 'v \<Rightarrow> ('k \<times> 'v) list \<Rightarrow> ('k \<times> 'v) list" where
  "set_key k v [] = [(k, v)]"
| "set_key k v ((l, u) # xs) = (if k = l then (k, v) # xs else (l, u) # set_key k v xs)"

definition patch_deployment_replicas :: "yaml_doc yaml_codec \<Rightarrow> string \<Rightarrow> int \<Rightarrow> string result" where
  "patch_deployment_replicas Y data replicas = (case y_unmarshal Y data of
     Inl e \<Rightarrow> Inl (''failed to parse deployment yaml: '' @ e)
   | Inr doc \<Rightarrow> (case map_of doc ''spec'' of
       Some (Y_strmap spec) \<Rightarrow>
         (case y_marshal Y (set_key ''spec'' (Y_strmap (set_key ''replicas'' (Y_int replicas) spec)) doc) of
            Inl e \<Rightarrow> Inl (''failed to marshal deployment yaml: '' @ e)
          | Inr out \<Rightarrow> Inr out)
     | _ \<Rightarrow> Inl ''deployment spec not found''))"

definition read_or :: "'w git_env \<Rightarrow> string \<Rightarrow> string \<Rightarrow> ('w, string) act" where
  "read_or E full prefix w = (case ge_read_file E full w of
     (Inl e, w') \<Rightarrow> (Inl (prefix @ os_text e), w')
   | (Inr data, w') \<Rightarrow> (Inr data, w'))"

definition lift_result :: "'a result \<Rightarrow> ('w, 'a) act" where
  "lift_result r w = (r, w)"

definition update_deployment_replicas ::
    "'w git_env \<Rightarrow> yaml_doc yaml_codec \<Rightarrow> git_ops \<Rightarrow> string \<Rightarrow> int \<Rightarrow> string \<Rightarrow> ('w, unit) act" where
  "update_deployment_replicas E Y g app replicas author =
     seq (open_main E g) (\<lambda>e. e) (\<lambda>_.
     let rel = path_join [''apps'', app, ''deployment.yaml'']; full = path_join [g_work_dir g, rel] in
     seq (read_or E full (''deployment manifest not found for app '' @ app @ '': '')) (\<lambda>e. e) (\<lambda>data.
     seq (lift_result (patch_deployment_replicas Y data replicas)) (\<lambda>e. e) (\<lambda>updated.
     seq (ge_write_file E full updated) (\<lambda>e. ''failed to write deployment: '' @ e) (\<lambda>_.
     seq (ge_add E rel) (\<lambda>e. ''failed to stage deployment: '' @ e) (\<lambda>_.
     let author = (if author = [] then ''tinycloud-api'' else author);
         msg = ''suspend('' @ app @ ''): scale to '' @ fmt_int replicas @ '' replicas'' in
     seq (ge_commit E msg author (email_of author)) (\<lambda>e. ''failed to commit: '' @ e) (\<lambda>_.
     push_to E [] ''failed to push commit: ''))))))"

section \<open>Rollback history\<close>

record rollback_entry =
  re_id :: string
  re_type :: string
  re_timestamp :: string
  re_target_revision :: string
  re_target_image :: string
  re_previous_revision :: string
  re_previous_image :: string
  re_restored_to_revision :: string
  re_restored_to_image :: string
  re_reason :: string
  re_rollback_branch :: string
  re_initiated_by :: string

record app_rollbacks =
  ap_current_status :: string
  ap_active_rollback :: "rollback_entry option"
  ap_history :: "rollback_entry list"

text \<open>The apps map holds pointers: \<open>Some None\<close> is a key whose YAML value is null.\<close>

record rollbacks_file =
  rf_version :: string
  rf_schema :: string
  rf_generated_at :: string
  rf_apps :: "string \<Rightarrow> app_rollbacks option option"

definition empty_rollbacks :: "string \<Rightarrow> rollbacks_file" where
  "empty_rollbacks now = \<lparr>rf_version = ''1.0'', rf_schema = ''rollback-history'',
     rf_generated_at = now, rf_apps = (\<lambda>_. None)\<rparr>"

definition rollbacks_path :: string where
  "rollbacks_path = ''rollbacks/rollbacks.yaml''"

definition read_rollbacks_from_disk ::
    "'w git_env \<Rightarrow> rollbacks_file yaml_codec \<Rightarrow> git_ops \<Rightarrow> string \<Rightarrow> ('w, rollbacks_file) act" where
  "read_rollbacks_from_disk E Y g now w =
     (case ge_read_file E (path_join [g_work_dir g, ''rollbacks'', ''rollbacks.yaml'']) w of
        (Inl (Not_exist _), w') \<Rightarrow> (Inr (empty_rollbacks now), w')
      | (Inl (Os_failed e), w') \<Rightarrow> (Inl (''failed to read rollbacks file: '' @ e), w')
      | (Inr data, w') \<Rightarrow> (case y_unmarshal Y data of
            Inl e \<Rightarrow> (Inl (''failed to parse rollbacks file: '' @ e), w')
          | Inr file \<Rightarrow> (Inr file, w')))"

definition read_rollbacks ::
    "'w git_env \<Rightarrow> rollbacks_file yaml_codec \<Rightarrow> git_ops \<Rightarrow> string \<Rightarrow> ('w, rollbacks_file) act" where
  "read_rollbacks E Y g now = seq (open_main E g) (\<lambda>e. e) (\<lambda>_. read_rollbacks_from_disk E Y g now)"

definition fresh_app :: app_rollbacks where
  "fresh_app = \<lparr>ap_current_status = ''normal'', ap_active_rollback = None, ap_history = []\<rparr>"

definition nil_deref :: string where
  "nil_deref = ''runtime error: invalid memory address or nil pointer dereference''"

text \<open>The change of the file that the two operations make, as a function of its contents.\<close>

definition update_app ::
    "(app_rollbacks \<Rightarrow> app_rollbacks) \<Rightarrow> string \<Rightarrow> string \<Rightarrow> rollbacks_file \<Rightarrow> rollbacks_file result" where
  "update_app f now app file = (case rf_apps file app of
     Some None \<Rightarrow> Inl nil_deref
   | None \<Rightarrow> Inr (file\<lparr>rf_apps := (rf_apps file)(app := Some (Some (f fresh_app))), rf_generated_at := now\<rparr>)
   | Some (Some a) \<Rightarrow> Inr (file\<lparr>rf_apps := (rf_apps file)(app := Some (Some (f a))), rf_generated_at := now\<rparr>))"

definition rolled_back :: "rollback_entry \<Rightarrow> app_rollbacks \<Rightarrow> app_rollbacks" where
  "rolled_back entry a = a\<lparr>ap_history := ap_history a @ [entry], ap_current_status := ''rollback'',
     ap_active_rollback := Some entry\<rparr>"

definition restored :: "rollback_entry \<Rightarrow> app_rollbacks \<Rightarrow> app_rollbacks" where
  "restored entry a = a\<lparr>ap_history := ap_history a @ [entry], ap_current_status := ''normal'',
     ap_active_rollback := None\<rparr>"

text \<open>Marshal, write (no directory is created here), stage, commit, push.\<close>

definition save_rollbacks ::
    "'w git_env \<Rightarrow> rollbacks_file yaml_codec \<Rightarrow> git_ops \<Rightarrow> rollbacks_file \<Rightarrow> string \<Rightarrow> string \<Rightarrow> ('w, unit) act" where
  "save_rollbacks E Y g file message author =
     seq (lift_result (y_marshal Y file)) (\<lambda>e. ''failed to marshal rollbacks: '' @ e) (\<lambda>data.
     seq (ge_write_file E (path_join [g_work_dir g, ''rollbacks'', ''rollbacks.yaml'']) data)
       (\<lambda>e. ''failed to write rollbacks file: '' @ e) (\<lambda>_.
     seq (ge_add E rollbacks_path) (\<lambda>e. ''failed to stage rollbacks file: '' @ e) (\<lambda>_.
     seq (ge_commit E message author (email_of author)) (\<lambda>e. ''failed to commit rollbacks file: '' @ e) (\<lambda>_.
     push_to E [] ''failed to push rollbacks commit: ''))))"

definition record_rollback ::
    "'w git_env \<Rightarrow> rollbacks_file yaml_codec \<Rightarrow> git_ops \<Rightarrow> string \<Rightarrow> string \<Rightarrow> rollback_entry \<Rightarrow> ('w, unit) act" where
  "record_rollback E Y g now app entry =
     seq (open_main E g) (\<lambda>e. e) (\<lambda>_.
     seq (read_rollbacks_from_disk E Y g now) (\<lambda>e. e) (\<lambda>file.
     seq (lift_result (update_app (rolled_back entry) now app file)) (\<lambda>e. e) (\<lambda>file.
     save_rollbacks E Y g file
       (''rollback('' @ app @ ''): revert to '' @ take 8 (re_target_revision entry) @ '' - '' @ re_reason entry)
       (re_initiated_by entry))))"

definition rollback_ref :: "string \<Rightarrow> string" where
  "rollback_ref app = ''refs/heads/rollback/'' @ app"

definition force_refspec :: "string \<Rightarrow> string" where
  "force_refspec ref = ''+'' @ ref @ '':'' @ ref"

definition record_restore ::
    "'w git_env \<Rightarrow> rollbacks_file yaml_codec \<Rightarrow> git_ops \<Rightarrow> string \<Rightarrow> string \<Rightarrow> rollback_entry \<Rightarrow> bool \<Rightarrow> ('w, unit) act" where
  "record_restore E Y g now app entry fast_forward =
     seq (open_main E g) (\<lambda>e. e) (\<lambda>_.
     seq (read_rollbacks_from_disk E Y g now) (\<lambda>e. e) (\<lambda>file.
     seq (lift_result (update_app (restored entry) now app file)) (\<lambda>e. e) (\<lambda>file.
     seq (save_rollbacks E Y g file (''restore('' @ app @ ''): return to main - '' @ re_reason entry)
       (re_initiated_by entry)) (\<lambda>e. e) (\<lambda>_.
     if \<not> fast_forward then ret () else
     seq (ge_head E) (\<lambda>e. ''failed to get HEAD: '' @ e) (\<lambda>head.
     seq (ge_set_reference E (rollback_ref app) head) (\<lambda>e. ''failed to update rollback branch ref: '' @ e) (\<lambda>_.
     push_to E [force_refspec (rollback_ref app)] ''failed to push fast-forwarded branch: ''))))))"

section \<open>Rollback branches\<close>

definition create_rollback_branch :: "'w git_env \<Rightarrow> git_ops \<Rightarrow> string \<Rightarrow> string \<Rightarrow> ('w, unit) act" where
  "create_rollback_branch E g app target_sha =
     seq (clone_repo E g) (\<lambda>e. e) (\<lambda>_.
     seq (ge_create_branch E (''rollback/'' @ app) ''origin'' (rollback_ref app))
       (\<lambda>e. ''failed to create branch config: '' @ e) (\<lambda>_.
     seq (ge_set_reference E (rollback_ref app) target_sha) (\<lambda>e. ''failed to set branch ref: '' @ e) (\<lambda>_.
     push_to E [force_refspec (rollback_ref app)] ''failed to push rollback branch: '')))"

definition validate_sha :: "'w git_env \<Rightarrow> git_ops \<Rightarrow> string \<Rightarrow> ('w, bool) act" where
  "validate_sha E g sha = seq (clone_repo E g) (\<lambda>e. e) (\<lambda>_ w.
     case ge_commit_object E sha w of (Inl _, w') \<Rightarrow> (Inr False, w') | (Inr _, w') \<Rightarrow> (Inr True, w'))"

end
