(* ===== verification/GitOpsFacts.thy ===== *)
theory GitOpsFacts
  imports GitOps
begin

text \<open>
  What the GitOps writes do to the main branch. The behaviour of git and of the disk that the
  code relies on is the locale \<open>git_repo\<close>, stated over observations of the world; the theorems
  carry it as a hypothesis, and an in-memory repository meets it. The rollback history is a
  state machine over the contents of its file.
\<close>

text \<open>The contents of the rollback file on main, and the disk reading it after a fresh clone.\<close>

definition rollbacks_on :: "rollbacks_file yaml_codec \<Rightarrow> string \<Rightarrow> (string \<Rightarrow> string option) \<Rightarrow> rollbacks_file result" where
  "rollbacks_on Y now m = (case m rollbacks_path of None \<Rightarrow> Inr (empty_rollbacks now) | Some data \<Rightarrow> y_unmarshal Y data)"

text \<open>
  What a recorded entry does to main: the rollback file is rewritten from its former contents,
  and the directory it is in was there.
\<close>

definition rewritten ::
    "rollbacks_file yaml_codec \<Rightarrow> (app_rollbacks \<Rightarrow> app_rollbacks) \<Rightarrow> string \<Rightarrow> string \<Rightarrow>
     (string \<Rightarrow> string option) \<Rightarrow> (string \<Rightarrow> string option) \<Rightarrow> bool" where
  "rewritten Y f now app m m' \<longleftrightarrow> (\<exists>old new data. rollbacks_on Y now m = Inr old \<and>
     update_app f now app old = Inr new \<and> y_marshal Y new = Inr data \<and> m' = m(rollbacks_path \<mapsto> data))"

section \<open>The repository as the code relies on it\<close>

text \<open>
  \<open>main\<close>: the server's main branch, as a map from paths to contents; \<open>head\<close>, \<open>index\<close>: the
  clone's HEAD tree and staging area; \<open>disk\<close>: file contents by full path; \<open>is_dir\<close>: the
  directories below the working directory. A rejected push may still have reached the server.
\<close>

locale git_repo =
  fixes E :: "'w git_env" and wd :: string
    and main head index disk :: "'w \<Rightarrow> string \<Rightarrow> string option"
    and is_dir :: "'w \<Rightarrow> string \<Rightarrow> bool"
  assumes main_remove_all [simp]: "main (ge_remove_all E p w) = main w"
    and main_clone: "ge_plain_clone E p u w = (r, w') \<Longrightarrow> main w' = main w"
    and main_worktree: "ge_worktree E w = (r, w') \<Longrightarrow> main w' = main w"
    and main_checkout: "ge_checkout E b w = (r, w') \<Longrightarrow> main w' = main w"
    and main_mkdir: "ge_mkdir_all E p w = (r, w') \<Longrightarrow> main w' = main w"
    and main_read: "ge_read_file E p w = (rd, w') \<Longrightarrow> main w' = main w"
    and main_write: "ge_write_file E p c w = (r, w') \<Longrightarrow> main w' = main w"
    and main_add: "ge_add E p w = (r, w') \<Longrightarrow> main w' = main w"
    and main_commit: "ge_commit E m a e w = (rh, w') \<Longrightarrow> main w' = main w"
    and clone_head: "ge_plain_clone E wd u w = (Inr (), w') \<Longrightarrow> head w' = main w"
    and worktree_head: "ge_worktree E w = (Inr (), w') \<Longrightarrow> head w' = head w"
    and checkout_main: "ge_checkout E main_branch w = (Inr (), w') \<Longrightarrow>
      head w' = head w \<and> index w' = head w \<and>
      (\<forall>rel. path_join [wd, rel] = wd @ ''/'' @ rel \<longrightarrow> disk w' (wd @ ''/'' @ rel) = head w rel) \<and>
      (\<forall>d. is_dir w' (wd @ ''/'' @ d) \<longleftrightarrow> (\<exists>p \<in> dom (head w). has_prefix p (d @ ''/'')))"
    and mkdir_view: "ge_mkdir_all E p w = (Inr (), w') \<Longrightarrow>
      head w' = head w \<and> index w' = index w \<and> disk w' = disk w"
    and read_view: "ge_read_file E p w = (rd, w') \<Longrightarrow>
      head w' = head w \<and> index w' = index w \<and> disk w' = disk w \<and> is_dir w' = is_dir w"
    and read_file: "ge_read_file E p w = (Inr c, w') \<Longrightarrow> disk w p = Some c"
    and read_missing: "ge_read_file E p w = (Inl (Not_exist e), w') \<Longrightarrow> disk w p = None"
    and write_file: "ge_write_file E p c w = (Inr (), w') \<Longrightarrow> is_dir w (path_dir p) \<and>
      head w' = head w \<and> index w' = index w \<and> disk w' = (disk w)(p \<mapsto> c)"
    and add_file: "ge_add E rel w = (Inr (), w') \<Longrightarrow> path_join [wd, rel] = wd @ ''/'' @ rel \<Longrightarrow>
      head w' = head w \<and> index w' = (index w)(rel := disk w (wd @ ''/'' @ rel)) \<and> disk w' = disk w"
    and commit_index: "ge_commit E m a e w = (Inr h, w') \<Longrightarrow> head w' = index w"
    and push_ok: "ge_push E [] w = (Inr (), w') \<Longrightarrow> main w' = head w"
    and push_same: "ge_push E [] w = (Inl Already_up_to_date, w') \<Longrightarrow> main w' = head w \<and> head w = main w"
    and push_failed: "ge_push E [] w = (Inl (Push_failed x), w') \<Longrightarrow> main w' = main w \<or> main w' = head w"
    and main_push_branch: "ge_push E [force_refspec (rollback_ref app)] w = (pu, w') \<Longrightarrow> main w' = main w"
    and main_set_reference: "ge_set_reference E ref h w = (r, w') \<Longrightarrow> main w' = main w"
    and main_head: "ge_head E w = (rh, w') \<Longrightarrow> main w' = main w"
begin

text \<open>
  While an operation prepares its commit, main stays as it was (\<open>m\<close>) and the staging area
  and the files follow; only the push touches main.
\<close>

definition staged :: "(string \<Rightarrow> string option) \<Rightarrow> (string \<Rightarrow> string option) \<Rightarrow> 'w \<Rightarrow> bool" where
  "staged m t w \<longleftrightarrow> main w = m \<and> index w = t"

definition fresh :: "(string \<Rightarrow> string option) \<Rightarrow> 'w \<Rightarrow> bool" where
  "fresh m w \<longleftrightarrow> main w = m \<and> index w = m \<and>
     (\<forall>rel. path_join [wd, rel] = wd @ ''/'' @ rel \<longrightarrow> disk w (wd @ ''/'' @ rel) = m rel) \<and>
     (\<forall>d. is_dir w (wd @ ''/'' @ d) \<longleftrightarrow> (\<exists>p \<in> dom m. has_prefix p (d @ ''/'')))"

lemma clone_triple:
  assumes "g_work_dir g = wd"
  shows "triple (\<lambda>w. main w = m) (clone_repo E g) (\<lambda>_ w. main w = m \<and> head w = m) (\<lambda>_ w. main w = m)"
proof (rule tripleI)
  fix w x w' assume "main w = m" "clone_repo E g w = (Inr x, w')"
  then obtain u where "ge_plain_clone E wd u (ge_remove_all E wd w) = (Inr (), w')"
    unfolding clone_repo_def Let_def assms by (auto elim!: seq_Inr_E)
  with main_clone [OF this] clone_head [OF this] \<open>main w = m\<close> show "main w' = m \<and> head w' = m" by simp
next
  fix w e w' assume "main w = m" "clone_repo E g w = (Inl e, w')"
  then show "main w' = m" unfolding clone_repo_def Let_def assms
    by (auto simp: seq_def split: prod.splits sum.splits dest: main_clone)
qed

lemma open_main_triple:
  assumes "g_work_dir g = wd"
  shows "triple (\<lambda>w. main w = m) (open_main E g) (\<lambda>_. fresh m) (\<lambda>_ w. main w = m)"
  unfolding open_main_def
proof (rule triple_seq [OF clone_triple [OF assms]], assumption, rule triple_seq)
  show "triple (\<lambda>w. main w = m \<and> head w = m) (ge_worktree E)
      (\<lambda>_ w. main w = m \<and> head w = m) (\<lambda>_ w. main w = m)"
    by (rule tripleI) (use main_worktree worktree_head in \<open>auto\<close>)
  show "triple (\<lambda>w. main w = m \<and> head w = m)
      (seq (ge_checkout E main_branch) (\<lambda>e. ''failed to checkout main: '' @ e) ret) (\<lambda>_. fresh m) (\<lambda>_ w. main w = m)"
  proof (rule triple_seq [OF _ _ triple_ret])
    show "triple (\<lambda>w. main w = m \<and> head w = m) (ge_checkout E main_branch) (\<lambda>_. fresh m) (\<lambda>_ w. main w = m)"
      by (rule tripleI) (use main_checkout checkout_main in \<open>auto simp: fresh_def\<close>)
  qed
qed

lemma fresh_staged: "fresh m w \<Longrightarrow> staged m m w"
  by (simp add: fresh_def staged_def)

text \<open>The two steps every write ends with: stage a file, then commit and push.\<close>

lemma write_and_stage_triple:
  assumes "g_work_dir g = wd" "path_join [wd, rel] = wd @ ''/'' @ rel"
  shows "triple (staged m t) (write_and_stage E g rel c) (\<lambda>_. staged m (t(rel \<mapsto> c))) (\<lambda>_ w. main w = m)"
proof (rule tripleI)
  fix w x w' assume w: "staged m t w" "write_and_stage E g rel c w = (Inr x, w')"
  with assms obtain w1 w2 where
    1: "ge_mkdir_all E (path_dir (wd @ ''/'' @ rel)) w = (Inr (), w1)"
      "ge_write_file E (wd @ ''/'' @ rel) c w1 = (Inr (), w2)" "ge_add E rel w2 = (Inr (), w')"
    unfolding write_and_stage_def Let_def by (auto elim!: seq_Inr_E)
  with w(1) mkdir_view [OF 1(1)] write_file [OF 1(2)] add_file [OF 1(3) assms(2)]
    main_mkdir [OF 1(1)] main_write [OF 1(2)] main_add [OF 1(3)]
  show "staged m (t(rel \<mapsto> c)) w'" by (simp add: staged_def)
next
  fix w e w' assume "staged m t w" "write_and_stage E g rel c w = (Inl e, w')"
  then show "main w' = m" unfolding write_and_stage_def Let_def
    by (auto simp: seq_def staged_def split: prod.splits sum.splits dest!: main_mkdir main_write main_add)
qed

lemma write_all_triple:
  assumes "g_work_dir g = wd" "\<forall>(rel, c) \<in> set files. path_join [wd, rel] = wd @ ''/'' @ rel"
  shows "triple (staged m t) (write_all E g files) (\<lambda>_. staged m (t ++ map_of (rev files))) (\<lambda>_ w. main w = m)"
  using assms(2)
proof (induction files arbitrary: t)
  case Nil
  then show ?case by (auto intro: triple_ret simp: triple_def)
next
  case (Cons f files)
  obtain rel c where f: "f = (rel, c)" by (cases f)
  have e: "t(rel \<mapsto> c) ++ map_of (rev files) = t ++ map_of (rev ((rel, c) # files))"
    by (simp add: map_add_def fun_eq_iff split: option.split)
  have "triple (staged m (t(rel \<mapsto> c))) (write_all E g files)
      (\<lambda>_. staged m (t ++ map_of (rev ((rel, c) # files)))) (\<lambda>_ w. main w = m)"
    unfolding e [symmetric] by (rule Cons.IH) (use Cons.prems in simp)
  then show ?case
    using Cons.prems unfolding f write_all.simps
    by (intro triple_seq [OF write_and_stage_triple [OF assms(1)]]) auto
qed

lemma push_triple:
  "triple (\<lambda>w. main w = m \<and> head w = t) (push_to E [] pre) (\<lambda>_ w. main w = t)
     (\<lambda>e w. main w = m \<or> (has_prefix e pre \<and> main w = t))"
proof (rule tripleI)
  fix w x w' assume "main w = m \<and> head w = t" "push_to E [] pre w = (Inr x, w')"
  then show "main w' = t" using push_ok push_same
    by (auto simp: push_to_def split: prod.splits sum.splits push_error.splits)
next
  fix w e w' assume mh: "main w = m \<and> head w = t" and "push_to E [] pre w = (Inl e, w')"
  then obtain x where "ge_push E [] w = (Inl (Push_failed x), w')" "e = pre @ x"
    by (auto simp: push_to_def split: prod.splits sum.splits push_error.splits)
  with push_failed mh show "main w' = m \<or> (has_prefix e pre \<and> main w' = t)" by force
qed

lemma commit_triple:
  "triple (staged m t) (ge_commit E msg a em) (\<lambda>_ w. main w = m \<and> head w = t) (\<lambda>_ w. main w = m)"
  by (rule tripleI) (use main_commit commit_index in \<open>auto simp: staged_def\<close>)

lemma commit_files_triple:
  assumes "g_work_dir g = wd" "\<forall>(rel, c) \<in> set files. path_join [wd, rel] = wd @ ''/'' @ rel"
    and "distinct (map fst files)"
  shows "triple (\<lambda>w. main w = m) (commit_files E g msg files author) (\<lambda>_ w. main w = m ++ map_of files)
      (\<lambda>e w. main w = m \<or> (has_prefix e ''failed to push commit: '' \<and> main w = m ++ map_of files))"
proof -
  have w: "triple (fresh m) (write_all E g files) (\<lambda>_. staged m (m ++ map_of files)) (\<lambda>_ w. main w = m)"
    using write_all_triple [OF assms(1,2), of m m] fresh_staged
    unfolding map_of_rev [OF assms(3)] by (auto elim: triple_mono)
  show ?thesis unfolding commit_files_def Let_def
    by (rule triple_seq [OF open_main_triple [OF assms(1)]], simp, rule triple_seq [OF w], simp,
        rule triple_seq [OF commit_triple], simp, rule triple_seq [OF push_triple], simp, rule triple_ret, simp)
qed

definition rollbacks_paths_clean :: bool where
  "rollbacks_paths_clean \<longleftrightarrow>
     path_join [wd, ''rollbacks'', ''rollbacks.yaml''] = wd @ ''/'' @ rollbacks_path \<and>
     path_join [wd, rollbacks_path] = wd @ ''/'' @ rollbacks_path \<and>
     path_dir (wd @ ''/'' @ rollbacks_path) = wd @ ''/'' @ ''rollbacks''"

lemma read_rollbacks_triple:
  assumes "g_work_dir g = wd" "rollbacks_paths_clean"
  shows "triple (fresh m) (read_rollbacks_from_disk E Y g now)
     (\<lambda>file w. fresh m w \<and> rollbacks_on Y now m = Inr file) (\<lambda>_ w. main w = m)"
proof -
  have d: "disk w (wd @ ''/'' @ rollbacks_path) = m rollbacks_path" if "fresh m w" for w
    using that assms(2) by (simp add: fresh_def rollbacks_paths_clean_def)
  have k: "fresh m w'" if "ge_read_file E p w = (rd, w')" "fresh m w" for p rd w w'
    using read_view [OF that(1)] main_read [OF that(1)] that(2) by (simp add: fresh_def)
  have j: "path_join [g_work_dir g, ''rollbacks'', ''rollbacks.yaml''] = wd @ ''/'' @ rollbacks_path"
    using assms by (simp only: rollbacks_paths_clean_def)
  show ?thesis unfolding read_rollbacks_from_disk_def j
  proof (rule tripleI)
    fix w e w' assume "fresh m w"
    then have "main w = m" by (simp add: fresh_def)
    moreover assume "(case ge_read_file E (wd @ ''/'' @ rollbacks_path) w of
        (Inl (Not_exist _), w') \<Rightarrow> (Inr (empty_rollbacks now), w')
      | (Inl (Os_failed e), w') \<Rightarrow> (Inl (''failed to read rollbacks file: '' @ e), w')
      | (Inr data, w') \<Rightarrow> (case y_unmarshal Y data of
            Inl e \<Rightarrow> (Inl (''failed to parse rollbacks file: '' @ e), w') | Inr file \<Rightarrow> (Inr file, w'))) = (Inl e, w')"
    then have "\<exists>rd. ge_read_file E (wd @ ''/'' @ rollbacks_path) w = (rd, w')"
      by (auto split: prod.splits sum.splits os_error.splits)
    ultimately show "main w' = m" using main_read by metis
  next
    fix w rf w' assume f: "fresh m w" and r: "(case ge_read_file E (wd @ ''/'' @ rollbacks_path) w of
        (Inl (Not_exist _), w') \<Rightarrow> (Inr (empty_rollbacks now), w')
      | (Inl (Os_failed e), w') \<Rightarrow> (Inl (''failed to read rollbacks file: '' @ e), w')
      | (Inr data, w') \<Rightarrow> (case y_unmarshal Y data of
            Inl e \<Rightarrow> (Inl (''failed to parse rollbacks file: '' @ e), w') | Inr file \<Rightarrow> (Inr file, w'))) = (Inr rf, w')"
    obtain rd w1 where rd: "ge_read_file E (wd @ ''/'' @ rollbacks_path) w = (rd, w1)" by force
    show "fresh m w' \<and> rollbacks_on Y now m = Inr rf"
    proof (cases rd)
      case (Inr data)
      then show ?thesis using r rd k [OF rd f] read_file [of _ w data w1] d [OF f]
        by (auto simp: rollbacks_on_def split: sum.splits option.splits)
    next
      case (Inl e)
      then show ?thesis using r rd k [OF rd f] read_missing [of _ w _ w1] d [OF f]
        by (cases e) (auto simp: rollbacks_on_def)
    qed
  qed
qed

lemma save_rollbacks_triple:
  assumes "g_work_dir g = wd" "rollbacks_paths_clean"
  shows "triple (fresh m) (save_rollbacks E Y g file msg author)
     (\<lambda>_ w. (\<exists>data. y_marshal Y file = Inr data \<and> main w = m(rollbacks_path \<mapsto> data)) \<and>
        (\<exists>p \<in> dom m. has_prefix p ''rollbacks/''))
     (\<lambda>e w. main w = m \<or> (has_prefix e ''failed to push rollbacks commit: '' \<and>
        (\<exists>data. y_marshal Y file = Inr data \<and> main w = m(rollbacks_path \<mapsto> data)) \<and>
        (\<exists>p \<in> dom m. has_prefix p ''rollbacks/'')))"
proof -
  have j: "path_join [g_work_dir g, ''rollbacks'', ''rollbacks.yaml''] = wd @ ''/'' @ rollbacks_path"
    "path_join [wd, rollbacks_path] = wd @ ''/'' @ rollbacks_path"
    "path_dir (wd @ ''/'' @ rollbacks_path) = wd @ ''/'' @ ''rollbacks''"
    using assms by (simp_all only: rollbacks_paths_clean_def)
  let ?D = "\<exists>p \<in> dom m. has_prefix p ''rollbacks/''"
  have w: "triple (fresh m) (ge_write_file E (wd @ ''/'' @ rollbacks_path) data)
      (\<lambda>_ w. staged m m w \<and> disk w (wd @ ''/'' @ rollbacks_path) = Some data \<and> ?D) (\<lambda>_ w. main w = m)" for data
  proof (rule tripleI)
    fix w x w' assume f: "fresh m w" and "ge_write_file E (wd @ ''/'' @ rollbacks_path) data w = (Inr x, w')"
    then have r: "ge_write_file E (wd @ ''/'' @ rollbacks_path) data w = (Inr (), w')" by simp
    have "is_dir w (wd @ ''/'' @ ''rollbacks'')" using write_file [OF r] j(3) by simp
    then have "\<exists>p \<in> dom m. has_prefix p (''rollbacks'' @ ''/'')" using f unfolding fresh_def by blast
    moreover have "''rollbacks'' @ ''/'' = ''rollbacks/''" by simp
    ultimately have "?D" by metis
    then show "staged m m w' \<and> disk w' (wd @ ''/'' @ rollbacks_path) = Some data \<and> ?D"
      using write_file [OF r] main_write [OF r] f by (simp add: fresh_def staged_def)
  qed (use main_write in \<open>auto simp: fresh_def\<close>)
  have a: "triple (\<lambda>w. staged m m w \<and> disk w (wd @ ''/'' @ rollbacks_path) = Some data \<and> ?D) (ge_add E rollbacks_path)
      (\<lambda>_ w. staged m (m(rollbacks_path \<mapsto> data)) w \<and> ?D) (\<lambda>_ w. main w = m)" for data
    by (rule tripleI) (use add_file [OF _ j(2)] main_add in \<open>auto simp: staged_def\<close>)
  note c = triple_frame [OF commit_triple, where C = ?D]
  have p: "triple (\<lambda>w. (main w = m \<and> head w = t) \<and> ?D) (push_to E [] ''failed to push rollbacks commit: '')
      (\<lambda>_ w. main w = t \<and> ?D)
      (\<lambda>e w. (main w = m \<or> (has_prefix e ''failed to push rollbacks commit: '' \<and> main w = t)) \<and> ?D)" for t
    by (rule triple_frame [OF push_triple])
  have l: "triple (fresh m) (lift_result (y_marshal Y file))
      (\<lambda>data w. fresh m w \<and> y_marshal Y file = Inr data) (\<lambda>_ w. main w = m)"
    by (rule tripleI) (auto simp: lift_result_def fresh_def)
  show ?thesis unfolding save_rollbacks_def j(1)
    apply (rule triple_seq [OF l])
     apply simp
    apply (rule triple_given)
    apply (rule triple_seq [OF w])
     apply simp
    apply (rule triple_seq [OF a])
     apply simp
    apply (rule triple_seq [OF c])
     apply simp
    apply (rule triple_mono [OF p])
      apply assumption
     apply blast
    apply blast
    done
qed

lemma lift_triple: "triple P (lift_result r) (\<lambda>x s. P s \<and> r = Inr x) (\<lambda>_. P)"
  by (rule tripleI) (auto simp: lift_result_def)

lemma record_triple:
  assumes "g_work_dir g = wd" "rollbacks_paths_clean"
  shows "triple (\<lambda>w. main w = m)
     (seq (open_main E g) (\<lambda>e. e) (\<lambda>_.
      seq (read_rollbacks_from_disk E Y g now) (\<lambda>e. e) (\<lambda>rf.
      seq (lift_result (update_app f now app rf)) (\<lambda>e. e) (\<lambda>rf.
      save_rollbacks E Y g rf msg author))))
     (\<lambda>_ w. rewritten Y f now app m (main w) \<and> (\<exists>p \<in> dom m. has_prefix p ''rollbacks/''))
     (\<lambda>e w. main w = m \<or> (has_prefix e ''failed to push rollbacks commit: '' \<and> rewritten Y f now app m (main w) \<and>
        (\<exists>p \<in> dom m. has_prefix p ''rollbacks/'')))"
  apply (rule triple_seq [OF open_main_triple [OF assms(1)]])
   apply simp
  apply (rule triple_seq [OF read_rollbacks_triple [OF assms]])
   apply simp
  apply (rule triple_given)
  apply (rule triple_seq [OF lift_triple])
   apply (simp add: fresh_def)
  apply (rule triple_given)
  apply (rule triple_mono [OF save_rollbacks_triple [OF assms]])
    apply assumption
   apply (auto simp: rewritten_def)
  done

lemma record_rollback_triple:
  assumes "g_work_dir g = wd" "rollbacks_paths_clean"
  shows "triple (\<lambda>w. main w = m) (record_rollback E Y g now app entry)
     (\<lambda>_ w. rewritten Y (rolled_back entry) now app m (main w) \<and> (\<exists>p \<in> dom m. has_prefix p ''rollbacks/''))
     (\<lambda>e w. main w = m \<or> (has_prefix e ''failed to push rollbacks commit: '' \<and>
        rewritten Y (rolled_back entry) now app m (main w) \<and> (\<exists>p \<in> dom m. has_prefix p ''rollbacks/'')))"
  unfolding record_rollback_def by (rule record_triple [OF assms])

lemma push_branch_triple:
  "triple (\<lambda>w. main w = t) (push_to E [force_refspec (rollback_ref app)] pre) (\<lambda>_ w. main w = t) (\<lambda>_ w. main w = t)"
  by (rule tripleI) (auto simp: push_to_def split: prod.splits sum.splits push_error.splits dest: main_push_branch)

lemma seq_assoc: "seq m w (\<lambda>x. seq (k x) (\<lambda>e. e) j) = seq (seq m w k) (\<lambda>e. e) j"
  by (rule ext) (simp add: seq_def split: prod.split sum.split)

lemma record_restore_triple:
  assumes "g_work_dir g = wd" "rollbacks_paths_clean"
  shows "triple (\<lambda>w. main w = m) (record_restore E Y g now app entry ff)
     (\<lambda>_ w. rewritten Y (restored entry) now app m (main w)) (\<lambda>e w. main w = m \<or> rewritten Y (restored entry) now app m (main w))"
proof -
  let ?C = "\<lambda>w. rewritten Y (restored entry) now app m (main w)"
  have b: "triple ?C (push_to E [force_refspec (rollback_ref app)] pre) (\<lambda>_. ?C) (\<lambda>_. ?C)" for pre
    using push_branch_triple by (fastforce simp: triple_def split: prod.splits sum.splits)
  have h: "triple ?C (ge_head E) (\<lambda>_. ?C) (\<lambda>_. ?C)"
    by (rule tripleI) (auto dest: main_head)
  have r: "triple ?C (ge_set_reference E ref hd) (\<lambda>_. ?C) (\<lambda>_. ?C)" for ref hd
    by (rule tripleI) (auto dest: main_set_reference)
  have t: "triple ?C (if \<not> ff then ret () else
     seq (ge_head E) (\<lambda>e. ''failed to get HEAD: '' @ e) (\<lambda>head.
     seq (ge_set_reference E (rollback_ref app) head) (\<lambda>e. ''failed to update rollback branch ref: '' @ e) (\<lambda>_.
     push_to E [force_refspec (rollback_ref app)] ''failed to push fast-forwarded branch: ''))) (\<lambda>_. ?C) (\<lambda>_. ?C)"
  proof (cases ff)
    case True
    have "triple ?C (seq (ge_head E) (\<lambda>e. ''failed to get HEAD: '' @ e) (\<lambda>head.
     seq (ge_set_reference E (rollback_ref app) head) (\<lambda>e. ''failed to update rollback branch ref: '' @ e) (\<lambda>_.
     push_to E [force_refspec (rollback_ref app)] ''failed to push fast-forwarded branch: ''))) (\<lambda>_. ?C) (\<lambda>_. ?C)"
      by (rule triple_seq [OF h _ triple_seq [OF r _ b]])
    with True show ?thesis by (simp only: not_True_eq_False if_False)
  qed (simp add: triple_def)
  show ?thesis unfolding record_restore_def seq_assoc
    apply (rule triple_seq)
      apply (rule record_triple [OF assms, unfolded seq_assoc])
     apply blast
    apply (rule triple_mono [OF t])
      apply blast
     apply blast
    apply blast
    done
qed

text \<open>
  The suspend commit never happens when the YAML library hands nested mappings out as
  \<open>map[interface{}]interface{}\<close>: the type assertion on \<open>spec\<close> fails before anything is written.
\<close>

lemma update_replicas_triple:
  assumes "g_work_dir g = wd" "\<And>data doc m. y_unmarshal Y data = Inr doc \<Longrightarrow> (''spec'', Y_strmap m) \<notin> set doc"
  shows "triple (\<lambda>w. main w = m) (update_deployment_replicas E Y g app n author) (\<lambda>_ _. False) (\<lambda>_ w. main w = m)"
proof -
  have p: "\<exists>e. patch_deployment_replicas Y data n = Inl e" for data
    using assms(2) [of data] unfolding patch_deployment_replicas_def
    by (auto split: sum.split option.split yaml.split dest: map_of_SomeD)
  have l: "triple (\<lambda>w. main w = m) (lift_result (patch_deployment_replicas Y data n)) (\<lambda>_ _. False) (\<lambda>_ w. main w = m)" for data
    using p [of data] by (auto simp: triple_def lift_result_def)
  have r: "triple (fresh m) (read_or E full pre) (\<lambda>_ w. main w = m) (\<lambda>_ w. main w = m)" for full pre
    by (rule tripleI) (auto simp: read_or_def fresh_def split: prod.splits sum.splits dest: main_read)
  show ?thesis unfolding update_deployment_replicas_def Let_def
    apply (rule triple_seq [OF open_main_triple [OF assms(1)]])
     apply simp
    apply (rule triple_seq [OF r])
     apply simp
    apply (rule triple_seq [OF l])
     apply simp
    apply (simp add: triple_def)
    done
qed

end

end
