(* ===== verification/GitOpsRuns.thy ===== *)
theory GitOpsRuns
  imports GitOpsFacts
begin

text \<open>
  The guarantees of the GitOps writes, as statements about any repository that meets the
  contract \<open>git_repo\<close>, an in-memory repository that does, and the rollback history as a state
  machine.
\<close>

section \<open>An in-memory repository\<close>

record mem_repo =
  mr_main :: "(string \<times> string) list"
  mr_head :: "(string \<times> string) list"
  mr_index :: "(string \<times> string) list"
  mr_disk :: "(string \<times> string) list"
  mr_dirs :: "string list"

definition lab :: string where
  "lab = ''/tmp/gitops-lab''"

definition mem_is_dir :: "mem_repo \<Rightarrow> string \<Rightarrow> bool" where
  "mem_is_dir w d \<longleftrightarrow> d \<in> set (mr_dirs w) \<or> list_ex (\<lambda>(p, c). has_prefix p (d @ ''/'')) (mr_disk w)"

definition mem_read :: "string \<Rightarrow> mem_repo \<Rightarrow> (os_error + string) \<times> mem_repo" where
  "mem_read p w = (case map_of (mr_disk w) p of
     None \<Rightarrow> (Inl (Not_exist ''no such file or directory''), w) | Some c \<Rightarrow> (Inr c, w))"

definition mem_write :: "string \<Rightarrow> string \<Rightarrow> (mem_repo, unit) act" where
  "mem_write p c w = (if mem_is_dir w (path_dir p) then (Inr (), w\<lparr>mr_disk := (p, c) # mr_disk w\<rparr>)
     else (Inl ''no such file or directory'', w))"

definition mem_add :: "string \<Rightarrow> (mem_repo, unit) act" where
  "mem_add rel w = (case map_of (mr_disk w) (lab @ ''/'' @ rel) of
     None \<Rightarrow> (Inl ''entry not found'', w) | Some c \<Rightarrow> (Inr (), w\<lparr>mr_index := (rel, c) # mr_index w\<rparr>))"

definition mem_stat :: "string \<Rightarrow> mem_repo \<Rightarrow> (os_error + unit) \<times> mem_repo" where
  "mem_stat p w = (if mem_is_dir w p \<or> map_of (mr_disk w) p \<noteq> None then (Inr (), w)
     else (Inl (Not_exist ''no such file or directory''), w))"

definition mem_git :: "mem_repo git_env" where
  "mem_git = \<lparr>
     ge_remove_all = (\<lambda>p w. w\<lparr>mr_disk := [], mr_dirs := []\<rparr>),
     ge_plain_clone = (\<lambda>p u w. (Inr (), w\<lparr>mr_head := mr_main w\<rparr>)),
     ge_worktree = (\<lambda>w. (Inr (), w)),
     ge_checkout = (\<lambda>b w. (Inr (), w\<lparr>mr_index := mr_head w, mr_dirs := [],
        mr_disk := map (\<lambda>(p, c). (lab @ ''/'' @ p, c)) (mr_head w)\<rparr>)),
     ge_stat = mem_stat,
     ge_mkdir_all = (\<lambda>p w. (Inr (), w\<lparr>mr_dirs := p # mr_dirs w\<rparr>)),
     ge_read_file = mem_read,
     ge_write_file = mem_write,
     ge_add = mem_add,
     ge_commit = (\<lambda>m a e w. (Inr ''c0ffee'', w\<lparr>mr_head := mr_index w\<rparr>)),
     ge_push = (\<lambda>refs w. (Inr (), if refs = [] then w\<lparr>mr_main := mr_head w\<rparr> else w)),
     ge_create_branch = (\<lambda>b r m w. (Inr (), w)),
     ge_set_reference = (\<lambda>r h w. (Inr (), w)),
     ge_head = (\<lambda>w. (Inr ''c0ffee'', w)),
     ge_commit_object = (\<lambda>h w. (Inr (), w))\<rparr>"

definition main_of :: "mem_repo \<Rightarrow> string \<Rightarrow> string option" where
  "main_of w = map_of (mr_main w)"

definition head_of :: "mem_repo \<Rightarrow> string \<Rightarrow> string option" where
  "head_of w = map_of (mr_head w)"

definition index_of :: "mem_repo \<Rightarrow> string \<Rightarrow> string option" where
  "index_of w = map_of (mr_index w)"

definition disk_of :: "mem_repo \<Rightarrow> string \<Rightarrow> string option" where
  "disk_of w = map_of (mr_disk w)"

lemmas mem_defs = mem_git_def mem_is_dir_def mem_read_def mem_write_def mem_add_def mem_stat_def
  main_of_def head_of_def index_of_def disk_of_def

lemma map_of_under: "map_of (map (\<lambda>(p, c). (d @ p, c)) xs) (d @ q) = map_of xs q"
  by (induction xs) auto

lemma dir_under:
  "list_ex (\<lambda>(p, c). has_prefix p (w @ d)) (map (\<lambda>(p, c). (w @ p, c)) xs) \<longleftrightarrow>
    (\<exists>p \<in> dom (map_of xs). has_prefix p d)"
proof -
  have "list_ex (\<lambda>(p, c). has_prefix p (w @ d)) (map (\<lambda>(p, c). (w @ p, c)) xs) \<longleftrightarrow>
      (\<exists>x \<in> set xs. has_prefix (fst x) d)"
    by (induction xs) auto
  also have "\<dots> \<longleftrightarrow> (\<exists>p \<in> fst ` set xs. has_prefix p d)" by blast
  finally show ?thesis by (simp add: dom_map_of_conv_image_fst)
qed

lemma force_refspec_not_Nil: "[force_refspec ref] \<noteq> []"
  by simp

interpretation mem: git_repo mem_git lab main_of head_of index_of disk_of mem_is_dir
proof
  fix w w' r
  assume "ge_checkout mem_git main_branch w = (Inr (), w')"
  then have w': "w' = w\<lparr>mr_index := mr_head w, mr_dirs := [],
        mr_disk := map (\<lambda>(p, c). (lab @ ''/'' @ p, c)) (mr_head w)\<rparr>"
    by (simp add: mem_git_def)
  have d: "mem_is_dir w' (lab @ ''/'' @ d) \<longleftrightarrow> (\<exists>p \<in> dom (head_of w). has_prefix p (d @ ''/''))" for d
    using dir_under [of "lab @ ''/''" "d @ ''/''" "mr_head w"] by (simp add: w' mem_is_dir_def head_of_def)
  have "disk_of w' (lab @ ''/'' @ rel) = head_of w rel" for rel
    using map_of_under [of "lab @ ''/''" "mr_head w" rel] by (simp add: w' disk_of_def head_of_def)
  with d w' show "head_of w' = head_of w \<and> index_of w' = head_of w \<and>
      (\<forall>rel. path_join [lab, rel] = lab @ ''/'' @ rel \<longrightarrow> disk_of w' (lab @ ''/'' @ rel) = head_of w rel) \<and>
      (\<forall>d. mem_is_dir w' (lab @ ''/'' @ d) \<longleftrightarrow> (\<exists>p \<in> dom (head_of w). has_prefix p (d @ ''/'')))"
    by (simp add: head_of_def index_of_def)
qed (auto simp: mem_defs fun_eq_iff split: if_splits option.splits)

lemma lab_paths: "mem.rollbacks_paths_clean"
  unfolding mem.rollbacks_paths_clean_def unfolding lab_def rollbacks_path_def
  by (simp add: path_join_def path_clean_def path_dir_def clean_step_def Let_def)

lemma mem_repo_ok: "git_repo mem_git lab main_of head_of index_of disk_of mem_is_dir"
  by (rule mem.git_repo_axioms)

definition lab_ops :: git_ops where
  "lab_ops = new_gitops (\<lambda>_. [])"

lemma lab_ops_dir [simp]: "g_work_dir lab_ops = lab"
  by (simp add: lab_ops_def new_gitops_def lab_def)

definition lab_repo :: "(string \<times> string) list \<Rightarrow> mem_repo" where
  "lab_repo tree = \<lparr>mr_main = tree, mr_head = [], mr_index = [], mr_disk = [], mr_dirs = []\<rparr>"

section \<open>Publishing\<close>

text \<open>
  C3. CommitFiles publishes all of the given files or none. In any repository meeting the
  contract, success leaves main exactly as it was with those files written over it, whatever the
  order in which the map of files was walked; every error before the push leaves main untouched,
  and after a failed push main is either untouched or complete.
\<close>

theorem commit_files_publishes:
  assumes "git_repo E (g_work_dir g) main head index disk is_dir"
    and "\<forall>(rel, c) \<in> set files. path_join [g_work_dir g, rel] = g_work_dir g @ ''/'' @ rel"
    and "distinct (map fst files)"
  shows "case commit_files E g msg files author w of
      (Inr sha, w') \<Rightarrow> main w' = main w ++ map_of files
    | (Inl e, w') \<Rightarrow> main w' = main w \<or>
        (has_prefix e ''failed to push commit: '' \<and> main w' = main w ++ map_of files)"
  by (rule tripleD [OF git_repo.commit_files_triple [OF assms(1) refl assms(2,3)]]) (rule refl)

lemma lab_clean: "path_join [lab, ''apps/shop/service.yaml''] = lab @ ''/'' @ ''apps/shop/service.yaml''"
  by (simp add: lab_def path_join_def path_clean_def clean_step_def Let_def)

theorem commit_files_publishes_witness:
  "case commit_files mem_git lab_ops ''onboard(shop)'' [(''apps/shop/service.yaml'', ''kind: Service'')] [] (lab_repo []) of
      (Inr sha, w') \<Rightarrow> main_of w' = [''apps/shop/service.yaml'' \<mapsto> ''kind: Service''] | (Inl e, w') \<Rightarrow> False"
proof -
  have "\<exists>sha w'. commit_files mem_git lab_ops ''onboard(shop)'' [(''apps/shop/service.yaml'', ''kind: Service'')] [] (lab_repo []) = (Inr sha, w')"
    using lab_clean
    by (simp add: commit_files_def open_main_def clone_repo_def write_and_stage_def push_to_def seq_def mem_defs Let_def path_dir_def)
  moreover have "main_of (lab_repo []) = Map.empty" by (simp add: main_of_def lab_repo_def)
  ultimately show ?thesis
    using commit_files_publishes [OF mem_repo_ok [folded lab_ops_dir], where
        files = "[(''apps/shop/service.yaml'', ''kind: Service'')]" and msg = "''onboard(shop)''" and author = "[]" and w = "lab_repo []"]
      lab_clean by auto
qed

section \<open>The rollback history on main\<close>

lemma new_gitops_dir [simp]: "g_work_dir (new_gitops getenv) = lab"
  by (simp add: new_gitops_def lab_def)

text \<open>
  C14. Recording a rollback, or a restore, rewrites one file of main: on success the new main is
  the old one with rollbacks.yaml replaced by the encoding of its decoded contents with the entry
  applied to the app; an error leaves main as it was, or exactly so rewritten when the failure
  came at or after the push.
\<close>

theorem record_entry_published:
  assumes "git_repo E lab main head index disk is_dir"
  shows "(case record_rollback E Y (new_gitops getenv) now app entry w of
      (Inr _, w') \<Rightarrow> rewritten Y (rolled_back entry) now app (main w) (main w')
    | (Inl e, w') \<Rightarrow> main w' = main w \<or> rewritten Y (rolled_back entry) now app (main w) (main w')) \<and>
    (case record_restore E Y (new_gitops getenv) now app entry ff w of
      (Inr _, w') \<Rightarrow> rewritten Y (restored entry) now app (main w) (main w')
    | (Inl e, w') \<Rightarrow> main w' = main w \<or> rewritten Y (restored entry) now app (main w) (main w'))"
proof
  have "triple (\<lambda>v. main v = main w) (record_rollback E Y (new_gitops getenv) now app entry)
     (\<lambda>_ v. rewritten Y (rolled_back entry) now app (main w) (main v))
     (\<lambda>e v. main v = main w \<or> rewritten Y (rolled_back entry) now app (main w) (main v))"
    by (rule triple_mono [OF git_repo.record_rollback_triple [OF assms new_gitops_dir lab_paths]]) auto
  then show "case record_rollback E Y (new_gitops getenv) now app entry w of
      (Inr _, w') \<Rightarrow> rewritten Y (rolled_back entry) now app (main w) (main w')
    | (Inl e, w') \<Rightarrow> main w' = main w \<or> rewritten Y (rolled_back entry) now app (main w) (main w')"
    by (rule tripleD) (rule refl)
  show "case record_restore E Y (new_gitops getenv) now app entry ff w of
      (Inr _, w') \<Rightarrow> rewritten Y (restored entry) now app (main w) (main w')
    | (Inl e, w') \<Rightarrow> main w' = main w \<or> rewritten Y (restored entry) now app (main w) (main w')"
    by (rule tripleD [OF git_repo.record_restore_triple [OF assms new_gitops_dir lab_paths]]) (rule refl)
qed

definition const_codec :: "rollbacks_file yaml_codec" where
  "const_codec = \<lparr>y_unmarshal = (\<lambda>s. Inr (empty_rollbacks s)), y_marshal = (\<lambda>f. Inr (rf_generated_at f))\<rparr>"

definition sample_entry :: rollback_entry where
  "sample_entry = \<lparr>re_id = ''rb-shop-1'', re_type = ''rollback'', re_timestamp = ''2024-05-01T12:00:00Z'',
     re_target_revision = ''0123456789abcdef'', re_target_image = [], re_previous_revision = [],
     re_previous_image = [], re_restored_to_revision = [], re_restored_to_image = [], re_reason = ''bad deploy'',
     re_rollback_branch = ''rollback/shop'', re_initiated_by = ''api''\<rparr>"

theorem record_entry_published_witness:
  "case record_rollback mem_git const_codec (new_gitops (\<lambda>_. [])) ''t1'' ''shop'' sample_entry
      (lab_repo [(rollbacks_path, ''t0'')]) of
      (Inr _, w') \<Rightarrow> rewritten const_codec (rolled_back sample_entry) ''t1'' ''shop''
         (main_of (lab_repo [(rollbacks_path, ''t0'')])) (main_of w')
    | (Inl e, w') \<Rightarrow> main_of w' = main_of (lab_repo [(rollbacks_path, ''t0'')]) \<or>
         rewritten const_codec (rolled_back sample_entry) ''t1'' ''shop''
         (main_of (lab_repo [(rollbacks_path, ''t0'')])) (main_of w')"
  by (rule record_entry_published [OF mem_repo_ok, THEN conjunct1])

text \<open>
  The first rollback is never recorded. The reader treats a missing rollbacks.yaml as an
  empty history, but the writer creates no directory (CommitFiles does): on a repository with no
  file under rollbacks/, recording fails, and main stays as it is.
\<close>

theorem first_rollback_not_recorded:
  assumes "git_repo E lab main head index disk is_dir"
    and "\<forall>p \<in> dom (main w). \<not> has_prefix p ''rollbacks/''"
  shows "\<exists>e w'. record_rollback E Y (new_gitops getenv) now app entry w = (Inl e, w') \<and> main w' = main w"
proof -
  have "case record_rollback E Y (new_gitops getenv) now app entry w of
      (Inr _, w') \<Rightarrow> rewritten Y (rolled_back entry) now app (main w) (main w') \<and> (\<exists>p \<in> dom (main w). has_prefix p ''rollbacks/'')
    | (Inl e, w') \<Rightarrow> main w' = main w \<or> (has_prefix e ''failed to push rollbacks commit: '' \<and>
        rewritten Y (rolled_back entry) now app (main w) (main w') \<and> (\<exists>p \<in> dom (main w). has_prefix p ''rollbacks/''))"
    by (rule tripleD [OF git_repo.record_rollback_triple [OF assms(1) new_gitops_dir lab_paths]]) (rule refl)
  with assms(2) show ?thesis by (auto split: prod.splits sum.splits)
qed

theorem first_rollback_not_recorded_witness:
  "\<exists>e w'. record_rollback mem_git const_codec (new_gitops (\<lambda>_. [])) ''t1'' ''shop'' sample_entry
      (lab_repo [(''README.md'', ''lab'')]) = (Inl e, w') \<and> main_of w' = main_of (lab_repo [(''README.md'', ''lab'')])"
  by (rule first_rollback_not_recorded [OF mem_repo_ok]) (simp add: main_of_def lab_repo_def)

text \<open>
  An app is never suspended. The YAML library builds a \<open>map[interface{}]interface{}\<close> for every
  nested mapping, so the assertion of \<open>spec\<close> to \<open>map[string]interface{}\<close> fails on every manifest:
  UpdateDeploymentReplicas returns an error and main is unchanged, whatever app and count.
\<close>

theorem suspend_never_commits:
  assumes "git_repo E (g_work_dir g) main head index disk is_dir"
    and "\<And>data doc k m. y_unmarshal Y data = Inr doc \<Longrightarrow> (k, Y_strmap m) \<notin> set doc"
  shows "\<exists>e w'. update_deployment_replicas E Y g app n author w = (Inl e, w') \<and> main w' = main w"
proof -
  have "case update_deployment_replicas E Y g app n author w of (Inr _, _) \<Rightarrow> False | (Inl e, w') \<Rightarrow> main w' = main w"
    by (rule tripleD [OF git_repo.update_replicas_triple [OF assms(1) refl]]) (use assms(2) in auto)
  then show ?thesis by (auto split: prod.splits sum.splits)
qed

definition nested_codec :: "yaml_doc yaml_codec" where
  "nested_codec = \<lparr>y_unmarshal = (\<lambda>s. Inr [(''spec'', Y_map [(Y_str ''replicas'', Y_int 2)])]), y_marshal = (\<lambda>d. Inr [])\<rparr>"

theorem suspend_never_commits_witness:
  "\<exists>e w'. update_deployment_replicas mem_git nested_codec lab_ops ''shop'' 0 ''alice'' (lab_repo []) = (Inl e, w') \<and>
     main_of w' = main_of (lab_repo [])"
  by (rule suspend_never_commits [OF mem_repo_ok [folded lab_ops_dir]]) (auto simp: nested_codec_def)

section \<open>The history as a state machine\<close>

datatype rollback_event = Rolled_back string string rollback_entry | Restored string string rollback_entry

definition rollback_step :: "rollbacks_file \<Rightarrow> rollback_event \<Rightarrow> rollbacks_file" where
  "rollback_step file e = (case (case e of
       Rolled_back now app entry \<Rightarrow> update_app (rolled_back entry) now app file
     | Restored now app entry \<Rightarrow> update_app (restored entry) now app file) of
     Inl err \<Rightarrow> file | Inr file' \<Rightarrow> file')"

definition app_ok :: "app_rollbacks \<Rightarrow> bool" where
  "app_ok a \<longleftrightarrow> (case ap_active_rollback a of
     None \<Rightarrow> ap_current_status a = ''normal''
   | Some e \<Rightarrow> ap_current_status a = ''rollback'' \<and> ap_history a \<noteq> [] \<and> last (ap_history a) = e)"

definition file_ok :: "rollbacks_file \<Rightarrow> bool" where
  "file_ok file \<longleftrightarrow> (\<forall>app. case rf_apps file app of Some (Some a) \<Rightarrow> app_ok a | Some None \<Rightarrow> False | None \<Rightarrow> True)"

definition history_of :: "string \<Rightarrow> rollbacks_file \<Rightarrow> rollback_entry list" where
  "history_of app file = (case rf_apps file app of Some (Some a) \<Rightarrow> ap_history a | _ \<Rightarrow> [])"

text \<open>What one event adds to the history of an app.\<close>

fun entries_for :: "string \<Rightarrow> rollback_event \<Rightarrow> rollback_entry list" where
  "entries_for app (Rolled_back now app' entry) = (if app' = app then [entry] else [])"
| "entries_for app (Restored now app' entry) = (if app' = app then [entry] else [])"

lemma app_ok_steps [simp]:
  "app_ok (rolled_back entry a)" "app_ok (restored entry a)"
  by (simp_all add: app_ok_def rolled_back_def restored_def)

lemma rollback_step_ok: "file_ok file \<Longrightarrow> file_ok (rollback_step file e)"
  by (cases e) (auto simp: file_ok_def rollback_step_def update_app_def split: option.splits)

lemma rollback_step_history:
  "file_ok file \<Longrightarrow> history_of app (rollback_step file e) = history_of app file @ entries_for app e"
  by (cases e) (auto simp: file_ok_def rollback_step_def update_app_def history_of_def rolled_back_def restored_def
      fresh_app_def split: option.splits)

interpretation rollbacks: machine rollback_step "\<lambda>_ _. True" file_ok
  by unfold_locales (rule rollback_step_ok)

lemma file_okD: "file_ok rf \<Longrightarrow> rf_apps rf app = Some (Some a) \<Longrightarrow> app_ok a"
  by (auto simp: file_ok_def dest!: spec [where x = app])

lemma run_history:
  "file_ok rf \<Longrightarrow> history_of app (run rollback_step rf es) = history_of app rf @ concat (map (entries_for app) es)"
  by (induction es arbitrary: rf) (auto simp: rollback_step_ok rollback_step_history)

text \<open>
  C38. Over any series of recorded rollbacks and restores, starting from a consistent file (an
  empty one, say), the history of each app grows by exactly its own entries, in order, and
  nothing is ever rewritten; and an app is marked as rolled back exactly when it has an active
  rollback, which is then the last entry of its history.
\<close>

theorem rollback_history:
  assumes "file_ok file"
  shows "history_of app (run rollback_step file es) = history_of app file @ concat (map (entries_for app) es) \<and>
    (\<forall>a. rf_apps (run rollback_step file es) app = Some (Some a) \<longrightarrow>
       (ap_current_status a = ''rollback'' \<longleftrightarrow> ap_active_rollback a \<noteq> None) \<and>
       (\<forall>e. ap_active_rollback a = Some e \<longrightarrow> last (history_of app (run rollback_step file es)) = e))"
proof -
  have "file_ok (run rollback_step file es)" by (rule rollbacks.run_inv [OF assms]) simp
  from file_okD [OF this, of app] show ?thesis
    unfolding run_history [OF assms, of app es, symmetric]
    by (auto simp: app_ok_def history_of_def split: option.splits)
qed

lemma empty_file_ok [simp]: "file_ok (empty_rollbacks now)"
  by (simp add: file_ok_def empty_rollbacks_def)

theorem rollback_history_witness:
  "history_of ''shop'' (run rollback_step (empty_rollbacks ''t0'')
     [Rolled_back ''t1'' ''shop'' sample_entry, Rolled_back ''t2'' ''blog'' sample_entry,
      Restored ''t3'' ''shop'' (sample_entry\<lparr>re_type := ''restore''\<rparr>)])
   = [sample_entry, sample_entry\<lparr>re_type := ''restore''\<rparr>]"
  using rollback_history [OF empty_file_ok, of "''shop''" "''t0''" "[Rolled_back ''t1'' ''shop'' sample_entry,
      Rolled_back ''t2'' ''blog'' sample_entry, Restored ''t3'' ''shop'' (sample_entry\<lparr>re_type := ''restore''\<rparr>)]"]
  by (simp add: history_of_def empty_rollbacks_def)

end
