(* ===== verification/Dispatch.thy ===== *)
theory Dispatch
  imports BuildTypes
begin

text \<open>
  internal/build/dispatch/dispatch.go: handing a build to GitHub Actions. The request that goes
  out is a record, its JSON body the payload itself; the HTTP client is the argument \<open>send\<close>, a
  function of the request, and \<open>bad_url\<close> is the URL parser's complaint about an address.
\<close>

record dispatch_config =
  dc_token :: string
  dc_workflow_repo :: string
  dc_coordinator_url :: string
  dc_image_prefix :: string
  dc_base_url :: string

type_synonym dispatcher = dispatch_config

definition event_type :: string where
  "event_type = ''build-app''"

definition new_dispatcher :: "dispatch_config \<Rightarrow> dispatcher option" where
  "new_dispatcher cfg =
     (if trim_space (dc_token cfg) = [] \<or> trim_space (dc_workflow_repo cfg) = [] then None else Some cfg)"

record dispatch_payload =
  dp_job_id :: string
  dp_app_name :: string
  dp_repo_url :: string
  dp_ref :: string
  dp_port :: int
  dp_coordinator_url :: string
  dp_image_prefix :: string

record dispatch_request =
  dr_url :: string
  dr_headers :: "(string \<times> string) list"
  dr_event_type :: string
  dr_payload :: dispatch_payload

record http_reply =
  hr_code :: int
  hr_status :: string
  hr_body :: string

type_synonym sender = "dispatch_request \<Rightarrow> http_reply result"

definition dispatch_request_of ::
    "dispatcher \<Rightarrow> string \<Rightarrow> string \<Rightarrow> string \<Rightarrow> string \<Rightarrow> int \<Rightarrow> dispatch_request" where
  "dispatch_request_of d job_id app repo ref port =
     \<lparr>dr_url = (if dc_base_url d = [] then ''https://api.github.com'' else dc_base_url d)
                 @ ''/repos/'' @ dc_workflow_repo d @ ''/dispatches'',
      dr_headers = [(''Authorization'', ''Bearer '' @ dc_token d), (''Accept'', ''application/vnd.github+json''),
        (''X-GitHub-Api-Version'', ''2022-11-28''), (''Content-Type'', ''application/json'')],
      dr_event_type = event_type,
      dr_payload = \<lparr>dp_job_id = job_id, dp_app_name = app, dp_repo_url = repo, dp_ref = ref, dp_port = port,
        dp_coordinator_url = trim_right_char (CHR ''/'') (dc_coordinator_url d),
        dp_image_prefix = dc_image_prefix d\<rparr>\<rparr>"

definition dispatch ::
    "(string \<Rightarrow> string option) \<Rightarrow> sender \<Rightarrow> dispatcher option \<Rightarrow>
     string \<Rightarrow> string \<Rightarrow> string \<Rightarrow> string \<Rightarrow> int \<Rightarrow> unit result" where
  "dispatch bad_url send d job_id app repo ref port = (case d of
     None \<Rightarrow> Inl ''build dispatcher not configured: set GITHUB_TOKEN and BUILD_WORKFLOW_REPO''
   | Some d \<Rightarrow>
      if trim_space (dc_image_prefix d) = []
      then Inl ''build dispatcher not configured: set IMAGE_PREFIX to the registry path images are pushed under, e.g. ghcr.io/your-account''
      else if trim_space (dc_coordinator_url d) = []
      then Inl ''build dispatcher not configured: set BUILD_COORDINATOR_PUBLIC_URL to the address the build reports back to''
      else (let req = dispatch_request_of d job_id app repo ref port in
        case bad_url (dr_url req) of
          Some e \<Rightarrow> Inl (''build dispatch request: '' @ e)
        | None \<Rightarrow> (case send req of
            Inl e \<Rightarrow> Inl (''dispatch to GitHub Actions: '' @ e)
          | Inr reply \<Rightarrow> if hr_code reply = 204 then Inr ()
              else Inl (''dispatch to GitHub Actions returned '' @ hr_status reply @ '': ''
                     @ trim_space (take 2048 (hr_body reply))))))"

text \<open>
  A dispatch succeeds exactly when it is configured and GitHub answers 204 to the request that
  carries the job, and nothing at all is sent by one that is not configured.
\<close>

definition configured :: "dispatcher \<Rightarrow> bool" where
  "configured d \<longleftrightarrow> trim_space (dc_image_prefix d) \<noteq> [] \<and> trim_space (dc_coordinator_url d) \<noteq> []"

lemma dispatch_ok_iff:
  "dispatch bad_url send (Some d) job_id app repo ref port = Inr () \<longleftrightarrow>
     configured d \<and> bad_url (dr_url (dispatch_request_of d job_id app repo ref port)) = None \<and>
     (\<exists>reply. send (dispatch_request_of d job_id app repo ref port) = Inr reply \<and> hr_code reply = 204)"
  by (auto simp: dispatch_def configured_def Let_def split: option.split sum.split)

lemma dispatch_unconfigured:
  "\<not> configured d \<Longrightarrow> dispatch bad_url send (Some d) job_id app repo ref port
     = dispatch bad_url' send' (Some d) job_id app repo ref port"
  by (auto simp: dispatch_def configured_def)

end
