(* ===== verification/Instants.thy ===== *)
theory Instants
  imports Prelude
begin

text \<open>
  Go's \<open>time.Time\<close> and \<open>time.Duration\<close> where the code only compares and subtracts them: an
  instant is the number of nanoseconds since the zero time (year 1), a duration a signed 64-bit
  number of nanoseconds. \<open>float64\<close> is a type of its own, with the operations the code uses.
\<close>

section \<open>Instants and durations\<close>

type_synonym instant = int
type_synonym duration = int

definition zero_instant :: instant where
  "zero_instant = 0"

definition is_zero :: "instant \<Rightarrow> bool" where
  "is_zero t \<longleftrightarrow> t = zero_instant"

definition max_duration :: duration where
  "max_duration = 2 ^ 63 - 1"

definition min_duration :: duration where
  "min_duration = - (2 ^ 63)"

text \<open>\<open>t.Sub(u)\<close> saturates at the ends of the int64 range.\<close>

definition time_sub :: "instant \<Rightarrow> instant \<Rightarrow> duration" where
  "time_sub t u = max min_duration (min max_duration (t - u))"

definition seconds :: "int \<Rightarrow> duration" where
  "seconds n = n * 1000000000"

definition minutes :: "int \<Rightarrow> duration" where
  "minutes n = seconds (60 * n)"

definition hours :: "int \<Rightarrow> duration" where
  "hours n = minutes (60 * n)"

lemmas duration_defs = seconds_def minutes_def hours_def

lemma time_sub_ge: "0 < d \<Longrightarrow> d \<le> max_duration \<Longrightarrow> d \<le> time_sub t u \<longleftrightarrow> d \<le> t - u"
  by (auto simp: time_sub_def max_duration_def min_duration_def)

lemma time_sub_gt: "0 \<le> d \<Longrightarrow> d < max_duration \<Longrightarrow> d < time_sub t u \<longleftrightarrow> d < t - u"
  by (auto simp: time_sub_def max_duration_def min_duration_def)

lemma time_sub_less: "0 < d \<Longrightarrow> d \<le> max_duration \<Longrightarrow> time_sub t u < d \<longleftrightarrow> t - u < d"
  using time_sub_ge [of d t u] by linarith

text \<open>Signed 64-bit arithmetic wraps around.\<close>

definition wrap64 :: "int \<Rightarrow> int" where
  "wrap64 n = (n + 2 ^ 63) mod 2 ^ 64 - 2 ^ 63"

lemma wrap64_id: "- (2 ^ 63) \<le> n \<Longrightarrow> n < 2 ^ 63 \<Longrightarrow> wrap64 n = n"
  by (simp add: wrap64_def)

section \<open>float64\<close>

text \<open>
  The model never looks inside a \<open>float64\<close>: its type is a parameter \<open>'f\<close> and the machine's
  operations are a record. \<open>fl_lit x\<close> is the integer that the JSON text of \<open>x\<close> denotes, if it
  denotes one; \<open>fl_to_int\<close> is the truncating conversion to \<open>int\<close>.
\<close>

record 'f float64 =
  fl_of_int :: "int \<Rightarrow> 'f"
  fl_add :: "'f \<Rightarrow> 'f \<Rightarrow> 'f"
  fl_mul :: "'f \<Rightarrow> 'f \<Rightarrow> 'f"
  fl_div :: "'f \<Rightarrow> 'f \<Rightarrow> 'f"
  fl_gt :: "'f \<Rightarrow> 'f \<Rightarrow> bool"
  fl_le :: "'f \<Rightarrow> 'f \<Rightarrow> bool"
  fl_to_int :: "'f \<Rightarrow> int"
  fl_lit :: "'f \<Rightarrow> int option"

definition fl_half :: "'f float64 \<Rightarrow> 'f" where
  "fl_half F = fl_div F (fl_of_int F 1) (fl_of_int F 2)"

text \<open>Whole numbers, the instance the witnesses compute with.\<close>

definition int_floats :: "int float64" where
  "int_floats = \<lparr>fl_of_int = (\<lambda>n. n), fl_add = (+), fl_mul = (*), fl_div = (div), fl_gt = (>), fl_le = (\<le>),
     fl_to_int = (\<lambda>x. x), fl_lit = Some\<rparr>"

end
