(* ===== verification/Json.thy ===== *)
theory Json
  imports Instants GoStrings
begin

text \<open>
  \<open>encoding/json\<close> as the platform uses it. The text of a value is a parameter (\<open>json_io\<close>, over
  an abstract type of byte strings); how a Go struct maps to an object by its field tags is
  modelled: a decoder matches keys exactly or by case folding, ignores the ones it does not know,
  leaves a missing field at its zero value and fails on a value of another type. A number carries
  its float64 reading and, for an integer literal, that integer.
\<close>

datatype 'f json =
    J_null
  | J_bool bool
  | J_num 'f "int option"
  | J_str string
  | J_arr "'f json list"
  | J_obj "(string \<times> 'f json) list"

text \<open>
  What is done with text: printing fails on a NaN or an infinity, parsing on malformed input.
  \<open>jio_parse\<close> is \<open>Unmarshal\<close>, for which the text must hold one value and no more; \<open>jio_decode\<close> is a
  \<open>Decoder\<close>, which reads the first value and leaves the rest.
  \<open>jio_refusal\<close> is the error text of a failed decoding into a destination, \<open>jio_limit\<close> reads at
  most so many bytes, \<open>jio_text\<close> shows raw bytes as a string. Times travel as RFC 3339 text.
\<close>

record ('f, 'b) json_io =
  jio_print :: "'f json \<Rightarrow> 'b option"
  jio_empty :: 'b
  jio_parse :: "'b \<Rightarrow> 'f json option"
  jio_decode :: "'b \<Rightarrow> 'f json option"
  jio_refusal :: "string \<Rightarrow> 'b \<Rightarrow> string"
  jio_limit :: "nat \<Rightarrow> 'b \<Rightarrow> 'b"
  jio_text :: "'b \<Rightarrow> string"
  jio_time_text :: "instant \<Rightarrow> string"
  jio_time_parse :: "string \<Rightarrow> instant option"

section \<open>Encoding\<close>

type_synonym 'a slice = "'a list option"

definition j_float :: "'f float64 \<Rightarrow> 'f \<Rightarrow> 'f json" where
  "j_float F x = J_num x (fl_lit F x)"

definition j_int :: "'f float64 \<Rightarrow> int \<Rightarrow> 'f json" where
  "j_int F n = J_num (fl_of_int F n) (Some n)"

text \<open>A nil slice is \<open>null\<close>, an empty one \<open>[]\<close>.\<close>

definition j_slice :: "('a \<Rightarrow> 'f json) \<Rightarrow> 'a slice \<Rightarrow> 'f json" where
  "j_slice f xs = (case xs of None \<Rightarrow> J_null | Some ys \<Rightarrow> J_arr (map f ys))"

text \<open>\<open>omitempty\<close> on a string field.\<close>

definition j_omit_empty :: "string \<Rightarrow> string \<Rightarrow> (string \<times> 'f json) list" where
  "j_omit_empty key v = (if v = [] then [] else [(key, J_str v)])"

section \<open>Decoding\<close>

definition long_s :: string where
  "long_s = map char_of [0xC5, 0xBF :: nat]"

definition kelvin :: string where
  "kelvin = map char_of [0xE2, 0x84, 0xAA :: nat]"

text \<open>
  Keys compare under simple case folding; outside ASCII only the long s and the Kelvin sign fold
  to a letter of a field name.
\<close>

definition fold_key :: "string \<Rightarrow> string" where
  "fold_key s = map lower_byte (if is_ascii s then s else replace_all kelvin ''k'' (replace_all long_s ''s'' s))"

definition field_for :: "string list \<Rightarrow> string \<Rightarrow> string option" where
  "field_for names key = (if key \<in> set names then Some key
     else List.find (\<lambda>n. fold_key n = fold_key key) names)"

text \<open>An object that gives a field more than once is read at its last occurrence.\<close>

definition get_field :: "string list \<Rightarrow> (string \<times> 'f json) list \<Rightarrow> string \<Rightarrow> 'f json" where
  "get_field names kvs n = (case filter (\<lambda>(k, v). field_for names k = Some n) kvs of
     [] \<Rightarrow> J_null | e # es \<Rightarrow> snd (last (e # es)))"

fun dec_str :: "'f json \<Rightarrow> string option" where
  "dec_str J_null = Some []"
| "dec_str (J_str s) = Some s"
| "dec_str _ = None"

fun dec_float :: "'f float64 \<Rightarrow> 'f json \<Rightarrow> 'f option" where
  "dec_float F J_null = Some (fl_of_int F 0)"
| "dec_float F (J_num x _) = Some x"
| "dec_float F _ = None"

fun dec_int64 :: "'f json \<Rightarrow> int option" where
  "dec_int64 J_null = Some 0"
| "dec_int64 (J_num _ (Some n)) = (if min_duration \<le> n \<and> n \<le> max_duration then Some n else None)"
| "dec_int64 _ = None"

fun dec_time :: "(string \<Rightarrow> instant option) \<Rightarrow> 'f json \<Rightarrow> instant option" where
  "dec_time parse J_null = Some zero_instant"
| "dec_time parse (J_str s) = parse s"
| "dec_time parse _ = None"

fun all_some :: "'a option list \<Rightarrow> 'a list option" where
  "all_some [] = Some []"
| "all_some (None # xs) = None"
| "all_some (Some x # xs) = map_option ((#) x) (all_some xs)"

fun dec_slice :: "('f json \<Rightarrow> 'a option) \<Rightarrow> 'f json \<Rightarrow> 'a slice option" where
  "dec_slice d J_null = Some None"
| "dec_slice d (J_arr vs) = map_option Some (all_some (map d vs))"
| "dec_slice d _ = None"

text \<open>A map of strings to strings, in the order the object lists it.\<close>

fun dec_pairs :: "(string \<times> 'f json) list \<Rightarrow> (string \<times> string) list option" where
  "dec_pairs [] = Some []"
| "dec_pairs ((k, v) # kvs) = (case (dec_str v, dec_pairs kvs) of
     (Some s, Some rest) \<Rightarrow> Some ((k, s) # rest) | _ \<Rightarrow> None)"

fun dec_string_map :: "'f json \<Rightarrow> (string \<times> string) list option" where
  "dec_string_map J_null = Some []"
| "dec_string_map (J_obj kvs) = dec_pairs kvs"
| "dec_string_map _ = None"

text \<open>The fields of an object; \<open>null\<close> leaves all of them at their zero values.\<close>

fun dec_object :: "'f json \<Rightarrow> (string \<times> 'f json) list option" where
  "dec_object J_null = Some []"
| "dec_object (J_obj kvs) = Some kvs"
| "dec_object _ = None"

lemma all_some_map [simp]: "(\<And>x. x \<in> set xs \<Longrightarrow> f (g x) = Some x) \<Longrightarrow> all_some (map (f \<circ> g) xs) = Some xs"
  by (induction xs) auto

lemma dec_slice_j_slice:
  assumes "\<And>x. x \<in> set (case xs of None \<Rightarrow> [] | Some ys \<Rightarrow> ys) \<Longrightarrow> d (f x) = Some x"
  shows "dec_slice d (j_slice f xs) = Some xs"
proof (cases xs)
  case (Some ys)
  with assms have "all_some (map (d \<circ> f) ys) = Some ys" by (intro all_some_map) auto
  then show ?thesis using Some by (simp add: j_slice_def)
qed (simp add: j_slice_def)

lemma dec_float_j_float [simp]: "dec_float F (j_float F x) = Some x"
  by (simp add: j_float_def)

lemma dec_pairs_strs [simp]: "dec_pairs (map (\<lambda>(k, v). (k, J_str v)) kvs) = Some kvs"
  by (induction kvs) auto

lemma fold_key_ascii: "is_ascii s \<Longrightarrow> fold_key s = map lower_byte s"
  by (simp add: fold_key_def)

text \<open>Every key of an encoded struct is a field name, so it is matched exactly.\<close>

lemma field_for_exact [simp]: "key \<in> set names \<Longrightarrow> field_for names key = Some key"
  by (simp add: field_for_def)

lemma get_field_encoded:
  assumes "set (map fst kvs) \<subseteq> set names" "distinct (map fst kvs)" "map_of kvs n = Some v"
  shows "get_field names kvs n = v"
proof -
  have "filter (\<lambda>(k, v). field_for names k = Some n) kvs = filter (\<lambda>(k, v). k = n) kvs"
    using assms(1) by (intro filter_cong) (auto simp: image_subset_iff)
  also have "\<dots> = [(n, v)]"
    using assms(2,3)
  proof (induction kvs)
    case (Cons kv kvs)
    obtain k w where "kv = (k, w)" by force
    with Cons show ?case
      by (cases "k = n") (force simp: filter_empty_conv)+
  qed simp
  finally show ?thesis by (simp add: get_field_def)
qed

end
