(* ===== verification/Emitter.thy ===== *)
theory Emitter
  imports Json
begin

text \<open>
  internal/ocilog: the emitter that ships build events to OCI Logging. Its state is the channel,
  the worker's batch, the drop counter and the requests handed to \<open>PutLogs\<close>; the worker's select
  loop is the interleaving of receives and ticks. What the service answers is not looked at by
  the code beyond a log line, so a request is recorded when it is made.
\<close>

section \<open>Events\<close>

record build_event =
  be_type :: string
  be_job_id :: string
  be_app :: string
  be_status :: string
  be_stream :: string
  be_message :: string
  be_image :: string
  be_tag :: string
  be_error :: string

definition blank_event :: build_event where
  "blank_event = \<lparr>be_type = [], be_job_id = [], be_app = [], be_status = [], be_stream = [],
     be_message = [], be_image = [], be_tag = [], be_error = []\<rparr>"

definition event_json :: "build_event \<Rightarrow> unit json" where
  "event_json e = J_obj ((''type'', J_str (be_type e)) #
     j_omit_empty ''jobId'' (be_job_id e) @ j_omit_empty ''app'' (be_app e) @
     j_omit_empty ''status'' (be_status e) @ j_omit_empty ''stream'' (be_stream e) @
     j_omit_empty ''message'' (be_message e) @ j_omit_empty ''image'' (be_image e) @
     j_omit_empty ''tag'' (be_tag e) @ j_omit_empty ''error'' (be_error e))"

text \<open>\<open>print\<close> is the text \<open>json.Marshal\<close> gives a value, or \<open>None\<close> for its error.\<close>

definition marshal_event :: "(unit json \<Rightarrow> string option) \<Rightarrow> build_event \<Rightarrow> string option" where
  "marshal_event print e = print (event_json e)"

section \<open>The emitter\<close>

definition buffer_size :: nat where
  "buffer_size = 2048"

definition batch_size :: nat where
  "batch_size = 128"

record entry =
  en_when :: instant
  en_event :: build_event

record put_request =
  pr_log_id :: string
  pr_entries :: "(string \<times> instant) list"
  pr_default_time :: instant

record emitter =
  em_log_id :: string
  em_queue :: "entry list"
  em_batch :: "entry list"
  em_dropped :: nat
  em_sent :: "put_request list"
  em_stopped :: bool

text \<open>No emitter without a log to write to.\<close>

definition new_emitter :: "string \<Rightarrow> emitter option" where
  "new_emitter log_id = (if log_id = [] then None
     else Some \<lparr>em_log_id = log_id, em_queue = [], em_batch = [], em_dropped = 0, em_sent = [], em_stopped = False\<rparr>)"

definition emit :: "instant \<Rightarrow> build_event \<Rightarrow> emitter \<Rightarrow> emitter" where
  "emit now ev e =
     (if length (em_queue e) < buffer_size
      then e\<lparr>em_queue := em_queue e @ [\<lparr>en_when = now, en_event = ev\<rparr>]\<rparr>
      else e\<lparr>em_dropped := em_dropped e + 1\<rparr>)"

text \<open>An event that does not marshal is skipped; a request without entries is not made.\<close>

definition log_entries :: "(unit json \<Rightarrow> string option) \<Rightarrow> entry list \<Rightarrow> (string \<times> instant) list" where
  "log_entries print batch =
     List.map_filter (\<lambda>b. map_option (\<lambda>data. (data, en_when b)) (marshal_event print (en_event b))) batch"

definition put :: "(unit json \<Rightarrow> string option) \<Rightarrow> entry list \<Rightarrow> emitter \<Rightarrow> emitter" where
  "put print batch e = (let entries = log_entries print batch in
     if entries = [] then e
     else e\<lparr>em_sent := em_sent e @ [\<lparr>pr_log_id = em_log_id e, pr_entries = entries,
              pr_default_time = en_when (hd batch)\<rparr>]\<rparr>)"

definition flush :: "(unit json \<Rightarrow> string option) \<Rightarrow> emitter \<Rightarrow> emitter" where
  "flush print e = (if em_batch e = [] then e else (put print (em_batch e) e)\<lparr>em_batch := []\<rparr>)"

text \<open>One receive of the worker, from a channel that holds something.\<close>

definition receive :: "(unit json \<Rightarrow> string option) \<Rightarrow> emitter \<Rightarrow> emitter" where
  "receive print e = (case em_queue e of
     [] \<Rightarrow> e
   | ent # rest \<Rightarrow>
      (let e = e\<lparr>em_queue := rest, em_batch := em_batch e @ [ent]\<rparr>
       in if length (em_batch e) \<ge> batch_size then flush print e else e))"

lemma put_fields [simp]:
  "em_queue (put print b e) = em_queue e" "em_batch (put print b e) = em_batch e"
  "em_dropped (put print b e) = em_dropped e" "em_stopped (put print b e) = em_stopped e"
  "em_log_id (put print b e) = em_log_id e"
  by (simp_all add: put_def Let_def)

lemma flush_fields [simp]:
  "em_queue (flush print e) = em_queue e" "em_dropped (flush print e) = em_dropped e"
  "em_stopped (flush print e) = em_stopped e" "em_log_id (flush print e) = em_log_id e" "em_batch (flush print e) = []"
  by (simp_all add: flush_def)

lemma receive_queue [simp]: "em_queue (receive print e) = tl (em_queue e)"
  by (simp add: receive_def Let_def split: list.split)

text \<open>Draining at \<open>Close\<close>: receive until the channel is empty, then flush.\<close>

function drain :: "(unit json \<Rightarrow> string option) \<Rightarrow> emitter \<Rightarrow> emitter" where
  "drain print e = (if em_queue e = [] then flush print e else drain print (receive print e))"
  by pat_completeness auto

termination drain
  by (relation "measure (\<lambda>(print, e). length (em_queue e))") (auto simp: neq_Nil_conv)

declare drain.simps [simp del]

definition close_emitter :: "(unit json \<Rightarrow> string option) \<Rightarrow> emitter \<Rightarrow> emitter" where
  "close_emitter print e = (if em_stopped e then e else (drain print e)\<lparr>em_stopped := True\<rparr>)"

section \<open>Interleavings\<close>

text \<open>
  The callers' \<open>Emit\<close>s, the worker's receives and the ticker's flushes in any order; nothing of the
  worker runs once it has been stopped.
\<close>

datatype emitter_step = Emit_event instant build_event | Receive | Tick | Close_now

fun emitter_next :: "(unit json \<Rightarrow> string option) \<Rightarrow> emitter \<Rightarrow> emitter_step \<Rightarrow> emitter" where
  "emitter_next print e (Emit_event now ev) = emit now ev e"
| "emitter_next print e Receive = (if em_stopped e then e else receive print e)"
| "emitter_next print e Tick = (if em_stopped e then e else flush print e)"
| "emitter_next print e Close_now = close_emitter print e"

text \<open>The entries that found room in the channel, in the order they were emitted.\<close>

fun accepted :: "(unit json \<Rightarrow> string option) \<Rightarrow> emitter \<Rightarrow> emitter_step list \<Rightarrow> entry list" where
  "accepted print e [] = []"
| "accepted print e (st # sts) =
     (case st of Emit_event now ev \<Rightarrow>
        if length (em_queue e) < buffer_size then [\<lparr>en_when = now, en_event = ev\<rparr>] else []
      | _ \<Rightarrow> []) @ accepted print (emitter_next print e st) sts"

end
