(* ===== verification/Coordinator.thy ===== *)
theory Coordinator
  imports Store Dispatch GitOps Manifests Emitter
begin

text \<open>
  internal/build/coordinator/server.go: the HTTP handlers of the build coordinator, over the
  store, the GitOps repository and the log emitter. What a handler is given by its environment -
  the parsed body (or the parser's refusal), fresh UUIDs, the clock, map iteration orders, the
  reply of GitHub - is an argument; what it changes is \<open>sv\<close>.
\<close>

section \<open>Server state and environment\<close>

text \<open>
  \<open>sv_emitted\<close> lists what was handed to the emitter (nothing for a nil one); whether the emitter
  keeps it is the emitter's affair.
\<close>

record 'w sv =
  sv_store :: store
  sv_world :: 'w
  sv_emitted :: "build_event list"

record 'w server =
  se_token :: string
  se_webhook_secret :: string
  se_dispatcher :: "dispatcher option"
  se_emitter :: bool
  se_git :: "'w git_env"
  se_git_ops :: git_ops
  se_send :: sender
  se_bad_url :: "string \<Rightarrow> string option"
  se_unicode :: "string \<Rightarrow> string"
  se_quote :: "string \<Rightarrow> string"
  se_map_order :: "string \<Rightarrow> placeholder list"

definition max_attempts :: int where
  "max_attempts = 2"

definition on_store :: "(store, 'a) act \<Rightarrow> ('w sv, 'a) act" where
  "on_store m s = (case m (sv_store s) of (r, t) \<Rightarrow> (r, s\<lparr>sv_store := t\<rparr>))"

definition on_git :: "('w, 'a) act \<Rightarrow> ('w sv, 'a) act" where
  "on_git m s = (case m (sv_world s) of (r, t) \<Rightarrow> (r, s\<lparr>sv_world := t\<rparr>))"

definition emit_event :: "'w server \<Rightarrow> build_event \<Rightarrow> 'w sv \<Rightarrow> 'w sv" where
  "emit_event S e s = (if se_emitter S then s\<lparr>sv_emitted := sv_emitted s @ [e]\<rparr> else s)"

datatype answer =
    Fail int string
  | Created_build create_build_response
  | Builds "job list"
  | One_build job
  | Log_lines "build_log_line list"
  | Polled "job option"
  | No_content
  | Ignored string
  | Queued_builds "string list"

type_synonym 'w handler = "'w sv \<Rightarrow> answer \<times> 'w sv"

text \<open>The bearer check in front of every /v1 route but the webhook.\<close>

definition auth :: "'w server \<Rightarrow> string \<Rightarrow> 'w handler \<Rightarrow> 'w handler" where
  "auth S authorization h s =
     (if se_token S = [] then h s
      else if authorization \<noteq> ''Bearer '' @ se_token S then (Fail 401 ''unauthorized'', s)
      else h s)"

section \<open>Requests\<close>

definition github_prefix :: string where
  "github_prefix = ''https://github.com/''"

definition normalize_build_request :: "create_build_request \<Rightarrow> create_build_request" where
  "normalize_build_request req = (let app = trim_space (cb_app_name req); ref = trim_space (cb_ref req) in
     req\<lparr>cb_app_name := (if app = [] then trim_space (cb_name req) else app),
         cb_repo_url := trim_space (cb_repo_url req),
         cb_ref := (if ref = [] then ''main'' else ref),
         cb_port := 8080,
         cb_replicas := (if cb_replicas req = 0 then 1 else cb_replicas req)\<rparr>)"

definition normalize_and_validate_build_request ::
    "(string \<Rightarrow> string) \<Rightarrow> create_build_request \<Rightarrow> create_build_request result" where
  "normalize_and_validate_build_request uni req0 = (let req = normalize_build_request req0 in
     if cb_repo_url req = [] then Inl ''repoUrl is required''
     else if \<not> has_prefix (cb_repo_url req) github_prefix
     then Inl ''repoUrl must be an https GitHub repository URL''
     else (case validate_create_app_request uni (Some \<lparr>car_name = cb_app_name req,
              car_image = ''ghcr.io/placeholder/app'', car_tag = placeholder_tag,
              car_replicas = cb_replicas req, car_port = cb_port req, car_env = []\<rparr>) of
            Inl e \<Rightarrow> Inl e | Inr _ \<Rightarrow> Inr req))"

definition job_for :: "string \<Rightarrow> string \<Rightarrow> string \<Rightarrow> string \<Rightarrow> int \<Rightarrow> int \<Rightarrow> env_map \<Rightarrow> job" where
  "job_for uuid app repo ref replicas port env =
     \<lparr>j_id = uuid, j_app_name = app, j_repo_url = repo, j_ref = ref, j_commit_sha = [], j_framework = [],
      j_image = [], j_tag = [], j_status = status_queued, j_attempts = 0, j_replicas = replicas,
      j_port = port, j_env = env, j_gitops_commit_sha = [], j_gitops_path = [], j_deploy_status = [],
      j_argo_sync_status = [], j_argo_health = [], j_app_url = [], j_verification_error = [], j_error = [],
      j_created_at = zero_time, j_updated_at = zero_time, j_started_at = None, j_finished_at = None\<rparr>"

section \<open>Dispatching\<close>

text \<open>
  The block \<open>createBuild\<close> and \<open>startRebuild\<close> share: a job that cannot be handed over is
  recorded as failed (both writes are best effort). The clock is read once per write: \<open>clock 1\<close>
  for the log line, \<open>clock 2\<close> for the status; \<open>clock 0\<close> was the creation.
\<close>

definition dispatch_job :: "'w server \<Rightarrow> (nat \<Rightarrow> gotime) \<Rightarrow> job \<Rightarrow> 'w sv \<Rightarrow> bool \<times> 'w sv" where
  "dispatch_job S clock job s = (case se_dispatcher S of
     None \<Rightarrow> (True, s)
   | Some d \<Rightarrow> (case dispatch (se_bad_url S) (se_send S) (Some d) (j_id job) (j_app_name job) (j_repo_url job)
                  (j_ref job) (j_port job) of
       Inr _ \<Rightarrow> (True, s)
     | Inl e \<Rightarrow>
        (let s1 = snd (on_store (append_log (clock 1) (j_id job) ''stderr'' (''failed to dispatch build: '' @ e)) s);
             s2 = snd (on_store (update_runner_status (se_quote S) (clock 2) (j_id job)
                    (failure_report (''failed to dispatch build to executor: '' @ e))) s1)
         in (False, s2))))"

section \<open>createBuild\<close>

definition created_answer :: "job \<Rightarrow> answer" where
  "created_answer job = Created_build \<lparr>cr_app_name = j_app_name job, cr_build_id = j_id job, cr_status = j_status job\<rparr>"

definition insert_and_dispatch :: "'w server \<Rightarrow> (nat \<Rightarrow> gotime) \<Rightarrow> job \<Rightarrow> 'w handler" where
  "insert_and_dispatch S clock job0 s = (case on_store (create_job (clock 0) job0) s of
     (Inl e, s) \<Rightarrow> (if str_contains e ''UNIQUE'' then Fail 409 ''build already exists for app''
                      else Fail 500 ''failed to create build'', s)
   | (Inr job, s) \<Rightarrow> (case dispatch_job S clock job s of
       (True, s) \<Rightarrow> (created_answer job, s)
     | (False, s) \<Rightarrow> (Fail 502 ''failed to dispatch build'', s)))"

definition create_build ::
    "'w server \<Rightarrow> (nat \<Rightarrow> gotime) \<Rightarrow> string \<Rightarrow> create_build_request option \<Rightarrow> 'w handler" where
  "create_build S clock uuid body s = (case body of
     None \<Rightarrow> (Fail 400 ''invalid request body'', s)
   | Some req0 \<Rightarrow> (case normalize_and_validate_build_request (se_unicode S) req0 of
       Inl e \<Rightarrow> (Fail 400 e, s)
     | Inr req \<Rightarrow> (case on_git (path_exists (se_git S) (se_git_ops S) (''apps/'' @ cb_app_name req)) s of
         (Inl e, s) \<Rightarrow> (Fail 500 ''failed to check GitOps repo'', s)
       | (Inr True, s) \<Rightarrow> (Fail 409 ''app already exists in GitOps repo'', s)
       | (Inr False, s) \<Rightarrow> (case on_store (get_job_by_app_name (cb_app_name req)) s of
           (Inl e, s) \<Rightarrow> (Fail 500 ''failed to check existing build'', s)
         | (Inr existing, s) \<Rightarrow>
            (let job = job_for uuid (cb_app_name req) (cb_repo_url req) (cb_ref req) (cb_replicas req)
                         (cb_port req) (cb_env req) in
             case existing of
               None \<Rightarrow> insert_and_dispatch S clock job s
             | Some old \<Rightarrow>
                if j_status old = status_failed then
                  (case on_store (delete_job (j_id old)) s of
                     (Inl e, s) \<Rightarrow> (Fail 500 ''failed to reset failed build'', s)
                   | (Inr _, s) \<Rightarrow> insert_and_dispatch S clock job s)
                else if j_status old = status_queued \<or> j_status old = status_running then
                  (Fail 409 ''build already in progress for app'', s)
                else if j_status old = status_succeeded then
                  (Fail 409 ''build already exists for app'', s)
                else insert_and_dispatch S clock job s)))))"

section \<open>rebuildApp\<close>

text \<open>\<open>errDispatchFailed\<close> is told apart from a database error by identity, not by text.\<close>

datatype rebuild_error = Dispatch_failed | Create_failed string

definition start_rebuild ::
    "'w server \<Rightarrow> (nat \<Rightarrow> gotime) \<Rightarrow> string \<Rightarrow> job \<Rightarrow> 'w sv \<Rightarrow> (rebuild_error + job) \<times> 'w sv" where
  "start_rebuild S clock uuid previous s =
     (let job0 = job_for uuid (j_app_name previous) (j_repo_url previous) (j_ref previous)
                   (j_replicas previous) (j_port previous) (j_env previous)
      in case on_store (create_job (clock 0) job0) s of
        (Inl e, s) \<Rightarrow> (Inl (Create_failed e), s)
      | (Inr job, s) \<Rightarrow> (case dispatch_job S clock job s of
          (False, s) \<Rightarrow> (Inl Dispatch_failed, s)
        | (True, s) \<Rightarrow> (Inr job, emit_event S (blank_event\<lparr>be_type := ''build.status'', be_job_id := j_id job,
              be_app := j_app_name job, be_status := j_status job\<rparr>) s)))"

definition rebuild_app :: "'w server \<Rightarrow> (nat \<Rightarrow> gotime) \<Rightarrow> string \<Rightarrow> string \<Rightarrow> 'w handler" where
  "rebuild_app S clock uuid app s =
     (if app = [] then (Fail 400 ''app name required'', s)
      else (case on_store (get_job_by_app_name app) s of
        (Inl e, s) \<Rightarrow> (Fail 500 ''failed to look up app'', s)
      | (Inr None, s) \<Rightarrow> (Fail 404 ''no build found for app'', s)
      | (Inr (Some previous), s) \<Rightarrow>
         if j_status previous = status_queued \<or> j_status previous = status_running
         then (Fail 409 ''build already in progress for app'', s)
         else (case start_rebuild S clock uuid previous s of
             (Inl Dispatch_failed, s) \<Rightarrow> (Fail 502 ''failed to dispatch build'', s)
           | (Inl (Create_failed e), s) \<Rightarrow> (Fail 500 ''failed to create build'', s)
           | (Inr job, s) \<Rightarrow> (created_answer job, s))))"

section \<open>Reading\<close>

definition list_builds :: "int \<Rightarrow> 'w handler" where
  "list_builds limit s = (case on_store (list_jobs limit) s of
     (Inl e, s) \<Rightarrow> (Fail 500 ''failed to list builds'', s) | (Inr js, s) \<Rightarrow> (Builds js, s))"

definition get_build :: "string \<Rightarrow> 'w handler" where
  "get_build jid s = (case on_store (get_job jid) s of
     (Inl e, s) \<Rightarrow> (Fail 404 ''build not found'', s) | (Inr job, s) \<Rightarrow> (One_build job, s))"

definition get_logs :: "string \<Rightarrow> int \<Rightarrow> 'w handler" where
  "get_logs jid after s = (case on_store (list_logs jid after) s of
     (Inl e, s) \<Rightarrow> (Fail 500 ''failed to list logs'', s) | (Inr ls, s) \<Rightarrow> (Log_lines ls, s))"

section \<open>The runner's side\<close>

definition poll_runner :: "(nat \<Rightarrow> gotime) \<Rightarrow> 'w handler" where
  "poll_runner clock s = (case on_store (claim_next_queued_job (clock 0) max_attempts) s of
     (Inl e, s) \<Rightarrow> (Fail 500 ''failed to claim job'', s) | (Inr job, s) \<Rightarrow> (Polled job, s))"

definition append_runner_log ::
    "'w server \<Rightarrow> (nat \<Rightarrow> gotime) \<Rightarrow> string \<Rightarrow> runner_log_request option \<Rightarrow> 'w handler" where
  "append_runner_log S clock jid body s = (case body of
     None \<Rightarrow> (Fail 400 ''invalid request body'', s)
   | Some req \<Rightarrow>
      (let stream = (if rl_stream req = [] then ''stdout'' else rl_stream req) in
       case on_store (append_log (clock 0) jid stream (rl_message req)) s of
         (Inl e, s) \<Rightarrow> (Fail 500 ''failed to append log'', s)
       | (Inr _, s) \<Rightarrow> (No_content, emit_event S (blank_event\<lparr>be_type := ''build.log'', be_job_id := jid,
             be_stream := stream, be_message := rl_message req\<rparr>) s)))"

definition short :: "string \<Rightarrow> string" where
  "short s = (if length s \<le> 12 then s else take 12 s)"

text \<open>The image-updater manifest is dropped from the generated files: the map loses that key.\<close>

definition files_to_commit :: "'w server \<Rightarrow> job \<Rightarrow> runner_status_request \<Rightarrow> (string \<times> string) list" where
  "files_to_commit S job req =
     filter (\<lambda>(path, c). path \<noteq> ''argocd/imageupdater-'' @ j_app_name job @ ''.yaml'')
       (generate_app_files (se_unicode S) (se_map_order S) \<lparr>car_name = j_app_name job, car_image = rs_image req,
          car_tag = rs_tag req, car_replicas = j_replicas job, car_port = j_port job, car_env = j_env job\<rparr>)"

definition commit_gitops ::
    "'w server \<Rightarrow> string \<Rightarrow> runner_status_request \<Rightarrow> ('w sv, string \<times> string \<times> string) act" where
  "commit_gitops S jid req =
     seq (on_store (get_job jid)) (\<lambda>e. e) (\<lambda>job.
     seq (on_git (commit_files (se_git S) (se_git_ops S)
            (''onboard('' @ j_app_name job @ ''): deploy build '' @ short (rs_tag req))
            (files_to_commit S job req) ''tinycloud-build-coordinator'')) (\<lambda>e. e)
       (\<lambda>sha. ret (sha, ''apps/'' @ j_app_name job, app_base_url (j_app_name job))))"

definition finish_status ::
    "'w server \<Rightarrow> (nat \<Rightarrow> gotime) \<Rightarrow> string \<Rightarrow> runner_status_request \<Rightarrow> 'w handler" where
  "finish_status S clock jid req s =
     (case on_store (update_runner_status (se_quote S) (clock 0) jid req) s of
        (Inl e, s) \<Rightarrow> (Fail 500 ''failed to update job'', s)
      | (Inr _, s) \<Rightarrow> (No_content, emit_event S (blank_event\<lparr>be_type := ''build.status'', be_job_id := jid,
            be_status := rs_status req, be_image := rs_image req, be_tag := rs_tag req, be_error := rs_error req\<rparr>) s))"

definition update_runner ::
    "'w server \<Rightarrow> (nat \<Rightarrow> gotime) \<Rightarrow> string \<Rightarrow> runner_status_request option \<Rightarrow> 'w handler" where
  "update_runner S clock jid body s = (case body of
     None \<Rightarrow> (Fail 400 ''invalid request body'', s)
   | Some req \<Rightarrow>
      if rs_status req = status_succeeded then
        (case commit_gitops S jid req s of
           (Inl e, s) \<Rightarrow> (Fail 500 ''failed to commit GitOps manifests'',
              snd (on_store (update_runner_status (se_quote S) (clock 0) jid
                (failure_report (''image built but GitOps commit failed: '' @ e))) s))
         | (Inr (sha, path, url), s) \<Rightarrow>
             finish_status S clock jid (req\<lparr>rs_gitops_commit_sha := sha, rs_gitops_path := path,
               rs_app_url := url, rs_deploy_status := ''gitops_committed''\<rparr>) s)
      else finish_status S clock jid req s)"

end
