(* ===== verification/Sha256.thy ===== *)
theory Sha256
  imports GoStrings "HOL-Library.Word"
begin

text \<open>
  The parts of Go's standard library that authenticate a webhook: \<open>crypto/sha256\<close> (FIPS 180-4),
  \<open>crypto/hmac\<close> (RFC 2104) and \<open>encoding/hex\<close>, on byte strings.
\<close>

unbundle bit_operations_syntax

type_synonym u32 = "32 word"

section \<open>SHA-256\<close>

text \<open>The first 32 bits of the fractional parts of the cube and square roots of the first primes.\<close>

definition round_constants :: "u32 list" where
  "round_constants = [
     1116352408, 1899447441, 3049323471, 3921009573, 961987163, 1508970993, 2453635748,
     2870763221, 3624381080, 310598401, 607225278, 1426881987, 1925078388, 2162078206,
     2614888103, 3248222580, 3835390401, 4022224774, 264347078, 604807628, 770255983,
     1249150122, 1555081692, 1996064986, 2554220882, 2821834349, 2952996808, 3210313671,
     3336571891, 3584528711, 113926993, 338241895, 666307205, 773529912, 1294757372, 1396182291,
     1695183700, 1986661051, 2177026350, 2456956037, 2730485921, 2820302411, 3259730800,
     3345764771, 3516065817, 3600352804, 4094571909, 275423344, 430227734, 506948616, 659060556,
     883997877, 958139571, 1322822218, 1537002063, 1747873779, 1955562222, 2024104815,
     2227730452, 2361852424, 2428436474, 2756734187, 3204031479, 3329325298]"

definition initial_hash :: "u32 list" where
  "initial_hash = [
     1779033703, 3144134277, 1013904242, 2773480762, 1359893119, 2600822924, 528734635,
     1541459225]"

definition rotr :: "nat \<Rightarrow> u32 \<Rightarrow> u32" where
  "rotr n x = word_rotr n x"

definition byte_word :: "char \<Rightarrow> u32" where
  "byte_word c = of_char c"

text \<open>Big-endian words of a block, and bytes of a word.\<close>

fun block_words :: "string \<Rightarrow> u32 list" where
  "block_words (a # b # c # d # s) =
     (push_bit 24 (byte_word a) OR push_bit 16 (byte_word b) OR push_bit 8 (byte_word c) OR byte_word d) # block_words s"
| "block_words _ = []"

definition word_bytes :: "u32 \<Rightarrow> string" where
  "word_bytes w = map (\<lambda>k. char_of (unat (drop_bit (8 * k) w AND 0xff))) [3, 2, 1, 0]"

text \<open>A one bit, zeros up to 56 bytes modulo 64, the length in bits in eight bytes.\<close>

definition length_bytes :: "nat \<Rightarrow> string" where
  "length_bytes n = map (\<lambda>k. char_of ((8 * n) div 256 ^ k mod 256)) [7, 6, 5, 4, 3, 2, 1, 0]"

definition pad_message :: "string \<Rightarrow> string" where
  "pad_message m = m @ [char_of (128 :: nat)] @ replicate ((119 - length m mod 64) mod 64) (char_of (0 :: nat))
     @ length_bytes (length m)"

function blocks :: "string \<Rightarrow> string list" where
  "blocks s = (if s = [] then [] else take 64 s # blocks (drop 64 s))"
  by pat_completeness auto
termination by (relation "measure length") auto

declare blocks.simps [simp del]

definition small_sigma0 :: "u32 \<Rightarrow> u32" where
  "small_sigma0 x = rotr 7 x XOR rotr 18 x XOR drop_bit 3 x"

definition small_sigma1 :: "u32 \<Rightarrow> u32" where
  "small_sigma1 x = rotr 17 x XOR rotr 19 x XOR drop_bit 10 x"

definition big_sigma0 :: "u32 \<Rightarrow> u32" where
  "big_sigma0 x = rotr 2 x XOR rotr 13 x XOR rotr 22 x"

definition big_sigma1 :: "u32 \<Rightarrow> u32" where
  "big_sigma1 x = rotr 6 x XOR rotr 11 x XOR rotr 25 x"

definition choose_bits :: "u32 \<Rightarrow> u32 \<Rightarrow> u32 \<Rightarrow> u32" where
  "choose_bits x y z = (x AND y) XOR (NOT x AND z)"

definition majority_bits :: "u32 \<Rightarrow> u32 \<Rightarrow> u32 \<Rightarrow> u32" where
  "majority_bits x y z = (x AND y) XOR (x AND z) XOR (y AND z)"

text \<open>The message schedule, extended one word at a time from the sixteen words of the block.\<close>

fun extend_schedule :: "nat \<Rightarrow> u32 list \<Rightarrow> u32 list" where
  "extend_schedule 0 ws = ws"
| "extend_schedule (Suc n) ws = (let t = length ws in
     extend_schedule n (ws @ [small_sigma1 (ws ! (t - 2)) + ws ! (t - 7) + small_sigma0 (ws ! (t - 15)) + ws ! (t - 16)]))"

fun sha_round :: "u32 list \<Rightarrow> u32 \<times> u32 \<Rightarrow> u32 list" where
  "sha_round [a, b, c, d, e, f, g, h] (k, w) =
     (let t1 = h + big_sigma1 e + choose_bits e f g + k + w; t2 = big_sigma0 a + majority_bits a b c
      in [t1 + t2, a, b, c, d + t1, e, f, g])"
| "sha_round st _ = st"

definition compress :: "u32 list \<Rightarrow> string \<Rightarrow> u32 list" where
  "compress st block = map2 (+) st
     (foldl sha_round st (zip round_constants (extend_schedule 48 (block_words block))))"

definition sha256 :: "string \<Rightarrow> string" where
  "sha256 m = concat (map word_bytes (foldl compress initial_hash (blocks (pad_message m))))"

section \<open>HMAC\<close>

definition xor_byte :: "nat \<Rightarrow> char \<Rightarrow> char" where
  "xor_byte n c = char_of (n XOR (of_char c :: nat))"

definition hmac_key :: "string \<Rightarrow> string" where
  "hmac_key key = (let k = (if length key > 64 then sha256 key else key)
     in k @ replicate (64 - length k) (char_of (0 :: nat)))"

definition hmac_sha256 :: "string \<Rightarrow> string \<Rightarrow> string" where
  "hmac_sha256 key m = (let k = hmac_key key in
     sha256 (map (xor_byte 0x5c) k @ sha256 (map (xor_byte 0x36) k @ m)))"

section \<open>hex.DecodeString\<close>

definition hex_value :: "char \<Rightarrow> nat option" where
  "hex_value c = (let n = (of_char c :: nat) in
     if 48 \<le> n \<and> n \<le> 57 then Some (n - 48)
     else if 97 \<le> n \<and> n \<le> 102 then Some (n - 87)
     else if 65 \<le> n \<and> n \<le> 70 then Some (n - 55) else None)"

fun hex_decode :: "string \<Rightarrow> string option" where
  "hex_decode [] = Some []"
| "hex_decode [c] = None"
| "hex_decode (c # d # s) = (case (hex_value c, hex_value d, hex_decode s) of
     (Some x, Some y, Some t) \<Rightarrow> Some (char_of (16 * x + y) # t) | _ \<Rightarrow> None)"

definition hex_encode :: "string \<Rightarrow> string" where
  "hex_encode s = concat (map (\<lambda>c. let n = (of_char c :: nat) in [hex_digit (n div 16), hex_digit (n mod 16)]) s)"

lemma hex_value_digit: "n < 16 \<Longrightarrow> hex_value (hex_digit n) = Some n"
  by (auto simp: hex_value_def hex_digit_def of_char_of Let_def)

lemma hex_decode_encode [simp]: "hex_decode (hex_encode s) = Some s"
proof (induction s)
  case (Cons c s)
  have "(of_char c :: nat) < 256" by simp
  then have "(of_char c :: nat) div 16 < 16" "(of_char c :: nat) mod 16 < 16"
    using nat_of_char_less_256 [of c] by linarith+
  with Cons show ?case
    by (simp add: hex_encode_def Let_def hex_value_digit)
qed (simp add: hex_encode_def)

end
