(* ===== verification/Webhook.thy ===== *)
theory Webhook
  imports Coordinator Sha256
begin

text \<open>
  internal/build/coordinator/webhook.go: GitHub push webhooks. The body arrives as bytes, which
  the signature covers, together with what \<open>json.Unmarshal\<close> makes of them (\<open>None\<close> for an error).
\<close>

section \<open>The signature\<close>

definition signature_prefix :: string where
  "signature_prefix = ''sha256=''"

definition valid_signature :: "string \<Rightarrow> string \<Rightarrow> string \<Rightarrow> bool" where
  "valid_signature secret body header =
     (if \<not> has_prefix header signature_prefix then False
      else (case hex_decode (trim_prefix header signature_prefix) of
        None \<Rightarrow> False
      | Some sent \<Rightarrow> sent = hmac_sha256 secret body))"

section \<open>Comparing repositories\<close>

definition normalize_repo :: "(string \<Rightarrow> string) \<Rightarrow> string \<Rightarrow> string" where
  "normalize_repo uni u0 =
     (let u = trim_space (to_lower uni u0);
          u = trim_suffix u ''/'';
          u = trim_suffix u ''.git'';
          u = replace_first ''git@github.com:'' ''github.com/'' u;
          u = trim_prefix u ''https://'';
          u = trim_prefix u ''http://'';
          u = trim_prefix u ''www.''
      in u)"

section \<open>The handler\<close>

record push_event =
  pe_ref :: string
  pe_deleted :: bool
  pe_clone_url :: string
  pe_html_url :: string
  pe_full_name :: string
  pe_head_commit :: "string option"

record webhook_request =
  wr_body :: string
  wr_signature :: string
  wr_event :: string
  wr_decoded :: "push_event option"

text \<open>
  One pass over the apps. \<open>uuids i\<close> and \<open>clocks i\<close> are the fresh id and the clock readings the
  \<open>i\<close>-th app uses if it is rebuilt.
\<close>

definition builds_from :: "(string \<Rightarrow> string) \<Rightarrow> string \<Rightarrow> string \<Rightarrow> app_repo \<Rightarrow> bool" where
  "builds_from uni pushed branch a \<longleftrightarrow> normalize_repo uni (ar_repo_url a) = pushed \<and> ar_ref a = branch"

definition webhook_app ::
    "'w server \<Rightarrow> (nat \<Rightarrow> gotime) \<Rightarrow> string \<Rightarrow> string \<Rightarrow> string \<Rightarrow> app_repo \<Rightarrow> 'w sv \<Rightarrow> string option \<times> 'w sv" where
  "webhook_app S clock uuid pushed branch a s =
     (if \<not> builds_from (se_unicode S) pushed branch a then (None, s)
      else (case on_store (get_job_by_app_name (ar_app_name a)) s of
        (Inl e, s) \<Rightarrow> (None, s)
      | (Inr None, s) \<Rightarrow> (None, s)
      | (Inr (Some previous), s) \<Rightarrow>
         if j_status previous = status_queued \<or> j_status previous = status_running then (None, s)
         else (case start_rebuild S clock uuid previous s of
             (Inl e, s) \<Rightarrow> (None, s)
           | (Inr job, s) \<Rightarrow> (Some (ar_app_name a @ ''='' @ j_id job), s))))"

fun webhook_loop ::
    "'w server \<Rightarrow> (nat \<Rightarrow> nat \<Rightarrow> gotime) \<Rightarrow> (nat \<Rightarrow> string) \<Rightarrow> string \<Rightarrow> string \<Rightarrow> nat \<Rightarrow> app_repo list \<Rightarrow>
     'w sv \<Rightarrow> string list \<times> 'w sv" where
  "webhook_loop S clocks uuids pushed branch i [] s = ([], s)"
| "webhook_loop S clocks uuids pushed branch i (a # as) s =
     (case webhook_app S (clocks i) (uuids i) pushed branch a s of
        (None, s) \<Rightarrow> webhook_loop S clocks uuids pushed branch (Suc i) as s
      | (Some t, s) \<Rightarrow> (case webhook_loop S clocks uuids pushed branch (Suc i) as s of (ts, s) \<Rightarrow> (t # ts, s)))"

definition branch_prefix :: string where
  "branch_prefix = ''refs/heads/''"

definition github_webhook ::
    "'w server \<Rightarrow> (nat \<Rightarrow> nat \<Rightarrow> gotime) \<Rightarrow> (nat \<Rightarrow> string) \<Rightarrow> webhook_request \<Rightarrow> 'w handler" where
  "github_webhook S clocks uuids req s =
     (if se_webhook_secret S = [] then (Fail 503 ''webhooks not configured'', s)
      else if \<not> valid_signature (se_webhook_secret S) (wr_body req) (wr_signature req)
      then (Fail 401 ''unauthorized'', s)
      else if wr_event req \<noteq> ''push'' then (Ignored ''not a push event'', s)
      else (case wr_decoded req of
        None \<Rightarrow> (Fail 400 ''invalid payload'', s)
      | Some ev \<Rightarrow>
         if pe_deleted ev \<or> pe_head_commit ev = None then (Ignored ''branch deleted or no head commit'', s)
         else (let branch = trim_prefix (pe_ref ev) branch_prefix in
           if branch = pe_ref ev then (Ignored ''not a branch push'', s)
           else (case on_store list_app_repos s of
               (Inl e, s) \<Rightarrow> (Fail 500 ''failed to look up apps'', s)
             | (Inr apps, s) \<Rightarrow>
                (let pushed = normalize_repo (se_unicode S) (pe_clone_url ev);
                     pushed = (if pushed = [] then normalize_repo (se_unicode S) (pe_html_url ev) else pushed)
                 in case webhook_loop S clocks uuids pushed branch 0 apps s of (triggered, s) \<Rightarrow>
                   (if triggered = []
                    then Ignored (''no app builds from '' @ pe_full_name ev @ ''@'' @ branch)
                    else Queued_builds triggered, s))))))"

end
