(* ===== verification/CoordinatorFacts.thy ===== *)
theory CoordinatorFacts
  imports Webhook StoreReads GitOpsRuns
begin

text \<open>
  One build at a time per app. The handlers look at an app's newest build before they start
  another; run one after the other, with a clock that moves on between creations, they never
  leave two builds of an app in progress. Overlapping requests can.
\<close>

section \<open>At most one build in progress\<close>

definition in_progress :: "string build_job \<Rightarrow> bool" where
  "in_progress c \<longleftrightarrow> j_status c = status_queued \<or> j_status c = status_running"

definition newest_only :: "job_row list \<Rightarrow> bool" where
  "newest_only rs \<longleftrightarrow> (\<forall>r \<in> set rs. \<forall>q \<in> set rs. in_progress (cols r) \<longrightarrow> j_app_name (cols q) = j_app_name (cols r) \<longrightarrow>
     rowid q \<noteq> rowid r \<longrightarrow> j_created_at (cols q) < j_created_at (cols r))"

definition queue_ok :: "store \<Rightarrow> bool" where
  "queue_ok s \<longleftrightarrow> store_inv s \<and> newest_only (jobs s)"

definition app_idle :: "string \<Rightarrow> store \<Rightarrow> bool" where
  "app_idle app s \<longleftrightarrow> (\<forall>r \<in> set (jobs s). j_app_name (cols r) = app \<longrightarrow> \<not> in_progress (cols r))"

text \<open>The clock reads later than every creation of a build of the app.\<close>

definition later_than :: "gotime \<Rightarrow> string \<Rightarrow> store \<Rightarrow> bool" where
  "later_than now app s \<longleftrightarrow>
     (\<forall>r \<in> set (jobs s). j_app_name (cols r) = app \<longrightarrow> j_created_at (cols r) < format_time now)"

lemma rowids_distinct: "store_inv s \<Longrightarrow> distinct (map rowid (jobs s))"
  by (auto simp: store_inv_def jobs_inv_def intro: sorted_wrt_less_distinct)

lemma same_row:
  "store_inv s \<Longrightarrow> r \<in> set (jobs s) \<Longrightarrow> q \<in> set (jobs s) \<Longrightarrow> rowid r = rowid q \<Longrightarrow> r = q"
  using rowids_distinct by (fastforce simp: distinct_map inj_on_def)

text \<open>The invariant allows at most one build of an app in progress.\<close>

lemma queue_ok_one:
  assumes "queue_ok s" "r \<in> set (jobs s)" "q \<in> set (jobs s)" "in_progress (cols r)" "in_progress (cols q)"
    "j_app_name (cols q) = j_app_name (cols r)"
  shows "r = q"
proof (rule ccontr)
  assume "r \<noteq> q"
  then have ne: "rowid r \<noteq> rowid q" using same_row assms by (auto simp: queue_ok_def)
  then have "j_created_at (cols q) < j_created_at (cols r)" "j_created_at (cols r) < j_created_at (cols q)"
    using assms by (auto simp: queue_ok_def newest_only_def)
  then show False by simp
qed

lemma queue_ok_tables [simp]: "on_tables queue_ok"
  by (auto simp: on_tables_def queue_ok_def store_inv_def tables_def)

lemma newest_only_filter: "newest_only rs \<Longrightarrow> newest_only (filter P rs)"
  by (auto simp: newest_only_def)

definition quiet :: "(string build_job \<Rightarrow> string build_job) \<Rightarrow> bool" where
  "quiet f \<longleftrightarrow> (\<forall>c. j_id (f c) = j_id c \<and> j_app_name (f c) = j_app_name c \<and> j_created_at (f c) = j_created_at c \<and>
     (in_progress (f c) \<longrightarrow> in_progress c))"

lemma quiet_updates [simp]:
  "quiet (mark_running now)" "quiet (report_running now req)" "quiet (report_succeeded now req)" "quiet (report_failed now req)"
  by (simp_all add: quiet_def mark_running_def report_running_def report_succeeded_def report_failed_def in_progress_def)

lemma newest_only_map:
  assumes "newest_only rs" "quiet f"
  shows "newest_only (map (\<lambda>r. if P r then r\<lparr>cols := f (cols r)\<rparr> else r) rs)"
proof -
  define g where "g r = (if P r then r\<lparr>cols := f (cols r)\<rparr> else r)" for r :: job_row
  have "rowid (g r) = rowid r" "j_app_name (cols (g r)) = j_app_name (cols r)"
    "j_created_at (cols (g r)) = j_created_at (cols r)" "in_progress (cols (g r)) \<Longrightarrow> in_progress (cols r)" for r
    using assms(2) by (auto simp: g_def quiet_def split: if_splits)
  with assms(1) have "newest_only (map g rs)" by (fastforce simp: newest_only_def)
  then show ?thesis by (simp add: g_def [abs_def])
qed

lemma queue_ok_update:
  assumes "queue_ok s" "\<And>c. row_ok c \<Longrightarrow> row_ok (f c)" "quiet f"
  shows "queue_ok (update_where jid f s)"
proof -
  have "store_inv (update_where jid f s)"
    by (rule store_inv_update) (use assms in \<open>auto simp: queue_ok_def quiet_def\<close>)
  then show ?thesis
    using newest_only_map assms(1,3) by (simp add: queue_ok_def update_where_def)
qed

section \<open>Store operations keep it\<close>

lemma queue_ok_delete: "keeps queue_ok (delete_job jid)"
proof -
  have "keeps (\<lambda>s. newest_only (jobs s)) (delete_job jid)"
    unfolding delete_job_def
    by (intro keeps_seq keeps_db_exec) (auto simp: on_tables_def tables_def intro: newest_only_filter)
  with keeps_delete_job [of jid] show ?thesis by (simp add: keeps_def queue_ok_def)
qed

lemma queue_ok_claim: "valid_time now \<Longrightarrow> keeps queue_ok (claim_next_queued_job now mx)"
  unfolding claim_next_queued_job_def claim_tx_def
  by (auto split: option.split intro!: keeps_seq keeps_in_tx keeps_db_query keeps_db_exec keeps_db_ping
      keeps_get_job queue_ok_update row_ok_mark_running)

lemma jobs_append_log: "jobs (snd (append_log now jid stream msg s)) = jobs s"
proof -
  have "keeps (\<lambda>t. jobs t = jobs s) (append_log now jid stream msg)"
    unfolding append_log_def
    by (intro keeps_seq keeps_db_query keeps_db_exec) (auto simp: on_tables_def tables_def insert_log_def)
  from keepsD [OF this] show ?thesis by simp
qed

lemma queue_ok_log: "valid_time now \<Longrightarrow> keeps queue_ok (append_log now jid stream msg)"
  using keeps_append_log [of now jid stream msg] by (simp add: keeps_def queue_ok_def jobs_append_log)

lemma queue_ok_report: "valid_time now \<Longrightarrow> keeps queue_ok (update_runner_status quoted now jid req)"
  unfolding update_runner_status_def
  by (auto intro!: keeps_db_exec queue_ok_update row_ok_reports)

lemma queue_ok_create:
  assumes "valid_time now" "j_status job = status_queued" "j_attempts job = 0"
    and "queue_ok s" "app_idle (j_app_name job) s" "later_than now (j_app_name job) s"
  shows "queue_ok (snd (create_job now job s))"
proof -
  have i: "store_inv (snd (create_job now job s))"
    using keepsD [OF keeps_create_job [OF assms(1-3)]] assms(4) by (simp add: queue_ok_def)
  define row where "row = \<lparr>rowid = next_rowid (jobs s), cols = new_row (job\<lparr>j_created_at := now, j_updated_at := now\<rparr>)\<rparr>"
  have r: "j_app_name (cols row) = j_app_name job" "j_created_at (cols row) = format_time now"
    by (simp_all add: row_def new_row_def)
  have "newest_only (jobs s @ [row])"
    using assms(4-6) r by (auto simp: newest_only_def queue_ok_def app_idle_def later_than_def)
  moreover have "jobs (snd (create_job now job s)) = jobs s \<or> jobs (snd (create_job now job s)) = jobs s @ [row]"
    unfolding create_job_def Let_def
    by (rule db_stmt_cases [of "\<lambda>s. if list_ex (job_where (j_id (job\<lparr>j_created_at := now, j_updated_at := now\<rparr>))) (jobs s)
        then (Inl unique_failed, s)
        else (Inr (job\<lparr>j_created_at := now, j_updated_at := now\<rparr>), s\<lparr>jobs := jobs s @ [\<lparr>rowid = next_rowid (jobs s),
          cols = new_row (job\<lparr>j_created_at := now, j_updated_at := now\<rparr>)\<rparr>]\<rparr>)" s]) (auto simp: row_def)
  ultimately show ?thesis using i assms(4) by (auto simp: queue_ok_def)
qed

text \<open>What reading the newest build tells, whatever the database's mood.\<close>

lemma newest_tells:
  assumes "get_job_by_app_name app s = (Inr found, s')" "queue_ok s"
  shows "tables s' = tables s"
    and "found = None \<Longrightarrow> app_idle app s"
    and "found = Some j \<Longrightarrow> j_app_name j = app"
    and "found = Some j \<Longrightarrow> j_status j \<noteq> status_queued \<Longrightarrow> j_status j \<noteq> status_running \<Longrightarrow> app_idle app s"
proof -
  let ?rs = "by_created (filter (\<lambda>r. j_app_name (cols r) = app) (jobs s))"
  from db_query_Inr [OF assms(1) [unfolded get_job_by_app_name_def]] obtain fs where
    s': "s' = s\<lparr>faults := fs\<rparr>" and found: "found = (case rev ?rs of [] \<Rightarrow> None | r # _ \<Rightarrow> Some (scan_job r))" by auto
  show "tables s' = tables s" by (simp add: s')
  show "app_idle app s" if "found = None"
  proof -
    have "filter (\<lambda>r. j_app_name (cols r) = app) (jobs s) = []" using that found by (simp split: list.splits)
    then show ?thesis by (auto simp: app_idle_def filter_empty_conv)
  qed
  show "j_app_name j = app" "j_status j \<noteq> status_queued \<Longrightarrow> j_status j \<noteq> status_running \<Longrightarrow> app_idle app s"
    if f: "found = Some j"
  proof -
    obtain r qs where c: "rev ?rs = r # qs" and j: "j = scan_job r" using f found by (auto split: list.splits)
    then have l: "?rs \<noteq> []" "last ?rs = r" by (auto simp: rev_swap)
    then have "r \<in> set ?rs" by (metis last_in_set)
    then have r: "r \<in> set (jobs s)" "j_app_name (cols r) = app" by simp_all
    then show "j_app_name j = app" by (simp add: j)
    assume t: "j_status j \<noteq> status_queued" "j_status j \<noteq> status_running"
    show "app_idle app s" unfolding app_idle_def
    proof (intro ballI impI notI)
      fix p assume p: "p \<in> set (jobs s)" "j_app_name (cols p) = app" "in_progress (cols p)"
      then have "p \<in> set ?rs" by simp
      then have "j_created_at (cols p) \<le> j_created_at (cols r)"
        using sorted_map_last [OF by_created_sorted _ l(1), of p] l(2) by simp
      moreover have "r \<noteq> p" using t p(3) by (auto simp: j in_progress_def)
      then have "rowid r \<noteq> rowid p" using same_row assms(2) r p by (auto simp: queue_ok_def)
      then have "j_created_at (cols r) < j_created_at (cols p)"
        using assms(2) r p unfolding queue_ok_def newest_only_def by metis
      ultimately show False by simp
    qed
  qed
qed

section \<open>Handlers keep it\<close>

definition sv_ok :: "'w sv \<Rightarrow> bool" where
  "sv_ok s \<longleftrightarrow> queue_ok (sv_store s)"

lemma on_store_keeps: "keeps queue_ok m \<Longrightarrow> sv_ok s \<Longrightarrow> sv_ok (snd (on_store m s))"
  by (auto simp: on_store_def sv_ok_def keeps_def split: prod.split)

lemma on_store_cases:
  obtains t where "on_store m s = (fst (m (sv_store s)), s\<lparr>sv_store := snd (m (sv_store s))\<rparr>)"
  by (simp add: on_store_def split: prod.split)

lemma on_git_store [simp]: "sv_store (snd (on_git m s)) = sv_store s"
  by (simp add: on_git_def split: prod.split)

lemma emit_store [simp]: "sv_store (emit_event S e s) = sv_store s"
  by (simp add: emit_event_def)

lemma emit_ok [simp]: "sv_ok (emit_event S e s) = sv_ok s"
  by (simp add: sv_ok_def)

definition clock_ok :: "(nat \<Rightarrow> gotime) \<Rightarrow> bool" where
  "clock_ok clock \<longleftrightarrow> (\<forall>i. valid_time (clock i))"

lemma dispatch_job_ok:
  assumes "clock_ok clock" "sv_ok s" shows "sv_ok (snd (dispatch_job S clock job s))"
proof -
  note v = assms(1) [unfolded clock_ok_def, rule_format]
  show ?thesis
    by (auto simp: dispatch_job_def Let_def assms(2) split: option.split sum.split
        intro!: on_store_keeps queue_ok_log queue_ok_report v)
qed

lemma dispatch_job_ok':
  "dispatch_job S clock job s = (b, s') \<Longrightarrow> clock_ok clock \<Longrightarrow> sv_ok s \<Longrightarrow> sv_ok s'"
  using dispatch_job_ok [of clock s S job] by simp

lemma job_for_simps [simp]:
  "j_id (job_for u a r f n p e) = u" "j_app_name (job_for u a r f n p e) = a" "j_repo_url (job_for u a r f n p e) = r"
  "j_ref (job_for u a r f n p e) = f" "j_status (job_for u a r f n p e) = status_queued"
  "j_attempts (job_for u a r f n p e) = 0" "j_replicas (job_for u a r f n p e) = n"
  "j_port (job_for u a r f n p e) = p" "j_env (job_for u a r f n p e) = e"
  by (simp_all add: job_for_def)

lemma on_store_create_ok:
  assumes "clock_ok clock" "sv_ok s" "app_idle app (sv_store s)" "later_than (clock 0) app (sv_store s)"
  shows "sv_ok (snd (on_store (create_job (clock 0) (job_for u app r f n p e)) s))"
  using queue_ok_create [of "clock 0" "job_for u app r f n p e" "sv_store s"] assms
  by (cases "create_job (clock 0) (job_for u app r f n p e) (sv_store s)")
    (simp add: sv_ok_def on_store_def clock_ok_def)

lemma insert_and_dispatch_ok:
  assumes "clock_ok clock" "sv_ok s" "app_idle app (sv_store s)" "later_than (clock 0) app (sv_store s)"
  shows "sv_ok (snd (insert_and_dispatch S clock (job_for u app r f n p e) s))"
proof -
  obtain res s1 where c: "on_store (create_job (clock 0) (job_for u app r f n p e)) s = (res, s1)" by force
  have "sv_ok s1" using on_store_create_ok [OF assms, of u r f n p e] c by simp
  then show ?thesis
    by (auto simp: insert_and_dispatch_def c split: sum.split prod.split bool.split dest: dispatch_job_ok' [OF _ assms(1)])
qed

lemma start_rebuild_ok:
  assumes "clock_ok clock" "sv_ok s" "app_idle (j_app_name previous) (sv_store s)"
    "later_than (clock 0) (j_app_name previous) (sv_store s)"
  shows "sv_ok (snd (start_rebuild S clock u previous s))"
proof -
  obtain res s1 where c: "on_store (create_job (clock 0) (job_for u (j_app_name previous) (j_repo_url previous)
      (j_ref previous) (j_replicas previous) (j_port previous) (j_env previous))) s = (res, s1)" by force
  have "sv_ok s1" using on_store_create_ok [OF assms] c by (metis snd_conv)
  then show ?thesis
    by (auto simp: start_rebuild_def Let_def c split: sum.split prod.split bool.split dest: dispatch_job_ok' [OF _ assms(1)])
qed

text \<open>Reading the newest build through the server, as every starter of builds does.\<close>

lemma on_store_newest:
  assumes "on_store (get_job_by_app_name app) s = (Inr found, s')" "sv_ok s"
  shows "sv_ok s'" "tables (sv_store s') = tables (sv_store s)"
    "found = None \<Longrightarrow> app_idle app (sv_store s')"
    "found = Some j \<Longrightarrow> j_app_name j = app"
    "found = Some j \<Longrightarrow> j_status j \<noteq> status_queued \<Longrightarrow> j_status j \<noteq> status_running \<Longrightarrow> app_idle app (sv_store s')"
proof -
  obtain t where g: "get_job_by_app_name app (sv_store s) = (Inr found, t)" and s': "s' = s\<lparr>sv_store := t\<rparr>"
    using assms(1) by (auto simp: on_store_def split: prod.splits)
  note n = newest_tells [OF g assms(2) [unfolded sv_ok_def]]
  show tb: "tables (sv_store s') = tables (sv_store s)" using n(1) s' by simp
  have idle: "app_idle app (sv_store s') = app_idle app (sv_store s)"
    using tables_eqD [OF tb] by (simp add: app_idle_def)
  show "sv_ok s'" using assms(2) tb queue_ok_tables unfolding sv_ok_def on_tables_def by metis
  show "found = None \<Longrightarrow> app_idle app (sv_store s')" "found = Some j \<Longrightarrow> j_app_name j = app"
    "found = Some j \<Longrightarrow> j_status j \<noteq> status_queued \<Longrightarrow> j_status j \<noteq> status_running \<Longrightarrow> app_idle app (sv_store s')"
    using n(2-4) idle by simp_all
qed

lemma later_than_subset:
  "later_than now app s \<Longrightarrow> set (jobs s') \<subseteq> set (jobs s) \<Longrightarrow> later_than now app s'"
  by (auto simp: later_than_def)

lemma app_idle_subset: "app_idle app s \<Longrightarrow> set (jobs s') \<subseteq> set (jobs s) \<Longrightarrow> app_idle app s'"
  by (auto simp: app_idle_def)

lemma rebuild_app_ok:
  assumes "clock_ok clock" "sv_ok s" "later_than (clock 0) app (sv_store s)"
  shows "sv_ok (snd (rebuild_app S clock u app s))"
proof -
  obtain res s1 where g: "on_store (get_job_by_app_name app) s = (res, s1)" by force
  show ?thesis
  proof (cases res)
    case (Inl e)
    have "sv_ok s1" using on_store_keeps [OF _ assms(2), of "get_job_by_app_name app"] g
      by (simp add: get_job_by_app_name_def keeps_db_query)
    with Inl g assms(2) show ?thesis by (simp add: rebuild_app_def)
  next
    case (Inr found)
    note n = on_store_newest [OF g [unfolded Inr] assms(2)]
    have l: "later_than (clock 0) app (sv_store s1)"
      using assms(3) tables_eqD [OF n(2)] by (simp add: later_than_def)
    show ?thesis
    proof (cases found)
      case None
      with Inr g n(1) assms(2) show ?thesis by (simp add: rebuild_app_def)
    next
      case (Some j)
      then have "sv_ok (snd (start_rebuild S clock u j s1))"
        if "j_status j \<noteq> status_queued" "j_status j \<noteq> status_running"
        using start_rebuild_ok [OF assms(1) n(1), of j S u] n(4,5) l that by simp
      with Some Inr g n(1) assms(2) show ?thesis
        by (auto simp: rebuild_app_def split: prod.split sum.split rebuild_error.split)
    qed
  qed
qed

lemma create_build_ok:
  assumes "clock_ok clock" "sv_ok s"
    and later: "\<And>b req. body = Some b \<Longrightarrow> normalize_and_validate_build_request (se_unicode S) b = Inr req \<Longrightarrow>
      later_than (clock 0) (cb_app_name req) (sv_store s)"
  shows "sv_ok (snd (create_build S clock u body s))"
proof (cases body)
  case None
  then show ?thesis using assms(2) by (simp add: create_build_def)
next
  case (Some req0)
  show ?thesis
  proof (cases "normalize_and_validate_build_request (se_unicode S) req0")
    case (Inl e)
    then show ?thesis using Some assms(2) by (simp add: create_build_def)
  next
    case (Inr req)
    let ?app = "cb_app_name req"
    obtain r1 s1 where p: "on_git (path_exists (se_git S) (se_git_ops S) (''apps/'' @ ?app)) s = (r1, s1)" by force
    have s1: "sv_store s1 = sv_store s" using on_git_store p by (metis snd_conv)
    then have ok1: "sv_ok s1" using assms(2) by (simp add: sv_ok_def)
    obtain r2 s2 where g: "on_store (get_job_by_app_name ?app) s1 = (r2, s2)" by force
    have ok2: "sv_ok s2" using on_store_keeps [OF _ ok1, of "get_job_by_app_name ?app"] g
      by (simp add: get_job_by_app_name_def keeps_db_query)
    have ins: "sv_ok (snd (insert_and_dispatch S clock (job_for u ?app (cb_repo_url req) (cb_ref req)
        (cb_replicas req) (cb_port req) (cb_env req)) t))"
      if "sv_ok t" "app_idle ?app (sv_store t)" "set (jobs (sv_store t)) \<subseteq> set (jobs (sv_store s))" for t
      using insert_and_dispatch_ok [OF assms(1) that(1,2)] later_than_subset [OF later [OF Some Inr] that(3)] by blast
    have rest: "sv_ok (snd (case existing of
               None \<Rightarrow> insert_and_dispatch S clock (job_for u ?app (cb_repo_url req) (cb_ref req)
                  (cb_replicas req) (cb_port req) (cb_env req)) s2
             | Some old \<Rightarrow>
                if j_status old = status_failed then
                  (case on_store (delete_job (j_id old)) s2 of
                     (Inl e, s) \<Rightarrow> (Fail 500 ''failed to reset failed build'', s)
                   | (Inr _, s) \<Rightarrow> insert_and_dispatch S clock (job_for u ?app (cb_repo_url req) (cb_ref req)
                  (cb_replicas req) (cb_port req) (cb_env req)) s)
                else if j_status old = status_queued \<or> j_status old = status_running then
                  (Fail 409 ''build already in progress for app'', s2)
                else if j_status old = status_succeeded then
                  (Fail 409 ''build already exists for app'', s2)
                else insert_and_dispatch S clock (job_for u ?app (cb_repo_url req) (cb_ref req)
                  (cb_replicas req) (cb_port req) (cb_env req)) s2))"
      if r2: "r2 = Inr existing" for existing
    proof -
      note n = on_store_newest [OF g [unfolded r2] ok1]
      have sub: "set (jobs (sv_store s2)) \<subseteq> set (jobs (sv_store s))" using tables_eqD [OF n(2)] s1 by simp
      have del: "sv_ok t" "set (jobs (sv_store t)) \<subseteq> set (jobs (sv_store s2))"
        if "on_store (delete_job jid) s2 = (res, t)" for jid res t
      proof -
        show "sv_ok t" using on_store_keeps [OF queue_ok_delete ok2, of jid] that by simp
        have "keeps (\<lambda>u. set (jobs u) \<subseteq> set (jobs (sv_store s2))) (delete_job jid)" unfolding delete_job_def
          by (intro keeps_seq keeps_db_exec) (auto simp: on_tables_def tables_def)
        from keepsD [OF this, of "sv_store s2"] that
        show "set (jobs (sv_store t)) \<subseteq> set (jobs (sv_store s2))"
          by (auto simp: on_store_def split: prod.splits)
      qed
      show ?thesis
      proof (cases existing)
        case None
        with ins [OF n(1) n(3) sub] show ?thesis by simp
      next
        case (Some old)
        have "sv_ok (snd (insert_and_dispatch S clock (job_for u ?app (cb_repo_url req) (cb_ref req)
                  (cb_replicas req) (cb_port req) (cb_env req)) t))"
          if "j_status old \<noteq> status_queued" "j_status old \<noteq> status_running" "sv_ok t"
            "set (jobs (sv_store t)) \<subseteq> set (jobs (sv_store s2))" for t
          using ins [OF that(3) app_idle_subset [OF n(5) [OF Some that(1,2)] that(4)]] that(4) sub by blast
        with Some del n(1) show ?thesis
          by (cases "on_store (delete_job (j_id old)) s2") (auto split: sum.split)
      qed
    qed
    show ?thesis
      unfolding create_build_def Some option.case Inr sum.case p prod.case
      using ok1 ok2 rest by (auto simp: g Let_def split: sum.split bool.split)
  qed
qed

end
