(* ===== verification/CoordinatorRuns.thy ===== *)
theory CoordinatorRuns
  imports CoordinatorFacts
begin

text \<open>
  The coordinator as a machine of requests, each handled to its end: at most one build of an app
  is in progress. Then what happens when requests overlap, and what single requests promise.
\<close>

section \<open>The webhook loop\<close>

lemma on_store_keeps_any: "keeps P m \<Longrightarrow> P (sv_store s) \<Longrightarrow> P (sv_store (snd (on_store m s)))"
  by (cases "m (sv_store s)") (auto simp: on_store_def keeps_def dest!: spec [where x = "sv_store s"])

lemma later_tables [simp]: "on_tables (later_than now app)"
  by (auto simp: on_tables_def later_than_def tables_def)

lemma later_update:
  "quiet f \<Longrightarrow> later_than now app s \<Longrightarrow> later_than now app (update_where jid f s)"
  by (auto simp: later_than_def update_where_def quiet_def)

lemma later_create: "j_app_name job \<noteq> app \<Longrightarrow> keeps (later_than now app) (create_job now' job)"
  unfolding create_job_def Let_def
  by (rule keeps_db_stmt [OF later_tables]) (auto simp: keeps_def later_than_def new_row_def)

lemma later_log: "keeps (later_than now app) (append_log now' jid stream msg)"
  by (rule keepsI) (simp add: later_than_def jobs_append_log)

lemma later_report: "keeps (later_than now app) (update_runner_status quoted now' jid req)"
  unfolding update_runner_status_def by (auto intro!: keeps_db_exec later_update)

lemma dispatch_job_later:
  "dispatch_job S clock job s = (b, s') \<Longrightarrow> later_than now app (sv_store s) \<Longrightarrow> later_than now app (sv_store s')"
  by (auto simp: dispatch_job_def Let_def split: option.splits sum.splits
      intro!: on_store_keeps_any [OF later_report] on_store_keeps_any [OF later_log])

lemma start_rebuild_later:
  assumes "j_app_name previous \<noteq> app" "later_than now app (sv_store s)"
  shows "later_than now app (sv_store (snd (start_rebuild S clock u previous s)))"
proof -
  obtain res s1 where c: "on_store (create_job (clock 0) (job_for u (j_app_name previous) (j_repo_url previous)
      (j_ref previous) (j_replicas previous) (j_port previous) (j_env previous))) s = (res, s1)" by force
  have "later_than now app (sv_store s1)"
    using on_store_keeps_any [OF later_create assms(2)] assms(1) c by (metis job_for_simps(2) snd_conv)
  then show ?thesis
    by (auto simp: start_rebuild_def Let_def c split: sum.split prod.split bool.split dest: dispatch_job_later)
qed

lemma webhook_app_ok:
  assumes "clock_ok clock" "sv_ok s" "later_than (clock 0) (ar_app_name a) (sv_store s)"
    and w: "webhook_app S clock u pushed branch a s = (t, s')"
  shows "sv_ok s'" "b \<noteq> ar_app_name a \<Longrightarrow> later_than now b (sv_store s) \<Longrightarrow> later_than now b (sv_store s')"
proof -
  obtain res s1 where g: "on_store (get_job_by_app_name (ar_app_name a)) s = (res, s1)" by force
  have ok1: "sv_ok s1" using on_store_keeps [OF _ assms(2), of "get_job_by_app_name (ar_app_name a)"] g
    by (simp add: get_job_by_app_name_def keeps_db_query)
  have later1: "later_than now' c (sv_store s) \<Longrightarrow> later_than now' c (sv_store s1)" for now' c
    using on_store_keeps_any [of "later_than now' c" "get_job_by_app_name (ar_app_name a)" s] g
    by (simp add: get_job_by_app_name_def keeps_db_query)
  have step: "sv_ok (snd (start_rebuild S clock u j s1))"
    "b \<noteq> ar_app_name a \<Longrightarrow> later_than now b (sv_store s) \<Longrightarrow> later_than now b (sv_store (snd (start_rebuild S clock u j s1)))"
    if r: "res = Inr (Some j)" "j_status j \<noteq> status_queued" "j_status j \<noteq> status_running" for j
  proof -
    note n = on_store_newest [OF g [unfolded r(1)] assms(2)]
    show "sv_ok (snd (start_rebuild S clock u j s1))"
      using start_rebuild_ok [OF assms(1) n(1), of j S u] n(4,5) later1 [OF assms(3)] r by simp
    show "b \<noteq> ar_app_name a \<Longrightarrow> later_than now b (sv_store s) \<Longrightarrow> later_than now b (sv_store (snd (start_rebuild S clock u j s1)))"
      using start_rebuild_later [OF _ later1, of j b now S clock u] n(4) [of j] by simp
  qed
  have cases: "s' = s \<or> s' = s1 \<or> (\<exists>j. res = Inr (Some j) \<and> j_status j \<noteq> status_queued \<and> j_status j \<noteq> status_running \<and>
      s' = snd (start_rebuild S clock u j s1))"
    using w by (auto simp: webhook_app_def g split: if_splits sum.splits option.splits prod.splits)
  show "sv_ok s'" using cases assms(2) ok1 step(1) by blast
  show "b \<noteq> ar_app_name a \<Longrightarrow> later_than now b (sv_store s) \<Longrightarrow> later_than now b (sv_store s')"
    using cases later1 step(2) by blast
qed

lemma webhook_loop_ok:
  assumes "\<And>i. clock_ok (clocks i)"
  shows "sv_ok s \<Longrightarrow> distinct (map ar_app_name as) \<Longrightarrow>
     \<forall>a \<in> set as. \<forall>j. later_than (clocks j 0) (ar_app_name a) (sv_store s) \<Longrightarrow>
     sv_ok (snd (webhook_loop S clocks uuids pushed branch i as s))"
proof (induction as arbitrary: s i)
  case Nil
  then show ?case by simp
next
  case (Cons a as)
  obtain t s1 where w: "webhook_app S (clocks i) (uuids i) pushed branch a s = (t, s1)" by force
  note w1 = webhook_app_ok [OF assms Cons.prems(1) _ w]
  have l: "later_than (clocks i 0) (ar_app_name a) (sv_store s)" using Cons.prems(3) by simp
  have "sv_ok (snd (webhook_loop S clocks uuids pushed branch (Suc i) as s1))"
  proof (rule Cons.IH)
    show "sv_ok s1" by (rule w1(1) [OF l])
    show "distinct (map ar_app_name as)" using Cons.prems(2) by simp
    show "\<forall>b \<in> set as. \<forall>j. later_than (clocks j 0) (ar_app_name b) (sv_store s1)"
    proof (intro ballI allI)
      fix b j assume b: "b \<in> set as"
      then have "ar_app_name b \<noteq> ar_app_name a" using Cons.prems(2) by (auto simp: image_iff)
      then show "later_than (clocks j 0) (ar_app_name b) (sv_store s1)"
        using w1(2) [OF l] Cons.prems(3) b by simp
    qed
  qed
  then show ?case
    by (cases "webhook_loop S clocks uuids pushed branch (Suc i) as s1") (simp add: w split: option.split)
qed

lemma github_webhook_ok:
  assumes "\<And>i. clock_ok (clocks i)" "sv_ok s" "\<And>i app. later_than (clocks i 0) app (sv_store s)"
  shows "sv_ok (snd (github_webhook S clocks uuids req s))"
proof -
  obtain res s1 where g: "on_store list_app_repos s = (res, s1)" by force
  have ok1: "sv_ok s1" using on_store_keeps [OF _ assms(2), of list_app_repos] g
    by (simp add: list_app_repos_def keeps_db_query)
  have loop: "sv_ok (snd (webhook_loop S clocks uuids pushed branch 0 apps s1))"
    if "res = Inr apps" for apps pushed branch
  proof (rule webhook_loop_ok [OF assms(1) ok1])
    from g that obtain t where t: "list_app_repos (sv_store s) = (Inr apps, t)" "s1 = s\<lparr>sv_store := t\<rparr>"
      by (auto simp: on_store_def split: prod.splits)
    from db_query_Inr [OF t(1) [unfolded list_app_repos_def]] obtain fs where
      fs: "t = (sv_store s)\<lparr>faults := fs\<rparr>" and apps: "fst (list_app_repos (t\<lparr>faults := []\<rparr>)) = Inr apps"
      by (auto simp: list_app_repos_def db_query_def db_stmt_def)
    have inv: "store_inv (t\<lparr>faults := []\<rparr>)" using assms(2) fs by (simp add: sv_ok_def queue_ok_def store_inv_def)
    from list_app_repos_last [OF inv] apps show "distinct (map ar_app_name apps)"
      by (auto simp: comp_def)
    show "\<forall>a \<in> set apps. \<forall>j. later_than (clocks j 0) (ar_app_name a) (sv_store s1)"
      using assms(3) fs t(2) by (simp add: later_than_def)
  qed
  then have "sv_ok s'" if "res = Inr apps" "webhook_loop S clocks uuids pushed branch 0 apps s1 = (ts, s')"
    for apps pushed branch ts s' using that by (metis snd_conv)
  then show ?thesis using assms(2) ok1
    by (auto simp: github_webhook_def Let_def g split: option.split sum.split prod.split)
qed

lemma update_runner_ok:
  assumes "clock_ok clock" "sv_ok s" shows "sv_ok (snd (update_runner S clock jid body s))"
proof -
  note v = assms(1) [unfolded clock_ok_def, rule_format]
  note rep = on_store_keeps [OF queue_ok_report [OF v]]
  have fin: "sv_ok t \<Longrightarrow> sv_ok (snd (finish_status S clock jid req t))" for t req
    using rep [of t "se_quote S" 0 jid req] by (auto simp: finish_status_def split: prod.split sum.split)
  have com: "sv_ok t" if "commit_gitops S jid req s = (r, t)" for req r t
  proof -
    have "sv_ok (snd (on_store (get_job jid) s))" using on_store_keeps [OF keeps_get_job assms(2)] by simp
    with that show ?thesis
      by (auto simp: commit_gitops_def seq_def on_git_def sv_ok_def split: prod.splits sum.splits)
  qed
  show ?thesis
    by (auto simp: update_runner_def assms(2) split: option.split prod.split sum.split intro!: fin rep dest: com)
qed

section \<open>The machine of requests\<close>

datatype server_event =
    Ev_create "nat \<Rightarrow> gotime" string "create_build_request option"
  | Ev_rebuild "nat \<Rightarrow> gotime" string string
  | Ev_webhook "nat \<Rightarrow> nat \<Rightarrow> gotime" "nat \<Rightarrow> string" webhook_request
  | Ev_poll "nat \<Rightarrow> gotime"
  | Ev_log "nat \<Rightarrow> gotime" string "runner_log_request option"
  | Ev_status "nat \<Rightarrow> gotime" string "runner_status_request option"
  | Ev_list int
  | Ev_get string
  | Ev_logs string int

fun server_step :: "'w server \<Rightarrow> 'w sv \<Rightarrow> server_event \<Rightarrow> 'w sv" where
  "server_step S s (Ev_create clock u body) = snd (create_build S clock u body s)"
| "server_step S s (Ev_rebuild clock u app) = snd (rebuild_app S clock u app s)"
| "server_step S s (Ev_webhook clocks us req) = snd (github_webhook S clocks us req s)"
| "server_step S s (Ev_poll clock) = snd (poll_runner clock s)"
| "server_step S s (Ev_log clock jid body) = snd (append_runner_log S clock jid body s)"
| "server_step S s (Ev_status clock jid body) = snd (update_runner S clock jid body s)"
| "server_step S s (Ev_list n) = snd (list_builds n s)"
| "server_step S s (Ev_get jid) = snd (get_build jid s)"
| "server_step S s (Ev_logs jid n) = snd (get_logs jid n s)"

text \<open>
  Clocks show real times. A build was created before what a clock shows when that was in an earlier
  second; or in the same second, when its time as stored sorts before the time of the clock as it
  would be stored. Within one second that is not the order of time (\<open>newest_job_within_second\<close>): of
  two creations in one second, the later may sort first.
\<close>

definition created_before :: "gotime \<Rightarrow> string \<Rightarrow> bool" where
  "created_before now stored \<longleftrightarrow> (case parse_time stored of
     None \<Rightarrow> False
   | Some t \<Rightarrow> second_key t < second_key now \<or> second_key t = second_key now \<and> stored < format_time now)"

definition after_app :: "gotime \<Rightarrow> string \<Rightarrow> 'w sv \<Rightarrow> bool" where
  "after_app now app s \<longleftrightarrow>
     list_all (\<lambda>r. j_app_name (cols r) = app \<longrightarrow> created_before now (j_created_at (cols r))) (jobs (sv_store s))"

definition after_all :: "gotime \<Rightarrow> 'w sv \<Rightarrow> bool" where
  "after_all now s \<longleftrightarrow> list_all (\<lambda>r. created_before now (j_created_at (cols r))) (jobs (sv_store s))"

lemma created_before_less:
  assumes "valid_time now" "stamp stored" "created_before now stored" shows "stored < format_time now"
proof -
  from assms(2) obtain t where t: "valid_time t" "stored = format_time t" by (auto simp: stamp_def)
  then have "parse_time stored = Some t" by (simp add: parse_format_time)
  with assms(3) t format_time_less [OF t(1) assms(1)] show ?thesis by (auto simp: created_before_def)
qed

lemma after_app_later:
  assumes "sv_ok s" "clock_ok clock" "after_app (clock i) app s" shows "later_than (clock i) app (sv_store s)"
proof -
  have "stamp (j_created_at (cols r))" if "r \<in> set (jobs (sv_store s))" for r
    using assms(1) that by (auto simp: sv_ok_def queue_ok_def store_inv_def jobs_inv_def row_ok_def)
  then show ?thesis
    using assms(2,3) created_before_less by (auto simp: later_than_def after_app_def list_all_iff clock_ok_def)
qed

lemma after_all_app: "after_all now s \<Longrightarrow> after_app now app s"
  by (simp add: after_all_def after_app_def list_all_iff)

text \<open>
  What is asked of the clocks: a build of an app is created after the builds the app has; a webhook,
  which may build several apps, comes after all builds.
\<close>

fun server_ok :: "'w server \<Rightarrow> 'w sv \<Rightarrow> server_event \<Rightarrow> bool" where
  "server_ok S s (Ev_create clock u body) = (clock_ok clock \<and> (case body of
     None \<Rightarrow> True
   | Some b \<Rightarrow> (case normalize_and_validate_build_request (se_unicode S) b of
       Inl _ \<Rightarrow> True | Inr req \<Rightarrow> after_app (clock 0) (cb_app_name req) s)))"
| "server_ok S s (Ev_rebuild clock u app) = (clock_ok clock \<and> after_app (clock 0) app s)"
| "server_ok S s (Ev_webhook clocks us req) = ((\<forall>i. clock_ok (clocks i)) \<and> (\<forall>i. after_all (clocks i 0) s))"
| "server_ok S s (Ev_poll clock) = clock_ok clock"
| "server_ok S s (Ev_log clock jid body) = clock_ok clock"
| "server_ok S s (Ev_status clock jid body) = clock_ok clock"
| "server_ok S s _ = True"

lemma on_store_okD: "on_store m s = (r, s') \<Longrightarrow> keeps queue_ok m \<Longrightarrow> sv_ok s \<Longrightarrow> sv_ok s'"
  using on_store_keeps [of m s] by simp

lemma server_step_ok:
  assumes "sv_ok s" "server_ok S s e" shows "sv_ok (server_step S s e)"
proof (cases e)
  case (Ev_create clock u body)
  have "later_than (clock 0) (cb_app_name req) (sv_store s)"
    if "body = Some b" "normalize_and_validate_build_request (se_unicode S) b = Inr req" for b req
    using after_app_later [OF assms(1), of clock 0] assms(2) Ev_create that by simp
  then show ?thesis using create_build_ok [of clock s body S u] assms Ev_create by simp
next
  case (Ev_rebuild clock u app)
  then show ?thesis using rebuild_app_ok [of clock s app S u] after_app_later [OF assms(1), of clock 0 app] assms by simp
next
  case (Ev_webhook clocks us req)
  then have "clock_ok (clocks i)" "after_all (clocks i 0) s" for i using assms(2) by simp_all
  with Ev_webhook assms(1) show ?thesis
    by (simp add: github_webhook_ok after_app_later after_all_app)
next
  case (Ev_poll clock)
  then show ?thesis using assms queue_ok_claim [of "clock 0" max_attempts]
    by (auto simp: poll_runner_def clock_ok_def split: prod.split sum.split dest: on_store_okD)
next
  case (Ev_log clock jid body)
  then show ?thesis using assms queue_ok_log [of "clock 0"]
    by (auto simp: append_runner_log_def Let_def clock_ok_def split: prod.split sum.split option.split dest: on_store_okD)
next
  case (Ev_status clock jid body)
  then show ?thesis using assms update_runner_ok by simp
next
  case (Ev_list n)
  have "keeps queue_ok (list_jobs n)" by (simp add: list_jobs_def Let_def keeps_db_query)
  with Ev_list show ?thesis using assms
    by (auto simp: list_builds_def split: prod.split sum.split dest: on_store_okD)
next
  case (Ev_get jid)
  then show ?thesis using assms keeps_get_job [OF queue_ok_tables, of jid]
    by (auto simp: get_build_def split: prod.split sum.split dest: on_store_okD)
next
  case (Ev_logs jid n)
  have "keeps queue_ok (list_logs jid n)" by (simp add: list_logs_def keeps_db_query)
  with Ev_logs show ?thesis using assms
    by (auto simp: get_logs_def split: prod.split sum.split dest: on_store_okD)
qed

interpretation coordinator: machine "server_step S" "server_ok S" sv_ok
  by unfold_locales (rule server_step_ok)

definition fresh_server :: "string option list \<Rightarrow> 'w \<Rightarrow> 'w sv" where
  "fresh_server fs w = \<lparr>sv_store = empty_store\<lparr>faults := fs\<rparr>, sv_world = w, sv_emitted = []\<rparr>"

lemma fresh_server_ok: "sv_ok (fresh_server fs w)"
  using store_inv_empty [of fs]
  by (simp add: sv_ok_def fresh_server_def queue_ok_def newest_only_def empty_store_def)

text \<open>
  C4. One build at a time per app. Let the coordinator handle any series of requests one after
  the other - creations, rebuilds, webhook deliveries, polls, log lines, status reports, reads -
  whatever the database, the repository and GitHub answer, each creation in a later second than the
  earlier builds of the app, or in the same second provided that its time sorts after theirs as text,
  as the store compares them; for a webhook, than the earlier builds of all apps. Then no app ever
  has two builds queued or running.
\<close>

theorem one_build_in_progress:
  assumes "admissible (server_step S) (server_ok S) (fresh_server fs w) es"
    and "r \<in> set (jobs (sv_store (run (server_step S) (fresh_server fs w) es)))"
    and "q \<in> set (jobs (sv_store (run (server_step S) (fresh_server fs w) es)))"
    and "in_progress (cols r)" "in_progress (cols q)" "j_app_name (cols q) = j_app_name (cols r)"
  shows "r = q"
  using queue_ok_one coordinator.run_inv [OF fresh_server_ok assms(1)] assms(2-) unfolding sv_ok_def by blast

end
