(* ===== verification/CoordinatorSpecs.thy ===== *)
theory CoordinatorSpecs
  imports CoordinatorRuns ManifestFacts
begin

text \<open>
  What single requests to the coordinator promise: which build requests are accepted and what
  they leave in the queue, what a finished build publishes, when an event is shipped; and what
  overlapping requests and the report of a running build do.
\<close>

section \<open>Accepted build requests\<close>

definition acceptable_build :: "create_build_request \<Rightarrow> bool" where
  "acceptable_build req \<longleftrightarrow> has_prefix (cb_repo_url req) github_prefix \<and>
     dns_label (trim_space (cb_app_name req)) \<and> length (trim_space (cb_app_name req)) \<le> 63 \<and>
     trim_space (cb_app_name req) \<notin> set reserved_names \<and> 1 \<le> cb_replicas req \<and> cb_replicas req \<le> 5"

lemma placeholder_ok:
  "trim_space placeholder_tag = placeholder_tag" "length placeholder_tag = 40" "list_all lower_hex placeholder_tag"
  "trim_space ''ghcr.io/placeholder/app'' = ''ghcr.io/placeholder/app''"
  "CHR '':'' \<notin> set ''ghcr.io/placeholder/app''" "rx_match image_regex (map lower_byte ''ghcr.io/placeholder/app'')"
  "is_ascii ''ghcr.io/placeholder/app''"
  by code_simp+

lemma build_request_iff:
  "normalize_and_validate_build_request uni req0 = Inr req \<longleftrightarrow>
     req = normalize_build_request req0 \<and> acceptable_build req"
proof -
  have v: "validate_create_app_request uni (Some \<lparr>car_name = n, car_image = ''ghcr.io/placeholder/app'',
      car_tag = placeholder_tag, car_replicas = k, car_port = 8080, car_env = []\<rparr>) = Inr () \<longleftrightarrow>
      dns_label (trim_space n) \<and> length (trim_space n) \<le> 63 \<and> trim_space n \<notin> set reserved_names \<and> 1 \<le> k \<and> k \<le> 5" for n k
    unfolding validate_create_app_request_iff acceptable_app_def
    using placeholder_ok by (simp add: to_lower_def)
  let ?r = "normalize_build_request req0"
  have p: "cb_port ?r = 8080" by (simp add: normalize_build_request_def Let_def)
  have n: "has_prefix (cb_repo_url ?r) github_prefix \<Longrightarrow> cb_repo_url ?r \<noteq> []"
    by (auto simp: github_prefix_def)
  show ?thesis
    unfolding normalize_and_validate_build_request_def Let_def p acceptable_build_def
    using v [of "cb_app_name ?r" "cb_replicas ?r"] n
    by (auto split: sum.splits)
qed

section \<open>A sample server\<close>

definition sample_server :: "dispatcher option \<Rightarrow> sender \<Rightarrow> mem_repo server" where
  "sample_server d snd_to = \<lparr>se_token = ''t0ken'', se_webhook_secret = ''s3cret'', se_dispatcher = d, se_emitter = True,
     se_git = mem_git, se_git_ops = lab_ops, se_send = snd_to, se_bad_url = (\<lambda>_. None), se_unicode = (\<lambda>s. s),
     se_quote = (\<lambda>s. s), se_map_order = (\<lambda>_. [AppName, Image, Tag, Replicas, PortNo, EnvVars])\<rparr>"

definition sample_build :: create_build_request where
  "sample_build = \<lparr>cb_name = [], cb_app_name = ''shop'', cb_repo_url = ''https://github.com/a/shop'', cb_ref = ''main'',
     cb_replicas = 2, cb_port = 0, cb_env = []\<rparr>"

definition at_noon :: "nat \<Rightarrow> gotime" where
  "at_noon i = noon"

lemma clock_at_noon [simp]: "clock_ok at_noon"
  by (simp add: clock_ok_def at_noon_def)

lemma sample_build_ok:
  "normalize_and_validate_build_request uni sample_build = Inr (sample_build\<lparr>cb_port := 8080\<rparr>)"
proof -
  have t: "trim_space ''shop'' = ''shop''" "trim_space ''https://github.com/a/shop'' = ''https://github.com/a/shop''"
    "trim_space ''main'' = ''main''" "dns_label ''shop''" "''shop'' \<notin> set reserved_names"
    by code_simp+
  show ?thesis unfolding build_request_iff
    using t by (simp add: normalize_build_request_def acceptable_build_def sample_build_def github_prefix_def Let_def)
qed

lemma lab_apps_shop: "fst (path_exists mem_git lab_ops ''apps/shop'' (lab_repo [])) = Inr False"
  using lab_clean
  by (simp add: path_exists_def open_main_def clone_repo_def seq_def mem_defs Let_def lab_repo_def)

section \<open>An accepted build\<close>

lemma dispatch_job_True:
  assumes "dispatch_job S clock job s = (True, s')"
  shows "s' = s" "se_dispatcher S = Some d \<Longrightarrow> dispatch (se_bad_url S) (se_send S) (Some d) (j_id job) (j_app_name job)
      (j_repo_url job) (j_ref job) (j_port job) = Inr ()"
  using assms by (auto simp: dispatch_job_def Let_def split: option.splits sum.splits)

definition row_for :: "gotime \<Rightarrow> job \<Rightarrow> string build_job" where
  "row_for now job = new_row (job\<lparr>j_created_at := now, j_updated_at := now\<rparr>)"

lemma create_job_Inr:
  assumes "create_job now job s = (Inr j, s')"
  shows "j = job\<lparr>j_created_at := now, j_updated_at := now\<rparr>"
    "\<exists>row. jobs s' = jobs s @ [row] \<and> cols row = row_for now job"
  using assms unfolding create_job_def Let_def
  by (auto dest!: db_stmt_Inr simp: row_for_def split: if_splits)

lemma insert_and_dispatch_created:
  assumes "insert_and_dispatch S clock job s = (Created_build resp, s')"
  shows "resp = \<lparr>cr_app_name = j_app_name job, cr_build_id = j_id job, cr_status = j_status job\<rparr>"
    "\<exists>row. jobs (sv_store s') = jobs (sv_store s) @ [row] \<and> cols row = row_for (clock 0) job"
    "se_dispatcher S = Some d \<Longrightarrow> dispatch (se_bad_url S) (se_send S) (Some d) (j_id job) (j_app_name job)
      (j_repo_url job) (j_ref job) (j_port job) = Inr ()"
proof -
  from assms obtain j t where c: "create_job (clock 0) job (sv_store s) = (Inr j, t)"
    and d: "dispatch_job S clock j (s\<lparr>sv_store := t\<rparr>) = (True, s')" and r: "Created_build resp = created_answer j"
    by (auto simp: insert_and_dispatch_def on_store_def split: prod.splits sum.splits if_splits bool.splits)
  note j = create_job_Inr [OF c] and d = dispatch_job_True [OF d]
  show "resp = \<lparr>cr_app_name = j_app_name job, cr_build_id = j_id job, cr_status = j_status job\<rparr>"
    using r j(1) by (simp add: created_answer_def)
  show "\<exists>row. jobs (sv_store s') = jobs (sv_store s) @ [row] \<and> cols row = row_for (clock 0) job"
    using j(2) d(1) by simp
  show "se_dispatcher S = Some d \<Longrightarrow> dispatch (se_bad_url S) (se_send S) (Some d) (j_id job) (j_app_name job)
      (j_repo_url job) (j_ref job) (j_port job) = Inr ()"
    using d(2) j(1) by simp
qed

lemma delete_job_Inr:
  assumes "delete_job jid s = (Inr (), s')" shows "jobs s' = filter (\<lambda>r. \<not> job_where jid r) (jobs s)"
  using assms unfolding delete_job_def by (auto elim!: seq_Inr_E dest!: db_exec_Inr)

text \<open>The three ways \<open>createBuild\<close> reaches the insertion.\<close>

lemma create_build_created_E:
  assumes "create_build S clock u body s = (Created_build resp, s')"
  obtains req0 req s1 found s2 s3 where "body = Some req0"
    "normalize_and_validate_build_request (se_unicode S) req0 = Inr req"
    "on_git (path_exists (se_git S) (se_git_ops S) (''apps/'' @ cb_app_name req)) s = (Inr False, s1)"
    "on_store (get_job_by_app_name (cb_app_name req)) s1 = (Inr found, s2)"
    "case found of None \<Rightarrow> s3 = s2
      | Some old \<Rightarrow> (j_status old = status_failed \<and> on_store (delete_job (j_id old)) s2 = (Inr (), s3)) \<or>
          (j_status old \<notin> build_statuses \<and> s3 = s2)"
    "insert_and_dispatch S clock (job_for u (cb_app_name req) (cb_repo_url req) (cb_ref req) (cb_replicas req)
       (cb_port req) (cb_env req)) s3 = (Created_build resp, s')"
  using assms unfolding create_build_def
  by (auto simp: Let_def build_statuses_def split: option.splits sum.splits prod.splits bool.splits if_splits)

text \<open>
  A 201 from POST /v1/builds means what it says: the request was acceptable once trimmed and
  defaulted, the build's row is in the queue with its parameters, under the id and status of the
  answer, nothing else of the queue was touched but a failed build of the same app, and, with an
  executor configured, GitHub has accepted a dispatch carrying exactly this job.
\<close>

theorem create_build_accepted:
  assumes "create_build S clock u body s = (Created_build resp, s')" "store_inv (sv_store s)"
  shows "\<exists>req0 req row gone. body = Some req0 \<and> req = normalize_build_request req0 \<and> acceptable_build req \<and>
    resp = \<lparr>cr_app_name = cb_app_name req, cr_build_id = u, cr_status = status_queued\<rparr> \<and>
    jobs (sv_store s') = filter (\<lambda>r. r \<notin> gone) (jobs (sv_store s)) @ [row] \<and>
    (\<forall>r \<in> gone. j_app_name (cols r) = cb_app_name req \<and> j_status (cols r) = status_failed) \<and>
    cols row = row_for (clock 0) (job_for u (cb_app_name req) (cb_repo_url req) (cb_ref req) (cb_replicas req)
      (cb_port req) (cb_env req)) \<and>
    (\<forall>d. se_dispatcher S = Some d \<longrightarrow> (\<exists>reply. hr_code reply = 204 \<and>
       se_send S (dispatch_request_of d u (cb_app_name req) (cb_repo_url req) (cb_ref req) (cb_port req)) = Inr reply))"
  using assms(1)
proof (rule create_build_created_E)
  fix req0 req s1 found s2 s3
  assume b: "body = Some req0" and n: "normalize_and_validate_build_request (se_unicode S) req0 = Inr req"
    and p: "on_git (path_exists (se_git S) (se_git_ops S) (''apps/'' @ cb_app_name req)) s = (Inr False, s1)"
    and g: "on_store (get_job_by_app_name (cb_app_name req)) s1 = (Inr found, s2)"
    and c: "case found of None \<Rightarrow> s3 = s2
      | Some old \<Rightarrow> (j_status old = status_failed \<and> on_store (delete_job (j_id old)) s2 = (Inr (), s3)) \<or>
          (j_status old \<notin> build_statuses \<and> s3 = s2)"
    and i: "insert_and_dispatch S clock (job_for u (cb_app_name req) (cb_repo_url req) (cb_ref req) (cb_replicas req)
       (cb_port req) (cb_env req)) s3 = (Created_build resp, s')"
  have st: "sv_store s1 = sv_store s" using on_git_store p by (metis snd_conv)
  then have inv: "store_inv (sv_store s1)" using assms(2) by simp
  obtain fs where s2: "sv_store s2 = (sv_store s1)\<lparr>faults := fs\<rparr>" and
    found: "found = (case rev (by_created (filter (\<lambda>r. j_app_name (cols r) = cb_app_name req) (jobs (sv_store s)))) of
       [] \<Rightarrow> None | r # _ \<Rightarrow> Some (scan_job r))"
    using g st by (auto simp: on_store_def get_job_by_app_name_def split: prod.splits dest!: db_query_Inr)
  have "\<exists>gone. jobs (sv_store s3) = filter (\<lambda>r. r \<notin> gone) (jobs (sv_store s)) \<and>
      (\<forall>r \<in> gone. j_app_name (cols r) = cb_app_name req \<and> j_status (cols r) = status_failed)"
  proof (cases found)
    case None
    then have "jobs (sv_store s3) = filter (\<lambda>r. r \<notin> {}) (jobs (sv_store s))" using c s2 st by simp
    then show ?thesis by blast
  next
    case (Some old)
    then obtain r qs where r: "rev (by_created (filter (\<lambda>r. j_app_name (cols r) = cb_app_name req) (jobs (sv_store s)))) = r # qs"
      and old: "old = scan_job r" using found by (auto split: list.splits)
    have "r \<in> set (rev (by_created (filter (\<lambda>r. j_app_name (cols r) = cb_app_name req) (jobs (sv_store s)))))"
      unfolding r by simp
    then have mem: "r \<in> set (jobs (sv_store s))" "j_app_name (cols r) = cb_app_name req" by simp_all
    have st_ok: "j_status (cols r) \<in> build_statuses"
      using assms(2) mem by (auto simp: store_inv_def jobs_inv_def row_ok_def)
    then have f: "j_status (cols r) = status_failed" and d: "on_store (delete_job (j_id old)) s2 = (Inr (), s3)"
      using c Some old by auto
    have "jobs (sv_store s3) = filter (\<lambda>q. \<not> job_where (j_id (cols r)) q) (jobs (sv_store s))"
      using d old s2 st by (auto simp: on_store_def split: prod.splits dest!: delete_job_Inr)
    also have "\<dots> = filter (\<lambda>q. q \<notin> {r}) (jobs (sv_store s))"
      using assms(2) mem by (intro filter_cong) (auto simp: job_where_def store_inv_def jobs_inv_def distinct_map inj_on_def)
    finally show ?thesis using f mem(2) by blast
  qed
  then obtain gone where gone: "jobs (sv_store s3) = filter (\<lambda>r. r \<notin> gone) (jobs (sv_store s))"
    "\<forall>r \<in> gone. j_app_name (cols r) = cb_app_name req \<and> j_status (cols r) = status_failed" by blast
  note ins = insert_and_dispatch_created [OF i, simplified]
  obtain row where row: "jobs (sv_store s') = jobs (sv_store s3) @ [row]"
    "cols row = row_for (clock 0) (job_for u (cb_app_name req) (cb_repo_url req) (cb_ref req) (cb_replicas req)
      (cb_port req) (cb_env req))" using ins(2) by blast
  have "\<exists>reply. hr_code reply = 204 \<and>
       se_send S (dispatch_request_of d u (cb_app_name req) (cb_repo_url req) (cb_ref req) (cb_port req)) = Inr reply"
    if "se_dispatcher S = Some d" for d using ins(3) [OF that] unfolding dispatch_ok_iff by blast
  with b n gone row ins(1) show ?thesis
    unfolding build_request_iff
    by (rule_tac exI [of _ req0], rule_tac exI [of _ req], rule_tac exI [of _ row], rule_tac exI [of _ gone]) simp
qed

definition quiet_sender :: sender where
  "quiet_sender req = Inl ''connection refused''"

definition sample_row :: "string build_job" where
  "sample_row = row_for noon (job_for ''b1'' ''shop'' ''https://github.com/a/shop'' ''main'' 2 8080 [])"

lemma sample_created:
  "\<exists>s'. create_build (sample_server None quiet_sender) at_noon ''b1'' (Some sample_build) (fresh_server [] (lab_repo [])) =
     (Created_build \<lparr>cr_app_name = ''shop'', cr_build_id = ''b1'', cr_status = status_queued\<rparr>, s') \<and>
   sv_store s' = \<lparr>jobs = [\<lparr>rowid = 1, cols = sample_row\<rparr>], logs = [], log_counter = 0, faults = []\<rparr>"
proof -
  obtain w' where p: "path_exists mem_git lab_ops ''apps/shop'' (lab_repo []) = (Inr False, w')"
    using lab_apps_shop by (metis prod.collapse)
  have "''apps/'' @ ''shop'' = ''apps/shop''" by simp
  with p show ?thesis
    unfolding create_build_def option.case sample_build_ok sum.case
    by (simp add: sample_server_def on_git_def fresh_server_def sample_build_def on_store_def
        get_job_by_app_name_no_fault empty_store_def insert_and_dispatch_def create_job_def Let_def
        db_stmt_def dispatch_job_def created_answer_def next_rowid_def row_for_def sample_row_def at_noon_def)
qed

theorem create_build_accepted_witness:
  "\<exists>s'. fst (create_build (sample_server None quiet_sender) at_noon ''b1'' (Some sample_build) (fresh_server [] (lab_repo []))) =
     Created_build \<lparr>cr_app_name = ''shop'', cr_build_id = ''b1'', cr_status = status_queued\<rparr> \<and>
   snd (create_build (sample_server None quiet_sender) at_noon ''b1'' (Some sample_build) (fresh_server [] (lab_repo []))) = s' \<and>
   length (jobs (sv_store s')) = 1"
proof -
  have inv: "store_inv (sv_store (fresh_server [] (lab_repo [])))"
    using fresh_server_ok [of "[]" "lab_repo []"] by (simp add: sv_ok_def queue_ok_def)
  from sample_created obtain s' where
    c: "create_build (sample_server None quiet_sender) at_noon ''b1'' (Some sample_build) (fresh_server [] (lab_repo [])) =
     (Created_build \<lparr>cr_app_name = ''shop'', cr_build_id = ''b1'', cr_status = status_queued\<rparr>, s')" by blast
  from create_build_accepted [OF c inv] c show ?thesis
    by (auto simp: fresh_server_def empty_store_def)
qed

text \<open>A creation at noon, and a rebuild of the same app a second later while the build is queued.\<close>

definition second_past_noon :: "nat \<Rightarrow> gotime" where
  "second_past_noon i = (at_noon i)\<lparr>second := 1\<rparr>"

theorem one_build_in_progress_witness:
  "(\<exists>r. jobs (sv_store (run (server_step (sample_server None quiet_sender)) (fresh_server [] (lab_repo []))
         [Ev_create at_noon ''b1'' (Some sample_build)])) = [r] \<and> in_progress (cols r)) \<and>
   (\<exists>r. {q \<in> set (jobs (sv_store (run (server_step (sample_server None quiet_sender)) (fresh_server [] (lab_repo []))
         [Ev_create at_noon ''b1'' (Some sample_build), Ev_rebuild second_past_noon ''b2'' ''shop'']))).
       in_progress (cols q) \<and> j_app_name (cols q) = ''shop''} \<subseteq> {r})"
proof -
  let ?S = "sample_server None quiet_sender" and ?s = "fresh_server [] (lab_repo [])"
  let ?e = "Ev_create at_noon ''b1'' (Some sample_build)"
  from sample_created have j: "jobs (sv_store (run (server_step ?S) ?s [?e])) = [\<lparr>rowid = 1, cols = sample_row\<rparr>]" by auto
  have p: "in_progress sample_row" by (simp add: in_progress_def sample_row_def row_for_def new_row_def)
  have v: "clock_ok second_past_noon" by (simp add: clock_ok_def second_past_noon_def at_noon_def noon_def valid_time_def days_in_def leap_year_def)
  have n: "parse_time (format_time noon) = Some noon" by (rule parse_format_time) simp
  moreover have "second noon = 0" by (simp add: noon_def)
  ultimately have "created_before (second_past_noon 0) (j_created_at sample_row)"
    by (simp add: created_before_def sample_row_def row_for_def new_row_def second_key_def second_past_noon_def at_noon_def)
  then have "server_ok ?S (server_step ?S ?s ?e) (Ev_rebuild second_past_noon ''b2'' ''shop'')"
    using j v by (simp add: after_app_def)
  moreover have "server_ok ?S ?s ?e"
    by (simp add: after_app_def fresh_server_def empty_store_def split: sum.split)
  ultimately have a: "admissible (server_step ?S) (server_ok ?S) ?s [?e, Ev_rebuild second_past_noon ''b2'' ''shop'']"
    by (simp only: admissible.simps)
  show ?thesis
  proof (intro conjI)
    show "\<exists>r. jobs (sv_store (run (server_step ?S) ?s [?e])) = [r] \<and> in_progress (cols r)" using p by (simp only: j) auto
    let ?A = "{q \<in> set (jobs (sv_store (run (server_step ?S) ?s [?e, Ev_rebuild second_past_noon ''b2'' ''shop'']))).
       in_progress (cols q) \<and> j_app_name (cols q) = ''shop''}"
    have "r = q" if "r \<in> ?A" "q \<in> ?A" for r q
      by (rule one_build_in_progress [OF a]) (use that in \<open>simp_all only: mem_Collect_eq\<close>)
    then show "\<exists>r. ?A \<subseteq> {r}" by blast
  qed
qed

section \<open>Overlapping requests\<close>

text \<open>
  The check and the insertion are separate statements, so two requests can both pass the
  check: for any app without a build, if both read the queue before either inserts, both
  insertions succeed and the app has two builds in progress, both answered 201.
\<close>

theorem overlapping_requests:
  assumes "faults (sv_store s) = []" "se_dispatcher S = None" "u1 \<noteq> u2"
    and "\<forall>r \<in> set (jobs (sv_store s)). j_app_name (cols r) \<noteq> app \<and> j_id (cols r) \<noteq> u1 \<and> j_id (cols r) \<noteq> u2"
  shows "fst (on_store (get_job_by_app_name app) s) = Inr None \<and>
    (case insert_and_dispatch S clock (job_for u1 app repo ref n p env) s of (a1, s1) \<Rightarrow>
     case insert_and_dispatch S clock' (job_for u2 app repo' ref' n' p' env') s1 of (a2, s2) \<Rightarrow>
       a1 = Created_build \<lparr>cr_app_name = app, cr_build_id = u1, cr_status = status_queued\<rparr> \<and>
       a2 = Created_build \<lparr>cr_app_name = app, cr_build_id = u2, cr_status = status_queued\<rparr> \<and>
       map (\<lambda>r. j_id (cols r)) (filter (\<lambda>r. j_app_name (cols r) = app \<and> in_progress (cols r)) (jobs (sv_store s2))) = [u1, u2])"
proof -
  have f: "filter (\<lambda>r. j_app_name (cols r) = app) (jobs (sv_store s)) = []"
    "filter (\<lambda>r. j_app_name (cols r) = app \<and> in_progress (cols r)) (jobs (sv_store s)) = []"
    "\<not> list_ex (job_where u1) (jobs (sv_store s))" "\<not> list_ex (job_where u2) (jobs (sv_store s))"
    using assms(4) by (auto simp: filter_empty_conv list_ex_iff job_where_def)
  show ?thesis
    using assms(1-3) f
    by (simp add: on_store_def get_job_by_app_name_no_fault insert_and_dispatch_def create_job_def Let_def db_stmt_def
        dispatch_job_def created_answer_def new_row_def in_progress_def job_where_def split: prod.split)
qed

theorem overlapping_requests_witness:
  "case insert_and_dispatch (sample_server None quiet_sender) at_noon (job_for ''b1'' ''shop'' ''r'' ''main'' 1 8080 [])
      (fresh_server [] (lab_repo [])) of (a1, s1) \<Rightarrow>
   case insert_and_dispatch (sample_server None quiet_sender) at_noon (job_for ''b2'' ''shop'' ''r'' ''main'' 1 8080 []) s1 of (a2, s2) \<Rightarrow>
     map (\<lambda>r. j_id (cols r)) (filter (\<lambda>r. j_app_name (cols r) = ''shop'' \<and> in_progress (cols r)) (jobs (sv_store s2))) = [''b1'', ''b2'']"
  using overlapping_requests [of "fresh_server [] (lab_repo [])" "sample_server None quiet_sender" "''b1''" "''b2''" "''shop''"
      at_noon "''r''" "''main''" 1 8080 "[]" at_noon "''r''" "''main''" 1 8080 "[]"]
  by (auto simp: fresh_server_def empty_store_def sample_server_def split: prod.splits)

end
