(* ===== verification/RunnerSpecs.thy ===== *)
theory RunnerSpecs
  imports CoordinatorSpecs
begin

text \<open>
  The runner's side of the coordinator: status reports, published builds, shipped log lines.
\<close>

section \<open>Status reports\<close>

lemma update_where_mem:
  assumes "store_inv s" "r \<in> set (jobs s)"
  shows "r\<lparr>cols := f (cols r)\<rparr> \<in> set (jobs (update_where (j_id (cols r)) f s))"
  using assms(2) by (auto simp: update_where_def job_where_def image_iff)

text \<open>
  The report that a build is running does not mark it running. With a healthy database the
  report is acknowledged and shipped as "running", while the job stays queued, not started and
  untried; so the queue offers it, and a runner that polls next is given a build although one
  is already being executed.
\<close>

theorem running_report_leaves_queued:
  assumes "store_inv (sv_store s)" "faults (sv_store s) = []" "se_emitter S"
    and "r \<in> set (jobs (sv_store s))" "j_status (cols r) = status_queued"
    and "rs_status req = status_running" "valid_time (clock 0)"
  shows "case update_runner S clock (j_id (cols r)) (Some req) s of (a, s') \<Rightarrow>
    a = No_content \<and> be_status (last (sv_emitted s')) = status_running \<and>
    (\<exists>r' \<in> set (jobs (sv_store s')). j_id (cols r') = j_id (cols r) \<and> j_status (cols r') = status_queued \<and>
       j_attempts (cols r') = 0 \<and> j_started_at (cols r') = None) \<and>
    (\<exists>j s''. poll_runner clock' s' = (Polled (Some j), s''))"
proof -
  define t where "t = update_where (j_id (cols r)) (report_running (clock 0) req) (sv_store s)"
  define e where "e = blank_event\<lparr>be_type := ''build.status'', be_job_id := j_id (cols r), be_status := rs_status req,
      be_image := rs_image req, be_tag := rs_tag req, be_error := rs_error req\<rparr>"
  have u: "update_runner S clock (j_id (cols r)) (Some req) s =
      (No_content, s\<lparr>sv_store := t, sv_emitted := sv_emitted s @ [e]\<rparr>)"
    using assms(2,3,6) by (simp add: update_runner_def finish_status_def on_store_def update_runner_status_def
        db_exec_no_fault emit_event_def t_def e_def)
  have inv: "store_inv t" unfolding t_def
    by (rule store_inv_update [OF assms(1)]) (use assms(7) row_ok_reports in auto)
  have ft: "faults t = []" using assms(2) by (simp add: t_def update_where_def)
  let ?r = "r\<lparr>cols := report_running (clock 0) req (cols r)\<rparr>"
  have mem: "?r \<in> set (jobs t)" unfolding t_def by (rule update_where_mem [OF assms(1,4)])
  have q: "j_status (cols ?r) = status_queued" using assms(5) by (simp add: report_running_def)
  have ok: "row_ok (cols ?r)" using inv mem by (auto simp: store_inv_def jobs_inv_def)
  have un: "j_attempts (cols ?r) = 0" "j_started_at (cols ?r) = None"
    using ok q by (auto simp: row_ok_def)
  have "queue_rows max_attempts t \<noteq> []"
    unfolding queue_empty using mem q un(1) by (fastforce simp: claimable_def max_attempts_def)
  then obtain x xs where x: "queue_rows max_attempts t = x # xs" by (cases "queue_rows max_attempts t") auto
  from queue_head [OF x] obtain us vs where "jobs t = us @ x # vs" by blast
  note claim_when_queued [OF inv ft x this, of "clock' 0"]
  then have "\<exists>j s''. poll_runner clock' (s\<lparr>sv_store := t, sv_emitted := sv_emitted s @ [e]\<rparr>) = (Polled (Some j), s'')"
    by (simp add: poll_runner_def on_store_def)
  moreover have "be_status e = status_running" using assms(6) by (simp add: e_def)
  ultimately show ?thesis
    unfolding u using mem q un by (auto intro!: bexI [OF _ mem])
qed

definition running_report :: runner_status_request where
  "running_report = (failure_report [])\<lparr>rs_status := status_running, rs_commit_sha := ''abc'', rs_framework := ''go''\<rparr>"

definition one_build :: "mem_repo sv" where
  "one_build = \<lparr>sv_store = one_queued, sv_world = lab_repo [], sv_emitted = []\<rparr>"

lemma one_queued_mem:
  "\<exists>r \<in> set (jobs one_queued). j_id (cols r) = ''b1'' \<and> j_status (cols r) = status_queued \<and>
     j_app_name (cols r) = ''shop'' \<and> j_replicas (cols r) = 2 \<and> j_port (cols r) = 8080 \<and> j_env (cols r) = []"
  by (simp add: one_queued_def create_job_def Let_def db_stmt_def empty_store_def new_row_def sample_job_def)

theorem running_report_leaves_queued_witness:
  "\<exists>j s''. poll_runner at_noon (snd (update_runner (sample_server None quiet_sender) at_noon ''b1'' (Some running_report) one_build))
     = (Polled (Some j), s'')"
proof -
  obtain r where r: "r \<in> set (jobs one_queued)" "j_id (cols r) = ''b1''" "j_status (cols r) = status_queued"
    using one_queued_mem by blast
  have p: "store_inv (sv_store one_build)" "faults (sv_store one_build) = []" "r \<in> set (jobs (sv_store one_build))"
    using r by (simp_all add: one_build_def)
  have q: "se_emitter (sample_server None quiet_sender)" "rs_status running_report = status_running" "valid_time (at_noon 0)"
    by (simp_all add: sample_server_def running_report_def at_noon_def)
  from running_report_leaves_queued [where clock = at_noon and clock' = at_noon, OF p(1,2) q(1) p(3) r(3) q(2,3)] r(2)
  show ?thesis by (auto split: prod.splits)
qed

section \<open>Shipping\<close>

text \<open>
  A line is shipped exactly when it is stored: whatever the database does, the answer is 204
  if and only if the log has gained the line, and the emitter has been handed exactly the stored
  lines.
\<close>

theorem log_shipped_iff_stored:
  assumes "se_emitter S"
  shows "case append_runner_log S clock jid (Some req) s of (a, s') \<Rightarrow>
    (a = No_content \<and>
      (\<exists>l. logs (sv_store s') = logs (sv_store s) @ [l] \<and> l_job_id l = jid \<and> l_message l = rl_message req \<and>
         l_stream l = (if rl_stream req = [] then ''stdout'' else rl_stream req) \<and>
         sv_emitted s' = sv_emitted s @ [blank_event\<lparr>be_type := ''build.log'', be_job_id := jid,
           be_stream := l_stream l, be_message := l_message l\<rparr>])) \<or>
    (a = Fail 500 ''failed to append log'' \<and> logs (sv_store s') = logs (sv_store s) \<and> sv_emitted s' = sv_emitted s)"
proof -
  let ?st = "if rl_stream req = [] then ''stdout'' else rl_stream req"
  obtain r t where a: "append_log (clock 0) jid ?st (rl_message req) (sv_store s) = (r, t)" by force
  have "(\<exists>l. logs t = logs (sv_store s) @ [l] \<and> l_job_id l = jid \<and> l_message l = rl_message req \<and> l_stream l = ?st)"
    if "r = Inr x" for x
    using a [unfolded that append_log_def] by (elim seq_Inr_E) (auto dest!: db_query_Inr db_exec_Inr simp: insert_log_def)
  moreover have "logs t = logs (sv_store s)" if "r = Inl e" for e
    using a that by (auto simp: append_log_def seq_def db_query_def db_exec_def db_stmt_def
        split: list.splits option.splits prod.splits)
  ultimately show ?thesis
    using assms by (cases r) (auto simp: append_runner_log_def on_store_def a emit_event_def Let_def)
qed

theorem log_shipped_iff_stored_witness:
  "sv_emitted (snd (append_runner_log (sample_server None quiet_sender) at_noon ''b1''
     (Some \<lparr>rl_stream = [], rl_message = ''go build''\<rparr>) one_build)) =
     [blank_event\<lparr>be_type := ''build.log'', be_job_id := ''b1'', be_stream := ''stdout'', be_message := ''go build''\<rparr>]"
proof -
  let ?r = "append_runner_log (sample_server None quiet_sender) at_noon ''b1''
     (Some \<lparr>rl_stream = [], rl_message = ''go build''\<rparr>) one_build"
  have "fst ?r = No_content"
    by (simp add: append_runner_log_def on_store_def one_build_def append_log_def seq_def one_queued_inv act_simps Let_def insert_log_def)
  moreover have "se_emitter (sample_server None quiet_sender)" "sv_emitted one_build = []"
    by (simp_all add: sample_server_def one_build_def)
  ultimately show ?thesis
    using log_shipped_iff_stored [where S = "sample_server None quiet_sender" and clock = at_noon and jid = "''b1''" and req = "\<lparr>rl_stream = [], rl_message = ''go build''\<rparr>" and s = one_build]
    by (simp only: case_prod_unfold) auto
qed

section \<open>Publishing a finished build\<close>

lemma dns_label_segment:
  assumes "dns_label n" shows "CHR ''/'' \<notin> set n" "n \<noteq> []" "n \<noteq> ''.''" "n \<noteq> ''..''"
proof -
  have "\<not> dash_alnum (CHR ''/'')" "\<not> lower_alnum (CHR ''.'')" by code_simp+
  then show "CHR ''/'' \<notin> set n" "n \<noteq> []" "n \<noteq> ''.''" "n \<noteq> ''..''"
    using assms by (auto simp: dns_label_def list_all_iff)
qed

lemma clean_apps_path:
  assumes "dns_label n" "CHR ''/'' \<notin> set f" "f \<notin> {[], ''.'', ''..''}"
  shows "path_join [''/tmp/gitops-lab'', ''apps/'' @ n @ ''/'' @ f] = ''/tmp/gitops-lab'' @ ''/'' @ ''apps/'' @ n @ ''/'' @ f"
  using dns_label_segment [OF assms(1)] assms(2,3)
  by (simp add: path_join_def path_clean_def Let_def split_on_block split_on_last clean_step_def)

lemma committed_paths:
  "map fst (files_to_commit S job req) = map (\<lambda>f. ''apps/'' @ j_app_name job @ ''/'' @ f)
     [''namespace.yaml'', ''deployment.yaml'', ''service.yaml'', ''resource-quota.yaml'', ''network-policies.yaml'',
      ''pull-secret.yaml'', ''kustomization.yaml'']"
  by (simp add: files_to_commit_def generate_app_files_def file_templates_def Let_def)

lemma committed_paths_clean:
  assumes "dns_label (j_app_name job)"
  shows "\<forall>(rel, c) \<in> set (files_to_commit S job req). path_join [lab, rel] = lab @ ''/'' @ rel"
    and "distinct (map fst (files_to_commit S job req))"
proof -
  have "\<forall>rel \<in> set (map fst (files_to_commit S job req)). path_join [lab, rel] = lab @ ''/'' @ rel"
    unfolding committed_paths lab_def using clean_apps_path [OF assms] by simp
  then show "\<forall>(rel, c) \<in> set (files_to_commit S job req). path_join [lab, rel] = lab @ ''/'' @ rel" by force
  show "distinct (map fst (files_to_commit S job req))" unfolding committed_paths by simp
qed

definition published :: "'w server \<Rightarrow> job_row \<Rightarrow> runner_status_request \<Rightarrow> (string \<Rightarrow> string option) \<Rightarrow> string \<Rightarrow> string option" where
  "published S r req m = m ++ map_of (files_to_commit S (scan_job r) req)"

lemma get_row:
  assumes "store_inv s" "faults s = []" "r \<in> set (jobs s)"
  shows "get_job (j_id (cols r)) s = (Inr (scan_job r), s)"
proof -
  from assms(3) obtain xs ys where j: "jobs s = xs @ r # ys" by (auto simp: in_set_conv_decomp)
  have "distinct (map (\<lambda>r. j_id (cols r)) (xs @ r # ys))"
    using assms(1) j by (simp add: store_inv_def jobs_inv_def)
  from filter_unique [OF this] show ?thesis
    by (simp add: get_job_def db_stmt_no_fault assms(2) j)
qed

text \<open>
  C15. A build reported as succeeded is deployed or failed, never in between. On a healthy
  database and a repository meeting its contract, the seven manifests of the app (the image
  updater's is left out) are all on main and the build is marked succeeded with its image, tag
  and path; or the commit failed, the answer is 500, the build is marked failed, and main is as
  it was unless it was the push whose outcome is unknown, and then it has all seven.
\<close>

theorem success_is_published:
  assumes "git_repo (se_git S) lab main head index disk is_dir" "se_git_ops S = new_gitops getenv"
    and "store_inv (sv_store s)" "faults (sv_store s) = []" "r \<in> set (jobs (sv_store s))"
    and "rs_status req = status_succeeded" "dns_label (j_app_name (cols r))"
  shows "case update_runner S clock (j_id (cols r)) (Some req) s of (a, s') \<Rightarrow>
    (a = No_content \<and> main (sv_world s') = published S r req (main (sv_world s)) \<and>
      (\<exists>q \<in> set (jobs (sv_store s')). j_id (cols q) = j_id (cols r) \<and> j_status (cols q) = status_succeeded \<and>
         j_image (cols q) = rs_image req \<and> j_tag (cols q) = rs_tag req \<and>
         j_gitops_path (cols q) = ''apps/'' @ j_app_name (cols r) \<and> j_deploy_status (cols q) = ''gitops_committed'')) \<or>
    (a = Fail 500 ''failed to commit GitOps manifests'' \<and>
      main (sv_world s') \<in> {main (sv_world s), published S r req (main (sv_world s))} \<and>
      (\<exists>q \<in> set (jobs (sv_store s')). j_id (cols q) = j_id (cols r) \<and> j_status (cols q) = status_failed))"
proof -
  let ?job = "scan_job r" and ?S = "sv_store s"
  let ?c = "commit_files (se_git S) (se_git_ops S) (''onboard('' @ j_app_name ?job @ ''): deploy build '' @ short (rs_tag req))
      (files_to_commit S ?job req) ''tinycloud-build-coordinator''"
  have clean: "\<forall>(rel, c) \<in> set (files_to_commit S ?job req). path_join [lab, rel] = lab @ ''/'' @ rel"
    "distinct (map fst (files_to_commit S ?job req))" using committed_paths_clean [of ?job S req] assms(7) by simp_all
  obtain res w' where c: "?c (sv_world s) = (res, w')" by force
  have "triple (\<lambda>w. main w = main (sv_world s)) ?c (\<lambda>_ w. main w = published S r req (main (sv_world s)))
      (\<lambda>e w. main w = main (sv_world s) \<or> (has_prefix e ''failed to push commit: '' \<and> main w = published S r req (main (sv_world s))))"
    unfolding published_def assms(2) by (rule git_repo.commit_files_triple [OF assms(1) new_gitops_dir clean])
  from tripleD [OF this refl] c have m: "case res of Inr _ \<Rightarrow> main w' = published S r req (main (sv_world s))
      | Inl e \<Rightarrow> main w' \<in> {main (sv_world s), published S r req (main (sv_world s))}"
    by (cases res) auto
  have g: "on_store (get_job (j_id (cols r))) s = (Inr ?job, s)"
    using get_row [OF assms(3-5)] by (simp add: on_store_def)
  have cg: "commit_gitops S (j_id (cols r)) req s = (case res of Inl e \<Rightarrow> (Inl e, s\<lparr>sv_world := w'\<rparr>)
      | Inr sha \<Rightarrow> (Inr (sha, ''apps/'' @ j_app_name (cols r), app_base_url (j_app_name (cols r))), s\<lparr>sv_world := w'\<rparr>))"
    using c by (cases res) (simp_all add: commit_gitops_def seq_def g on_git_def)
  note up = update_where_mem [OF assms(3,5)]
  show ?thesis
  proof (cases res)
    case (Inl e)
    let ?f = "report_failed (clock 0) (failure_report (''image built but GitOps commit failed: '' @ e))"
    have "r\<lparr>cols := ?f (cols r)\<rparr> \<in> set (jobs (update_where (j_id (cols r)) ?f ?S))" by (rule up)
    then have "\<exists>q \<in> set (jobs (update_where (j_id (cols r)) ?f ?S)). j_id (cols q) = j_id (cols r) \<and> j_status (cols q) = status_failed"
      by (rule bexI [rotated]) (simp add: report_failed_def)
    with Inl m assms(4,6) show ?thesis
      by (simp add: update_runner_def cg on_store_def update_runner_status_def failure_report_def db_exec_no_fault)
  next
    case (Inr sha)
    define req' where "req' = req\<lparr>rs_gitops_commit_sha := sha, rs_gitops_path := ''apps/'' @ j_app_name (cols r),
        rs_app_url := app_base_url (j_app_name (cols r)), rs_deploy_status := ''gitops_committed''\<rparr>"
    let ?f = "report_succeeded (clock 0) req'"
    have "r\<lparr>cols := ?f (cols r)\<rparr> \<in> set (jobs (update_where (j_id (cols r)) ?f ?S))" by (rule up)
    then have q: "\<exists>q \<in> set (jobs (update_where (j_id (cols r)) ?f ?S)). j_id (cols q) = j_id (cols r) \<and>
         j_status (cols q) = status_succeeded \<and> j_image (cols q) = rs_image req \<and> j_tag (cols q) = rs_tag req \<and>
         j_gitops_path (cols q) = ''apps/'' @ j_app_name (cols r) \<and> j_deploy_status (cols q) = ''gitops_committed''"
      by (rule bexI [rotated]) (simp add: report_succeeded_def req'_def)
    have "rs_status req' = status_succeeded" using assms(6) by (simp add: req'_def)
    with Inr m q assms(4,6) show ?thesis
      by (simp add: update_runner_def cg finish_status_def on_store_def update_runner_status_def db_exec_no_fault
          req'_def emit_event_def)
  qed
qed

definition built_report :: runner_status_request where
  "built_report = (failure_report [])\<lparr>rs_status := status_succeeded, rs_image := ''ghcr.io/a/shop'', rs_tag := placeholder_tag\<rparr>"

theorem success_is_published_witness:
  "\<exists>q \<in> set (jobs (sv_store (snd (update_runner ((sample_server None quiet_sender)\<lparr>se_git_ops := new_gitops (\<lambda>_. [])\<rparr>)
      at_noon ''b1'' (Some built_report) one_build)))). j_id (cols q) = ''b1'' \<and> j_status (cols q) \<in> {status_succeeded, status_failed}"
proof -
  let ?S = "(sample_server None quiet_sender)\<lparr>se_git_ops := new_gitops (\<lambda>_. [])\<rparr>"
  obtain r where r: "r \<in> set (jobs one_queued)" "j_id (cols r) = ''b1''" "j_app_name (cols r) = ''shop''"
    using one_queued_mem by blast
  have g: "git_repo (se_git ?S) lab main_of head_of index_of disk_of mem_is_dir" "se_git_ops ?S = new_gitops (\<lambda>_. [])"
    using mem_repo_ok by (simp_all add: sample_server_def)
  have p: "store_inv (sv_store one_build)" "faults (sv_store one_build) = []" "r \<in> set (jobs (sv_store one_build))"
    using r by (simp_all add: one_build_def)
  have "dns_label ''shop''" by code_simp
  then have "dns_label (j_app_name (cols r))" "rs_status built_report = status_succeeded"
    using r by (simp_all add: built_report_def)
  from success_is_published [where clock = at_noon, OF g p this(2,1)] r(2)
  show ?thesis by (auto split: prod.splits)
qed

section \<open>A build that cannot be handed over\<close>

text \<open>
  C32. A build that cannot be handed to the executor is not lost: on a healthy database the caller
  gets 502, the queue keeps the new row, marked failed and finished with the dispatch error, and
  the reason is the build's one log line. No other row or line changes.
\<close>

theorem dispatch_failure_recorded:
  assumes "faults (sv_store s) = []" "se_dispatcher S = Some d"
    and "dispatch (se_bad_url S) (se_send S) (Some d) (j_id job) (j_app_name job) (j_repo_url job) (j_ref job) (j_port job) = Inl e"
    and "\<forall>r \<in> set (jobs (sv_store s)). j_id (cols r) \<noteq> j_id job"
  shows "case insert_and_dispatch S clock job s of (a, s') \<Rightarrow>
    a = Fail 502 ''failed to dispatch build'' \<and>
    (\<exists>r l. jobs (sv_store s') = jobs (sv_store s) @ [r] \<and> j_id (cols r) = j_id job \<and>
       j_status (cols r) = status_failed \<and> j_finished_at (cols r) = Some (format_time (clock 2)) \<and>
       j_error (cols r) = ''failed to dispatch build to executor: '' @ e \<and>
       logs (sv_store s') = logs (sv_store s) @ [l] \<and> l_job_id l = j_id job \<and> l_stream l = ''stderr'' \<and>
       l_message l = ''failed to dispatch build: '' @ e)"
proof -
  have keep: "map (\<lambda>r. if job_where (j_id job) r then r\<lparr>cols := f (cols r)\<rparr> else r) (jobs (sv_store s)) = jobs (sv_store s)" for f
    using assms(4) by (auto intro!: map_idI simp: job_where_def)
  note keep = keep [unfolded job_where_def]
  have fresh: "\<not> list_ex (job_where (j_id job)) (jobs (sv_store s))"
    using assms(4) by (auto simp: list_ex_iff job_where_def)
  show ?thesis
    using assms(1,2,3) fresh
    by (simp add: insert_and_dispatch_def on_store_def create_job_def Let_def dispatch_job_def append_log_def
        seq_def act_simps insert_log_def update_runner_status_def failure_report_def update_where_def keep
        report_failed_def job_where_def new_row_def)
qed

lemma no_reply: "dispatch (\<lambda>_. None) quiet_sender (Some \<lparr>dc_token = ''t'', dc_workflow_repo = ''a/b'',
    dc_coordinator_url = ''http://c'', dc_image_prefix = ''ghcr.io/a'', dc_base_url = []\<rparr>) i a r f p
  = Inl (''dispatch to GitHub Actions: '' @ ''connection refused'')"
proof -
  have "trim_space ''ghcr.io/a'' \<noteq> []" "trim_space ''http://c'' \<noteq> []" by code_simp+
  then show ?thesis by (simp add: dispatch_def Let_def quiet_sender_def)
qed

theorem dispatch_failure_recorded_witness:
  "fst (insert_and_dispatch (sample_server (Some \<lparr>dc_token = ''t'', dc_workflow_repo = ''a/b'',
    dc_coordinator_url = ''http://c'', dc_image_prefix = ''ghcr.io/a'', dc_base_url = []\<rparr>) quiet_sender)
    at_noon (job_for ''b1'' ''shop'' ''r'' ''main'' 1 8080 []) (fresh_server [] (lab_repo [])))
    = Fail 502 ''failed to dispatch build''"
proof -
  let ?d = "\<lparr>dc_token = ''t'', dc_workflow_repo = ''a/b'',
    dc_coordinator_url = ''http://c'', dc_image_prefix = ''ghcr.io/a'', dc_base_url = []\<rparr>"
  have "faults (sv_store (fresh_server [] (lab_repo []))) = []" "jobs (sv_store (fresh_server [] (lab_repo []))) = []"
    by (simp_all add: fresh_server_def empty_store_def)
  moreover have "se_dispatcher (sample_server (Some ?d) quiet_sender) = Some ?d"
    "se_bad_url (sample_server (Some ?d) quiet_sender) = (\<lambda>_. None)"
    "se_send (sample_server (Some ?d) quiet_sender) = quiet_sender" by (simp_all add: sample_server_def)
  ultimately show ?thesis
    using dispatch_failure_recorded [of "fresh_server [] (lab_repo [])" "sample_server (Some ?d) quiet_sender" ?d
      "job_for ''b1'' ''shop'' ''r'' ''main'' 1 8080 []" "''dispatch to GitHub Actions: '' @ ''connection refused''" at_noon]
    by (simp only: no_reply case_prod_unfold) simp
qed

end
