(* ===== verification/WebhookSpecs.thy ===== *)
theory WebhookSpecs
  imports Webhook
begin

text \<open>
  What a webhook delivery is trusted with: the signature it must carry, and which apps a push
  rebuilds.
\<close>

section \<open>The forms of a repository address\<close>

text \<open>The \<open>owner/name\<close> part of an address: ASCII, no spaces, no \<open>@\<close>, not ending in \<open>/\<close> or \<open>.git\<close>.\<close>

definition repo_part :: "string \<Rightarrow> bool" where
  "repo_part x \<longleftrightarrow> is_ascii x \<and> set x \<inter> space_bytes = {} \<and> CHR ''@'' \<notin> set x \<and>
     \<not> has_suffix x ''/'' \<and> \<not> has_suffix (map lower_byte x) ''.git'' \<and> x \<noteq> []"

lemma space_bytes_unfold: "c \<in> space_bytes \<longleftrightarrow> list_ex (\<lambda>w. c \<in> set w) go_spaces"
  by (auto simp: space_bytes_def list_ex_iff)

lemma lower_byte_fixed:
  "lower_byte c = d \<Longrightarrow> (of_char d :: nat) < 97 \<or> 122 < (of_char d :: nat) \<Longrightarrow> c = d"
proof -
  assume l: "lower_byte c = d" and d: "(of_char d :: nat) < 97 \<or> 122 < (of_char d :: nat)"
  show "c = d"
  proof (rule ccontr)
    assume "c \<noteq> d"
    with l have "65 \<le> (of_char c :: nat)" "(of_char c :: nat) \<le> 90" "d = char_of ((of_char c :: nat) + 32)"
      by (auto simp: lower_byte_def Let_def split: if_splits)
    with d show False by (simp add: of_char_of)
  qed
qed

lemma space_bytes_not_lower: "c \<in> space_bytes \<Longrightarrow> (of_char c :: nat) < 97 \<or> 122 < (of_char c :: nat)"
  unfolding space_bytes_unfold go_spaces_def by auto

lemma lower_no_spaces:
  assumes "set x \<inter> space_bytes = {}" shows "set (map lower_byte x) \<inter> space_bytes = {}"
proof (rule ccontr)
  assume "set (map lower_byte x) \<inter> space_bytes \<noteq> {}"
  then obtain c where "c \<in> set x" "lower_byte c \<in> space_bytes" by auto
  then have "c = lower_byte c" using lower_byte_fixed [OF refl space_bytes_not_lower] by blast
  with assms \<open>c \<in> set x\<close> \<open>lower_byte c \<in> space_bytes\<close> show False by auto
qed

lemma lower_last:
  assumes "\<not> has_suffix x ''/''" shows "\<not> has_suffix (map lower_byte x) ''/''"
proof
  assume "has_suffix (map lower_byte x) ''/''"
  then obtain t where "map lower_byte x = t @ ''/''" by (auto simp: has_suffix_iff)
  then obtain u c where "x = u @ [c]" "lower_byte c = CHR ''/''" by (auto simp: map_eq_append_conv)
  with lower_byte_fixed [of c "CHR ''/''"] have "x = u @ ''/''" by simp
  with assms show False by (auto simp: has_suffix_iff)
qed

text \<open>A suffix cannot reach back over a byte it does not contain.\<close>

lemma has_suffix_block:
  assumes "c \<notin> set w" shows "has_suffix (p @ c # y) w \<longleftrightarrow> has_suffix y w"
proof
  assume "has_suffix (p @ c # y) w"
  then obtain t where t: "p @ c # y = t @ w" by (auto simp: has_suffix_iff)
  then obtain us where "p = t @ us \<and> us @ c # y = w \<or> p @ us = t \<and> c # y = us @ w"
    by (auto simp: append_eq_append_conv2)
  with assms have "c # y = us @ w" by auto
  with assms show "has_suffix y w" by (cases us) (auto simp: has_suffix_iff)
next
  assume "has_suffix y w"
  then show "has_suffix (p @ c # y) w" by (auto simp: has_suffix_iff intro: exI [of _ "p @ c # _"])
qed

lemma trim_suffix_absent: "\<not> has_suffix s p \<Longrightarrow> trim_suffix s p = s"
  by (simp add: trim_suffix_def)

lemma strip_suffixes:
  assumes "\<not> has_suffix y ''/''" "\<not> has_suffix y ''.git''" "suf \<in> {[], ''/'', ''.git'', ''.git/''}"
    and "c \<in> {CHR ''/'', CHR '':''}" "y \<noteq> []"
  shows "trim_suffix (trim_suffix (p @ c # y @ suf) ''/'') ''.git'' = p @ c # y"
proof -
  have "last y \<noteq> CHR ''/''"
  proof
    assume "last y = CHR ''/''"
    then have "y = butlast y @ ''/''" using assms(5) by (metis append_butlast_last_id)
    with assms(1) show False by (metis has_suffix_iff)
  qed
  then have sl: "\<not> has_suffix (p @ c # y) ''/''" using assms(5) by (auto simp: has_suffix_iff dest: arg_cong [where f = last])
  have gt: "\<not> has_suffix (p @ c # y) ''.git''" using assms(2,4) by (subst has_suffix_block) auto
  have sg: "\<not> has_suffix ((p @ c # y) @ ''.git'') ''/''" by (auto simp: has_suffix_iff dest: arg_cong [where f = last])
  from assms(3) consider "suf = []" | "suf = ''/''" | "suf = ''.git''" | "suf = ''.git/''" by auto
  then show ?thesis
  proof cases
    case 1
    with sl gt show ?thesis by (simp add: trim_suffix_absent)
  next
    case 2
    with trim_suffix_same [of "p @ c # y" "''/''"] gt show ?thesis by (simp add: trim_suffix_absent)
  next
    case 3
    with trim_suffix_same [of "p @ c # y" "''.git''"] sg show ?thesis by (simp add: trim_suffix_absent)
  next
    case 4
    with trim_suffix_same [of "p @ c # y @ ''.git''" "''/''"] trim_suffix_same [of "p @ c # y" "''.git''"]
    show ?thesis by simp
  qed
qed

text \<open>The ssh form has become the bare one before the scheme and \<open>www.\<close> are cut.\<close>

lemma cut_scheme:
  "trim_prefix (trim_prefix (trim_prefix (''github.com/'' @ y) ''https://'') ''http://'') ''www.'' = ''github.com/'' @ y"
  "trim_prefix (trim_prefix (trim_prefix (''https://github.com/'' @ y) ''https://'') ''http://'') ''www.'' = ''github.com/'' @ y"
  "trim_prefix (trim_prefix (trim_prefix (''http://github.com/'' @ y) ''https://'') ''http://'') ''www.'' = ''github.com/'' @ y"
  "trim_prefix (trim_prefix (trim_prefix (''https://www.github.com/'' @ y) ''https://'') ''http://'') ''www.'' = ''github.com/'' @ y"
  by (simp_all add: trim_prefix_def)

definition address_prefixes :: "string list" where
  "address_prefixes = [''https://github.com/'', ''http://github.com/'', ''https://www.github.com/'',
     ''github.com/'', ''git@github.com:'']"

lemma prefix_lower:
  "pre \<in> set address_prefixes \<Longrightarrow> map lower_byte pre = pre \<and> is_ascii pre \<and> set pre \<inter> space_bytes = {} \<and>
     (\<exists>p c. pre = p @ [c] \<and> c \<in> {CHR ''/'', CHR '':''})"
proof -
  have "list_all (\<lambda>pre. map lower_byte pre = pre \<and> is_ascii pre \<and> list_all (\<lambda>c. \<not> list_ex (\<lambda>w. c \<in> set w) go_spaces) pre \<and>
      (last pre = CHR ''/'' \<or> last pre = CHR '':'') \<and> pre \<noteq> []) address_prefixes" by code_simp
  moreover assume "pre \<in> set address_prefixes"
  ultimately have "map lower_byte pre = pre" "is_ascii pre" "list_all (\<lambda>c. \<not> list_ex (\<lambda>w. c \<in> set w) go_spaces) pre"
    "last pre = CHR ''/'' \<or> last pre = CHR '':''" "pre \<noteq> []" by (auto simp: list_all_iff)
  moreover from this have "pre = butlast pre @ [last pre]" by simp
  then have "\<exists>p c. pre = p @ [c] \<and> c \<in> {CHR ''/'', CHR '':''}" using calculation(4) by blast
  ultimately show ?thesis by (auto simp: list_all_iff space_bytes_unfold)
qed

lemma suffix_lower:
  "suf \<in> {[], ''/'', ''.git'', ''.git/''} \<Longrightarrow> map lower_byte suf = suf \<and> is_ascii suf \<and> set suf \<inter> space_bytes = {}"
proof -
  have "list_all (\<lambda>suf. map lower_byte suf = suf \<and> is_ascii suf \<and> list_all (\<lambda>c. \<not> list_ex (\<lambda>w. c \<in> set w) go_spaces) suf)
      [[], ''/'', ''.git'', ''.git/'']" by code_simp
  then show "suf \<in> {[], ''/'', ''.git'', ''.git/''} \<Longrightarrow> ?thesis"
    by (auto simp: list_all_iff space_bytes_unfold)
qed

lemma no_at_sign: "CHR ''@'' \<notin> set y \<Longrightarrow> \<not> str_contains y ''git@github.com:''"
  by (auto simp: str_contains_iff)

lemma lower_no_at: "CHR ''@'' \<notin> set x \<Longrightarrow> CHR ''@'' \<notin> set (map lower_byte x)"
  using lower_byte_fixed [of _ "CHR ''@''"] by force

text \<open>
  A push is matched to its app however the two wrote the repository's address: the https,
  http, www, bare and ssh forms, with or without \<open>.git\<close> and a trailing slash, in any case, all
  normalise to the same text, which determines the repository.
\<close>

theorem normalize_repo_forms:
  assumes "repo_part x" "pre \<in> set address_prefixes" "suf \<in> {[], ''/'', ''.git'', ''.git/''}"
  shows "normalize_repo uni (pre @ x @ suf) = ''github.com/'' @ map lower_byte x"
proof -
  let ?y = "map lower_byte x"
  note pl = prefix_lower [OF assms(2)] and sl = suffix_lower [OF assms(3)]
  have y: "\<not> has_suffix ?y ''/''" "\<not> has_suffix ?y ''.git''" "?y \<noteq> []" "CHR ''@'' \<notin> set ?y"
    using assms(1) lower_last lower_no_at by (auto simp: repo_part_def)
  have lower: "to_lower uni (pre @ x @ suf) = pre @ ?y @ suf"
    using assms(1) pl sl by (simp add: to_lower_def repo_part_def)
  have trim: "trim_space (pre @ ?y @ suf) = pre @ ?y @ suf"
    using assms(1) pl sl lower_no_spaces by (intro trim_space_no_bytes) (auto simp: repo_part_def)
  obtain p c where pc: "pre = p @ [c]" "c \<in> {CHR ''/'', CHR '':''}" using pl by blast
  have strip: "trim_suffix (trim_suffix (pre @ ?y @ suf) ''/'') ''.git'' = pre @ ?y"
    using strip_suffixes [OF y(1,2) assms(3) pc(2) y(3), of p] pc(1) by simp
  have ssh: "replace_first ''git@github.com:'' ''github.com/'' (pre @ ?y) =
      (if pre = ''git@github.com:'' then ''github.com/'' @ ?y else pre @ ?y)"
  proof (cases "pre = ''git@github.com:''")
    case True
    then show ?thesis by simp
  next
    case False
    then have "CHR ''@'' \<notin> set pre" using assms(2) by (auto simp: address_prefixes_def)
    with y(4) have "\<not> str_contains (pre @ ?y) ''git@github.com:''" by (intro no_at_sign) simp
    then show ?thesis using False by (simp add: replace_first_absent)
  qed
  have rest: "trim_prefix (trim_prefix (trim_prefix (if pre = ''git@github.com:'' then ''github.com/'' @ ?y else pre @ ?y)
      ''https://'') ''http://'') ''www.'' = ''github.com/'' @ ?y"
  proof (cases "pre = ''git@github.com:''")
    case True
    then show ?thesis by (simp only: if_True refl cut_scheme)
  next
    case False
    with assms(2) consider "pre = ''https://github.com/''" | "pre = ''http://github.com/''"
      | "pre = ''https://www.github.com/''" | "pre = ''github.com/''"
      unfolding address_prefixes_def by (simp only: list.set insert_iff empty_iff) blast
    then show ?thesis using False by cases (simp_all only: if_False cut_scheme)
  qed
  show ?thesis by (simp only: normalize_repo_def Let_def lower trim strip ssh rest)
qed

lemma acme_shop: "repo_part ''Acme/Shop''" "repo_part ''acme/shop''"
proof -
  have "list_all (\<lambda>x. is_ascii x \<and> list_all (\<lambda>c. \<not> list_ex (\<lambda>w. c \<in> set w) go_spaces) x \<and> CHR ''@'' \<notin> set x \<and>
      \<not> has_suffix x ''/'' \<and> \<not> has_suffix (map lower_byte x) ''.git'' \<and> x \<noteq> []) [''Acme/Shop'', ''acme/shop'']" by code_simp
  then show "repo_part ''Acme/Shop''" "repo_part ''acme/shop''"
    by (auto simp: repo_part_def list_all_iff space_bytes_unfold)
qed

theorem normalize_repo_forms_witness:
  "normalize_repo (\<lambda>s. s) (''git@github.com:'' @ ''Acme/Shop'' @ ''.git'') = ''github.com/acme/shop''"
proof -
  have l: "map lower_byte ''Acme/Shop'' = ''acme/shop''" by code_simp
  have "normalize_repo (\<lambda>s. s) (''git@github.com:'' @ ''Acme/Shop'' @ ''.git'') = ''github.com/'' @ map lower_byte ''Acme/Shop''"
    by (rule normalize_repo_forms [OF acme_shop(1)]) (simp_all add: address_prefixes_def)
  then show ?thesis unfolding l by (simp only: append.simps)
qed

section \<open>Unsigned deliveries\<close>

text \<open>A delivery signed with a secret: its header spells the HMAC of its body in hex, in either case.\<close>

definition signed_with :: "string \<Rightarrow> webhook_request \<Rightarrow> bool" where
  "signed_with secret req \<longleftrightarrow>
     (\<exists>h. wr_signature req = signature_prefix @ h \<and> hex_decode h = Some (hmac_sha256 secret (wr_body req)))"

lemma valid_signature_iff: "valid_signature secret (wr_body req) (wr_signature req) \<longleftrightarrow> signed_with secret req"
proof (cases "has_prefix (wr_signature req) signature_prefix")
  case True
  then obtain h where "wr_signature req = signature_prefix @ h" by (auto simp: has_prefix_iff)
  then show ?thesis by (auto simp: valid_signature_def signed_with_def trim_prefix_same has_prefix_iff split: option.splits)
next
  case False
  then show ?thesis by (auto simp: valid_signature_def signed_with_def has_prefix_iff)
qed

text \<open>
  Only the holder of the secret can trigger anything. A delivery is refused with 401 exactly
  when a secret is configured and its header does not spell the HMAC-SHA256 of its body under it;
  refused, or with no secret configured at all, it leaves database, repository and emitter as
  they were. The header GitHub computes, \<open>sha256=\<close> and the lower case hex digits, is accepted.
\<close>

theorem unsigned_delivery_inert:
  "case github_webhook S clocks uuids req s of (a, s') \<Rightarrow>
     (a = Fail 401 ''unauthorized'' \<longleftrightarrow> se_webhook_secret S \<noteq> [] \<and> \<not> signed_with (se_webhook_secret S) req) \<and>
     (if se_webhook_secret S = [] then a = Fail 503 ''webhooks not configured'' \<and> s' = s
      else if signed_with (se_webhook_secret S) req then True else s' = s) \<and>
     signed_with (se_webhook_secret S) (req\<lparr>wr_signature :=
       signature_prefix @ hex_encode (hmac_sha256 (se_webhook_secret S) (wr_body req))\<rparr>)"
proof -
  have "signed_with k (req\<lparr>wr_signature := signature_prefix @ hex_encode (hmac_sha256 k (wr_body req))\<rparr>)" for k
    by (simp add: signed_with_def)
  moreover have "fst (github_webhook S clocks uuids req s) \<noteq> Fail 401 ''unauthorized''"
    if "signed_with (se_webhook_secret S) req"
    using that by (auto simp: github_webhook_def valid_signature_iff Let_def split: option.split prod.split sum.split)
  ultimately show ?thesis
    by (simp add: case_prod_unfold) (auto simp: github_webhook_def valid_signature_iff)
qed

end
