(* ===== verification/EmitterFacts.thy ===== *)
theory EmitterFacts
  imports Emitter
begin

text \<open>
  What the log emitter guarantees: bounded memory, bounded requests, no reordering and no
  duplication of what it accepted, and a \<open>Close\<close> that ends with all of it handed over.
\<close>

section \<open>The trace of an emitter\<close>

text \<open>Everything accepted so far is shipped, in the batch, or in the channel, in this order.\<close>

definition shipped :: "emitter \<Rightarrow> (string \<times> instant) list" where
  "shipped e = concat (map pr_entries (em_sent e))"

definition trace :: "(unit json \<Rightarrow> string option) \<Rightarrow> emitter \<Rightarrow> (string \<times> instant) list" where
  "trace print e = shipped e @ log_entries print (em_batch e @ em_queue e)"

lemma log_entries_Nil [simp]: "log_entries print [] = []"
  by (simp add: log_entries_def)

lemma log_entries_append: "log_entries print (xs @ ys) = log_entries print xs @ log_entries print ys"
  by (simp add: log_entries_def map_filter_def)

lemma log_entries_length: "length (log_entries print xs) \<le> length xs"
  by (simp add: log_entries_def map_filter_def)

lemma shipped_put: "shipped (put print b e) = shipped e @ log_entries print b"
  by (simp add: shipped_def put_def Let_def)

lemma shipped_unchanged [simp]:
  "shipped (e\<lparr>em_queue := q\<rparr>) = shipped e" "shipped (e\<lparr>em_batch := b\<rparr>) = shipped e"
  "shipped (e\<lparr>em_dropped := n\<rparr>) = shipped e" "shipped (e\<lparr>em_stopped := x\<rparr>) = shipped e"
  by (simp_all add: shipped_def)

lemma trace_flush [simp]: "trace print (flush print e) = trace print e"
  by (simp add: trace_def flush_def shipped_put log_entries_append)

lemma trace_receive [simp]: "trace print (receive print e) = trace print e"
proof (cases "em_queue e")
  case (Cons ent rest)
  let ?e = "e\<lparr>em_queue := rest, em_batch := em_batch e @ [ent]\<rparr>"
  have "trace print ?e = trace print e" by (simp add: trace_def Cons)
  then show ?thesis by (simp add: receive_def Cons Let_def trace_flush [of print ?e] del: trace_flush)
qed (simp add: receive_def)

lemma trace_emit:
  "trace print (emit now ev e) = trace print e @
     (if length (em_queue e) < buffer_size then log_entries print [\<lparr>en_when = now, en_event = ev\<rparr>] else [])"
  by (auto simp: trace_def emit_def log_entries_append)

lemma drain_ends: "em_queue (drain print e) = [] \<and> em_batch (drain print e) = [] \<and> trace print (drain print e) = trace print e
    \<and> em_dropped (drain print e) = em_dropped e"
proof (induction print e rule: drain.induct)
  case (1 print e)
  show ?case
  proof (cases "em_queue e = []")
    case True
    then show ?thesis by (simp add: drain.simps)
  next
    case False
    have "em_dropped (receive print e) = em_dropped e" by (simp add: receive_def Let_def split: list.split)
    with 1 [OF False] False show ?thesis by (subst (1 2 3 4) drain.simps) simp
  qed
qed

lemma shipped_drained: "shipped (drain print e) = trace print e"
proof -
  have "trace print (drain print e) = shipped (drain print e)"
    using drain_ends [of print e] by (simp add: trace_def [of print "drain print e"])
  then show ?thesis using drain_ends [of print e] by simp
qed

section \<open>Bounds\<close>

definition emitter_ok :: "emitter \<Rightarrow> bool" where
  "emitter_ok e \<longleftrightarrow> length (em_queue e) \<le> buffer_size \<and> length (em_batch e) < batch_size \<and>
     (\<forall>r \<in> set (em_sent e). pr_log_id r = em_log_id e \<and> pr_entries r \<noteq> [] \<and> length (pr_entries r) \<le> batch_size)"

lemma emitter_ok_flush:
  assumes "length (em_queue e) \<le> buffer_size" "length (em_batch e) \<le> batch_size"
    "\<forall>r \<in> set (em_sent e). pr_log_id r = em_log_id e \<and> pr_entries r \<noteq> [] \<and> length (pr_entries r) \<le> batch_size"
  shows "emitter_ok (flush print e)"
  using assms order_trans [OF log_entries_length assms(2)]
  by (auto simp: emitter_ok_def flush_def put_def Let_def batch_size_def)

lemma emitter_ok_receive: "emitter_ok e \<Longrightarrow> emitter_ok (receive print e)"
proof (cases "em_queue e")
  case (Cons ent rest)
  assume ok: "emitter_ok e"
  let ?e = "e\<lparr>em_queue := rest, em_batch := em_batch e @ [ent]\<rparr>"
  show ?thesis
  proof (cases "batch_size \<le> length (em_batch ?e)")
    case True
    have "emitter_ok (flush print ?e)" by (rule emitter_ok_flush) (use ok Cons in \<open>auto simp: emitter_ok_def\<close>)
    then show ?thesis using True by (simp add: receive_def Cons)
  next
    case False
    then show ?thesis using ok Cons by (simp add: receive_def emitter_ok_def)
  qed
qed (simp add: receive_def)

lemma emitter_ok_drain: "emitter_ok e \<Longrightarrow> emitter_ok (drain print e)"
proof (induction print e rule: drain.induct)
  case (1 print e)
  then have "emitter_ok (flush print e)" by (intro emitter_ok_flush) (auto simp: emitter_ok_def)
  with 1 show ?case by (subst drain.simps) (simp add: emitter_ok_receive)
qed

lemma emitter_ok_next: "emitter_ok e \<Longrightarrow> emitter_ok (emitter_next print e st)"
proof (cases st)
  case Close_now
  assume "emitter_ok e"
  then have "emitter_ok (drain print e)" by (rule emitter_ok_drain)
  then show ?thesis using Close_now \<open>emitter_ok e\<close> by (simp add: close_emitter_def emitter_ok_def)
next
  case Tick
  assume "emitter_ok e"
  then have "emitter_ok (flush print e)" by (intro emitter_ok_flush) (auto simp: emitter_ok_def)
  then show ?thesis using Tick \<open>emitter_ok e\<close> by simp
next
  case Receive
  assume "emitter_ok e"
  then show ?thesis using Receive emitter_ok_receive by simp
qed (auto simp: emit_def emitter_ok_def)

interpretation emitter: machine "emitter_next print" "\<lambda>_ _. True" emitter_ok for print
  by unfold_locales (rule emitter_ok_next)

lemma trace_next: "trace print (emitter_next print e st) = trace print e @ log_entries print
    (case st of Emit_event now ev \<Rightarrow>
       if length (em_queue e) < buffer_size then [\<lparr>en_when = now, en_event = ev\<rparr>] else [] | _ \<Rightarrow> [])"
proof (cases st)
  case Close_now
  have "trace print (drain print e\<lparr>em_stopped := True\<rparr>) = trace print (drain print e)" by (simp add: trace_def)
  then show ?thesis using Close_now drain_ends [of print e] by (simp add: close_emitter_def)
qed (simp_all add: trace_emit)

lemma trace_run: "trace print (run (emitter_next print) e sts) = trace print e @ log_entries print (accepted print e sts)"
  by (induction sts arbitrary: e) (simp_all add: trace_next log_entries_append)

lemma fresh_trace: "new_emitter log_id = Some e \<Longrightarrow> trace print e = [] \<and> emitter_ok e \<and> em_dropped e = 0"
  by (auto simp: new_emitter_def trace_def shipped_def emitter_ok_def batch_size_def split: if_splits)

fun offered :: "emitter_step list \<Rightarrow> nat" where
  "offered [] = 0"
| "offered (Emit_event _ _ # sts) = Suc (offered sts)"
| "offered (_ # sts) = offered sts"

lemma dropped_next: "em_dropped (emitter_next print e st) = em_dropped e +
    (case st of Emit_event _ _ \<Rightarrow> if length (em_queue e) < buffer_size then 0 else 1 | _ \<Rightarrow> 0)"
  using drain_ends [of print e]
  by (cases st) (auto simp: emit_def receive_def Let_def close_emitter_def split: list.split)

lemma dropped_run: "em_dropped (run (emitter_next print) e sts) + length (accepted print e sts) = em_dropped e + offered sts"
proof (induction sts arbitrary: e)
  case (Cons st sts)
  show ?case using Cons [of "emitter_next print e st"] by (cases st) (simp_all add: dropped_next del: emitter_next.simps)
qed simp

section \<open>Properties\<close>

text \<open>
  C22. Under any interleaving of emits, receives, ticks and closes the emitter's memory stays
  within its buffer and one batch, every request carries between one and 128 entries for the
  configured log, what was accepted has been shipped, is in the batch or is in the channel, in the
  order it was emitted and exactly once, and every other event is counted as dropped.
\<close>

theorem emitter_reachable:
  assumes "new_emitter log_id = Some e0"
  shows "case run (emitter_next print) e0 sts of e \<Rightarrow>
    length (em_queue e) \<le> 2048 \<and> length (em_batch e) < 128 \<and>
    (\<forall>r \<in> set (em_sent e). pr_log_id r = log_id \<and> pr_entries r \<noteq> [] \<and> length (pr_entries r) \<le> 128) \<and>
    concat (map pr_entries (em_sent e)) @ log_entries print (em_batch e @ em_queue e)
      = log_entries print (accepted print e0 sts) \<and>
    em_dropped e + length (accepted print e0 sts) = offered sts"
proof -
  note f = fresh_trace [OF assms, of print]
  have ok: "emitter_ok (run (emitter_next print) e0 sts)" by (rule emitter.run_inv) (use f in auto)
  have "em_log_id (drain print e) = em_log_id e" for e
  proof (induction print e rule: drain.induct)
    case (1 print e)
    have "em_log_id (receive print e) = em_log_id e" by (simp add: receive_def Let_def split: list.split)
    with 1 show ?case by (subst drain.simps) simp
  qed
  then have "em_log_id (emitter_next print e st) = em_log_id e" for e st
    by (cases st) (auto simp: emit_def close_emitter_def receive_def Let_def split: list.split)
  then have "em_log_id (run (emitter_next print) e sts) = em_log_id e" for e
    by (induction sts arbitrary: e) simp_all
  then have "em_log_id (run (emitter_next print) e0 sts) = log_id"
    using assms by (auto simp: new_emitter_def split: if_splits)
  with ok trace_run [of print e0 sts] dropped_run [of print e0 sts] f show ?thesis
    by (simp add: emitter_ok_def buffer_size_def batch_size_def trace_def shipped_def)
qed

theorem emitter_reachable_witness:
  "case run (emitter_next (\<lambda>v. Some ''line'')) \<lparr>em_log_id = ''log'', em_queue = [], em_batch = [], em_dropped = 0, em_sent = [], em_stopped = False\<rparr>
      [Emit_event 1 blank_event, Receive, Tick] of e \<Rightarrow> em_dropped e = 0 \<and> em_batch e = [] \<and>
    concat (map pr_entries (em_sent e)) = log_entries (\<lambda>v. Some ''line'') [\<lparr>en_when = 1, en_event = blank_event\<rparr>]"
proof -
  let ?e = "\<lparr>em_log_id = ''log'', em_queue = [], em_batch = [], em_dropped = 0, em_sent = [], em_stopped = False\<rparr>"
  have "new_emitter ''log'' = Some ?e" by (simp add: new_emitter_def)
  from emitter_reachable [OF this, of "(\<lambda>v. Some ''line'')" "[Emit_event 1 blank_event, Receive, Tick]"]
  show ?thesis by (simp add: emit_def receive_def buffer_size_def batch_size_def Let_def)
qed

text \<open>
  C33. \<open>Close\<close> ends, and when it does everything accepted has been handed to the service and
  nothing is held back. From then on nothing is ever shipped again, so an event emitted after
  \<open>Close\<close> is lost although it is not counted as dropped while the channel has room.
\<close>

theorem close_ships_everything:
  assumes "new_emitter log_id = Some e0" "\<not> em_stopped (run (emitter_next print) e0 sts)"
  shows "case run (emitter_next print) e0 (sts @ [Close_now]) of e \<Rightarrow>
    em_queue e = [] \<and> em_batch e = [] \<and>
    concat (map pr_entries (em_sent e)) = log_entries print (accepted print e0 sts) \<and>
    (\<forall>later. em_sent (run (emitter_next print) e later) = em_sent e) \<and>
    em_dropped (emitter_next print e (Emit_event now ev)) = em_dropped e"
proof -
  let ?r = "run (emitter_next print) e0 sts"
  have c: "run (emitter_next print) e0 (sts @ [Close_now]) = (drain print ?r)\<lparr>em_stopped := True\<rparr>"
    using assms(2) by (simp add: close_emitter_def)
  have "em_sent (emitter_next print e st) = em_sent e \<and> em_stopped (emitter_next print e st)" if "em_stopped e" for e st
    using that by (cases st) (auto simp: emit_def close_emitter_def)
  then have "em_sent (run (emitter_next print) e later) = em_sent e" if "em_stopped e" for e later
    using that by (induction later arbitrary: e) auto
  moreover have "shipped (drain print ?r) = log_entries print (accepted print e0 sts)"
    using fresh_trace [OF assms(1), of print] by (simp add: shipped_drained trace_run)
  ultimately show ?thesis
    unfolding c using drain_ends [of print ?r] by (simp add: shipped_def emit_def buffer_size_def)
qed

theorem close_ships_everything_witness:
  "em_queue (run (emitter_next (\<lambda>v. Some ''line'')) \<lparr>em_log_id = ''log'', em_queue = [], em_batch = [], em_dropped = 0, em_sent = [], em_stopped = False\<rparr>
      ([Emit_event 1 blank_event, Emit_event 2 blank_event] @ [Close_now])) = []"
proof -
  let ?e = "\<lparr>em_log_id = ''log'', em_queue = [], em_batch = [], em_dropped = 0, em_sent = [], em_stopped = False\<rparr>"
  have "new_emitter ''log'' = Some ?e" by (simp add: new_emitter_def)
  moreover have "\<not> em_stopped (run (emitter_next (\<lambda>v. Some ''line'')) ?e [Emit_event 1 blank_event, Emit_event 2 blank_event])"
    by (simp add: emit_def)
  ultimately show ?thesis
    using close_ships_everything [of "''log''" ?e "(\<lambda>v. Some ''line'')" "[Emit_event 1 blank_event, Emit_event 2 blank_event]"] by blast
qed

end
