(* ===== verification/Infra.thy ===== *)
theory Infra
  imports Json "HOL-Library.List_Lexorder" "HOL-Library.AList"
begin

text \<open>
  internal/infra/snapshot.go and collect.go: what a snapshot of the infrastructure holds and how
  one is assembled from the five sources. A nil source is \<open>None\<close>; what a call returns within its
  own timeout is its outcome. The fan-out's goroutines write their results one at a time under a
  mutex, in an order the scheduler picks.
\<close>

section \<open>Names\<close>

definition metric_cpu_utilization :: string where "metric_cpu_utilization = ''cpu.utilization''"
definition metric_memory_utilization :: string where "metric_memory_utilization = ''memory.utilization''"
definition metric_healthy_backends :: string where "metric_healthy_backends = ''ingress.healthy_backends''"
definition metric_unhealthy_backends :: string where "metric_unhealthy_backends = ''ingress.unhealthy_backends''"
definition metric_uptime_availability :: string where "metric_uptime_availability = ''uptime.availability''"

definition contract_metrics :: "string list" where
  "contract_metrics = [metric_cpu_utilization, metric_memory_utilization, metric_healthy_backends,
     metric_unhealthy_backends, metric_uptime_availability]"

lemmas metric_defs = metric_cpu_utilization_def metric_memory_utilization_def metric_healthy_backends_def
  metric_unhealthy_backends_def metric_uptime_availability_def

definition compute_window :: duration where "compute_window = minutes 20"
definition ingress_window :: duration where "ingress_window = minutes 20"
definition uptime_window :: duration where "uptime_window = hours 3"

definition dim_instance :: string where "dim_instance = ''instance''"
definition dim_backend_set :: string where "dim_backend_set = ''backend_set''"
definition dim_monitor :: string where "dim_monitor = ''monitor''"
definition dim_target :: string where "dim_target = ''target''"

section \<open>Configuration\<close>

record infra_config =
  ic_compartment_id :: string
  ic_nlb_id :: string
  ic_namespace :: string
  ic_bucket :: string
  ic_backup_prefixes :: "string list"
  ic_call_timeout :: duration

definition default_config :: infra_config where
  "default_config = \<lparr>ic_compartment_id = [], ic_nlb_id = [], ic_namespace = [], ic_bucket = [],
     ic_backup_prefixes = [''sqlite'', ''gitops'', ''coordinator''], ic_call_timeout = seconds 5\<rparr>"

definition config_with_overrides :: "string \<Rightarrow> string \<Rightarrow> string \<Rightarrow> string \<Rightarrow> infra_config" where
  "config_with_overrides compartment nlb namespace bucket =
     (let cfg = default_config;
          cfg = (if compartment \<noteq> [] then cfg\<lparr>ic_compartment_id := compartment\<rparr> else cfg);
          cfg = (if nlb \<noteq> [] then cfg\<lparr>ic_nlb_id := nlb\<rparr> else cfg);
          cfg = (if namespace \<noteq> [] then cfg\<lparr>ic_namespace := namespace\<rparr> else cfg);
          cfg = (if bucket \<noteq> [] then cfg\<lparr>ic_bucket := bucket\<rparr> else cfg)
      in cfg)"

definition new_collector_config :: "infra_config \<Rightarrow> infra_config" where
  "new_collector_config cfg =
     (if ic_call_timeout cfg \<le> 0 then cfg\<lparr>ic_call_timeout := seconds 5\<rparr> else cfg)"

text \<open>\<open>Configured\<close> of ocisources.go.\<close>

definition oci_configured :: "infra_config \<Rightarrow> bool" where
  "oci_configured c \<longleftrightarrow> ic_compartment_id c \<noteq> [] \<or> ic_nlb_id c \<noteq> [] \<or>
     (ic_namespace c \<noteq> [] \<and> ic_bucket c \<noteq> [])"

section \<open>What the sources return\<close>

record 'f instance_info =
  ii_id :: string
  ii_name :: string
  ii_state :: string
  ii_shape :: string
  ii_ocpus :: 'f
  ii_memory_gb :: 'f
  ii_fault_domain :: string
  ii_private_ip :: string

record 'f series =
  sr_dimensions :: "(string \<times> string) list"
  sr_timestamp :: instant
  sr_value :: 'f

record alarm_status =
  al_name :: string
  al_severity :: string
  al_status :: string

record object_info =
  ob_name :: string
  ob_size :: int
  ob_modified :: instant

definition dimension :: "'f series \<Rightarrow> string \<Rightarrow> string" where
  "dimension s k = (case map_of (sr_dimensions s) k of None \<Rightarrow> [] | Some v \<Rightarrow> v)"

record 'f readings =
  rd_instances :: "'f instance_info list result option"
  rd_metrics :: "(string \<Rightarrow> duration \<Rightarrow> 'f series list result) option"
  rd_alarms :: "alarm_status list result option"
  rd_ingress :: "string result option"
  rd_backups :: "object_info list result option"

section \<open>The snapshot\<close>

definition role_control_plane :: string where "role_control_plane = ''control-plane''"
definition role_worker :: string where "role_worker = ''worker''"
definition role_utility :: string where "role_utility = ''utility''"

record 'f node =
  nd_name :: string
  nd_state :: string
  nd_shape :: string
  nd_ocpus :: 'f
  nd_memory_gb :: 'f
  nd_fault_domain :: string
  nd_private_ip :: string
  nd_cpu_percent :: "'f option"
  nd_memory_percent :: "'f option"
  nd_role :: string

record ingress_info =
  ig_public_ip :: string
  ig_healthy_backends :: "int option"
  ig_unhealthy_backends :: "int option"

record backup_stream =
  bs_prefix :: string
  bs_count :: int
  bs_newest :: "instant option"

record backups_info =
  bk_bucket :: string
  bk_object_count :: "int option"
  bk_size_bytes :: "int option"
  bk_streams :: "backup_stream list"

record 'f uptime_info =
  up_monitor :: string
  up_target :: string
  up_availability :: "'f option"

record 'f capacity_info =
  cp_ocpu_used :: "'f option"
  cp_ocpu_total :: 'f
  cp_memory_used :: "'f option"
  cp_memory_total :: 'f
  cp_storage_used :: "int option"
  cp_storage_total :: int

record 'f snapshot =
  sn_updated_at :: instant
  sn_stale :: bool
  sn_nodes :: "'f node list"
  sn_alarms :: "alarm_status list"
  sn_ingress :: "ingress_info option"
  sn_backups :: "backups_info option"
  sn_uptime :: "'f uptime_info list"
  sn_capacity :: "'f capacity_info"
  sn_warnings :: "string list"

definition ampere_ocpu_total :: int where "ampere_ocpu_total = 2"
definition ampere_memory_gb_total :: int where "ampere_memory_gb_total = 12"
definition object_storage_total_bytes :: int where "object_storage_total_bytes = 20 * 1024 * 1024 * 1024"

definition new_snapshot :: "'f float64 \<Rightarrow> instant \<Rightarrow> 'f snapshot" where
  "new_snapshot F now = \<lparr>sn_updated_at = now, sn_stale = False, sn_nodes = [], sn_alarms = [],
     sn_ingress = None, sn_backups = None, sn_uptime = [],
     sn_capacity = \<lparr>cp_ocpu_used = None, cp_ocpu_total = fl_of_int F ampere_ocpu_total,
       cp_memory_used = None, cp_memory_total = fl_of_int F ampere_memory_gb_total,
       cp_storage_used = None, cp_storage_total = object_storage_total_bytes\<rparr>,
     sn_warnings = []\<rparr>"

section \<open>The fan-out\<close>

definition src_instances :: string where "src_instances = ''instances''"
definition src_alarms :: string where "src_alarms = ''alarms''"
definition src_ingress :: string where "src_ingress = ''ingress''"
definition src_backups :: string where "src_backups = ''backups''"
definition src_cpu :: string where "src_cpu = ''cpu-metrics''"
definition src_memory :: string where "src_memory = ''memory-metrics''"
definition src_healthy :: string where "src_healthy = ''healthy-backends''"
definition src_unhealthy :: string where "src_unhealthy = ''unhealthy-backends''"
definition src_uptime :: string where "src_uptime = ''uptime-metrics''"

lemmas src_defs = src_instances_def src_alarms_def src_ingress_def src_backups_def src_cpu_def
  src_memory_def src_healthy_def src_unhealthy_def src_uptime_def

definition err_no_source :: string where
  "err_no_source = ''source not configured''"

record 'f collect_result =
  co_instances :: "'f instance_info list"
  co_alarms :: "alarm_status list"
  co_public_ip :: string
  co_objects :: "object_info list"
  co_cpu :: "'f series list"
  co_memory :: "'f series list"
  co_healthy :: "'f series list"
  co_unhealthy :: "'f series list"
  co_uptime :: "'f series list"
  co_ok :: "string list"
  co_warnings :: "string list"

definition empty_result :: "'f collect_result" where
  "empty_result = \<lparr>co_instances = [], co_alarms = [], co_public_ip = [], co_objects = [], co_cpu = [],
     co_memory = [], co_healthy = [], co_unhealthy = [], co_uptime = [], co_ok = [], co_warnings = []\<rparr>"

definition succeed :: "string \<Rightarrow> 'f collect_result \<Rightarrow> 'f collect_result" where
  "succeed source r = r\<lparr>co_ok := source # co_ok r\<rparr>"

definition fail_source :: "string \<Rightarrow> string \<Rightarrow> 'f collect_result \<Rightarrow> 'f collect_result" where
  "fail_source source err r = r\<lparr>co_warnings := co_warnings r @ [source @ '': '' @ err]\<rparr>"

text \<open>One source's completion: its outcome is stored and the source noted, or it is a warning.\<close>

definition complete_source ::
    "string \<Rightarrow> 'a result option \<Rightarrow> ('a \<Rightarrow> 'f collect_result \<Rightarrow> 'f collect_result) \<Rightarrow> 'f collect_result \<Rightarrow> 'f collect_result" where
  "complete_source source outcome store r = (case outcome of
     None \<Rightarrow> fail_source source err_no_source r
   | Some (Inl e) \<Rightarrow> fail_source source e r
   | Some (Inr x) \<Rightarrow> succeed source (store x r))"

definition read_metric :: "'f readings \<Rightarrow> string \<Rightarrow> duration \<Rightarrow> 'f series list result option" where
  "read_metric R name window = map_option (\<lambda>q. q name window) (rd_metrics R)"

datatype source = Instances | Alarms | Ingress | Backups | Cpu | Memory | Healthy | Unhealthy | Uptime

definition all_sources :: "source list" where
  "all_sources = [Instances, Alarms, Ingress, Backups, Cpu, Memory, Healthy, Unhealthy, Uptime]"

fun finish :: "'f readings \<Rightarrow> source \<Rightarrow> 'f collect_result \<Rightarrow> 'f collect_result" where
  "finish R Instances = complete_source src_instances (rd_instances R) (\<lambda>x r. r\<lparr>co_instances := x\<rparr>)"
| "finish R Alarms = complete_source src_alarms (rd_alarms R) (\<lambda>x r. r\<lparr>co_alarms := x\<rparr>)"
| "finish R Ingress = complete_source src_ingress (rd_ingress R) (\<lambda>x r. r\<lparr>co_public_ip := x\<rparr>)"
| "finish R Backups = complete_source src_backups (rd_backups R) (\<lambda>x r. r\<lparr>co_objects := x\<rparr>)"
| "finish R Cpu = complete_source src_cpu (read_metric R metric_cpu_utilization compute_window) (\<lambda>x r. r\<lparr>co_cpu := x\<rparr>)"
| "finish R Memory = complete_source src_memory (read_metric R metric_memory_utilization compute_window) (\<lambda>x r. r\<lparr>co_memory := x\<rparr>)"
| "finish R Healthy = complete_source src_healthy (read_metric R metric_healthy_backends ingress_window) (\<lambda>x r. r\<lparr>co_healthy := x\<rparr>)"
| "finish R Unhealthy = complete_source src_unhealthy (read_metric R metric_unhealthy_backends ingress_window) (\<lambda>x r. r\<lparr>co_unhealthy := x\<rparr>)"
| "finish R Uptime = complete_source src_uptime (read_metric R metric_uptime_availability uptime_window) (\<lambda>x r. r\<lparr>co_uptime := x\<rparr>)"

section \<open>Assembly\<close>

definition role_for :: "(string \<Rightarrow> string) \<Rightarrow> string \<Rightarrow> string" where
  "role_for uni name = (let n = to_lower uni name in
     if str_contains n ''control'' then role_control_plane
     else if str_contains n ''worker'' then role_worker else role_utility)"

definition is_ampere :: "(string \<Rightarrow> string) \<Rightarrow> string \<Rightarrow> bool" where
  "is_ampere uni shape \<longleftrightarrow> str_contains (to_upper uni shape) ''.A1.''"

definition newer_point ::
    "string \<Rightarrow> (string \<Rightarrow> ('f \<times> instant) option) \<Rightarrow> 'f series \<Rightarrow> string \<Rightarrow> ('f \<times> instant) option" where
  "newer_point axis m s = (let key = dimension s axis in
     if key = [] then m
     else (case m key of
         Some (v, prev) \<Rightarrow> if sr_timestamp s > prev then m(key \<mapsto> (sr_value s, sr_timestamp s)) else m
       | None \<Rightarrow> m(key \<mapsto> (sr_value s, sr_timestamp s))))"

definition latest_by_dimension :: "'f series list \<Rightarrow> string \<Rightarrow> string \<Rightarrow> 'f option" where
  "latest_by_dimension ss axis key = map_option fst (foldl (newer_point axis) Map.empty ss key)"

definition max_across_series :: "'f float64 \<Rightarrow> 'f series list \<Rightarrow> int option" where
  "max_across_series F ss = (case ss of
     [] \<Rightarrow> None
   | s # rest \<Rightarrow>
      (let best = foldl (\<lambda>b s. if fl_gt F (sr_value s) b then sr_value s else b) (sr_value s) rest
       in Some (fl_to_int F (fl_add F best (fl_half F)))))"

text \<open>The prefix an object is counted under, if any: the first that matches.\<close>

definition stream_of :: "string list \<Rightarrow> string \<Rightarrow> string option" where
  "stream_of prefixes name = List.find (\<lambda>p. has_prefix name (trim_suffix p ''/'' @ ''/'')) prefixes"

record backup_tally =
  bt_total :: int
  bt_size :: int
  bt_counts :: "string \<Rightarrow> int"
  bt_newest :: "string \<Rightarrow> instant option"

definition tally_object :: "string list \<Rightarrow> backup_tally \<Rightarrow> object_info \<Rightarrow> backup_tally" where
  "tally_object prefixes t ob =
     (let t = t\<lparr>bt_total := bt_total t + 1, bt_size := wrap64 (bt_size t + ob_size ob)\<rparr> in
      case stream_of prefixes (ob_name ob) of
        None \<Rightarrow> t
      | Some p \<Rightarrow>
         (let t = t\<lparr>bt_counts := (bt_counts t)(p := bt_counts t p + 1)\<rparr>;
              prev = (case bt_newest t p of None \<Rightarrow> zero_instant | Some m \<Rightarrow> m)
          in if ob_modified ob > prev then t\<lparr>bt_newest := (bt_newest t)(p \<mapsto> ob_modified ob)\<rparr> else t))"

definition tally_objects :: "string list \<Rightarrow> object_info list \<Rightarrow> backup_tally" where
  "tally_objects prefixes objs = foldl (tally_object prefixes)
     \<lparr>bt_total = 0, bt_size = 0, bt_counts = (\<lambda>_. 0), bt_newest = Map.empty\<rparr> objs"

definition summarise_backups :: "string \<Rightarrow> string list \<Rightarrow> object_info list \<Rightarrow> backups_info" where
  "summarise_backups bucket prefixes objs = (let t = tally_objects prefixes objs in
     \<lparr>bk_bucket = bucket, bk_object_count = Some (bt_total t), bk_size_bytes = Some (bt_size t),
      bk_streams = map (\<lambda>p. \<lparr>bs_prefix = p, bs_count = bt_counts t p,
        bs_newest = (case bt_newest t p of None \<Rightarrow> None | Some m \<Rightarrow> if is_zero m then None else Some m)\<rparr>) prefixes\<rparr>)"

text \<open>The newest point per monitor and target, as the entries of a map.\<close>

definition newer_uptime ::
    "((string \<times> string) \<times> 'f series) list \<Rightarrow> 'f series \<Rightarrow> ((string \<times> string) \<times> 'f series) list" where
  "newer_uptime m s = (let k = (dimension s dim_monitor, dimension s dim_target) in
     if fst k = [] then m
     else (case map_of m k of
         Some prev \<Rightarrow> if sr_timestamp s > sr_timestamp prev then AList.update k s m else m
       | None \<Rightarrow> AList.update k s m))"

text \<open>
  What a caller's \<open>sort.Slice\<close> calls do: each returns a sorted rearrangement, in an order of equal
  names that is not specified (nor is the order a map is iterated in before it is sorted).
\<close>

record 'f sorters =
  so_nodes :: "'f node list \<Rightarrow> 'f node list"
  so_alarms :: "alarm_status list \<Rightarrow> alarm_status list"
  so_uptime :: "'f uptime_info list \<Rightarrow> 'f uptime_info list"

definition summarise_uptime :: "'f sorters \<Rightarrow> 'f series list \<Rightarrow> 'f uptime_info list" where
  "summarise_uptime S ss = so_uptime S
     (map (\<lambda>((monitor, target), s). \<lparr>up_monitor = monitor, up_target = target, up_availability = Some (sr_value s)\<rparr>)
        (foldl newer_uptime [] ss))"

definition node_of :: "(string \<Rightarrow> string) \<Rightarrow> 'f collect_result \<Rightarrow> 'f instance_info \<Rightarrow> 'f node" where
  "node_of uni r i =
     \<lparr>nd_name = ii_name i, nd_state = ii_state i, nd_shape = ii_shape i, nd_ocpus = ii_ocpus i,
      nd_memory_gb = ii_memory_gb i, nd_fault_domain = ii_fault_domain i, nd_private_ip = ii_private_ip i,
      nd_cpu_percent = (if src_cpu \<in> set (co_ok r) then latest_by_dimension (co_cpu r) dim_instance (ii_name i) else None),
      nd_memory_percent = (if src_memory \<in> set (co_ok r) then latest_by_dimension (co_memory r) dim_instance (ii_name i) else None),
      nd_role = role_for uni (ii_name i)\<rparr>"

definition ampere_sum :: "'f float64 \<Rightarrow> (string \<Rightarrow> string) \<Rightarrow> ('f instance_info \<Rightarrow> 'f) \<Rightarrow> 'f instance_info list \<Rightarrow> 'f" where
  "ampere_sum F uni part is = foldl (\<lambda>t i. if is_ampere uni (ii_shape i) then fl_add F t (part i) else t) (fl_of_int F 0) is"

definition assemble ::
    "'f float64 \<Rightarrow> (string \<Rightarrow> string) \<Rightarrow> 'f sorters \<Rightarrow> infra_config \<Rightarrow> instant \<Rightarrow> 'f collect_result \<Rightarrow> 'f snapshot" where
  "assemble F uni S cfg now r =
     (let ok = (\<lambda>s. s \<in> set (co_ok r));
          blank = new_snapshot F now;
          backups = (if ok src_backups then summarise_backups (ic_bucket cfg) (ic_backup_prefixes cfg) (co_objects r)
            else \<lparr>bk_bucket = ic_bucket cfg, bk_object_count = None, bk_size_bytes = None, bk_streams = []\<rparr>)
      in blank\<lparr>
        sn_nodes := so_nodes S (map (node_of uni r) (co_instances r)),
        sn_alarms := so_alarms S (co_alarms r),
        sn_ingress := Some \<lparr>ig_public_ip = co_public_ip r,
          ig_healthy_backends = (if ok src_healthy then max_across_series F (co_healthy r) else None),
          ig_unhealthy_backends = (if ok src_unhealthy then max_across_series F (co_unhealthy r) else None)\<rparr>,
        sn_backups := Some backups,
        sn_uptime := (if ok src_uptime then summarise_uptime S (co_uptime r) else []),
        sn_capacity := (sn_capacity blank)\<lparr>
          cp_ocpu_used := (if ok src_instances then Some (ampere_sum F uni ii_ocpus (co_instances r)) else None),
          cp_memory_used := (if ok src_instances then Some (ampere_sum F uni ii_memory_gb (co_instances r)) else None),
          cp_storage_used := (if ok src_backups then bk_size_bytes backups else None)\<rparr>,
        sn_warnings := sort (co_warnings r)\<rparr>)"

definition collect ::
    "'f float64 \<Rightarrow> (string \<Rightarrow> string) \<Rightarrow> 'f sorters \<Rightarrow> infra_config \<Rightarrow> instant \<Rightarrow> source list \<Rightarrow> 'f readings \<Rightarrow> 'f snapshot" where
  "collect F uni S cfg now order R =
     assemble F uni S cfg now (foldl (\<lambda>r s. finish R s r) empty_result order)"

end
