(* ===== verification/InfraFacts.thy ===== *)
theory InfraFacts
  imports Infra
begin

text \<open>
  What a snapshot says of its sources: it does not depend on the order they answer in, nothing
  unread is shown as a number, and the reductions - newest point per node, one count per backup
  stream - are the ones their names promise.
\<close>

section \<open>What the fan-out gathers\<close>

fun source_label :: "source \<Rightarrow> string" where
  "source_label Instances = src_instances"
| "source_label Alarms = src_alarms"
| "source_label Ingress = src_ingress"
| "source_label Backups = src_backups"
| "source_label Cpu = src_cpu"
| "source_label Memory = src_memory"
| "source_label Healthy = src_healthy"
| "source_label Unhealthy = src_unhealthy"
| "source_label Uptime = src_uptime"

lemma source_label_inj [simp]: "source_label s = source_label t \<longleftrightarrow> s = t"
  by (cases s; cases t) (simp_all add: src_defs)

definition complaint :: "'a result option \<Rightarrow> string option" where
  "complaint r = (case r of None \<Rightarrow> Some err_no_source | Some (Inl e) \<Rightarrow> Some e | Some (Inr _) \<Rightarrow> None)"

text \<open>Why a source did not answer, if it did not.\<close>

fun failing :: "'f readings \<Rightarrow> source \<Rightarrow> string option" where
  "failing R Instances = complaint (rd_instances R)"
| "failing R Alarms = complaint (rd_alarms R)"
| "failing R Ingress = complaint (rd_ingress R)"
| "failing R Backups = complaint (rd_backups R)"
| "failing R Cpu = complaint (read_metric R metric_cpu_utilization compute_window)"
| "failing R Memory = complaint (read_metric R metric_memory_utilization compute_window)"
| "failing R Healthy = complaint (read_metric R metric_healthy_backends ingress_window)"
| "failing R Unhealthy = complaint (read_metric R metric_unhealthy_backends ingress_window)"
| "failing R Uptime = complaint (read_metric R metric_uptime_availability uptime_window)"

definition got :: "'a result option \<Rightarrow> 'a \<Rightarrow> 'a" where
  "got r d = (case r of Some (Inr x) \<Rightarrow> x | _ \<Rightarrow> d)"

definition warning_of :: "'f readings \<Rightarrow> source \<Rightarrow> string list" where
  "warning_of R s = (case failing R s of None \<Rightarrow> [] | Some e \<Rightarrow> [source_label s @ '': '' @ e])"

lemmas finish_unfold = complete_source_def succeed_def fail_source_def complaint_def got_def warning_of_def

lemma finish_notes:
  "co_warnings (finish R s r) = co_warnings r @ warning_of R s"
  "co_ok (finish R s r) = (if failing R s = None then source_label s # co_ok r else co_ok r)"
  by (cases s; auto simp: finish_unfold split: option.split sum.split)+

lemma finish_fields:
  "co_instances (finish R s r) = (if s = Instances then got (rd_instances R) (co_instances r) else co_instances r)"
  "co_alarms (finish R s r) = (if s = Alarms then got (rd_alarms R) (co_alarms r) else co_alarms r)"
  "co_public_ip (finish R s r) = (if s = Ingress then got (rd_ingress R) (co_public_ip r) else co_public_ip r)"
  "co_objects (finish R s r) = (if s = Backups then got (rd_backups R) (co_objects r) else co_objects r)"
  "co_cpu (finish R s r) = (if s = Cpu then got (read_metric R metric_cpu_utilization compute_window) (co_cpu r) else co_cpu r)"
  "co_memory (finish R s r) = (if s = Memory then got (read_metric R metric_memory_utilization compute_window) (co_memory r) else co_memory r)"
  "co_healthy (finish R s r) = (if s = Healthy then got (read_metric R metric_healthy_backends ingress_window) (co_healthy r) else co_healthy r)"
  "co_unhealthy (finish R s r) = (if s = Unhealthy then got (read_metric R metric_unhealthy_backends ingress_window) (co_unhealthy r) else co_unhealthy r)"
  "co_uptime (finish R s r) = (if s = Uptime then got (read_metric R metric_uptime_availability uptime_window) (co_uptime r) else co_uptime r)"
  by (cases s; auto simp: finish_unfold split: option.split sum.split)+

definition gather :: "'f readings \<Rightarrow> source list \<Rightarrow> 'f collect_result" where
  "gather R order = foldl (\<lambda>r s. finish R s r) empty_result order"

lemma fold_field:
  assumes "\<And>s r. f (finish R s r) = (if s = s0 then g (f r) else f r)"
  shows "distinct order \<Longrightarrow> f (foldl (\<lambda>r s. finish R s r) r order) = (if s0 \<in> set order then g (f r) else f r)"
  by (induction order arbitrary: r) (auto simp: assms)

lemma gather_notes:
  "mset (co_warnings (gather R order)) = mset (concat (map (warning_of R) order))"
  "set (co_ok (gather R order)) = source_label ` {s \<in> set order. failing R s = None}"
proof -
  have "mset (co_warnings (foldl (\<lambda>r s. finish R s r) r order)) = mset (co_warnings r) + mset (concat (map (warning_of R) order))"
    "set (co_ok (foldl (\<lambda>r s. finish R s r) r order)) = set (co_ok r) \<union> source_label ` {s \<in> set order. failing R s = None}" for r
    by (induction order arbitrary: r) (auto simp: finish_notes)
  then show "mset (co_warnings (gather R order)) = mset (concat (map (warning_of R) order))"
    "set (co_ok (gather R order)) = source_label ` {s \<in> set order. failing R s = None}"
    by (simp_all add: gather_def empty_result_def)
qed

definition covers :: "source list \<Rightarrow> bool" where
  "covers order \<longleftrightarrow> mset order = mset all_sources"

lemma covers_set: "covers order \<Longrightarrow> distinct order \<and> s \<in> set order"
proof -
  assume "covers order"
  then have m: "mset order = mset all_sources" by (simp add: covers_def)
  have "s \<in> set all_sources" by (cases s) (simp_all add: all_sources_def)
  then show ?thesis
    using mset_eq_imp_distinct_iff [OF m] mset_eq_setD [OF m] by (simp add: all_sources_def)
qed

lemma gather_fields:
  assumes "covers order"
  shows "co_instances (gather R order) = got (rd_instances R) []"
    "co_alarms (gather R order) = got (rd_alarms R) []"
    "co_public_ip (gather R order) = got (rd_ingress R) []"
    "co_objects (gather R order) = got (rd_backups R) []"
    "co_cpu (gather R order) = got (read_metric R metric_cpu_utilization compute_window) []"
    "co_memory (gather R order) = got (read_metric R metric_memory_utilization compute_window) []"
    "co_healthy (gather R order) = got (read_metric R metric_healthy_backends ingress_window) []"
    "co_unhealthy (gather R order) = got (read_metric R metric_unhealthy_backends ingress_window) []"
    "co_uptime (gather R order) = got (read_metric R metric_uptime_availability uptime_window) []"
  using covers_set [OF assms] unfolding gather_def
  by (simp_all add: fold_field [of co_instances, OF finish_fields(1)] fold_field [of co_alarms, OF finish_fields(2)]
      fold_field [of co_public_ip, OF finish_fields(3)] fold_field [of co_objects, OF finish_fields(4)]
      fold_field [of co_cpu, OF finish_fields(5)] fold_field [of co_memory, OF finish_fields(6)]
      fold_field [of co_healthy, OF finish_fields(7)] fold_field [of co_unhealthy, OF finish_fields(8)]
      fold_field [of co_uptime, OF finish_fields(9)] empty_result_def)

lemma gather_ok: "covers order \<Longrightarrow> source_label s \<in> set (co_ok (gather R order)) \<longleftrightarrow> failing R s = None"
  using covers_set [of order s] by (auto simp: gather_notes)

lemma gather_ok_src:
  assumes "covers order"
  shows "src_cpu \<in> set (co_ok (gather R order)) \<longleftrightarrow> failing R Cpu = None"
    "src_memory \<in> set (co_ok (gather R order)) \<longleftrightarrow> failing R Memory = None"
    "src_healthy \<in> set (co_ok (gather R order)) \<longleftrightarrow> failing R Healthy = None"
    "src_unhealthy \<in> set (co_ok (gather R order)) \<longleftrightarrow> failing R Unhealthy = None"
    "src_instances \<in> set (co_ok (gather R order)) \<longleftrightarrow> failing R Instances = None"
    "src_backups \<in> set (co_ok (gather R order)) \<longleftrightarrow> failing R Backups = None"
    "src_uptime \<in> set (co_ok (gather R order)) \<longleftrightarrow> failing R Uptime = None"
  using gather_ok [OF assms, of Cpu R] gather_ok [OF assms, of Memory R] gather_ok [OF assms, of Healthy R]
    gather_ok [OF assms, of Unhealthy R] gather_ok [OF assms, of Instances R] gather_ok [OF assms, of Backups R]
    gather_ok [OF assms, of Uptime R] by simp_all

definition warnings_of :: "'f readings \<Rightarrow> string list" where
  "warnings_of R = sort (concat (map (warning_of R) all_sources))"

lemma gather_warnings: "covers order \<Longrightarrow> sort (co_warnings (gather R order)) = warnings_of R"
proof -
  assume "covers order"
  have cat: "mset (concat (map g xs)) = \<Sum>\<^sub># (image_mset (mset \<circ> g) (mset xs))" for g :: "source \<Rightarrow> string list" and xs
    by (induction xs) auto
  have "mset (co_warnings (gather R order)) = mset (concat (map (warning_of R) all_sources))"
    unfolding gather_notes cat using \<open>covers order\<close> by (simp add: covers_def)
  then have "sorted_list_of_multiset (mset (co_warnings (gather R order)))
      = sorted_list_of_multiset (mset (concat (map (warning_of R) all_sources)))" by simp
  then show ?thesis by (simp add: warnings_of_def)
qed

section \<open>Order and gaps\<close>

text \<open>
  C19. The snapshot does not depend on the order in which the nine concurrent reads complete.
\<close>

theorem collect_order_independent:
  assumes "covers order" "covers order'"
  shows "collect F uni S cfg now order R = collect F uni S cfg now order' R"
proof -
  have c: "collect F uni S cfg now order R = assemble F uni S cfg now (gather R order)" for order
    by (simp add: collect_def gather_def)
  show ?thesis
    unfolding c assemble_def Let_def node_of_def [abs_def] gather_ok_src [OF assms(1)] gather_ok_src [OF assms(2)]
      gather_fields [OF assms(1)] gather_fields [OF assms(2)] gather_warnings [OF assms(1)] gather_warnings [OF assms(2)]
    by (rule refl)
qed

definition dark :: "int readings" where
  "dark = \<lparr>rd_instances = Some (Inl ''timeout''), rd_metrics = None, rd_alarms = None, rd_ingress = None, rd_backups = None\<rparr>"

definition plain_sorters :: "int sorters" where
  "plain_sorters = \<lparr>so_nodes = sort_key nd_name, so_alarms = sort_key al_name, so_uptime = sort_key up_monitor\<rparr>"

lemma covers_examples [simp]: "covers all_sources" "covers (rev all_sources)"
  by (simp_all add: covers_def)

theorem collect_order_independent_witness:
  "collect int_floats id plain_sorters default_config 5 (rev all_sources) dark
    = collect int_floats id plain_sorters default_config 5 all_sources dark"
  by (rule collect_order_independent) simp_all

text \<open>
  C36. Nothing unread is shown as a number, and nothing read is withheld: a capacity, count or size
  is null exactly when its own source failed, the per-node percentages are null whenever theirs
  did, the sections the dashboard always renders are present, and the warnings are exactly the
  complaints of the sources that failed, sorted.
\<close>

theorem snapshot_gaps:
  assumes "covers order" "sorts_by nd_name (so_nodes S)"
  shows "case collect F uni S cfg now order R of n \<Rightarrow>
    (cp_ocpu_used (sn_capacity n) = None \<longleftrightarrow> failing R Instances \<noteq> None) \<and>
    (cp_memory_used (sn_capacity n) = None \<longleftrightarrow> failing R Instances \<noteq> None) \<and>
    (cp_storage_used (sn_capacity n) = None \<longleftrightarrow> failing R Backups \<noteq> None) \<and>
    (\<exists>b. sn_backups n = Some b \<and> (bk_object_count b = None \<longleftrightarrow> failing R Backups \<noteq> None) \<and>
       (bk_size_bytes b = None \<longleftrightarrow> failing R Backups \<noteq> None) \<and> bk_bucket b = ic_bucket cfg) \<and>
    (\<exists>i. sn_ingress n = Some i \<and> (failing R Healthy \<noteq> None \<longrightarrow> ig_healthy_backends i = None) \<and>
       (failing R Unhealthy \<noteq> None \<longrightarrow> ig_unhealthy_backends i = None)) \<and>
    (\<forall>d \<in> set (sn_nodes n). (failing R Cpu \<noteq> None \<longrightarrow> nd_cpu_percent d = None) \<and>
       (failing R Memory \<noteq> None \<longrightarrow> nd_memory_percent d = None)) \<and>
    sn_warnings n = warnings_of R \<and> \<not> sn_stale n"
proof -
  have c: "collect F uni S cfg now order R = assemble F uni S cfg now (gather R order)"
    by (simp add: collect_def gather_def)
  have "\<exists>b. (if failing R Backups = None then summarise_backups (ic_bucket cfg) (ic_backup_prefixes cfg) (got (rd_backups R) [])
      else \<lparr>bk_bucket = ic_bucket cfg, bk_object_count = None, bk_size_bytes = None, bk_streams = []\<rparr>) = b \<and>
    (bk_object_count b = None \<longleftrightarrow> failing R Backups \<noteq> None) \<and>
       (bk_size_bytes b = None \<longleftrightarrow> failing R Backups \<noteq> None) \<and> bk_bucket b = ic_bucket cfg"
    by (simp add: summarise_backups_def Let_def)
  then show ?thesis
    unfolding c using assms
    by (simp add: assemble_def Let_def gather_ok_src gather_fields gather_warnings new_snapshot_def
        sorts_by_set node_of_def summarise_backups_def)
qed

theorem snapshot_gaps_witness:
  "sn_warnings (collect int_floats id plain_sorters default_config 5 all_sources dark) = warnings_of dark \<and>
   cp_ocpu_used (sn_capacity (collect int_floats id plain_sorters default_config 5 all_sources dark)) = None"
proof -
  have "sorts_by nd_name (so_nodes plain_sorters)" by (simp add: plain_sorters_def)
  from snapshot_gaps [OF covers_examples(1) this, of int_floats id default_config 5 dark]
  show ?thesis by (simp add: dark_def complaint_def)
qed

section \<open>The newest point of a series\<close>

text \<open>The reference: among the points of a key, the first of those with the latest timestamp.\<close>

definition newest_point :: "'f series list \<Rightarrow> 'f series option" where
  "newest_point ss = (case ss of [] \<Rightarrow> None
     | s # rest \<Rightarrow> List.find (\<lambda>u. sr_timestamp u = Max (sr_timestamp ` set ss)) ss)"

lemma find_append: "List.find P (xs @ ys) = (case List.find P xs of None \<Rightarrow> List.find P ys | Some x \<Rightarrow> Some x)"
  by (induction xs) auto

lemma find_cong: "(\<And>x. x \<in> set xs \<Longrightarrow> P x = Q x) \<Longrightarrow> List.find P xs = List.find Q xs"
  by (induction xs) auto

lemma newest_point_find: "xs \<noteq> [] \<Longrightarrow> newest_point xs = List.find (\<lambda>u. sr_timestamp u = Max (sr_timestamp ` set xs)) xs"
  by (cases xs) (simp_all add: newest_point_def)

lemma snoc_nonempty: "xs @ [x] \<noteq> []"
  by simp

lemma newest_point_snoc:
  "newest_point (ss @ [s]) = (case newest_point ss of None \<Rightarrow> Some s
     | Some p \<Rightarrow> if sr_timestamp s > sr_timestamp p then Some s else Some p)"
proof (cases ss)
  case Nil
  then show ?thesis by (simp add: newest_point_def)
next
  case (Cons u us)
  let ?m = "Max (sr_timestamp ` set ss)"
  have fin: "finite (sr_timestamp ` set ss)" "sr_timestamp ` set ss \<noteq> {}" using Cons by auto
  have old: "newest_point ss = List.find (\<lambda>u. sr_timestamp u = ?m) ss" using Cons by (simp add: newest_point_def)
  have new: "newest_point (ss @ [s]) = List.find (\<lambda>u. sr_timestamp u = max (sr_timestamp s) ?m) (ss @ [s])"
  proof -
    have "Max (sr_timestamp ` set (ss @ [s])) = max (sr_timestamp s) ?m" using fin by simp
    then show ?thesis by (simp only: newest_point_find [OF snoc_nonempty])
  qed
  have "?m \<in> sr_timestamp ` set ss" using fin by (rule Max_in)
  then have "List.find (\<lambda>u. sr_timestamp u = ?m) ss \<noteq> None" unfolding find_None_iff by auto
  then obtain p where p: "List.find (\<lambda>u. sr_timestamp u = ?m) ss = Some p" by blast
  then have pm: "sr_timestamp p = ?m" by (auto simp: find_Some_iff)
  have le: "sr_timestamp v \<le> ?m" if "v \<in> set ss" for v using fin(1) that by simp
  show ?thesis
  proof (cases "sr_timestamp s > ?m")
    case True
    then have "List.find (\<lambda>u. sr_timestamp u = sr_timestamp s) ss = None"
      unfolding find_None_iff using le by (metis leD)
    then show ?thesis unfolding old new p using True pm by (simp add: find_append max_def)
  next
    case False
    then show ?thesis unfolding old new p using pm by (simp add: find_append p max_def)
  qed
qed

lemma newer_point_apply: "newer_point axis m s key =
    (if dimension s axis = key \<and> key \<noteq> [] then
       (case m key of None \<Rightarrow> Some (sr_value s, sr_timestamp s)
        | Some (v, prev) \<Rightarrow> if sr_timestamp s > prev then Some (sr_value s, sr_timestamp s) else Some (v, prev))
     else m key)"
  by (auto simp: newer_point_def Let_def split: option.split)

lemma newer_point_Nil [simp]: "newer_point axis m s [] = m []"
  by (simp add: newer_point_apply)

text \<open>
  The value a node is shown with is its newest datapoint, the first of those with the latest
  timestamp; a node without datapoints has none, and points without the dimension go to nobody.
\<close>

theorem latest_by_dimension_newest:
  "latest_by_dimension ss axis key = (if key = [] then None
     else map_option sr_value (newest_point (filter (\<lambda>s. dimension s axis = key) ss)))"
proof -
  have "foldl (newer_point axis) Map.empty ss key = (if key = [] then None
      else map_option (\<lambda>s. (sr_value s, sr_timestamp s)) (newest_point (filter (\<lambda>s. dimension s axis = key) ss)))"
  proof (induction ss rule: rev_induct)
    case Nil
    show ?case by (simp add: newest_point_def)
  next
    case (snoc s ss)
    show ?case
      using snoc by (cases "key = []"; cases "newest_point (filter (\<lambda>s. dimension s axis = key) ss)")
        (auto simp: newer_point_apply [of axis "foldl (newer_point axis) Map.empty ss" s key] newest_point_snoc)
  qed
  then show ?thesis by (simp add: latest_by_dimension_def option.map_comp comp_def)
qed

section \<open>Backups\<close>

lemma wrap64_add: "wrap64 (wrap64 a + b) = wrap64 (a + b)"
proof -
  have "wrap64 a + b + 2 ^ 63 = (a + 2 ^ 63) mod 2 ^ 64 + b" by (simp add: wrap64_def)
  moreover have "((a + 2 ^ 63) mod 2 ^ 64 + b) mod 2 ^ 64 = (a + b + 2 ^ 63) mod 2 ^ 64"
    by (simp add: mod_simps algebra_simps)
  ultimately show ?thesis by (simp add: wrap64_def)
qed

definition in_stream :: "string list \<Rightarrow> string option \<Rightarrow> object_info list \<Rightarrow> object_info list" where
  "in_stream prefixes p objs = filter (\<lambda>o'. stream_of prefixes (ob_name o') = p) objs"

text \<open>The latest modification among some objects, counted from the zero time.\<close>

definition last_modified :: "object_info list \<Rightarrow> instant" where
  "last_modified objs = foldl (\<lambda>m o'. max m (ob_modified o')) zero_instant objs"

lemma tally_snoc: "tally_objects prefixes (objs @ [ob]) = tally_object prefixes (tally_objects prefixes objs) ob"
  by (simp add: tally_objects_def)

lemma tally_closed:
  "bt_total (tally_objects prefixes objs) = int (length objs)"
  "bt_size (tally_objects prefixes objs) = wrap64 (\<Sum>ob\<leftarrow>objs. ob_size ob)"
  "bt_counts (tally_objects prefixes objs) p = int (length (in_stream prefixes (Some p) objs))"
  "bt_newest (tally_objects prefixes objs) p =
     (let m = last_modified (in_stream prefixes (Some p) objs) in if m = zero_instant then None else Some m)"
proof (induction objs rule: rev_induct)
  case Nil
  show "bt_total (tally_objects prefixes []) = int (length [])"
    "bt_size (tally_objects prefixes []) = wrap64 (\<Sum>ob\<leftarrow>[]. ob_size ob)"
    "bt_counts (tally_objects prefixes []) p = int (length (in_stream prefixes (Some p) []))"
    "bt_newest (tally_objects prefixes []) p =
     (let m = last_modified (in_stream prefixes (Some p) []) in if m = zero_instant then None else Some m)"
    by (simp_all add: tally_objects_def in_stream_def last_modified_def wrap64_def)
next
  case (snoc ob objs)
  have nonneg: "zero_instant \<le> last_modified xs" for xs
    by (induction xs rule: rev_induct) (auto simp: last_modified_def)
  show "bt_total (tally_objects prefixes (objs @ [ob])) = int (length (objs @ [ob]))"
    using snoc(1) by (simp add: tally_snoc tally_object_def Let_def split: option.split)
  show "bt_size (tally_objects prefixes (objs @ [ob])) = wrap64 (\<Sum>ob\<leftarrow>objs @ [ob]. ob_size ob)"
    using snoc(2) by (simp add: tally_snoc tally_object_def Let_def wrap64_add split: option.split)
  show "bt_counts (tally_objects prefixes (objs @ [ob])) p = int (length (in_stream prefixes (Some p) (objs @ [ob])))"
    using snoc(3) by (simp add: tally_snoc tally_object_def Let_def in_stream_def split: option.split)
  show "bt_newest (tally_objects prefixes (objs @ [ob])) p =
     (let m = last_modified (in_stream prefixes (Some p) (objs @ [ob])) in if m = zero_instant then None else Some m)"
    using snoc(4) nonneg [of "in_stream prefixes (Some p) objs"]
    by (auto simp: tally_snoc tally_object_def Let_def in_stream_def last_modified_def max_def split: option.split if_splits)
qed

lemma stream_of_mem: "stream_of prefixes name = Some p \<Longrightarrow> p \<in> set prefixes"
  by (auto simp: stream_of_def find_Some_iff)

lemma streams_partition:
  "(\<Sum>p\<in>set prefixes. int (length (in_stream prefixes (Some p) objs))) + int (length (in_stream prefixes None objs)) = int (length objs)"
proof (induction objs)
  case (Cons ob objs)
  show ?case
  proof (cases "stream_of prefixes (ob_name ob)")
    case None
    then show ?thesis using Cons by (simp add: in_stream_def)
  next
    case (Some q)
    have "(\<Sum>p\<in>set prefixes. int (length (in_stream prefixes (Some p) (ob # objs))))
        = (\<Sum>p\<in>set prefixes. int (length (in_stream prefixes (Some p) objs)) + (if p = q then 1 else 0))"
      using Some by (intro sum.cong) (auto simp: in_stream_def)
    also have "\<dots> = (\<Sum>p\<in>set prefixes. int (length (in_stream prefixes (Some p) objs))) + 1"
      using stream_of_mem [OF Some] by (simp add: sum.distrib)
    finally show ?thesis using Cons Some by (simp add: in_stream_def)
  qed
qed (simp add: in_stream_def)

text \<open>
  The backup summary accounts for the whole bucket: its count is the number of objects and
  its size their sum (in 64-bit arithmetic); a stream counts the objects whose first matching
  prefix it is and shows the latest modification among them; and with distinct prefixes the
  streams and the objects outside them add up to the count.
\<close>

theorem backups_accounted:
  assumes "distinct prefixes"
  shows "case summarise_backups bucket prefixes objs of b \<Rightarrow>
    bk_object_count b = Some (int (length objs)) \<and> bk_size_bytes b = Some (wrap64 (\<Sum>ob\<leftarrow>objs. ob_size ob)) \<and>
    map bs_prefix (bk_streams b) = prefixes \<and>
    (\<forall>s \<in> set (bk_streams b). bs_count s = int (length (in_stream prefixes (Some (bs_prefix s)) objs)) \<and>
       bs_newest s = (let m = last_modified (in_stream prefixes (Some (bs_prefix s)) objs) in
         if m = zero_instant then None else Some m)) \<and>
    (\<Sum>s\<leftarrow>bk_streams b. bs_count s) + int (length (in_stream prefixes None objs)) = int (length objs)"
proof -
  have "(\<Sum>p\<leftarrow>prefixes. int (length (in_stream prefixes (Some p) objs))) = (\<Sum>p\<in>set prefixes. int (length (in_stream prefixes (Some p) objs)))"
    using assms by (simp add: sum_list_distinct_conv_sum_set)
  with streams_partition [of prefixes objs]
  show ?thesis by (auto simp: summarise_backups_def tally_closed Let_def is_zero_def comp_def)
qed

definition two_objects :: "object_info list" where
  "two_objects = [\<lparr>ob_name = ''sqlite/a.db'', ob_size = 7, ob_modified = 3\<rparr>, \<lparr>ob_name = ''readme'', ob_size = 1, ob_modified = 2\<rparr>]"

theorem backups_accounted_witness:
  "bk_size_bytes (summarise_backups ''b'' [''sqlite'', ''gitops''] two_objects) = Some 8 \<and>
   map bs_prefix (bk_streams (summarise_backups ''b'' [''sqlite'', ''gitops''] two_objects)) = [''sqlite'', ''gitops''] \<and>
   (\<Sum>s\<leftarrow>bk_streams (summarise_backups ''b'' [''sqlite'', ''gitops''] two_objects). bs_count s)
     + int (length (in_stream [''sqlite'', ''gitops''] None two_objects)) = 2"
proof -
  have "distinct [''sqlite'', ''gitops'']" by simp
  note b = backups_accounted [OF this, of "''b''" two_objects]
  have "wrap64 (\<Sum>ob\<leftarrow>two_objects. ob_size ob) = 8" "length two_objects = 2" by (simp_all add: wrap64_def two_objects_def)
  with b show ?thesis by simp
qed

end
