(* ===== verification/SnapshotCache.thy ===== *)
theory SnapshotCache
  imports InfraFacts
begin

text \<open>
  internal/infra/cache.go: the snapshot cache. Its methods run under one mutex, so each is one
  step; a refresh is two: the start, under the mutex, and the completion, which takes what
  building a collector and collecting returned. Every call of the clock is an argument.
\<close>

section \<open>State\<close>

record ('c, 'f) cache =
  ca_ttl :: duration
  ca_stale_after :: duration
  ca_timeout :: duration
  ca_collector :: "'c option"
  ca_snap :: "'f snapshot option"
  ca_fetched_at :: instant
  ca_attempted :: instant
  ca_refreshing :: bool
  ca_last_err :: "string option"

record cache_options =
  op_ttl :: duration
  op_stale_after :: duration
  op_timeout :: duration

definition err_not_ready :: string where
  "err_not_ready = ''infrastructure snapshot not collected yet''"

definition or_default :: "duration \<Rightarrow> duration \<Rightarrow> duration" where
  "or_default d v = (if v \<le> 0 then d else v)"

definition new_cache :: "cache_options \<Rightarrow> ('c, 'f) cache" where
  "new_cache opts = \<lparr>ca_ttl = or_default (seconds 60) (op_ttl opts),
     ca_stale_after = or_default (minutes 5) (op_stale_after opts),
     ca_timeout = or_default (seconds 20) (op_timeout opts),
     ca_collector = None, ca_snap = None, ca_fetched_at = zero_instant, ca_attempted = zero_instant,
     ca_refreshing = False, ca_last_err = None\<rparr>"

definition no_options :: cache_options where
  "no_options = \<lparr>op_ttl = 0, op_stale_after = 0, op_timeout = 0\<rparr>"

definition new_default_cache :: "('c, 'f) cache" where
  "new_default_cache = new_cache no_options"

section \<open>Operations\<close>

text \<open>The clock is read for the throttle, and again for the attempt.\<close>

definition start_refresh :: "instant \<Rightarrow> instant \<Rightarrow> ('c, 'f) cache \<Rightarrow> ('c, 'f) cache" where
  "start_refresh n1 n2 c =
     (if ca_refreshing c then c
      else if \<not> is_zero (ca_attempted c) \<and> time_sub n1 (ca_attempted c) < ca_ttl c then c
      else c\<lparr>ca_refreshing := True, ca_attempted := n2\<rparr>)"

definition prime :: "instant \<Rightarrow> instant \<Rightarrow> ('c, 'f) cache \<Rightarrow> ('c, 'f) cache" where
  "prime n1 n2 c = start_refresh n1 n2 c"

definition get_snapshot ::
    "instant \<Rightarrow> instant \<Rightarrow> instant \<Rightarrow> ('c, 'f) cache \<Rightarrow> 'f snapshot result \<times> ('c, 'f) cache" where
  "get_snapshot n0 n1 n2 c =
     (let age = time_sub n0 (ca_fetched_at c);
          c = (if ca_snap c = None \<or> age \<ge> ca_ttl c then start_refresh n1 n2 c else c)
      in case ca_snap c of
           None \<Rightarrow> (Inl (case ca_last_err c of Some e \<Rightarrow> err_not_ready @ '': '' @ e | None \<Rightarrow> err_not_ready), c)
         | Some s \<Rightarrow> (Inr (s\<lparr>sn_stale := age > ca_stale_after c\<rparr>), c))"

text \<open>
  \<open>build\<close> is what calling \<open>newCollector\<close> returns (\<open>None\<close> for a nil one), \<open>read\<close> what the collector
  collects.
\<close>

definition collect_snapshot ::
    "'c result option \<Rightarrow> ('c \<Rightarrow> 'f snapshot) \<Rightarrow> ('c, 'f) cache \<Rightarrow> 'f snapshot result \<times> ('c, 'f) cache" where
  "collect_snapshot build read c = (case ca_collector c of
     Some col \<Rightarrow> (Inr (read col), c)
   | None \<Rightarrow> (case build of
       None \<Rightarrow> (Inl ''no infrastructure collector configured'', c)
     | Some (Inl e) \<Rightarrow> (Inl e, c)
     | Some (Inr col) \<Rightarrow> (Inr (read col), c\<lparr>ca_collector := Some col\<rparr>)))"

definition finish_refresh ::
    "'c result option \<Rightarrow> ('c \<Rightarrow> 'f snapshot) \<Rightarrow> instant \<Rightarrow> ('c, 'f) cache \<Rightarrow> ('c, 'f) cache" where
  "finish_refresh build read now c = (case collect_snapshot build read c of
     (Inl e, c) \<Rightarrow> c\<lparr>ca_refreshing := False, ca_last_err := Some e\<rparr>
   | (Inr s, c) \<Rightarrow> c\<lparr>ca_refreshing := False, ca_last_err := None, ca_snap := Some s, ca_fetched_at := now\<rparr>)"

section \<open>Histories\<close>

datatype ('c, 'f) cache_event =
    Primed instant instant
  | Got instant instant instant
  | Refreshed "'c result option" "'c \<Rightarrow> 'f snapshot" instant

fun cache_step :: "('c, 'f) cache \<Rightarrow> ('c, 'f) cache_event \<Rightarrow> ('c, 'f) cache" where
  "cache_step c (Primed n1 n2) = prime n1 n2 c"
| "cache_step c (Got n0 n1 n2) = snd (get_snapshot n0 n1 n2 c)"
| "cache_step c (Refreshed build read now) = finish_refresh build read now c"

fun cache_ok :: "('c, 'f) cache \<Rightarrow> ('c, 'f) cache_event \<Rightarrow> bool" where
  "cache_ok c (Refreshed build read now) = ca_refreshing c"
| "cache_ok c _ = True"

fun readings_of_clock :: "('c, 'f) cache_event \<Rightarrow> instant list" where
  "readings_of_clock (Primed n1 n2) = [n1, n2]"
| "readings_of_clock (Got n0 n1 n2) = [n0, n1, n2]"
| "readings_of_clock (Refreshed build read now) = [now]"

text \<open>A clock that does not go back, and is past the zero time.\<close>

definition clock_runs :: "instant \<Rightarrow> ('c, 'f) cache_event list \<Rightarrow> bool" where
  "clock_runs t es \<longleftrightarrow> sorted (t # concat (map readings_of_clock es)) \<and> zero_instant < t"

text \<open>When refreshes were started, and what the last successful one brought.\<close>

definition start_of :: "('c, 'f) cache \<Rightarrow> ('c, 'f) cache_event \<Rightarrow> instant list" where
  "start_of c e = (if \<not> ca_refreshing c \<and> ca_refreshing (cache_step c e) then [ca_attempted (cache_step c e)] else [])"

fun starts :: "('c, 'f) cache \<Rightarrow> ('c, 'f) cache_event list \<Rightarrow> instant list" where
  "starts c [] = []"
| "starts c (e # es) = start_of c e @ starts (cache_step c e) es"

definition outcome_of :: "('c, 'f) cache \<Rightarrow> ('c, 'f) cache_event \<Rightarrow> ('f snapshot \<times> instant) option \<Rightarrow> ('f snapshot \<times> instant) option" where
  "outcome_of c e old = (case e of
     Refreshed build read now \<Rightarrow> (case fst (collect_snapshot build read c) of Inr s \<Rightarrow> Some (s, now) | Inl _ \<Rightarrow> old)
   | _ \<Rightarrow> old)"

fun last_good :: "('c, 'f) cache \<Rightarrow> ('c, 'f) cache_event list \<Rightarrow> ('f snapshot \<times> instant) option \<Rightarrow> ('f snapshot \<times> instant) option" where
  "last_good c [] old = old"
| "last_good c (e # es) old = last_good (cache_step c e) es (outcome_of c e old)"

section \<open>How the steps move the cache\<close>

lemma start_refresh_same [simp]:
  "ca_ttl (start_refresh n1 n2 c) = ca_ttl c" "ca_stale_after (start_refresh n1 n2 c) = ca_stale_after c"
  "ca_snap (start_refresh n1 n2 c) = ca_snap c" "ca_fetched_at (start_refresh n1 n2 c) = ca_fetched_at c"
  "ca_collector (start_refresh n1 n2 c) = ca_collector c" "ca_last_err (start_refresh n1 n2 c) = ca_last_err c"
  by (simp_all add: start_refresh_def)

lemma get_snapshot_state:
  "snd (get_snapshot n0 n1 n2 c) =
     (if ca_snap c = None \<or> time_sub n0 (ca_fetched_at c) \<ge> ca_ttl c then start_refresh n1 n2 c else c)"
  by (simp add: get_snapshot_def Let_def split: option.split)

lemma get_snapshot_answer:
  "fst (get_snapshot n0 n1 n2 c) = (case ca_snap c of
     None \<Rightarrow> Inl (case ca_last_err c of Some e \<Rightarrow> err_not_ready @ '': '' @ e | None \<Rightarrow> err_not_ready)
   | Some s \<Rightarrow> Inr (s\<lparr>sn_stale := time_sub n0 (ca_fetched_at c) > ca_stale_after c\<rparr>))"
  by (simp add: get_snapshot_def Let_def split: option.split)

lemma finish_refresh_fields [simp]:
  "ca_ttl (finish_refresh build read now c) = ca_ttl c"
  "ca_stale_after (finish_refresh build read now c) = ca_stale_after c"
  "ca_attempted (finish_refresh build read now c) = ca_attempted c"
  "\<not> ca_refreshing (finish_refresh build read now c)"
  by (simp_all add: finish_refresh_def collect_snapshot_def split: option.split sum.split)

lemma step_same [simp]:
  "ca_ttl (cache_step c e) = ca_ttl c" "ca_stale_after (cache_step c e) = ca_stale_after c"
  by (cases e; simp add: prime_def get_snapshot_state)+

end
