(* ===== verification/SnapshotCacheFacts.thy ===== *)
theory SnapshotCacheFacts
  imports SnapshotCache
begin

text \<open>
  What the snapshot cache guarantees to the substrate (one refresh at a time, one per TTL), to the
  dashboard (the last collected snapshot, flagged by its age) and after an outage.
\<close>

section \<open>Throttling\<close>

lemma start_of_Nil: "start_of c e = [] \<Longrightarrow> ca_attempted (cache_step c e) = ca_attempted c"
  by (cases e) (auto simp: start_of_def prime_def get_snapshot_state start_refresh_def split: if_splits)

lemma start_of_some:
  assumes "start_of c e \<noteq> []"
  obtains pre n1 n2 where "start_of c e = [n2]" "ca_attempted (cache_step c e) = n2"
    "readings_of_clock e = pre @ [n1, n2]" "is_zero (ca_attempted c) \<or> ca_ttl c \<le> time_sub n1 (ca_attempted c)"
proof (cases e)
  case (Primed n1 n2)
  with assms show ?thesis by (intro that [of n2 "[]" n1]) (auto simp: start_of_def prime_def start_refresh_def split: if_splits)
next
  case (Got n0 n1 n2)
  with assms show ?thesis
    by (intro that [of n2 "[n0]" n1]) (auto simp: start_of_def get_snapshot_state start_refresh_def split: if_splits)
next
  case (Refreshed build read now)
  with assms show ?thesis by (simp add: start_of_def)
qed

lemma starts_spaced:
  assumes "sorted (t # concat (map readings_of_clock es))" "zero_instant < t" "ca_attempted c \<le> t"
    "0 < ca_ttl c" "ca_ttl c \<le> max_duration"
  shows "successively (\<lambda>a b. ca_ttl c \<le> b - a) ((if is_zero (ca_attempted c) then [] else [ca_attempted c]) @ starts c es)"
  using assms
proof (induction es arbitrary: c t)
  case Nil
  show ?case by simp
next
  case (Cons e es)
  show ?case
  proof (cases "start_of c e = []")
    case True
    have "sorted (t # concat (map readings_of_clock es))" using Cons.prems(1) by (simp add: sorted_append)
    from Cons.IH [OF this Cons.prems(2), of "cache_step c e", unfolded start_of_Nil [OF True]] Cons.prems True
    show ?thesis by simp
  next
    case False
    then obtain pre n1 n2 where s: "start_of c e = [n2]" "ca_attempted (cache_step c e) = n2"
      "readings_of_clock e = pre @ [n1, n2]" "is_zero (ca_attempted c) \<or> ca_ttl c \<le> time_sub n1 (ca_attempted c)"
      by (rule start_of_some)
    have so: "sorted (n2 # concat (map readings_of_clock es))" "n1 \<le> n2" "t \<le> n2"
      using Cons.prems(1) s(3) by (auto simp: sorted_append)
    then have pos: "zero_instant < n2" "\<not> is_zero n2" using Cons.prems(2) by (auto simp: is_zero_def)
    have "successively (\<lambda>a b. ca_ttl c \<le> b - a) (n2 # starts (cache_step c e) es)"
      using Cons.IH [OF so(1) pos(1), of "cache_step c e"] Cons.prems(4,5) s(2) pos(2) by simp
    moreover have "ca_ttl c \<le> n2 - ca_attempted c" if "\<not> is_zero (ca_attempted c)"
      using s(4) that so(2) time_sub_ge [OF Cons.prems(4,5)] by fastforce
    ultimately show ?thesis by (auto simp: s(1))
  qed
qed

fun completions :: "('c, 'f) cache_event list \<Rightarrow> nat" where
  "completions [] = 0"
| "completions (Refreshed _ _ _ # es) = Suc (completions es)"
| "completions (_ # es) = completions es"

lemma starts_completions:
  "admissible cache_step cache_ok c es \<Longrightarrow>
     length (starts c es) + (if ca_refreshing c then 1 else 0) =
     completions es + (if ca_refreshing (run cache_step c es) then 1 else 0)"
proof (induction es arbitrary: c)
  case (Cons e es)
  then have a: "cache_ok c e" "admissible cache_step cache_ok (cache_step c e) es" by auto
  have keep: "ca_refreshing c \<Longrightarrow> ca_refreshing (cache_step c e)" if "\<forall>b r n. e \<noteq> Refreshed b r n"
    using that by (cases e) (auto simp: prime_def get_snapshot_state start_refresh_def)
  show ?case
  proof (cases e)
    case (Refreshed b r n)
    with a(1) Cons.IH [OF a(2)] show ?thesis by (simp add: start_of_def)
  qed (use keep Cons.IH [OF a(2)] in \<open>auto simp: start_of_def\<close>)
qed simp

text \<open>
  C17. A substrate is read at most once at a time and at most once per TTL: along any history of
  requests and completions under a clock that does not go back, as many refreshes were started as
  completed, or one more, and consecutive starts are at least a TTL apart, successful or not.
\<close>

theorem refreshes_throttled:
  fixes es :: "('c, 'f) cache_event list"
  assumes "admissible cache_step cache_ok (new_cache opts) es" "clock_runs t es" "op_ttl opts \<le> max_duration"
  shows "completions es \<le> length (starts (new_cache opts) es) \<and>
    length (starts (new_cache opts) es) \<le> Suc (completions es) \<and>
    successively (\<lambda>a b. ca_ttl (new_cache opts :: ('c, 'f) cache) \<le> b - a) (starts (new_cache opts) es)"
proof -
  let ?c = "new_cache opts :: ('c, 'f) cache"
  have ttl: "0 < ca_ttl ?c" "ca_ttl ?c \<le> max_duration"
    using assms(3) by (auto simp: new_cache_def or_default_def seconds_def max_duration_def)
  have "successively (\<lambda>a b. ca_ttl ?c \<le> b - a) ((if is_zero (ca_attempted ?c) then [] else [ca_attempted ?c]) @ starts ?c es)"
    by (rule starts_spaced [OF _ _ _ ttl]) (use assms(2) in \<open>auto simp: clock_runs_def new_cache_def\<close>)
  then have "successively (\<lambda>a b. ca_ttl ?c \<le> b - a) (starts ?c es)"
    by (simp add: new_cache_def is_zero_def)
  with starts_completions [OF assms(1)] show ?thesis by (auto simp: new_cache_def split: if_splits)
qed

theorem refreshes_throttled_witness:
  "starts (new_default_cache :: (unit, int) cache) [Primed 1 2, Got 3 4 5, Refreshed None (\<lambda>_. new_snapshot int_floats 0) 6] = [2] \<and>
   length (starts (new_default_cache :: (unit, int) cache) [Primed 1 2, Got 3 4 5, Refreshed None (\<lambda>_. new_snapshot int_floats 0) 6]) \<le> Suc 1"
proof -
  let ?es = "[Primed 1 2, Got 3 4 5, Refreshed None (\<lambda>_. new_snapshot int_floats 0) 6] :: (unit, int) cache_event list"
  have "admissible cache_step cache_ok (new_cache no_options) ?es"
    by (simp add: new_cache_def prime_def start_refresh_def get_snapshot_def is_zero_def Let_def)
  moreover have "clock_runs 1 ?es" by (simp add: clock_runs_def zero_instant_def)
  moreover have "op_ttl no_options \<le> max_duration" by (simp add: no_options_def max_duration_def)
  ultimately have "length (starts (new_cache no_options) ?es) \<le> Suc (completions ?es)"
    using refreshes_throttled [of no_options ?es 1] by blast
  moreover have "starts (new_default_cache :: (unit, int) cache) ?es = [2]"
    by (simp add: new_default_cache_def new_cache_def start_of_def prime_def start_refresh_def get_snapshot_def is_zero_def Let_def)
  ultimately show ?thesis by simp
qed

section \<open>What is served\<close>

definition held :: "('c, 'f) cache \<Rightarrow> ('f snapshot \<times> instant) option" where
  "held c = map_option (\<lambda>s. (s, ca_fetched_at c)) (ca_snap c)"

lemma held_step: "held (cache_step c e) = outcome_of c e (held c)"
proof (cases e)
  case (Refreshed build read now)
  then show ?thesis
    by (auto simp: held_def outcome_of_def finish_refresh_def collect_snapshot_def split: option.split sum.split)
qed (simp_all add: held_def outcome_of_def prime_def get_snapshot_state)

lemma held_run: "held (run cache_step c es) = last_good c es (held c)"
  by (induction es arbitrary: c) (simp_all add: held_step)

lemma run_same: "ca_stale_after (run cache_step c es) = ca_stale_after c"
  by (induction es arbitrary: c) simp_all

text \<open>
  A request is served the snapshot of the last successful refresh, flagged stale exactly when
  that refresh completed longer ago than the threshold; before there is one, it is told so, with
  the last failure. Serving changes nothing but the record of a refresh being started.
\<close>

theorem get_serves_last_good:
  "case run cache_step (new_cache opts) es of c \<Rightarrow>
    fst (get_snapshot n0 n1 n2 c) = (case last_good (new_cache opts) es None of
       None \<Rightarrow> Inl (case ca_last_err c of Some e \<Rightarrow> err_not_ready @ '': '' @ e | None \<Rightarrow> err_not_ready)
     | Some (s, since) \<Rightarrow> Inr (s\<lparr>sn_stale := time_sub n0 since > ca_stale_after (new_cache opts :: ('c, 'f) cache)\<rparr>)) \<and>
    (snd (get_snapshot n0 n1 n2 c) = c \<or>
     \<not> ca_refreshing c \<and> snd (get_snapshot n0 n1 n2 c) = (c :: ('c, 'f) cache)\<lparr>ca_refreshing := True, ca_attempted := n2\<rparr>)"
proof -
  let ?c = "run cache_step (new_cache opts) es :: ('c, 'f) cache"
  have h: "held ?c = last_good (new_cache opts) es None"
    by (simp add: held_run) (simp add: held_def new_cache_def)
  have "fst (get_snapshot n0 n1 n2 ?c) = (case held ?c of
       None \<Rightarrow> Inl (case ca_last_err ?c of Some e \<Rightarrow> err_not_ready @ '': '' @ e | None \<Rightarrow> err_not_ready)
     | Some (s, since) \<Rightarrow> Inr (s\<lparr>sn_stale := time_sub n0 since > ca_stale_after (new_cache opts :: ('c, 'f) cache)\<rparr>))"
    by (simp add: get_snapshot_answer held_def run_same split: option.split)
  then show ?thesis unfolding h [symmetric] by (simp add: get_snapshot_state start_refresh_def)
qed

section \<open>Going on after failures\<close>

text \<open>
  A round: a request that finds the snapshot due, and the completion of the refresh in flight
  behind it, with whatever building a collector and reading came to. Rounds are apart when each
  request comes a TTL after all that went before.
\<close>

record ('c, 'f) round =
  rd_asked :: instant
  rd_build :: "'c result option"
  rd_read :: "'c \<Rightarrow> 'f snapshot"
  rd_done :: instant

definition round_events :: "('c, 'f) round \<Rightarrow> ('c, 'f) cache_event list" where
  "round_events r = [Got (rd_asked r) (rd_asked r) (rd_asked r), Refreshed (rd_build r) (rd_read r) (rd_done r)]"

definition rounds_run :: "('c, 'f) cache \<Rightarrow> ('c, 'f) round list \<Rightarrow> ('c, 'f) cache" where
  "rounds_run c rs = run cache_step c (concat (map round_events rs))"

fun rounds_apart :: "duration \<Rightarrow> instant \<Rightarrow> ('c, 'f) round list \<Rightarrow> bool" where
  "rounds_apart ttl t [] = True"
| "rounds_apart ttl t (r # rs) = (t + ttl \<le> rd_asked r \<and> rd_asked r \<le> rd_done r \<and> rounds_apart ttl (rd_done r) rs)"

text \<open>With the collector \<open>col\<close> held or built in the round, what it reads is complete.\<close>

definition reads_in_full :: "'c \<Rightarrow> ('c, 'f) cache \<Rightarrow> ('c, 'f) round \<Rightarrow> bool" where
  "reads_in_full col c r \<longleftrightarrow>
     (case ca_collector c of Some k \<Rightarrow> k = col | None \<Rightarrow> rd_build r = Some (Inr col)) \<and> sn_warnings (rd_read r col) = []"

lemma rounds_run_Nil [simp]: "rounds_run c [] = c"
  by (simp add: rounds_run_def)

lemma rounds_run_same [simp]:
  "ca_ttl (rounds_run c rs) = ca_ttl c" "ca_stale_after (rounds_run c rs) = ca_stale_after c"
  by (induction rs arbitrary: c) (simp_all add: rounds_run_def round_events_def del: cache_step.simps)

lemma due_request:
  assumes "0 < ca_ttl c" "ca_ttl c \<le> max_duration" "ca_attempted c + ca_ttl c \<le> n" "ca_fetched_at c + ca_ttl c \<le> n"
  shows "cache_step c (Got n n n) = (if ca_refreshing c then c else c\<lparr>ca_refreshing := True, ca_attempted := n\<rparr>)"
proof -
  have "ca_ttl c \<le> time_sub n (ca_fetched_at c)" "\<not> time_sub n (ca_attempted c) < ca_ttl c"
    using assms(3,4) time_sub_ge [OF assms(1,2)] by (auto simp: not_less)
  then show ?thesis by (simp add: get_snapshot_state start_refresh_def)
qed

lemma round_leaves:
  assumes "0 < ca_ttl c" "ca_ttl c \<le> max_duration" "ca_attempted c \<le> t" "ca_fetched_at c \<le> t" "rounds_apart (ca_ttl c) t [r]"
  shows "\<not> ca_refreshing (rounds_run c [r])" "ca_attempted (rounds_run c [r]) \<le> rd_done r" "ca_fetched_at (rounds_run c [r]) \<le> rd_done r"
proof -
  have d: "cache_step c (Got (rd_asked r) (rd_asked r) (rd_asked r)) =
      (if ca_refreshing c then c else c\<lparr>ca_refreshing := True, ca_attempted := rd_asked r\<rparr>)"
    by (rule due_request) (use assms in auto)
  show "\<not> ca_refreshing (rounds_run c [r])" by (simp add: rounds_run_def round_events_def)
  show "ca_attempted (rounds_run c [r]) \<le> rd_done r" "ca_fetched_at (rounds_run c [r]) \<le> rd_done r"
    using assms(1,3-) d
    by (auto simp: rounds_run_def round_events_def finish_refresh_def collect_snapshot_def split: option.split sum.split
        simp del: cache_step.simps(2))
qed

lemma rounds_start:
  assumes "0 < ca_ttl c" "ca_ttl c \<le> max_duration" "ca_attempted c \<le> t" "ca_fetched_at c \<le> t" "rounds_apart (ca_ttl c) t rs"
  shows "starts c (concat (map round_events rs)) = (if ca_refreshing c then tl (map rd_asked rs) else map rd_asked rs)"
  using assms
proof (induction rs arbitrary: c t)
  case (Cons r rs)
  note l = round_leaves [OF Cons.prems(1-4), of r]
  have d: "cache_step c (Got (rd_asked r) (rd_asked r) (rd_asked r)) =
      (if ca_refreshing c then c else c\<lparr>ca_refreshing := True, ca_attempted := rd_asked r\<rparr>)"
    by (rule due_request) (use Cons.prems in auto)
  have "starts (rounds_run c [r]) (concat (map round_events rs)) = map rd_asked rs"
    using Cons.IH [of "rounds_run c [r]" "rd_done r"] Cons.prems l by simp
  moreover have "starts c (concat (map round_events (r # rs))) =
      (if ca_refreshing c then [] else [rd_asked r]) @ starts (rounds_run c [r]) (concat (map round_events rs))"
    using d by (simp add: round_events_def rounds_run_def start_of_def del: cache_step.simps(2))
  ultimately show ?case by simp
qed simp

lemma round_serves:
  assumes "0 \<le> ca_stale_after c" "ca_stale_after c < max_duration" "reads_in_full col c r" "later \<le> rd_done r + ca_stale_after c"
  shows "fst (get_snapshot later m1 m2 (rounds_run c [r])) = Inr ((rd_read r col)\<lparr>sn_stale := False\<rparr>)"
proof -
  let ?c1 = "cache_step c (Got (rd_asked r) (rd_asked r) (rd_asked r))"
  have same: "ca_collector ?c1 = ca_collector c" by (simp add: get_snapshot_state)
  have "fst (collect_snapshot (rd_build r) (rd_read r) ?c1) = Inr (rd_read r col)"
    using assms(3) by (auto simp: collect_snapshot_def same reads_in_full_def simp del: cache_step.simps split: option.splits)
  then obtain c2 where c2: "collect_snapshot (rd_build r) (rd_read r) ?c1 = (Inr (rd_read r col), c2)" by (metis prod.collapse)
  have "ca_stale_after c2 = ca_stale_after ?c1"
    using c2 by (auto simp: collect_snapshot_def simp del: cache_step.simps step_same split: option.splits sum.splits)
  moreover have "\<not> time_sub later (rd_done r) > ca_stale_after c"
    using assms(4) time_sub_gt [OF assms(1,2), of later "rd_done r"] by auto
  ultimately show ?thesis
    using c2 by (simp add: rounds_run_def round_events_def get_snapshot_answer finish_refresh_def del: cache_step.simps(2))
qed

text \<open>
  C29. No failure wedges the cache. From any state, through any rounds a TTL apart, whatever building
  a collector or reading comes to in each: every round starts a refresh of its own, but for the one
  already in flight at the beginning; and after each round in which a collector is at hand and reads
  everything, requests within the threshold are served what it read in that round, not stale and
  without warnings.
\<close>

theorem cache_recovers:
  assumes "0 < ca_ttl c" "ca_ttl c \<le> max_duration" "0 \<le> ca_stale_after c" "ca_stale_after c < max_duration"
    and "ca_attempted c \<le> t" "ca_fetched_at c \<le> t" "rounds_apart (ca_ttl c) t rs"
  shows "starts c (concat (map round_events rs)) = (if ca_refreshing c then tl (map rd_asked rs) else map rd_asked rs) \<and>
    (\<forall>i < length rs. reads_in_full col (rounds_run c (take i rs)) (rs ! i) \<longrightarrow>
       (\<forall>later \<in> {rd_done (rs ! i) .. rd_done (rs ! i) + ca_stale_after c}.
          \<exists>s. fst (get_snapshot later m1 m2 (rounds_run c (take (Suc i) rs))) = Inr s \<and>
            s = (rd_read (rs ! i) col)\<lparr>sn_stale := False\<rparr> \<and> sn_warnings s = []))"
proof (intro conjI allI impI ballI)
  show "starts c (concat (map round_events rs)) = (if ca_refreshing c then tl (map rd_asked rs) else map rd_asked rs)"
    by (rule rounds_start [OF assms(1,2,5-7)])
next
  fix i later
  assume i: "i < length rs" "reads_in_full col (rounds_run c (take i rs)) (rs ! i)"
    "later \<in> {rd_done (rs ! i) .. rd_done (rs ! i) + ca_stale_after c}"
  have "rounds_run c (take (Suc i) rs) = rounds_run (rounds_run c (take i rs)) [rs ! i]"
    using i(1) by (simp add: take_Suc_conv_app_nth rounds_run_def run_append)
  moreover have "sn_warnings (rd_read (rs ! i) col) = []" using i(2) by (simp add: reads_in_full_def)
  ultimately show "\<exists>s. fst (get_snapshot later m1 m2 (rounds_run c (take (Suc i) rs))) = Inr s \<and>
      s = (rd_read (rs ! i) col)\<lparr>sn_stale := False\<rparr> \<and> sn_warnings s = []"
    using round_serves [of "rounds_run c (take i rs)", OF _ _ i(2)] assms(3,4) i(3) by simp
qed

text \<open>A first round in which no collector can be built, then two that read the substrate.\<close>

definition three_rounds :: "(unit, int) round list" where
  "three_rounds = [
     \<lparr>rd_asked = seconds 100, rd_build = Some (Inl ''no provider''), rd_read = (\<lambda>_. new_snapshot int_floats 0), rd_done = seconds 101\<rparr>,
     \<lparr>rd_asked = seconds 200, rd_build = Some (Inr ()), rd_read = (\<lambda>_. new_snapshot int_floats 7), rd_done = seconds 201\<rparr>,
     \<lparr>rd_asked = seconds 300, rd_build = None, rd_read = (\<lambda>_. new_snapshot int_floats 8), rd_done = seconds 301\<rparr>]"

theorem cache_recovers_witness:
  "starts (new_default_cache :: (unit, int) cache) (concat (map round_events three_rounds)) = [seconds 100, seconds 200, seconds 300] \<and>
   (\<exists>s. fst (get_snapshot (seconds 302) 0 0 (rounds_run new_default_cache three_rounds)) = Inr s \<and> sn_updated_at s = 8 \<and> \<not> sn_stale s)"
proof -
  let ?c = "new_default_cache :: (unit, int) cache"
  have c: "ca_ttl ?c = seconds 60" "ca_stale_after ?c = minutes 5" "ca_attempted ?c = zero_instant" "ca_fetched_at ?c = zero_instant"
    "\<not> ca_refreshing ?c" "ca_collector ?c = None"
    by (simp_all add: new_default_cache_def new_cache_def no_options_def or_default_def)
  have r: "rounds_apart (ca_ttl ?c) zero_instant three_rounds"
    by (simp add: c three_rounds_def duration_defs zero_instant_def)
  have full: "reads_in_full () (rounds_run ?c (take 2 three_rounds)) (three_rounds ! 2)"
    by (simp add: reads_in_full_def three_rounds_def new_snapshot_def rounds_run_def round_events_def numeral_2_eq_2
        finish_refresh_def collect_snapshot_def c get_snapshot_state split: option.split)
  have all: "starts ?c (concat (map round_events three_rounds)) = map rd_asked three_rounds \<and>
    (\<forall>i < length three_rounds. reads_in_full () (rounds_run ?c (take i three_rounds)) (three_rounds ! i) \<longrightarrow>
       (\<forall>later \<in> {rd_done (three_rounds ! i) .. rd_done (three_rounds ! i) + ca_stale_after ?c}.
          \<exists>s. fst (get_snapshot later 0 0 (rounds_run ?c (take (Suc i) three_rounds))) = Inr s \<and>
            s = (rd_read (three_rounds ! i) ())\<lparr>sn_stale := False\<rparr> \<and> sn_warnings s = []))"
    using cache_recovers [OF _ _ _ _ _ _ r, of "()" 0 0] by (simp add: c duration_defs max_duration_def)
  have at: "2 < length three_rounds" "seconds 302 \<in> {rd_done (three_rounds ! 2) .. rd_done (three_rounds ! 2) + ca_stale_after ?c}"
    by (simp_all add: three_rounds_def c duration_defs)
  have "\<exists>s. fst (get_snapshot (seconds 302) 0 0 (rounds_run ?c (take (Suc 2) three_rounds))) = Inr s \<and>
      s = (rd_read (three_rounds ! 2) ())\<lparr>sn_stale := False\<rparr> \<and> sn_warnings s = []"
    using all at full by blast
  with all show ?thesis by (simp add: three_rounds_def new_snapshot_def)
qed

section \<open>Outages\<close>

definition cache_inv :: "('c, 'f) cache \<Rightarrow> bool" where
  "cache_inv c \<longleftrightarrow> (ca_snap c \<noteq> None \<longrightarrow> ca_collector c \<noteq> None) \<and> 0 < ca_ttl c \<and> 0 < ca_stale_after c"

interpretation snapshot_cache: machine cache_step cache_ok cache_inv
proof
  fix c :: "('c, 'f) cache" and e
  assume "cache_inv c"
  then show "cache_inv (cache_step c e)"
    by (cases e) (auto simp: cache_inv_def prime_def get_snapshot_state finish_refresh_def collect_snapshot_def
        split: option.split sum.split)
qed

lemma new_cache_inv: "cache_inv (new_cache opts)"
  by (simp add: cache_inv_def new_cache_def or_default_def duration_defs)

text \<open>
  An outage is not flagged. Once a snapshot has been collected the collector stays, and
  collecting never fails; so when every source fails, the refresh succeeds, and the last good
  snapshot is replaced by an empty one - no nodes, no alarms, no numbers, nine warnings - that is
  served as fresh.
\<close>

theorem outage_replaces_last_good:
  fixes es :: "(infra_config, 'f) cache_event list"
  assumes "admissible cache_step cache_ok (new_cache opts) es"
    and "ca_snap (run cache_step (new_cache opts) es) \<noteq> None"
    and "covers order" "\<forall>s. failing R s \<noteq> None" "sorts_by nd_name (so_nodes S)" "sorts_by al_name (so_alarms S)"
    and "time_sub t now \<le> ca_stale_after (new_cache opts :: (infra_config, 'f) cache)"
  shows "\<exists>n. fst (get_snapshot t m1 m2 (finish_refresh build (\<lambda>cfg. collect F uni S cfg now order R) now
        (run cache_step (new_cache opts) es))) = Inr n \<and> \<not> sn_stale n \<and> sn_nodes n = [] \<and> sn_alarms n = [] \<and>
    cp_ocpu_used (sn_capacity n) = None \<and> cp_storage_used (sn_capacity n) = None \<and> length (sn_warnings n) = 9"
proof -
  let ?c = "run cache_step (new_cache opts) es :: (infra_config, 'f) cache"
  have inv: "cache_inv ?c" by (rule snapshot_cache.run_inv [OF new_cache_inv assms(1)])
  then obtain cfg where cfg: "ca_collector ?c = Some cfg" using assms(2) by (auto simp: cache_inv_def)
  let ?n = "collect F uni S cfg now order R"
  have "fst (get_snapshot t m1 m2 (finish_refresh build (\<lambda>cfg. collect F uni S cfg now order R) now ?c))
      = Inr (?n\<lparr>sn_stale := time_sub t now > ca_stale_after ?c\<rparr>)"
    by (simp add: get_snapshot_answer finish_refresh_def collect_snapshot_def cfg)
  moreover have "\<not> time_sub t now > ca_stale_after ?c"
    using assms(7) by (simp add: run_same)
  moreover have n: "?n = assemble F uni S cfg now (gather R order)" by (simp add: collect_def gather_def)
  have "got (rd_instances R) [] = []" "got (rd_alarms R) [] = []"
    using assms(4) [rule_format, of Instances] assms(4) [rule_format, of Alarms]
    by (auto simp: complaint_def got_def split: option.splits sum.splits)
  then have "sn_nodes ?n = []" "sn_alarms ?n = []"
    unfolding n using sorts_by_length [OF assms(5), of "[]"] sorts_by_length [OF assms(6), of "[]"]
    by (simp_all add: assemble_def Let_def gather_fields [OF assms(3)])
  moreover have "cp_ocpu_used (sn_capacity ?n) = None" "cp_storage_used (sn_capacity ?n) = None"
    unfolding n using assms(4) [rule_format, of Instances] assms(4) [rule_format, of Backups]
    by (auto simp: assemble_def Let_def gather_ok_src [OF assms(3)] new_snapshot_def)
  moreover have "sn_warnings ?n = warnings_of R"
    unfolding n by (simp add: assemble_def Let_def gather_warnings [OF assms(3)])
  moreover have "length (warning_of R s) = 1" for s
    using assms(4) [rule_format, of s] by (auto simp: warning_of_def)
  then have "length (warnings_of R) = 9" by (simp add: warnings_of_def all_sources_def)
  ultimately show ?thesis by simp
qed

text \<open>The substrate answers once, then goes dark.\<close>

definition first_light :: "(infra_config, int) cache_event list" where
  "first_light = [Primed 1 2, Refreshed (Some (Inr default_config)) (\<lambda>cfg. new_snapshot int_floats 3) 3]"

theorem outage_replaces_last_good_witness:
  "\<exists>n. fst (get_snapshot 9 9 9 (finish_refresh None (\<lambda>cfg. collect int_floats id plain_sorters cfg 8 all_sources dark) 8
        (run cache_step (new_cache no_options) first_light))) = Inr n \<and> \<not> sn_stale n \<and> sn_nodes n = [] \<and> length (sn_warnings n) = 9"
proof -
  have adm: "admissible cache_step cache_ok (new_cache no_options) first_light"
    by (simp add: first_light_def new_cache_def prime_def start_refresh_def is_zero_def)
  have has: "ca_snap (run cache_step (new_cache no_options) first_light) \<noteq> None"
    by (simp add: first_light_def new_cache_def prime_def start_refresh_def is_zero_def finish_refresh_def collect_snapshot_def)
  have fail: "failing dark s \<noteq> None" for s
    by (cases s) (simp_all add: dark_def complaint_def read_metric_def)
  have srt: "sorts_by nd_name (so_nodes plain_sorters)" "sorts_by al_name (so_alarms plain_sorters)"
    by (simp_all add: plain_sorters_def)
  have "time_sub 9 8 \<le> ca_stale_after (new_cache no_options :: (infra_config, int) cache)"
    by (simp add: time_sub_def max_duration_def min_duration_def new_cache_def no_options_def or_default_def duration_defs)
  from outage_replaces_last_good [OF adm has covers_examples(1) allI [OF fail] srt this, of 9 9 None int_floats id]
  show ?thesis by blast
qed

end
