(* ===== verification/Provider.thy ===== *)
theory Provider
  imports Infra
begin

text \<open>
  internal/provider/provider.go, wire.go and token.go: the vocabulary of the \<open>/v0\<close> contract, its
  response bodies as JSON objects, and where a bearer token comes from.
\<close>

section \<open>Vocabulary\<close>

definition contract_version :: string where "contract_version = ''v0''"
definition kind_infra :: string where "kind_infra = ''infra''"

definition capability_instances :: string where "capability_instances = ''instances''"
definition capability_metrics :: string where "capability_metrics = ''metrics''"
definition capability_alarms :: string where "capability_alarms = ''alarms''"
definition capability_ingress :: string where "capability_ingress = ''ingress''"
definition capability_backups :: string where "capability_backups = ''backups''"

lemmas capability_defs = capability_instances_def capability_metrics_def capability_alarms_def
  capability_ingress_def capability_backups_def

definition infra_capabilities :: "string list" where
  "infra_capabilities = [capability_instances, capability_metrics, capability_alarms, capability_ingress, capability_backups]"

definition valid_metric :: "string \<Rightarrow> bool" where
  "valid_metric name \<longleftrightarrow> name \<in> set contract_metrics"

definition valid_capability :: "string \<Rightarrow> bool" where
  "valid_capability name \<longleftrightarrow> name \<in> set infra_capabilities"

text \<open>
  An error is matched by \<open>errors.Is(err, ErrNotImplemented)\<close> (\<open>Absent\<close>) or not (\<open>Broken\<close>, an
  \<open>UpstreamError\<close> included: it shows as the error it wraps).
\<close>

datatype perr = Absent string | Broken string

fun perr_text :: "perr \<Rightarrow> string" where
  "perr_text (Absent e) = e"
| "perr_text (Broken e) = e"

type_synonym ('w, 'a) pact = "'w \<Rightarrow> (perr + 'a) \<times> 'w"

definition err_not_implemented :: perr where
  "err_not_implemented = Absent ''capability not implemented''"

definition upstream :: "string \<Rightarrow> perr" where
  "upstream e = Broken e"

definition not_implemented :: "(string \<Rightarrow> string) \<Rightarrow> string \<Rightarrow> string \<Rightarrow> perr" where
  "not_implemented quote capability provider =
     (if provider = [] then Absent (''capability '' @ quote capability @ '' is served by no configured provider'')
      else Absent (''provider '' @ quote provider @ '' does not implement the '' @ quote capability @ '' capability''))"

section \<open>Paths\<close>

definition path_health :: string where "path_health = ''/healthz''"
definition path_capabilities :: string where "path_capabilities = ''/v0/capabilities''"
definition path_instances :: string where "path_instances = ''/v0/infra/instances''"
definition path_metrics :: string where "path_metrics = ''/v0/infra/metrics''"
definition path_alarms :: string where "path_alarms = ''/v0/infra/alarms''"
definition path_ingress :: string where "path_ingress = ''/v0/infra/ingress''"
definition path_backups :: string where "path_backups = ''/v0/infra/backups''"

lemmas path_defs = path_health_def path_capabilities_def path_instances_def path_metrics_def
  path_alarms_def path_ingress_def path_backups_def

lemma paths_distinct [simp]:
  "path_health \<noteq> path_capabilities" "path_health \<noteq> path_instances" "path_health \<noteq> path_metrics"
  "path_health \<noteq> path_alarms" "path_health \<noteq> path_ingress" "path_health \<noteq> path_backups"
  "path_capabilities \<noteq> path_instances" "path_capabilities \<noteq> path_metrics" "path_capabilities \<noteq> path_alarms"
  "path_capabilities \<noteq> path_ingress" "path_capabilities \<noteq> path_backups" "path_instances \<noteq> path_metrics"
  "path_instances \<noteq> path_alarms" "path_instances \<noteq> path_ingress" "path_instances \<noteq> path_backups"
  "path_metrics \<noteq> path_alarms" "path_metrics \<noteq> path_ingress" "path_metrics \<noteq> path_backups"
  "path_alarms \<noteq> path_ingress" "path_alarms \<noteq> path_backups" "path_ingress \<noteq> path_backups"
  by (simp_all add: path_defs)

lemma capabilities_distinct [simp]:
  "capability_instances \<noteq> capability_metrics" "capability_instances \<noteq> capability_alarms"
  "capability_instances \<noteq> capability_ingress" "capability_instances \<noteq> capability_backups"
  "capability_metrics \<noteq> capability_alarms" "capability_metrics \<noteq> capability_ingress"
  "capability_metrics \<noteq> capability_backups" "capability_alarms \<noteq> capability_ingress"
  "capability_alarms \<noteq> capability_backups" "capability_ingress \<noteq> capability_backups"
  by (simp_all add: capability_defs)

lemmas names_distinct [simp] = paths_distinct [symmetric] capabilities_distinct [symmetric]

definition path_for :: "string \<Rightarrow> string" where
  "path_for capability =
     (if capability = capability_instances then path_instances
      else if capability = capability_metrics then path_metrics
      else if capability = capability_alarms then path_alarms
      else if capability = capability_ingress then path_ingress
      else if capability = capability_backups then path_backups else [])"

lemma path_for_simps [simp]:
  "path_for capability_instances = path_instances" "path_for capability_metrics = path_metrics"
  "path_for capability_alarms = path_alarms" "path_for capability_ingress = path_ingress"
  "path_for capability_backups = path_backups"
  by (simp_all add: path_for_def)

section \<open>Bodies\<close>

record capabilities_body =
  cb_kind :: string
  cb_provider :: string
  cb_capabilities :: "string slice"

record error_body =
  eb_error :: string
  eb_message :: string

definition code_bad_request :: string where "code_bad_request = ''bad_request''"
definition code_unauthorized :: string where "code_unauthorized = ''unauthorized''"
definition code_not_implemented :: string where "code_not_implemented = ''not_implemented''"
definition code_upstream_error :: string where "code_upstream_error = ''upstream_error''"

definition capabilities_json :: "capabilities_body \<Rightarrow> 'f json" where
  "capabilities_json b = J_obj ((''kind'', J_str (cb_kind b)) # j_omit_empty ''provider'' (cb_provider b) @
     [(''capabilities'', j_slice J_str (cb_capabilities b))])"

definition instance_json :: "'f float64 \<Rightarrow> 'f instance_info \<Rightarrow> 'f json" where
  "instance_json F i = J_obj [(''id'', J_str (ii_id i)), (''name'', J_str (ii_name i)), (''state'', J_str (ii_state i)),
     (''shape'', J_str (ii_shape i)), (''ocpus'', j_float F (ii_ocpus i)), (''memoryGb'', j_float F (ii_memory_gb i)),
     (''faultDomain'', J_str (ii_fault_domain i)), (''privateIp'', J_str (ii_private_ip i))]"

text \<open>The encoder lists the keys of a map in sorted order.\<close>

definition series_json :: "'f float64 \<Rightarrow> ('f, 'b) json_io \<Rightarrow> 'f series \<Rightarrow> 'f json" where
  "series_json F io s = J_obj [
     (''dimensions'', J_obj (map (\<lambda>(k, v). (k, J_str v)) (sort_key fst (sr_dimensions s)))),
     (''timestamp'', J_str (jio_time_text io (sr_timestamp s))), (''value'', j_float F (sr_value s))]"

definition alarm_json :: "alarm_status \<Rightarrow> 'f json" where
  "alarm_json a = J_obj [(''name'', J_str (al_name a)), (''severity'', J_str (al_severity a)), (''status'', J_str (al_status a))]"

definition object_json :: "'f float64 \<Rightarrow> ('f, 'b) json_io \<Rightarrow> object_info \<Rightarrow> 'f json" where
  "object_json F io ob = J_obj [(''name'', J_str (ob_name ob)), (''sizeBytes'', j_int F (ob_size ob)),
     (''modified'', J_str (jio_time_text io (ob_modified ob)))]"

definition instances_json :: "'f float64 \<Rightarrow> 'f instance_info slice \<Rightarrow> 'f json" where
  "instances_json F xs = J_obj [(''instances'', j_slice (instance_json F) xs)]"

definition series_body_json :: "'f float64 \<Rightarrow> ('f, 'b) json_io \<Rightarrow> 'f series slice \<Rightarrow> 'f json" where
  "series_body_json F io xs = J_obj [(''series'', j_slice (series_json F io) xs)]"

definition alarms_json :: "alarm_status slice \<Rightarrow> 'f json" where
  "alarms_json xs = J_obj [(''alarms'', j_slice alarm_json xs)]"

definition ingress_json :: "string \<Rightarrow> 'f json" where
  "ingress_json ip = J_obj [(''publicIp'', J_str ip)]"

definition backups_json :: "'f float64 \<Rightarrow> ('f, 'b) json_io \<Rightarrow> object_info slice \<Rightarrow> 'f json" where
  "backups_json F io xs = J_obj [(''objects'', j_slice (object_json F io) xs)]"

definition error_json :: "error_body \<Rightarrow> 'f json" where
  "error_json b = J_obj [(''error'', J_str (eb_error b)), (''message'', J_str (eb_message b))]"

section \<open>Reading bodies\<close>

text \<open>\<open>with_fields names k v\<close> hands \<open>k\<close> the reader of the fields of an object or of \<open>null\<close>.\<close>

definition with_fields :: "string list \<Rightarrow> ((string \<Rightarrow> 'f json) \<Rightarrow> 'a option) \<Rightarrow> 'f json \<Rightarrow> 'a option" where
  "with_fields names k v = (case dec_object v of None \<Rightarrow> None | Some kvs \<Rightarrow> k (get_field names kvs))"

definition dec_capabilities :: "'f json \<Rightarrow> capabilities_body option" where
  "dec_capabilities = with_fields [''kind'', ''provider'', ''capabilities''] (\<lambda>get.
     case (dec_str (get ''kind''), dec_str (get ''provider''), dec_slice dec_str (get ''capabilities'')) of
       (Some kind, Some provider, Some caps) \<Rightarrow> Some \<lparr>cb_kind = kind, cb_provider = provider, cb_capabilities = caps\<rparr>
     | _ \<Rightarrow> None)"

definition dec_instance :: "'f float64 \<Rightarrow> 'f json \<Rightarrow> 'f instance_info option" where
  "dec_instance F = with_fields [''id'', ''name'', ''state'', ''shape'', ''ocpus'', ''memoryGb'', ''faultDomain'', ''privateIp''] (\<lambda>get.
     case (dec_str (get ''id''), dec_str (get ''name''), dec_str (get ''state''), dec_str (get ''shape''),
           dec_float F (get ''ocpus''), dec_float F (get ''memoryGb''), dec_str (get ''faultDomain''), dec_str (get ''privateIp'')) of
       (Some i, Some n, Some st, Some sh, Some oc, Some me, Some fd, Some ip) \<Rightarrow>
         Some \<lparr>ii_id = i, ii_name = n, ii_state = st, ii_shape = sh, ii_ocpus = oc, ii_memory_gb = me,
           ii_fault_domain = fd, ii_private_ip = ip\<rparr>
     | _ \<Rightarrow> None)"

definition dec_series :: "'f float64 \<Rightarrow> ('f, 'b) json_io \<Rightarrow> 'f json \<Rightarrow> 'f series option" where
  "dec_series F io = with_fields [''dimensions'', ''timestamp'', ''value''] (\<lambda>get.
     case (dec_string_map (get ''dimensions''), dec_time (jio_time_parse io) (get ''timestamp''), dec_float F (get ''value'')) of
       (Some d, Some t, Some v) \<Rightarrow> Some \<lparr>sr_dimensions = d, sr_timestamp = t, sr_value = v\<rparr>
     | _ \<Rightarrow> None)"

definition dec_alarm :: "'f json \<Rightarrow> alarm_status option" where
  "dec_alarm = with_fields [''name'', ''severity'', ''status''] (\<lambda>get.
     case (dec_str (get ''name''), dec_str (get ''severity''), dec_str (get ''status'')) of
       (Some n, Some sv, Some st) \<Rightarrow> Some \<lparr>al_name = n, al_severity = sv, al_status = st\<rparr>
     | _ \<Rightarrow> None)"

definition dec_object_info :: "('f, 'b) json_io \<Rightarrow> 'f json \<Rightarrow> object_info option" where
  "dec_object_info io = with_fields [''name'', ''sizeBytes'', ''modified''] (\<lambda>get.
     case (dec_str (get ''name''), dec_int64 (get ''sizeBytes''), dec_time (jio_time_parse io) (get ''modified'')) of
       (Some n, Some z, Some m) \<Rightarrow> Some \<lparr>ob_name = n, ob_size = z, ob_modified = m\<rparr>
     | _ \<Rightarrow> None)"

definition dec_instances :: "'f float64 \<Rightarrow> 'f json \<Rightarrow> 'f instance_info slice option" where
  "dec_instances F = with_fields [''instances''] (\<lambda>get. dec_slice (dec_instance F) (get ''instances''))"

definition dec_series_body :: "'f float64 \<Rightarrow> ('f, 'b) json_io \<Rightarrow> 'f json \<Rightarrow> 'f series slice option" where
  "dec_series_body F io = with_fields [''series''] (\<lambda>get. dec_slice (dec_series F io) (get ''series''))"

definition dec_alarms :: "'f json \<Rightarrow> alarm_status slice option" where
  "dec_alarms = with_fields [''alarms''] (\<lambda>get. dec_slice dec_alarm (get ''alarms''))"

definition dec_ingress :: "'f json \<Rightarrow> string option" where
  "dec_ingress = with_fields [''publicIp''] (\<lambda>get. dec_str (get ''publicIp''))"

definition dec_backups :: "('f, 'b) json_io \<Rightarrow> 'f json \<Rightarrow> object_info slice option" where
  "dec_backups io = with_fields [''objects''] (\<lambda>get. dec_slice (dec_object_info io) (get ''objects''))"

section \<open>Tokens\<close>

definition static_token :: "string \<Rightarrow> ('w, string) act" where
  "static_token token = ret token"

text \<open>\<open>read\<close> is \<open>os.ReadFile\<close>; the file is read on every call.\<close>

definition file_token :: "(string \<Rightarrow> ('w, string) act) \<Rightarrow> string \<Rightarrow> ('w, string) act" where
  "file_token read path = seq (read path) (\<lambda>e. ''read provider token from '' @ path @ '': '' @ e) (\<lambda>raw.
     let token = trim_space raw in
     if token = [] then fail_with (''provider token file '' @ path @ '' is empty'') else ret token)"

section \<open>Requests and responses\<close>

record http_request =
  hq_method :: string
  hq_path :: string
  hq_query :: "(string \<times> string) list"
  hq_auth :: string

record 'b http_response =
  hs_code :: int
  hs_status :: string
  hs_body :: 'b

text \<open>\<open>URL.Query().Get\<close>: the first value of a key.\<close>

definition query_get :: "(string \<times> string) list \<Rightarrow> string \<Rightarrow> string" where
  "query_get q k = (case map_of q k of None \<Rightarrow> [] | Some v \<Rightarrow> v)"

section \<open>What survives the wire\<close>

definition canon_series :: "'f series \<Rightarrow> 'f series" where
  "canon_series s = s\<lparr>sr_dimensions := sort_key fst (sr_dimensions s)\<rparr>"

lemma with_fields_obj: "with_fields names k (J_obj kvs) = k (get_field names kvs)"
  by (simp add: with_fields_def)

text \<open>The fields of an encoded struct, read back one by one.\<close>

lemma get_field_Cons:
  "get_field names ((k, v) # kvs) n = (if field_for names k = Some n \<and> (\<forall>(k', v') \<in> set kvs. field_for names k' \<noteq> Some n)
     then v else get_field names kvs n)"
proof (cases "filter (\<lambda>(k, v). field_for names k = Some n) kvs")
  case Nil
  then have "\<forall>(k', v') \<in> set kvs. field_for names k' \<noteq> Some n" by (auto simp: filter_empty_conv)
  with Nil show ?thesis by (auto simp: get_field_def)
next
  case (Cons a as)
  then have "a \<in> set (filter (\<lambda>(k, v). field_for names k = Some n) kvs)" by simp
  then have "\<not> (\<forall>(k', v') \<in> set kvs. field_for names k' \<noteq> Some n)" by auto
  with Cons show ?thesis by (auto simp: get_field_def)
qed

lemma get_field_Nil [simp]: "get_field names [] n = J_null"
  by (simp add: get_field_def)

section \<open>Round trips\<close>

lemma dec_instance_json [simp]: "dec_instance F (instance_json F i) = Some i"
  by (simp add: dec_instance_def instance_json_def with_fields_obj get_field_Cons)

lemma dec_alarm_json [simp]: "dec_alarm (alarm_json a) = Some a"
  by (simp add: dec_alarm_def alarm_json_def with_fields_obj get_field_Cons)

definition time_survives :: "('f, 'b) json_io \<Rightarrow> instant \<Rightarrow> bool" where
  "time_survives io t \<longleftrightarrow> jio_time_parse io (jio_time_text io t) = Some t"

lemma dec_series_json: "time_survives io (sr_timestamp s) \<Longrightarrow> dec_series F io (series_json F io s) = Some (canon_series s)"
  by (simp add: dec_series_def series_json_def with_fields_obj get_field_Cons time_survives_def canon_series_def)

definition int64 :: "int \<Rightarrow> bool" where
  "int64 n \<longleftrightarrow> min_duration \<le> n \<and> n \<le> max_duration"

lemma dec_object_json:
  "time_survives io (ob_modified ob) \<Longrightarrow> int64 (ob_size ob) \<Longrightarrow> dec_object_info io (object_json F io ob) = Some ob"
  by (simp add: dec_object_info_def object_json_def with_fields_obj get_field_Cons time_survives_def int64_def j_int_def)

end
