(* ===== verification/ProviderServer.thy ===== *)
theory ProviderServer
  imports Provider GoTime
begin

text \<open>
  internal/provider/server.go: a provider served over the contract. Requests carry a clean path
  (net/http redirects the others before any handler runs, and drops the body of an answer to HEAD);
  the substrate is a state \<open>'w\<close> the
  provider's methods read through.
\<close>

section \<open>strconv.Atoi\<close>

definition parse_digits :: "string \<Rightarrow> int option" where
  "parse_digits s = (if s \<noteq> [] \<and> list_all is_digit s then Some (int (num_of s)) else None)"

definition atoi :: "string \<Rightarrow> int option" where
  "atoi s = (let n = (case s of
         c # t \<Rightarrow> if c = CHR ''-'' then map_option uminus (parse_digits t)
                  else if c = CHR ''+'' then parse_digits t else parse_digits s
       | [] \<Rightarrow> None)
     in case n of Some i \<Rightarrow> if int64 i then Some i else None | None \<Rightarrow> None)"

section \<open>The server\<close>

record ('w, 'f) infra_provider =
  pv_name :: string
  pv_capabilities :: "string list"
  pv_instances :: "('w, 'f instance_info slice) pact"
  pv_metric :: "string \<Rightarrow> duration \<Rightarrow> ('w, 'f series slice) pact"
  pv_alarms :: "('w, alarm_status slice) pact"
  pv_ingress_address :: "('w, string) pact"
  pv_backup_objects :: "('w, object_info slice) pact"

record ('w, 'f, 'b) provider_server =
  ps_provider :: "('w, 'f) infra_provider"
  ps_token :: "('w, string) act option"
  ps_caps :: "string list"
  ps_floats :: "'f float64"
  ps_json :: "('f, 'b) json_io"
  ps_quote :: "string \<Rightarrow> string"

definition new_provider_server ::
    "'f float64 \<Rightarrow> ('f, 'b) json_io \<Rightarrow> (string \<Rightarrow> string) \<Rightarrow> ('w, 'f) infra_provider \<Rightarrow> ('w, string) act option \<Rightarrow>
     ('w, 'f, 'b) provider_server" where
  "new_provider_server F io quote p token =
     \<lparr>ps_provider = p, ps_token = token, ps_caps = pv_capabilities p, ps_floats = F, ps_json = io, ps_quote = quote\<rparr>"

type_synonym ('w, 'b) http_handler = "http_request \<Rightarrow> 'w \<Rightarrow> 'b http_response \<times> 'w"

text \<open>The status line of the codes in use.\<close>

definition status_text :: "int \<Rightarrow> string" where
  "status_text code = (if code = 200 then ''200 OK'' else if code = 400 then ''400 Bad Request''
     else if code = 401 then ''401 Unauthorized'' else if code = 404 then ''404 Not Found''
     else if code = 405 then ''405 Method Not Allowed'' else if code = 501 then ''501 Not Implemented''
     else if code = 502 then ''502 Bad Gateway'' else fmt_int code)"

text \<open>The status is sent before the body is encoded: a body that does not encode is empty.\<close>

definition write_json :: "('f, 'b) json_io \<Rightarrow> int \<Rightarrow> 'f json \<Rightarrow> 'b http_response" where
  "write_json io code body = \<lparr>hs_code = code, hs_status = status_text code,
     hs_body = (case jio_print io body of Some b \<Rightarrow> b | None \<Rightarrow> jio_empty io)\<rparr>"

definition write_error :: "('f, 'b) json_io \<Rightarrow> int \<Rightarrow> string \<Rightarrow> string \<Rightarrow> 'b http_response" where
  "write_error io code err message = write_json io code (error_json \<lparr>eb_error = err, eb_message = message\<rparr>)"

definition allow_get :: "('f, 'b) json_io \<Rightarrow> ('w, 'b) http_handler \<Rightarrow> ('w, 'b) http_handler" where
  "allow_get io next rq w = (if hq_method rq = ''GET'' \<or> hq_method rq = ''HEAD'' then next rq w
     else (write_error io 405 code_bad_request ''only GET is supported'', w))"

definition bearer_token :: "string \<Rightarrow> string" where
  "bearer_token auth = (case cut (CHR '' '') auth of
     None \<Rightarrow> []
   | Some (scheme, token) \<Rightarrow> if fold_key scheme = ''bearer'' then trim_space token else [])"

definition authenticated :: "('w, 'f, 'b) provider_server \<Rightarrow> ('w, 'b) http_handler \<Rightarrow> ('w, 'b) http_handler" where
  "authenticated s next rq w = (case ps_token s of
     None \<Rightarrow> next rq w
   | Some token \<Rightarrow> (case token w of
       (Inl e, w) \<Rightarrow> (write_error (ps_json s) 401 code_unauthorized ''provider token unavailable'', w)
     | (Inr want, w) \<Rightarrow> if bearer_token (hq_auth rq) \<noteq> want
         then (write_error (ps_json s) 401 code_unauthorized ''missing or invalid bearer token'', w)
         else next rq w))"

definition absent_message :: "('w, 'f, 'b) provider_server \<Rightarrow> string \<Rightarrow> string" where
  "absent_message s capability = ''capability '' @ capability @ '' is not implemented by provider '' @ pv_name (ps_provider s)"

definition capability_guard ::
    "('w, 'f, 'b) provider_server \<Rightarrow> string \<Rightarrow> ('w, 'b) http_handler \<Rightarrow> ('w, 'b) http_handler" where
  "capability_guard s name next rq w = (if name \<notin> set (ps_caps s)
     then (write_error (ps_json s) 501 code_not_implemented (absent_message s name), w)
     else next rq w)"

definition write_failure :: "('w, 'f, 'b) provider_server \<Rightarrow> string \<Rightarrow> perr \<Rightarrow> 'b http_response" where
  "write_failure s capability err = (case err of
     Absent _ \<Rightarrow> write_error (ps_json s) 501 code_not_implemented (absent_message s capability)
   | Broken e \<Rightarrow> write_error (ps_json s) 502 code_upstream_error (capability @ '': '' @ e))"

text \<open>What the five capability handlers share: call the provider, encode what it returned.\<close>

definition respond ::
    "('w, 'f, 'b) provider_server \<Rightarrow> string \<Rightarrow> ('w, 'a) pact \<Rightarrow> ('a \<Rightarrow> 'f json) \<Rightarrow> 'w \<Rightarrow> 'b http_response \<times> 'w" where
  "respond s capability m encode w = (case m w of
     (Inl e, w) \<Rightarrow> (write_failure s capability e, w)
   | (Inr x, w) \<Rightarrow> (write_json (ps_json s) 200 (encode x), w))"

text \<open>A nil list is replaced by an empty one, so the body holds an array.\<close>

definition non_nil :: "'a slice \<Rightarrow> 'a slice" where
  "non_nil xs = (case xs of None \<Rightarrow> Some [] | Some ys \<Rightarrow> Some ys)"

definition serve_health :: "('w, 'f, 'b) provider_server \<Rightarrow> ('w, 'b) http_handler" where
  "serve_health s = allow_get (ps_json s) (\<lambda>rq w. (write_json (ps_json s) 200 (J_obj [(''status'', J_str ''ok'')]), w))"

definition serve_capabilities :: "('w, 'f, 'b) provider_server \<Rightarrow> ('w, 'b) http_handler" where
  "serve_capabilities s = allow_get (ps_json s) (\<lambda>rq w. (write_json (ps_json s) 200 (capabilities_json
     \<lparr>cb_kind = kind_infra, cb_provider = pv_name (ps_provider s),
      cb_capabilities = Some (filter (\<lambda>c. c \<in> set (ps_caps s)) infra_capabilities)\<rparr>), w))"

definition serve_instances :: "('w, 'f, 'b) provider_server \<Rightarrow> ('w, 'b) http_handler" where
  "serve_instances s = allow_get (ps_json s) (\<lambda>rq. respond s capability_instances (pv_instances (ps_provider s))
     (\<lambda>xs. instances_json (ps_floats s) (non_nil xs)))"

definition serve_metrics :: "('w, 'f, 'b) provider_server \<Rightarrow> ('w, 'b) http_handler" where
  "serve_metrics s = allow_get (ps_json s) (\<lambda>rq w.
     let metric = query_get (hq_query rq) ''metric'' in
     if \<not> valid_metric metric
     then (write_error (ps_json s) 400 code_bad_request (''unknown metric '' @ ps_quote s metric @
             ''; the contract defines '' @ join_with '', '' contract_metrics), w)
     else (case atoi (query_get (hq_query rq) ''window'') of
         None \<Rightarrow> (write_error (ps_json s) 400 code_bad_request ''window must be a positive number of seconds'', w)
       | Some n \<Rightarrow> if n \<le> 0
           then (write_error (ps_json s) 400 code_bad_request ''window must be a positive number of seconds'', w)
           else respond s capability_metrics (pv_metric (ps_provider s) metric (wrap64 (seconds n)))
             (\<lambda>xs. series_body_json (ps_floats s) (ps_json s) (non_nil xs)) w))"

definition serve_alarms :: "('w, 'f, 'b) provider_server \<Rightarrow> ('w, 'b) http_handler" where
  "serve_alarms s = allow_get (ps_json s) (\<lambda>rq. respond s capability_alarms (pv_alarms (ps_provider s))
     (\<lambda>xs. alarms_json (non_nil xs)))"

definition serve_ingress :: "('w, 'f, 'b) provider_server \<Rightarrow> ('w, 'b) http_handler" where
  "serve_ingress s = allow_get (ps_json s) (\<lambda>rq. respond s capability_ingress (pv_ingress_address (ps_provider s)) ingress_json)"

definition serve_backups :: "('w, 'f, 'b) provider_server \<Rightarrow> ('w, 'b) http_handler" where
  "serve_backups s = allow_get (ps_json s) (\<lambda>rq. respond s capability_backups (pv_backup_objects (ps_provider s))
     (\<lambda>xs. backups_json (ps_floats s) (ps_json s) (non_nil xs)))"

text \<open>The routes of \<open>NewServer\<close>.\<close>

definition serve_http :: "('w, 'f, 'b) provider_server \<Rightarrow> ('w, 'b) http_handler" where
  "serve_http s rq =
     (let guarded = (\<lambda>c h. authenticated s (capability_guard s c h)) in
      if hq_path rq = path_health then serve_health s rq
      else if hq_path rq = path_capabilities then authenticated s (serve_capabilities s) rq
      else if hq_path rq = path_instances then guarded capability_instances (serve_instances s) rq
      else if hq_path rq = path_metrics then guarded capability_metrics (serve_metrics s) rq
      else if hq_path rq = path_alarms then guarded capability_alarms (serve_alarms s) rq
      else if hq_path rq = path_ingress then guarded capability_ingress (serve_ingress s) rq
      else if hq_path rq = path_backups then guarded capability_backups (serve_backups s) rq
      else (\<lambda>w. (write_error (ps_json s) 404 code_bad_request (''no such path: '' @ hq_path rq), w)))"

end
