(* ===== verification/ProviderClient.thy ===== *)
theory ProviderClient
  imports ProviderServer
begin

text \<open>
  internal/provider/client.go: Core's reads of one provider, with what it serves discovered and
  remembered. The network, the clock and the token file are a state \<open>'w\<close>; the client's own state
  is what the provider last declared, and when.
\<close>

record ('w, 'f, 'b) client =
  cl_name :: string
  cl_base_url :: string
  cl_token :: "('w, string) act option"
  cl_send :: "string \<Rightarrow> http_request \<Rightarrow> ('w, 'b http_response) act"
  cl_bad_url :: "string \<Rightarrow> string option"
  cl_now :: "'w \<Rightarrow> instant \<times> 'w"
  cl_floats :: "'f float64"
  cl_json :: "('f, 'b) json_io"
  cl_quote :: "string \<Rightarrow> string"

record 'w client_state =
  cs_declared :: "string list option"
  cs_known_at :: instant
  cs_world :: 'w

definition capability_ttl :: duration where
  "capability_ttl = minutes 5"

definition new_client ::
    "string \<Rightarrow> string \<Rightarrow> ('w, string) act option \<Rightarrow> ('w, 'f, 'b) client \<Rightarrow> ('w, 'f, 'b) client" where
  "new_client name base token env = env\<lparr>cl_name := name, cl_base_url := trim_suffix base ''/'', cl_token := token\<rparr>"

definition fresh_client :: "'w \<Rightarrow> 'w client_state" where
  "fresh_client w = \<lparr>cs_declared = None, cs_known_at = zero_instant, cs_world = w\<rparr>"

section \<open>One call\<close>

definition provider_prefix :: "('w, 'f, 'b) client \<Rightarrow> string" where
  "provider_prefix c = ''provider '' @ cl_quote c (cl_name c) @ '': ''"

text \<open>The message of an error body, or the trimmed text of a body that has none.\<close>

definition error_message :: "'f json \<Rightarrow> string" where
  "error_message v = (case dec_object v of None \<Rightarrow> []
     | Some kvs \<Rightarrow> (case get_field [''error'', ''message''] kvs ''message'' of J_str m \<Rightarrow> m | _ \<Rightarrow> []))"

definition status_error :: "('w, 'f, 'b) client \<Rightarrow> 'b http_response \<Rightarrow> perr" where
  "status_error c res =
     (let raw = jio_limit (cl_json c) 8192 (hs_body res);
          message = (case jio_parse (cl_json c) raw of None \<Rightarrow> [] | Some v \<Rightarrow> error_message v);
          detail = (if message = [] then trim_space (jio_text (cl_json c) raw) else message)
      in if hs_code res = 501 then Absent (provider_prefix c @ detail)
         else Broken (provider_prefix c @ hs_status res @ '': '' @ detail))"

definition auth_header :: "('w, 'f, 'b) client \<Rightarrow> ('w, string) act" where
  "auth_header c = (case cl_token c of None \<Rightarrow> ret []
     | Some token \<Rightarrow> seq token (\<lambda>e. provider_prefix c @ e) (\<lambda>t. ret (''Bearer '' @ t)))"

text \<open>\<open>decode\<close> reads the parsed body; \<open>kind\<close> names its destination for the decoder's complaint.\<close>

definition client_get ::
    "('w, 'f, 'b) client \<Rightarrow> string \<Rightarrow> (string \<times> string) list \<Rightarrow> string \<Rightarrow> ('f json \<Rightarrow> 'a option) \<Rightarrow> ('w, 'a) pact" where
  "client_get c path query kind decode w =
     (case cl_bad_url c (cl_base_url c @ path) of
        Some e \<Rightarrow> (Inl (Broken (provider_prefix c @ e)), w)
      | None \<Rightarrow> (case auth_header c w of
          (Inl e, w) \<Rightarrow> (Inl (Broken e), w)
        | (Inr auth, w) \<Rightarrow>
          (case cl_send c (cl_base_url c) \<lparr>hq_method = ''GET'', hq_path = path, hq_query = query, hq_auth = auth\<rparr> w of
            (Inl e, w) \<Rightarrow> (Inl (Broken (provider_prefix c @ e)), w)
          | (Inr res, w) \<Rightarrow>
             if hs_code res \<noteq> 200 then (Inl (status_error c res), w)
             else (case Option.bind (jio_decode (cl_json c) (hs_body res)) decode of
                 None \<Rightarrow> (Inl (Broken (provider_prefix c @ ''decode '' @ path @ '': '' @ jio_refusal (cl_json c) kind (hs_body res))), w)
               | Some x \<Rightarrow> (Inr x, w)))))"

section \<open>Discovery\<close>

text \<open>A pact of the network inside the client's state.\<close>

definition on_world :: "('w, 'a) pact \<Rightarrow> ('w client_state, 'a) pact" where
  "on_world m s = (case m (cs_world s) of (r, w) \<Rightarrow> (r, s\<lparr>cs_world := w\<rparr>))"

definition slice_list :: "'a slice \<Rightarrow> 'a list" where
  "slice_list xs = (case xs of None \<Rightarrow> [] | Some ys \<Rightarrow> ys)"

definition client_capabilities :: "('w, 'f, 'b) client \<Rightarrow> ('w client_state, string list) pact" where
  "client_capabilities c s =
     (case on_world (client_get c path_capabilities [] ''capabilities'' dec_capabilities) s of
        (Inl e, s) \<Rightarrow> (Inl e, s)
      | (Inr body, s) \<Rightarrow>
          if cb_kind body \<noteq> kind_infra
          then (Inl (Broken (''provider '' @ cl_quote c (cl_name c) @ '' declares kind '' @ cl_quote c (cb_kind body) @
                 '', not '' @ cl_quote c kind_infra)), s)
          else (let declared = filter valid_capability (slice_list (cb_capabilities body)) in
            case cl_now c (cs_world s) of (now, w) \<Rightarrow>
              (Inr declared, s\<lparr>cs_declared := Some declared, cs_known_at := now, cs_world := w\<rparr>)))"

text \<open>The clock is read only when something has been declared.\<close>

definition known_fresh :: "('w, 'f, 'b) client \<Rightarrow> 'w client_state \<Rightarrow> bool \<times> 'w client_state" where
  "known_fresh c s = (if cs_declared s = None then (False, s)
     else (case cl_now c (cs_world s) of (now, w) \<Rightarrow>
       (\<not> time_sub now (cs_known_at s) > capability_ttl, s\<lparr>cs_world := w\<rparr>)))"

definition client_supports :: "('w, 'f, 'b) client \<Rightarrow> string \<Rightarrow> ('w client_state, unit) pact" where
  "client_supports c capability s =
     (let check = (\<lambda>s. if cs_declared s \<noteq> None \<and> capability \<in> set (the (cs_declared s)) then (Inr (), s)
                       else (Inl (not_implemented (cl_quote c) capability (cl_name c)), s)) in
      case known_fresh c s of
        (True, s) \<Rightarrow> check s
      | (False, s) \<Rightarrow> (case client_capabilities c s of
          (Inl e, s) \<Rightarrow> (Inl e, s)
        | (Inr _, s) \<Rightarrow> check s))"

section \<open>The five reads\<close>

definition client_read ::
    "('w, 'f, 'b) client \<Rightarrow> string \<Rightarrow> (string \<times> string) list \<Rightarrow> ('f json \<Rightarrow> 'a option) \<Rightarrow> ('w client_state, 'a) pact" where
  "client_read c capability query decode s = (case client_supports c capability s of
     (Inl e, s) \<Rightarrow> (Inl e, s)
   | (Inr _, s) \<Rightarrow> on_world (client_get c (path_for capability) query capability decode) s)"

definition client_list_instances :: "('w, 'f, 'b) client \<Rightarrow> ('w client_state, 'f instance_info slice) pact" where
  "client_list_instances c = client_read c capability_instances [] (dec_instances (cl_floats c))"

definition window_seconds :: "duration \<Rightarrow> int" where
  "window_seconds window = (let n = (if window \<ge> 0 then window div 1000000000 else - (- window div 1000000000))
     in if n \<le> 0 then 1 else n)"

definition client_query_metric ::
    "('w, 'f, 'b) client \<Rightarrow> string \<Rightarrow> duration \<Rightarrow> ('w client_state, 'f series slice) pact" where
  "client_query_metric c metric window = client_read c capability_metrics
     [(''metric'', metric), (''window'', fmt_int (window_seconds window))] (dec_series_body (cl_floats c) (cl_json c))"

definition client_list_alarm_statuses :: "('w, 'f, 'b) client \<Rightarrow> ('w client_state, alarm_status slice) pact" where
  "client_list_alarm_statuses c = client_read c capability_alarms [] dec_alarms"

definition client_ingress_public_ip :: "('w, 'f, 'b) client \<Rightarrow> ('w client_state, string) pact" where
  "client_ingress_public_ip c = client_read c capability_ingress [] dec_ingress"

definition client_list_objects :: "('w, 'f, 'b) client \<Rightarrow> ('w client_state, object_info slice) pact" where
  "client_list_objects c = client_read c capability_backups [] (dec_backups (cl_json c))"

section \<open>Standing in for nobody\<close>

definition unimplemented_err :: "(string \<Rightarrow> string) \<Rightarrow> string \<Rightarrow> perr" where
  "unimplemented_err quote capability = not_implemented quote capability []"

end
