(* ===== verification/ProviderSpecs.thy ===== *)
theory ProviderSpecs
  imports ProviderClient
begin

text \<open>
  Core reading a provider over the contract: what a caller without the token can learn, and what
  arrives at the client when both ends are this code. The wire between a client and a server is a
  locale; its laws are those of a transport that delivers requests and replies.
\<close>

section \<open>Without the token\<close>

lemma authenticated_refuses:
  assumes "ps_token s = Some token"
    and "case token w of (Inl _, _) \<Rightarrow> True | (Inr want, _) \<Rightarrow> bearer_token (hq_auth rq) \<noteq> want"
  shows "authenticated (s\<lparr>ps_provider := p, ps_caps := caps\<rparr>) h' rq w = authenticated s h rq w"
    "hs_code (fst (authenticated s h rq w)) = 401"
  using assms by (auto simp: authenticated_def write_error_def write_json_def split: prod.splits sum.splits)

lemma refused_code:
  assumes "ps_token s = Some token" "hq_path rq \<noteq> path_health"
    and "case token w of (Inl _, _) \<Rightarrow> True | (Inr want, _) \<Rightarrow> bearer_token (hq_auth rq) \<noteq> want"
  shows "hs_code (fst (serve_http s rq w)) =
      (if hq_path rq \<in> set (path_capabilities # map path_for infra_capabilities) then 401 else 404)"
proof -
  have "path_for ` set infra_capabilities = {path_instances, path_metrics, path_alarms, path_ingress, path_backups}"
    by (auto simp: infra_capabilities_def)
  moreover have "hs_code (write_error io code e m) = code" for io :: "('b, 'c) json_io" and code e m
    by (simp add: write_error_def write_json_def)
  ultimately show ?thesis
    using assms(2) by (simp add: serve_http_def Let_def authenticated_refuses(2) [OF assms(1,3)])
qed

text \<open>
  C26. A caller who does not present the token learns nothing of the provider: whatever provider
  and capabilities the server holds, the response and the effect are the same, and it is a 401 or,
  off the contract's paths, a 404. The same goes for everybody while the token cannot be read.
\<close>

theorem unauthorized_learns_nothing:
  assumes "ps_token s = Some token" "hq_path rq \<noteq> path_health"
    and "case token w of (Inl _, _) \<Rightarrow> True | (Inr want, _) \<Rightarrow> bearer_token (hq_auth rq) \<noteq> want"
  shows "serve_http (s\<lparr>ps_provider := p, ps_caps := caps\<rparr>) rq w = serve_http s rq w \<and>
    hs_code (fst (serve_http s rq w)) =
      (if hq_path rq \<in> set (path_capabilities # map path_for infra_capabilities) then 401 else 404)"
proof -
  have "serve_http (s\<lparr>ps_provider := p, ps_caps := caps\<rparr>) rq w = serve_http s rq w"
    using assms(2) by (simp add: serve_http_def Let_def authenticated_refuses(1) [OF assms(1,3), where p = p and caps = caps])
  with refused_code [OF assms] show ?thesis by simp
qed

section \<open>Numbers in queries\<close>

lemma num_of_digits [simp]: "num_of (digits n) = n"
proof (induction n rule: digits.induct)
  case (1 n)
  show ?case
  proof (cases "n < 10")
    case True
    then show ?thesis by (subst digits.simps) (simp add: num_of_def digit_val_def of_char_of)
  next
    case False
    with 1 have "num_of (digits (n div 10)) = n div 10" by blast
    with False show ?thesis by (subst digits.simps) (simp add: num_of_append digit_val_def of_char_of)
  qed
qed

lemma digits_nonempty: "digits n \<noteq> []"
  by (subst digits.simps) simp

lemma atoi_fmt_int: "0 \<le> n \<Longrightarrow> int64 n \<Longrightarrow> atoi (fmt_int n) = Some n"
proof -
  assume n: "0 \<le> n" "int64 n"
  have d: "list_all is_digit (digits (nat n))" by (rule digits_are_digits)
  obtain c t where ct: "digits (nat n) = c # t" using digits_nonempty by (metis list.exhaust)
  have "\<not> is_digit (CHR ''-'')" "\<not> is_digit (CHR ''+'')" by (simp_all add: is_digit_def)
  with d ct have "c \<noteq> CHR ''-''" "c \<noteq> CHR ''+''" by auto
  moreover have "parse_digits (digits (nat n)) = Some n"
    using d n(1) by (simp add: parse_digits_def digits_nonempty)
  ultimately show ?thesis using n by (simp add: atoi_def fmt_int_def ct)
qed

section \<open>The wire\<close>

definition survives :: "('f, 'b) json_io \<Rightarrow> 'f json \<Rightarrow> bool" where
  "survives io v \<longleftrightarrow> (\<exists>b. jio_print io v = Some b \<and> jio_decode io b = Some v)"

lemma survives_read: "survives io v \<Longrightarrow> jio_decode io (hs_body (write_json io code v)) = Some v"
  by (auto simp: survives_def write_json_def)

text \<open>The paths of the contract; its clients ask for no others.\<close>

definition contract_paths :: "string list" where
  "contract_paths = [path_capabilities, path_instances, path_metrics, path_alarms, path_ingress, path_backups]"

lemma contract_paths_mem [simp]:
  "path_capabilities \<in> set contract_paths" "path_instances \<in> set contract_paths" "path_metrics \<in> set contract_paths"
  "path_alarms \<in> set contract_paths" "path_ingress \<in> set contract_paths" "path_backups \<in> set contract_paths"
  by (simp_all add: contract_paths_def)

text \<open>A contract call with the token \<open>t\<close>, and what the server declares.\<close>

definition served :: "('w, 'f, 'b) provider_server \<Rightarrow> string \<Rightarrow> string \<Rightarrow> (string \<times> string) list \<Rightarrow> 'w \<Rightarrow> 'b http_response \<times> 'w" where
  "served srv t path q w = serve_http srv \<lparr>hq_method = ''GET'', hq_path = path, hq_query = q, hq_auth = ''Bearer '' @ t\<rparr> w"

definition declared_by :: "('w, 'f, 'b) provider_server \<Rightarrow> string list" where
  "declared_by srv = filter (\<lambda>c. c \<in> set (ps_caps srv)) infra_capabilities"

definition discovery_of :: "('w, 'f, 'b) provider_server \<Rightarrow> capabilities_body" where
  "discovery_of srv = \<lparr>cb_kind = kind_infra, cb_provider = pv_name (ps_provider srv), cb_capabilities = Some (declared_by srv)\<rparr>"

lemma valid_declared: "filter valid_capability (declared_by srv) = declared_by srv"
  unfolding declared_by_def by (rule filter_True) (simp add: valid_capability_def)

locale guarded_server =
  fixes srv :: "('w, 'f, 'b) provider_server"
    and t :: string
  assumes guarded: "ps_token srv = Some (ret t)" "trim_space t = t"
begin

lemma bearer_ok: "bearer_token (''Bearer '' @ t) = t"
proof -
  have "fold_key ''Bearer'' = ''bearer''" by code_simp
  then show ?thesis using guarded(2) by (simp add: bearer_token_def)
qed

lemma admitted: "authenticated srv h \<lparr>hq_method = m, hq_path = path, hq_query = q, hq_auth = ''Bearer '' @ t\<rparr> w
    = h \<lparr>hq_method = m, hq_path = path, hq_query = q, hq_auth = ''Bearer '' @ t\<rparr> w"
  using bearer_ok by (simp add: authenticated_def guarded(1))

lemma served_capabilities: "served srv t path_capabilities [] w = (write_json (ps_json srv) 200 (capabilities_json (discovery_of srv)), w)"
  by (simp add: served_def serve_http_def Let_def admitted serve_capabilities_def allow_get_def discovery_of_def declared_by_def del: append.simps)

lemma served_instances: "served srv t path_instances q w = (if capability_instances \<in> set (ps_caps srv)
    then respond srv capability_instances (pv_instances (ps_provider srv)) (\<lambda>xs. instances_json (ps_floats srv) (non_nil xs)) w
    else (write_error (ps_json srv) 501 code_not_implemented (absent_message srv capability_instances), w))"
  by (simp add: served_def serve_http_def Let_def admitted capability_guard_def serve_instances_def allow_get_def del: append.simps)

lemma served_alarms: "served srv t path_alarms q w = (if capability_alarms \<in> set (ps_caps srv)
    then respond srv capability_alarms (pv_alarms (ps_provider srv)) (\<lambda>xs. alarms_json (non_nil xs)) w
    else (write_error (ps_json srv) 501 code_not_implemented (absent_message srv capability_alarms), w))"
  by (simp add: served_def serve_http_def Let_def admitted capability_guard_def serve_alarms_def allow_get_def del: append.simps)

lemma served_ingress: "served srv t path_ingress q w = (if capability_ingress \<in> set (ps_caps srv)
    then respond srv capability_ingress (pv_ingress_address (ps_provider srv)) ingress_json w
    else (write_error (ps_json srv) 501 code_not_implemented (absent_message srv capability_ingress), w))"
  by (simp add: served_def serve_http_def Let_def admitted capability_guard_def serve_ingress_def allow_get_def del: append.simps)

lemma served_backups: "served srv t path_backups q w = (if capability_backups \<in> set (ps_caps srv)
    then respond srv capability_backups (pv_backup_objects (ps_provider srv)) (\<lambda>xs. backups_json (ps_floats srv) (ps_json srv) (non_nil xs)) w
    else (write_error (ps_json srv) 501 code_not_implemented (absent_message srv capability_backups), w))"
  by (simp add: served_def serve_http_def Let_def admitted capability_guard_def serve_backups_def allow_get_def del: append.simps)

lemma served_metrics:
  assumes "capability_metrics \<in> set (ps_caps srv)" "valid_metric (query_get q ''metric'')"
    "atoi (query_get q ''window'') = Some k" "0 < k"
  shows "served srv t path_metrics q w = respond srv capability_metrics
    (pv_metric (ps_provider srv) (query_get q ''metric'') (wrap64 (seconds k)))
    (\<lambda>xs. series_body_json (ps_floats srv) (ps_json srv) (non_nil xs)) w"
  using assms
  by (simp add: served_def serve_http_def Let_def admitted capability_guard_def serve_metrics_def allow_get_def del: append.simps)

lemma served_metrics_absent: "capability_metrics \<notin> set (ps_caps srv) \<Longrightarrow> served srv t path_metrics q w
    = (write_error (ps_json srv) 501 code_not_implemented (absent_message srv capability_metrics), w)"
  by (simp add: served_def serve_http_def Let_def admitted capability_guard_def del: append.simps)

lemma served_metrics_refused:
  assumes "capability_metrics \<in> set (ps_caps srv)"
    "\<not> valid_metric (query_get q ''metric'') \<or> atoi (query_get q ''window'') = None"
  shows "\<exists>e m. served srv t path_metrics q w = (write_error (ps_json srv) 400 e m, w)"
  using assms
  by (auto simp: served_def serve_http_def Let_def admitted capability_guard_def serve_metrics_def allow_get_def simp del: append.simps)

end

text \<open>
  A client at the other end of a transport that delivers: its base URL makes good URLs of the paths
  of the contract, and a request for one of them reaches the server.
\<close>

locale provider_link = guarded_server srv t
  for srv :: "('w, 'f, 'b) provider_server" and t :: string +
  fixes c :: "('w, 'f, 'b) client"
  assumes delivers: "hq_path rq \<in> set contract_paths \<Longrightarrow>
      cl_send c (cl_base_url c) rq w = (case serve_http srv rq w of (res, w') \<Rightarrow> (Inr res, w'))"
    and good_url: "path \<in> set contract_paths \<Longrightarrow> cl_bad_url c (cl_base_url c @ path) = None"
    and shared: "cl_token c = Some (ret t)"
    and same_json: "cl_json c = ps_json srv" "cl_floats c = ps_floats srv"
begin

lemma auth_ok: "auth_header c w = (Inr (''Bearer '' @ t), w)"
  by (simp add: auth_header_def shared act_simps)

lemma get_ok:
  assumes "path \<in> set contract_paths" "served srv t path q w = (res, w')" "hs_code res = 200" "jio_decode (cl_json c) (hs_body res) = Some v" "decode v = Some x"
  shows "client_get c path q kind decode w = (Inr x, w')"
  using assms by (simp add: client_get_def good_url auth_ok delivers served_def)

lemma get_failed:
  assumes "path \<in> set contract_paths" "served srv t path q w = (res, w')" "hs_code res \<noteq> 200"
  shows "client_get c path q kind decode w = (Inl (status_error c res), w')"
  using assms by (simp add: client_get_def good_url auth_ok delivers served_def)

end

section \<open>Discovery\<close>

lemma dec_capabilities_json [simp]: "dec_capabilities (capabilities_json b :: 'f json) = Some b"
proof -
  have "dec_slice dec_str (j_slice J_str (cb_capabilities b) :: 'f json) = Some (cb_capabilities b)"
    by (rule dec_slice_j_slice) simp
  then show ?thesis
    by (simp add: dec_capabilities_def capabilities_json_def with_fields_obj get_field_Cons j_omit_empty_def)
qed

context provider_link
begin

lemma discovers:
  assumes "survives (ps_json srv) (capabilities_json (discovery_of srv))" "cl_now c (cs_world s) = (now, w')"
  shows "client_capabilities c s = (Inr (declared_by srv), s\<lparr>cs_declared := Some (declared_by srv), cs_known_at := now, cs_world := w'\<rparr>)"
proof -
  have "client_get c path_capabilities [] ''capabilities'' dec_capabilities (cs_world s) = (Inr (discovery_of srv), cs_world s)"
  proof (rule get_ok [OF _ served_capabilities])
    show "jio_decode (cl_json c) (hs_body (write_json (ps_json srv) 200 (capabilities_json (discovery_of srv)))) = Some (capabilities_json (discovery_of srv))"
      unfolding same_json by (rule survives_read [OF assms(1)])
  qed (simp_all add: write_json_def)
  then show ?thesis
    using assms(2) by (simp add: client_capabilities_def on_world_def discovery_of_def slice_list_def valid_declared Let_def)
qed

lemma reads:
  assumes "survives (ps_json srv) (capabilities_json (discovery_of srv))" "cl_now c (cs_world s) = (now, w')"
    "cs_declared s = None" "valid_capability cap" "cap \<in> set (ps_caps srv)"
  shows "client_read c cap q decode s = on_world (client_get c (path_for cap) q cap decode)
    (s\<lparr>cs_declared := Some (declared_by srv), cs_known_at := now, cs_world := w'\<rparr>)"
  using assms(3-5)
  by (simp add: client_read_def client_supports_def known_fresh_def discovers [OF assms(1,2)] declared_by_def valid_capability_def Let_def)

end

section \<open>A metric, read through\<close>

text \<open>A body that arrives whole, also as the start of a response cut off at 8 KiB.\<close>

definition carries :: "('f, 'b) json_io \<Rightarrow> 'f json \<Rightarrow> bool" where
  "carries io v \<longleftrightarrow> (\<exists>b. jio_print io v = Some b \<and> jio_parse io b = Some v \<and> jio_limit io 8192 b = b)"

lemma error_message_json [simp]: "error_message (error_json b) = eb_message b"
  by (simp add: error_message_def error_json_def get_field_Cons)

lemma status_error_written:
  assumes "carries (cl_json c) (error_json \<lparr>eb_error = e, eb_message = m\<rparr>)" "m \<noteq> []"
  shows "status_error c (write_error (cl_json c) code e m) =
    (if code = 501 then Absent (provider_prefix c @ m) else Broken (provider_prefix c @ status_text code @ '': '' @ m))"
  using assms by (auto simp: status_error_def write_error_def write_json_def carries_def Let_def)

definition metric_failure :: "('w, 'f, 'b) provider_server \<Rightarrow> perr \<Rightarrow> error_body" where
  "metric_failure srv e = (case e of
     Absent _ \<Rightarrow> \<lparr>eb_error = code_not_implemented, eb_message = absent_message srv capability_metrics\<rparr>
   | Broken m \<Rightarrow> \<lparr>eb_error = code_upstream_error, eb_message = capability_metrics @ '': '' @ m\<rparr>)"

lemma dec_series_list:
  "\<forall>x \<in> set xs. time_survives io (sr_timestamp x) \<Longrightarrow>
     dec_slice (dec_series F io) (J_arr (map (series_json F io) xs)) = Some (Some (map canon_series xs))"
proof -
  assume "\<forall>x \<in> set xs. time_survives io (sr_timestamp x)"
  then have "all_some (map (dec_series F io) (map (series_json F io) xs)) = Some (map canon_series xs)"
    by (induction xs) (simp_all add: dec_series_json)
  then show ?thesis by simp
qed

text \<open>
  C12. A metric read over the contract is the provider's own answer. A client that has just started,
  linked to this server by a transport that delivers, discovers, asks for a window of whole seconds,
  and the provider is asked for exactly that metric and window, once. Its series arrive unchanged
  but for the order of their dimension keys, a nil list as an empty one; a capability it turns out
  not to have arrives as unimplemented, and a substrate failure as a failure with its message.
\<close>

theorem metric_read_through:
  assumes "provider_link srv t c" "cs_declared s = None" "capability_metrics \<in> set (ps_caps srv)"
    and "survives (ps_json srv) (capabilities_json (discovery_of srv))" "cl_now c (cs_world s) = (now, w1)"
    and "valid_metric metric" "0 < k" "int64 (seconds k)"
    and "pv_metric (ps_provider srv) metric (seconds k) w1 = (r, w2)"
    and "case r of
      Inr xs \<Rightarrow> survives (ps_json srv) (series_body_json (ps_floats srv) (ps_json srv) (non_nil xs)) \<and>
        (\<forall>x \<in> set (slice_list xs). time_survives (ps_json srv) (sr_timestamp x))
    | Inl e \<Rightarrow> carries (ps_json srv) (error_json (metric_failure srv e))"
  shows "fst (client_query_metric c metric (seconds k) s) = (case r of
      Inr xs \<Rightarrow> Inr (Some (map canon_series (slice_list xs)))
    | Inl (Absent _) \<Rightarrow> Inl (Absent (provider_prefix c @ absent_message srv capability_metrics))
    | Inl (Broken m) \<Rightarrow> Inl (Broken (provider_prefix c @ ''502 Bad Gateway'' @ '': '' @ capability_metrics @ '': '' @ m))) \<and>
    cs_world (snd (client_query_metric c metric (seconds k) s)) = w2"
proof -
  let ?io = "ps_json srv"
  let ?q = "[(''metric'', metric), (''window'', fmt_int (window_seconds (seconds k)))]"
  have g: "guarded_server srv t" using assms(1) by (simp add: provider_link_def)
  note l = provider_link.reads [OF assms(1,4,5,2) _ assms(3)] provider_link.same_json [OF assms(1)]
  have ws: "window_seconds (seconds k) = k" using assms(7) by (simp add: window_seconds_def seconds_def)
  have k: "int64 k" "wrap64 (seconds k) = seconds k"
    using assms(7,8) by (auto simp: int64_def seconds_def min_duration_def max_duration_def wrap64_def)
  have at: "atoi (query_get ?q ''window'') = Some k" using k(1) assms(7) ws by (simp add: query_get_def atoi_fmt_int)
  have sv: "served srv t path_metrics ?q w1 = respond srv capability_metrics (pv_metric (ps_provider srv) metric (seconds k))
      (\<lambda>xs. series_body_json (ps_floats srv) ?io (non_nil xs)) w1"
    using guarded_server.served_metrics [OF g assms(3) _ at assms(7), of w1] assms(6) k(2) by (simp add: query_get_def)
  let ?s1 = "s\<lparr>cs_declared := Some (declared_by srv), cs_known_at := now, cs_world := w1\<rparr>"
  have read: "client_query_metric c metric (seconds k) s =
      on_world (client_get c path_metrics ?q capability_metrics (dec_series_body (ps_floats srv) ?io)) ?s1"
    by (simp add: client_query_metric_def l valid_capability_def infra_capabilities_def)
  have "client_get c path_metrics ?q capability_metrics (dec_series_body (ps_floats srv) ?io) w1 = ((case r of
      Inr xs \<Rightarrow> Inr (Some (map canon_series (slice_list xs)))
    | Inl (Absent _) \<Rightarrow> Inl (Absent (provider_prefix c @ absent_message srv capability_metrics))
    | Inl (Broken m) \<Rightarrow> Inl (Broken (provider_prefix c @ ''502 Bad Gateway'' @ '': '' @ capability_metrics @ '': '' @ m))), w2)"
  proof (cases r)
    case (Inr xs)
    let ?v = "series_body_json (ps_floats srv) ?io (non_nil xs)"
    have "dec_slice (dec_series (ps_floats srv) ?io) (J_arr (map (series_json (ps_floats srv) ?io) (slice_list xs)))
        = Some (Some (map canon_series (slice_list xs)))"
      by (rule dec_series_list) (use assms(10) Inr in simp)
    then have "dec_series_body (ps_floats srv) ?io ?v = Some (Some (map canon_series (slice_list xs)))"
      by (cases xs) (simp_all add: dec_series_body_def series_body_json_def with_fields_obj get_field_Cons non_nil_def
          j_slice_def slice_list_def)
    moreover have "jio_decode (cl_json c) (hs_body (write_json ?io 200 ?v)) = Some ?v"
      using assms(10) Inr by (simp add: l survives_read)
    moreover have "served srv t path_metrics ?q w1 = (write_json ?io 200 ?v, w2)"
      unfolding sv using assms(9) Inr by (simp add: respond_def)
    ultimately show ?thesis
      using provider_link.get_ok [OF assms(1), of path_metrics ?q w1 "write_json ?io 200 ?v" w2 ?v] Inr
      by (simp add: write_json_def)
  next
    case (Inl e)
    have f: "served srv t path_metrics ?q w1 = (write_failure srv capability_metrics e, w2)"
      unfolding sv using assms(9) Inl by (simp add: respond_def)
    have code: "hs_code (write_failure srv capability_metrics e) \<noteq> 200"
      by (cases e) (simp_all add: write_failure_def write_error_def write_json_def)
    have err: "status_error c (write_failure srv capability_metrics e) = (case e of
        Absent _ \<Rightarrow> Absent (provider_prefix c @ absent_message srv capability_metrics)
      | Broken m \<Rightarrow> Broken (provider_prefix c @ ''502 Bad Gateway'' @ '': '' @ capability_metrics @ '': '' @ m))"
    proof (cases e)
      case (Absent m)
      have "carries (cl_json c) (error_json \<lparr>eb_error = code_not_implemented, eb_message = absent_message srv capability_metrics\<rparr>)"
        using assms(10) Inl Absent by (simp add: metric_failure_def l)
      then show ?thesis using Absent
        by (simp add: write_failure_def l(2) [symmetric] status_error_written absent_message_def)
    next
      case (Broken m)
      have "carries (cl_json c) (error_json \<lparr>eb_error = code_upstream_error, eb_message = capability_metrics @ '': '' @ m\<rparr>)"
        using assms(10) Inl Broken by (simp add: metric_failure_def l)
      then show ?thesis using Broken
        by (simp add: write_failure_def l(2) [symmetric] status_error_written status_text_def)
    qed
    show ?thesis
      unfolding provider_link.get_failed [OF assms(1) contract_paths_mem(3) f code] err by (cases e) (simp_all only: Inl sum.case perr.case)
  qed
  then show "fst (client_query_metric c metric (seconds k) s) = (case r of
      Inr xs \<Rightarrow> Inr (Some (map canon_series (slice_list xs)))
    | Inl (Absent _) \<Rightarrow> Inl (Absent (provider_prefix c @ absent_message srv capability_metrics))
    | Inl (Broken m) \<Rightarrow> Inl (Broken (provider_prefix c @ ''502 Bad Gateway'' @ '': '' @ capability_metrics @ '': '' @ m))) \<and>
    cs_world (snd (client_query_metric c metric (seconds k) s)) = w2"
    unfolding read by (simp add: on_world_def)
qed

section \<open>A client linked to a server in memory\<close>

text \<open>Bodies that are their own text, and times written as numbers.\<close>

definition id_io :: "(int, int json) json_io" where
  "id_io = \<lparr>jio_print = Some, jio_empty = J_null, jio_parse = Some, jio_decode = Some, jio_refusal = (\<lambda>k b. []), jio_limit = (\<lambda>n b. b),
     jio_text = (\<lambda>b. []), jio_time_text = fmt_int, jio_time_parse = atoi\<rparr>"

lemma id_io_carries [simp]: "survives id_io v" "carries id_io v"
  by (simp_all add: survives_def carries_def id_io_def)

lemma id_io_time: "0 \<le> t \<Longrightarrow> int64 t \<Longrightarrow> time_survives id_io t"
  by (simp add: time_survives_def id_io_def atoi_fmt_int)

definition trusted :: "('w, 'f, 'b) provider_server \<Rightarrow> string \<Rightarrow> ('w, 'f, 'b) provider_server" where
  "trusted srv t = srv\<lparr>ps_token := Some (static_token t)\<rparr>"

definition loopback :: "('w, 'f, 'b) provider_server \<Rightarrow> string \<Rightarrow> ('w \<Rightarrow> instant \<times> 'w) \<Rightarrow> ('w, 'f, 'b) client" where
  "loopback srv t now = \<lparr>cl_name = ''lab'', cl_base_url = ''http://provider:9090'', cl_token = Some (static_token t),
     cl_send = (\<lambda>base rq w. case serve_http srv rq w of (res, w') \<Rightarrow> (Inr res, w')), cl_bad_url = (\<lambda>u. None), cl_now = now,
     cl_floats = ps_floats srv, cl_json = ps_json srv, cl_quote = ps_quote srv\<rparr>"

interpretation loop: provider_link "trusted srv (trim_space u)" "trim_space u" "loopback (trusted srv (trim_space u)) (trim_space u) now"
  for srv u now
  by unfold_locales (simp_all add: loopback_def trusted_def static_token_def)

definition lab_series :: "int series" where
  "lab_series = \<lparr>sr_dimensions = [(dim_instance, ''n1'')], sr_timestamp = 5, sr_value = 42\<rparr>"

definition lab_provider :: "(unit, int) infra_provider" where
  "lab_provider = \<lparr>pv_name = ''lab'', pv_capabilities = [capability_instances, capability_metrics],
     pv_instances = Pair (Inr None), pv_metric = (\<lambda>m d. Pair (Inr (Some [lab_series]))),
     pv_alarms = Pair (Inl err_not_implemented), pv_ingress_address = Pair (Inr []),
     pv_backup_objects = Pair (Inl err_not_implemented)\<rparr>"

definition lab_server :: "(unit, int, int json) provider_server" where
  "lab_server = new_provider_server int_floats id_io id lab_provider None"

definition lab_client :: "(unit, int, int json) client" where
  "lab_client = loopback (trusted lab_server (trim_space ''t0ken'')) (trim_space ''t0ken'') (Pair 1)"

theorem metric_read_through_witness:
  "fst (client_query_metric lab_client metric_cpu_utilization (seconds 1200) (fresh_client ())) = Inr (Some [canon_series lab_series])"
proof -
  let ?srv = "trusted lab_server (trim_space ''t0ken'')"
  have link: "provider_link ?srv (trim_space ''t0ken'') lab_client"
    unfolding lab_client_def by (rule loop.provider_link_axioms)
  have srv: "ps_json ?srv = id_io" "capability_metrics \<in> set (ps_caps ?srv)" "pv_metric (ps_provider ?srv) m d () = (Inr (Some [lab_series]), ())" for m d
    by (simp_all add: trusted_def lab_server_def new_provider_server_def lab_provider_def)
  have "valid_metric metric_cpu_utilization" by (simp add: valid_metric_def contract_metrics_def)
  moreover have "int64 (seconds 1200)" by (simp add: int64_def seconds_def max_duration_def min_duration_def)
  moreover have "time_survives id_io (sr_timestamp lab_series)"
    by (rule id_io_time) (simp_all add: lab_series_def int64_def max_duration_def min_duration_def)
  ultimately show ?thesis
    using metric_read_through [OF link, of "fresh_client ()" 1 "()" metric_cpu_utilization 1200 "Inr (Some [lab_series])" "()"]
    by (simp add: srv fresh_client_def slice_list_def lab_client_def loopback_def)
qed

section \<open>Tokens that admit nobody\<close>

theorem unauthorized_learns_nothing_witness:
  "hs_code (fst (serve_http (trusted lab_server ''t0ken'')
     \<lparr>hq_method = ''GET'', hq_path = path_metrics, hq_query = [], hq_auth = ''t0ken''\<rparr> ())) = 401"
proof -
  let ?rq = "\<lparr>hq_method = ''GET'', hq_path = path_metrics, hq_query = [], hq_auth = ''t0ken''\<rparr>"
  have "ps_token (trusted lab_server ''t0ken'') = Some (static_token ''t0ken'')" by (simp add: trusted_def)
  moreover have "hq_path ?rq \<noteq> path_health" by simp
  moreover have "case static_token ''t0ken'' () of (Inl _, _) \<Rightarrow> True | (Inr want, _) \<Rightarrow> bearer_token (hq_auth ?rq) \<noteq> want"
    by (simp add: static_token_def bearer_token_def)
  ultimately show ?thesis
    using unauthorized_learns_nothing [of "trusted lab_server ''t0ken''" "static_token ''t0ken''" ?rq "()"]
    by (simp add: infra_capabilities_def)
qed

text \<open>
  A static token is compared as configured, the presented one trimmed: a configured token with
  space around it (as \<open>PROVIDER_TOKEN\<close> may have) refuses every caller, the one that presents it
  included, where the same token in a file is trimmed and accepted.
\<close>

theorem padded_token_admits_nobody:
  assumes "trim_space t \<noteq> t" "ps_token s = Some (static_token t)" "hq_path rq \<in> set (map path_for infra_capabilities)"
  shows "hs_code (fst (serve_http s rq w)) = 401 \<and> file_token (\<lambda>p. ret t) path w = (if trim_space t = [] then
    (Inl (''provider token file '' @ path @ '' is empty''), w) else (Inr (trim_space t), w))"
proof -
  have "bearer_token (hq_auth rq) \<noteq> t"
  proof
    assume b: "bearer_token (hq_auth rq) = t"
    have "trim_space (bearer_token a) = bearer_token a" for a
      using trim_space_no_bytes [of "[]"] by (auto simp: bearer_token_def split: option.split)
    with b assms(1) show False by metis
  qed
  moreover have "hq_path rq \<noteq> path_health" "hq_path rq \<in> set (path_capabilities # map path_for infra_capabilities)"
    using assms(3) by (auto simp: infra_capabilities_def)
  ultimately show ?thesis
    using refused_code [OF assms(2), of rq w]
    by (simp add: static_token_def file_token_def act_simps Let_def)
qed

end
