(* ===== verification/ProviderConfig.thy ===== *)
theory ProviderConfig
  imports ProviderSpecs
begin

text \<open>
  internal/provider/config.go: the configured providers, and which source each capability is read
  from. \<open>url.Parse\<close> is an argument (scheme and host, or an error), as is the file system.
\<close>

section \<open>Entries\<close>

record provider_entry =
  pn_kind :: string
  pn_name :: string
  pn_base_url :: string
  pn_token_file :: string
  pn_token :: string

definition validate_entry ::
    "(string \<Rightarrow> string) \<Rightarrow> (string \<Rightarrow> (string \<times> string) result) \<Rightarrow> provider_entry \<Rightarrow> unit result" where
  "validate_entry quote parse_url e =
     (if pn_kind e \<noteq> kind_infra
      then Inl (''provider '' @ quote (pn_name e) @ '': unknown kind '' @ quote (pn_kind e) @
             '' (this build serves '' @ quote kind_infra @ '')'')
      else if trim_space (pn_name e) = []
      then Inl (''provider with base URL '' @ quote (pn_base_url e) @ '': name is required'')
      else (let absolute = (''provider '' @ quote (pn_name e) @ '': baseUrl '' @ quote (pn_base_url e) @
                '' is not an absolute http(s) URL'') in
        case parse_url (pn_base_url e) of
          Inl _ \<Rightarrow> Inl absolute
        | Inr (scheme, host) \<Rightarrow>
            if scheme = [] \<or> host = [] then Inl absolute
            else if scheme \<noteq> ''http'' \<and> scheme \<noteq> ''https''
            then Inl (''provider '' @ quote (pn_name e) @ '': baseUrl scheme '' @ quote scheme @ '' is not http or https'')
            else if pn_token_file e = [] \<and> pn_token e = []
            then Inl (''provider '' @ quote (pn_name e) @ '': one of tokenFile or token is required'')
            else Inr ()))"

definition token_source :: "(string \<Rightarrow> ('w, string) act) \<Rightarrow> provider_entry \<Rightarrow> ('w, string) act" where
  "token_source read e = (if pn_token_file e \<noteq> [] then file_token read (pn_token_file e) else static_token (pn_token e))"

definition dec_entry :: "'f json \<Rightarrow> provider_entry option" where
  "dec_entry = with_fields [''kind'', ''name'', ''baseUrl'', ''tokenFile'', ''token''] (\<lambda>get.
     case (dec_str (get ''kind''), dec_str (get ''name''), dec_str (get ''baseUrl''), dec_str (get ''tokenFile''), dec_str (get ''token'')) of
       (Some k, Some n, Some b, Some f, Some t) \<Rightarrow>
         Some \<lparr>pn_kind = k, pn_name = n, pn_base_url = b, pn_token_file = f, pn_token = t\<rparr>
     | _ \<Rightarrow> None)"

fun first_error :: "('a \<Rightarrow> unit result) \<Rightarrow> 'a list \<Rightarrow> string option" where
  "first_error check [] = None"
| "first_error check (x # xs) = (case check x of Inl e \<Rightarrow> Some e | Inr _ \<Rightarrow> first_error check xs)"

definition parse_entries ::
    "('f, string) json_io \<Rightarrow> (string \<Rightarrow> string) \<Rightarrow> (string \<Rightarrow> (string \<times> string) result) \<Rightarrow> string \<Rightarrow> provider_entry list result" where
  "parse_entries io quote parse_url raw =
     (if raw = [] then Inr []
      else (case Option.bind (jio_parse io raw) (dec_slice dec_entry) of
          None \<Rightarrow> Inl (''provider configuration is not a JSON list of providers: '' @ jio_refusal io ''entries'' raw)
        | Some entries \<Rightarrow> (case first_error (validate_entry quote parse_url) (slice_list entries) of
            Some e \<Rightarrow> Inl e
          | None \<Rightarrow> Inr (slice_list entries))))"

definition load_entries ::
    "('f, string) json_io \<Rightarrow> (string \<Rightarrow> string) \<Rightarrow> (string \<Rightarrow> (string \<times> string) result) \<Rightarrow> (string \<Rightarrow> ('w, string) act) \<Rightarrow>
     string \<Rightarrow> string \<Rightarrow> ('w, provider_entry list) act" where
  "load_entries io quote parse_url read inline path =
     (let raw = trim_space inline in
      if raw = [] \<and> path \<noteq> []
      then seq (read path) (\<lambda>e. ''read provider configuration from '' @ path @ '': '' @ e)
             (\<lambda>content w. (parse_entries io quote parse_url (trim_space content), w))
      else (\<lambda>w. (parse_entries io quote parse_url raw, w)))"

section \<open>Composing the sources\<close>

text \<open>
  A provider's client is named by the position of its entry. \<open>ask\<close> is what the client of an entry
  answers to capability discovery, as \<open>ask_provider\<close> has it.
\<close>

definition client_of :: "(string \<Rightarrow> ('w, string) act) \<Rightarrow> ('w, 'f, 'b) client \<Rightarrow> provider_entry \<Rightarrow> ('w, 'f, 'b) client" where
  "client_of read env e = new_client (pn_name e) (pn_base_url e) (Some (token_source read e)) env"

definition ask_provider ::
    "(string \<Rightarrow> ('w, string) act) \<Rightarrow> ('w, 'f, 'b) client \<Rightarrow> provider_entry \<Rightarrow> ('w, string list) pact" where
  "ask_provider read env e w = (case client_capabilities (client_of read env e) (fresh_client w) of
     (r, s) \<Rightarrow> (r, cs_world s))"

datatype slot = Nil_slot | Fallback_slot | Client_slot nat | Unimplemented_slot string

record asked =
  as_configured :: bool
  as_by_capability :: "(string \<times> nat) list"
  as_undiscovered :: "nat list"

definition nobody_asked :: asked where
  "nobody_asked = \<lparr>as_configured = False, as_by_capability = [], as_undiscovered = []\<rparr>"

text \<open>The first provider to declare a capability takes it.\<close>

fun take_capabilities :: "nat \<Rightarrow> string list \<Rightarrow> (string \<times> nat) list \<Rightarrow> (string \<times> nat) list" where
  "take_capabilities i [] taken = taken"
| "take_capabilities i (c # cs) taken =
     take_capabilities i cs (if map_of taken c = None then (c, i) # taken else taken)"

definition note_answer :: "nat \<Rightarrow> perr + string list \<Rightarrow> asked \<Rightarrow> asked" where
  "note_answer i r a = (case r of
     Inl _ \<Rightarrow> a\<lparr>as_configured := True, as_undiscovered := as_undiscovered a @ [i]\<rparr>
   | Inr declared \<Rightarrow> a\<lparr>as_configured := True, as_by_capability := take_capabilities i declared (as_by_capability a)\<rparr>)"

fun ask_all ::
    "(provider_entry \<Rightarrow> ('w, string list) pact) \<Rightarrow> nat \<Rightarrow> provider_entry list \<Rightarrow> asked \<Rightarrow> 'w \<Rightarrow> asked \<times> 'w" where
  "ask_all ask i [] a w = (a, w)"
| "ask_all ask i (e # es) a w =
     (if pn_kind e \<noteq> kind_infra then ask_all ask (Suc i) es a w
      else (case ask e w of (r, w) \<Rightarrow> ask_all ask (Suc i) es (note_answer i r a) w))"

definition slot_for :: "asked \<Rightarrow> (string \<Rightarrow> bool) \<Rightarrow> string \<Rightarrow> slot" where
  "slot_for a fallback capability = (case map_of (as_by_capability a) capability of
     Some i \<Rightarrow> Client_slot i
   | None \<Rightarrow>
      if fallback capability then Fallback_slot
      else if as_undiscovered a \<noteq> [] then Client_slot (hd (as_undiscovered a))
      else if as_configured a then Unimplemented_slot capability
      else Nil_slot)"

definition infra_sources ::
    "(provider_entry \<Rightarrow> ('w, string list) pact) \<Rightarrow> (string \<Rightarrow> bool) \<Rightarrow> provider_entry list \<Rightarrow> 'w \<Rightarrow> (string \<times> slot) list \<times> 'w" where
  "infra_sources ask fallback entries w = (case ask_all ask 0 entries nobody_asked w of
     (a, w) \<Rightarrow> (map (\<lambda>c. (c, slot_for a fallback c)) infra_capabilities, w))"

section \<open>Routing\<close>

text \<open>What the infra providers among the entries answered, by position.\<close>

fun answers :: "(provider_entry \<Rightarrow> ('w, string list) pact) \<Rightarrow> nat \<Rightarrow> provider_entry list \<Rightarrow> 'w \<Rightarrow> (nat \<times> (perr + string list)) list" where
  "answers ask i [] w = []"
| "answers ask i (e # es) w =
     (if pn_kind e \<noteq> kind_infra then answers ask (Suc i) es w
      else (case ask e w of (r, w) \<Rightarrow> (i, r) # answers ask (Suc i) es w))"

definition declares :: "string \<Rightarrow> perr + string list \<Rightarrow> bool" where
  "declares c r = (case r of Inl _ \<Rightarrow> False | Inr cs \<Rightarrow> c \<in> set cs)"

definition silent :: "perr + string list \<Rightarrow> bool" where
  "silent r = (case r of Inl _ \<Rightarrow> True | Inr _ \<Rightarrow> False)"

lemma take_capabilities_map:
  "map_of (take_capabilities i cs taken) c = (case map_of taken c of Some j \<Rightarrow> Some j | None \<Rightarrow> if c \<in> set cs then Some i else None)"
  by (induction cs arbitrary: taken) (auto split: option.split)

lemma ask_all_by_capability:
  "map_of (as_by_capability (fst (ask_all ask i es a w))) c = (case map_of (as_by_capability a) c of
     Some j \<Rightarrow> Some j | None \<Rightarrow> map_option fst (List.find (\<lambda>(j, r). declares c r) (answers ask i es w)))"
  by (induction ask i es a w rule: ask_all.induct)
    (auto simp: note_answer_def take_capabilities_map declares_def split: prod.split sum.split option.split)

lemma ask_all_undiscovered:
  "as_undiscovered (fst (ask_all ask i es a w)) = as_undiscovered a @ map fst (filter (\<lambda>(j, r). silent r) (answers ask i es w))"
  by (induction ask i es a w rule: ask_all.induct)
    (auto simp: note_answer_def silent_def split: prod.split sum.split)

lemma ask_all_configured:
  "as_configured (fst (ask_all ask i es a w)) \<longleftrightarrow> as_configured a \<or> answers ask i es w \<noteq> []"
  by (induction ask i es a w rule: ask_all.induct)
    (auto simp: note_answer_def split: prod.split sum.split)

lemmas ask_all_notes = ask_all_by_capability ask_all_undiscovered ask_all_configured

text \<open>What each capability is read from, by what the providers answered.\<close>

lemma slots_routed:
  "fst (infra_sources ask fallback entries w) = map (\<lambda>c. (c,
     case List.find (\<lambda>(i, r). declares c r) (answers ask 0 entries w) of
       Some (i, r) \<Rightarrow> Client_slot i
     | None \<Rightarrow> if fallback c then Fallback_slot
         else (case filter (\<lambda>(i, r). silent r) (answers ask 0 entries w) of
             (i, r) # _ \<Rightarrow> Client_slot i
           | [] \<Rightarrow> if answers ask 0 entries w = [] then Nil_slot else Unimplemented_slot c))) infra_capabilities"
proof -
  obtain a w' where a: "ask_all ask 0 entries nobody_asked w = (a, w')" by force
  note n = ask_all_notes [of ask 0 entries nobody_asked w, unfolded a fst_conv, simplified nobody_asked_def, simplified]
  have "slot_for a fallback c = (case List.find (\<lambda>(i, r). declares c r) (answers ask 0 entries w) of
         Some (i, r) \<Rightarrow> Client_slot i
       | None \<Rightarrow> if fallback c then Fallback_slot
           else (case filter (\<lambda>(i, r). silent r) (answers ask 0 entries w) of
               (i, r) # _ \<Rightarrow> Client_slot i
             | [] \<Rightarrow> if answers ask 0 entries w = [] then Nil_slot else Unimplemented_slot c))" for c
    by (auto simp: slot_for_def n split: option.split list.split)
  then show ?thesis by (simp add: infra_sources_def a)
qed

text \<open>
  C37. Capabilities are routed as configured. As long as no more than one of the infrastructure
  providers cannot be asked, every capability is read from the first provider that declares it;
  failing that from the fallback; failing that from whichever provider could not be asked, so that it
  answers by itself when it comes back; and it is reported as unimplemented only when every provider
  was asked, as unconfigured only when there is none.
\<close>

theorem sources_routed:
  assumes "length (filter (\<lambda>(i, r). silent r) (answers ask 0 entries w)) \<le> 1"
  shows "map fst (fst (infra_sources ask fallback entries w)) = infra_capabilities \<and>
    (\<forall>(c, s) \<in> set (fst (infra_sources ask fallback entries w)).
       case List.find (\<lambda>(i, r). declares c r) (answers ask 0 entries w) of
         Some (i, r) \<Rightarrow> s = Client_slot i
       | None \<Rightarrow> if fallback c then s = Fallback_slot
           else (\<forall>(i, r) \<in> set (answers ask 0 entries w). silent r \<longrightarrow> s = Client_slot i) \<and>
             ((\<forall>(i, r) \<in> set (answers ask 0 entries w). \<not> silent r) \<longrightarrow>
                s = (if answers ask 0 entries w = [] then Nil_slot else Unimplemented_slot c)))"
proof -
  let ?as = "answers ask 0 entries w"
  have hd: "x = y" if "x \<in> set ?as" "silent (snd x)" "filter (\<lambda>(i, r). silent r) ?as = y # ys" for x y ys
  proof -
    have "x \<in> set (filter (\<lambda>(i, r). silent r) ?as)" using that(1,2) by (simp add: case_prod_unfold)
    then show ?thesis using that(3) assms by auto
  qed
  have none: "filter (\<lambda>(i, r). silent r) ?as = [] \<longleftrightarrow> (\<forall>(i, r) \<in> set ?as. \<not> silent r)"
    by (auto simp: filter_empty_conv)
  have "case List.find (\<lambda>(i, r). declares c r) ?as of
         Some (i, r) \<Rightarrow> s = Client_slot i
       | None \<Rightarrow> if fallback c then s = Fallback_slot
           else (\<forall>(i, r) \<in> set ?as. silent r \<longrightarrow> s = Client_slot i) \<and>
             ((\<forall>(i, r) \<in> set ?as. \<not> silent r) \<longrightarrow> s = (if ?as = [] then Nil_slot else Unimplemented_slot c))"
    if "(c, s) \<in> set (fst (infra_sources ask fallback entries w))" for c s
  proof (cases "filter (\<lambda>(i, r). silent r) ?as")
    case Nil
    with that none show ?thesis by (auto simp: slots_routed split: option.split)
  next
    case (Cons y ys)
    have "\<not> (\<forall>(i, r) \<in> set ?as. \<not> silent r)" using Cons none by (metis list.distinct(1))
    moreover have "\<forall>(i, r) \<in> set ?as. silent r \<longrightarrow> i = fst y" using hd [OF _ _ Cons] by force
    moreover have "s = (case List.find (\<lambda>(i, r). declares c r) ?as of
         Some (i, r) \<Rightarrow> Client_slot i | None \<Rightarrow> if fallback c then Fallback_slot else Client_slot (fst y))"
      using that Cons by (auto simp: slots_routed case_prod_unfold split: option.split)
    ultimately show ?thesis by (auto split: option.split)
  qed
  moreover have "map fst (fst (infra_sources ask fallback entries w)) = infra_capabilities"
    by (simp add: slots_routed comp_def)
  ultimately show ?thesis by blast
qed

definition lab_entries :: "provider_entry list" where
  "lab_entries = map (\<lambda>n. \<lparr>pn_kind = kind_infra, pn_name = n, pn_base_url = ''http://p'', pn_token_file = [], pn_token = ''t''\<rparr>)
     [''down'', ''up'']"

definition lab_asks :: "provider_entry \<Rightarrow> (unit, string list) pact" where
  "lab_asks e w = (if pn_name e = ''down'' then Inl (Broken ''no answer'') else Inr [capability_instances], w)"

lemma lab_answers: "answers lab_asks 0 lab_entries () = [(0, Inl (Broken ''no answer'')), (1, Inr [capability_instances])]"
  by (simp add: lab_entries_def lab_asks_def)

theorem sources_routed_witness:
  "fst (infra_sources lab_asks (\<lambda>c. c = capability_alarms) lab_entries ()) = map (\<lambda>c. (c,
     if c = capability_instances then Client_slot 1 else if c = capability_alarms then Fallback_slot else Client_slot 0)) infra_capabilities"
proof -
  let ?src = "fst (infra_sources lab_asks (\<lambda>c. c = capability_alarms) lab_entries ())"
  let ?slot = "\<lambda>c. if c = capability_instances then Client_slot 1 else if c = capability_alarms then Fallback_slot else Client_slot 0"
  have "length (filter (\<lambda>(i, r). silent r) (answers lab_asks 0 lab_entries ())) \<le> 1" by (simp add: lab_answers silent_def)
  note routed = sources_routed [OF this, of "\<lambda>c. c = capability_alarms"]
  have "s = ?slot c" if "(c, s) \<in> set ?src" for c s
    using bspec [OF conjunct2 [OF routed] that]
    by (cases "c = capability_instances"; cases "c = capability_alarms") (simp_all add: lab_answers declares_def silent_def)
  then have "map (\<lambda>x. (fst x, ?slot (fst x))) ?src = ?src" by (intro map_idI) force
  moreover have "map (\<lambda>x. (fst x, ?slot (fst x))) ?src = map (\<lambda>c. (c, ?slot c)) (map fst ?src)" by simp
  ultimately show ?thesis using conjunct1 [OF routed] by metis
qed

section \<open>More than one provider out of reach\<close>

lemma answers_from: "x \<in> set (answers ask i es w) \<Longrightarrow> i \<le> fst x"
  by (induction ask i es w rule: answers.induct) (auto split: prod.splits if_splits dest: Suc_leD)

lemma answers_distinct: "distinct (map fst (answers ask i es w))"
proof (induction es arbitrary: i w)
  case (Cons e es)
  obtain r w' where "ask e w = (r, w')" by force
  moreover have "(i, q) \<notin> set (answers ask (Suc i) es v)" for q v using answers_from [of "(i, q)" ask "Suc i" es v] by auto
  ultimately show ?case using Cons.IH by force
qed simp

text \<open>
  Of several providers that could not be asked only the first is read from: any further one is read
  for nothing, whatever it would turn out to serve once it is back.
\<close>

lemma second_silent_provider_dropped:
  assumes "filter (\<lambda>(i, r). silent r) (answers ask 0 entries w) = (i, r) # others" "(j, q) \<in> set others"
  shows "(c, Client_slot j) \<notin> set (fst (infra_sources ask fallback entries w))"
proof
  let ?as = "answers ask 0 entries w"
  assume "(c, Client_slot j) \<in> set (fst (infra_sources ask fallback entries w))"
  then have s: "Client_slot j = (case List.find (\<lambda>(i, r). declares c r) ?as of
      Some (i, r) \<Rightarrow> Client_slot i | None \<Rightarrow> if fallback c then Fallback_slot else Client_slot i)"
    using assms(1) by (auto simp: slots_routed split: option.split)
  have "distinct (map fst (filter (\<lambda>(i, r). silent r) ?as))" by (rule distinct_map_filter [OF answers_distinct])
  then have "j \<noteq> i" using assms by (force simp: assms(1))
  with s obtain r' where f: "List.find (\<lambda>(i, r). declares c r) ?as = Some (j, r')"
    by (auto split: option.splits if_splits)
  then have r': "(j, r') \<in> set ?as" "declares c r'" by (auto simp: find_Some_iff in_set_conv_nth)
  have "(j, q) \<in> set (filter (\<lambda>(i, r). silent r) ?as)" using assms by simp
  then have q: "(j, q) \<in> set ?as" "silent q" by auto
  have "r' = q" using answers_distinct r'(1) q(1) by (meson eq_key_imp_eq_value)
  with r'(2) q(2) show False by (auto simp: declares_def silent_def split: sum.splits)
qed

end
