(* ===== verification/Conformance.thy ===== *)
theory Conformance
  imports ProviderSpecs "HOL-Library.List_Lexorder"
begin

text \<open>
  internal/conformance: the suite that runs the contract against a provider. It sees the provider
  only through HTTP; a response is read up to 4 MiB.
\<close>

datatype outcome = Pass | Not_implemented | Failed

fun outcome_text :: "outcome \<Rightarrow> string" where
  "outcome_text Pass = ''PASS''"
| "outcome_text Not_implemented = ''NOT IMPLEMENTED''"
| "outcome_text Failed = ''FAIL''"

record check_result =
  cf_capability :: string
  cf_outcome :: outcome
  cf_detail :: string

record report =
  rp_provider :: string
  rp_kind :: string
  rp_declared :: "string list"
  rp_results :: "check_result list"

definition passed :: "report \<Rightarrow> bool" where
  "passed r \<longleftrightarrow> (\<forall>x \<in> set (rp_results r). cf_outcome x \<noteq> Failed)"

text \<open>\<open>%-16s\<close> pads to sixteen characters.\<close>

definition rune_count :: "string \<Rightarrow> nat" where
  "rune_count s = length (filter (\<lambda>c. \<not> (128 \<le> (of_char c :: nat) \<and> (of_char c :: nat) < 192)) s)"

definition pad16 :: "string \<Rightarrow> string" where
  "pad16 s = s @ replicate (16 - rune_count s) (CHR '' '')"

definition newline :: string where
  "newline = [CHR 0x0A]"

definition report_line :: "check_result \<Rightarrow> string" where
  "report_line x = ''  '' @ pad16 (cf_capability x) @ '' '' @ pad16 (outcome_text (cf_outcome x)) @
     (if cf_detail x \<noteq> [] then '' '' @ cf_detail x else []) @ newline"

definition report_text :: "report \<Rightarrow> string" where
  "report_text r = ''provider '' @ (if rp_provider r = [] then ''(unnamed)'' else rp_provider r) @ '', kind '' @ rp_kind r @ newline @
     ''declares: '' @ join_with '', '' (rp_declared r) @ newline @ newline @
     concat (map report_line (rp_results r)) @ newline @
     (if passed r then ''conformant'' else ''not conformant'') @ newline"

section \<open>The suite\<close>

record ('w, 'f, 'b) suite =
  su_base_url :: string
  su_token :: string
  su_timeout :: duration
  su_send :: "string \<Rightarrow> http_request \<Rightarrow> ('w, 'b http_response) act"
  su_bad_url :: "string \<Rightarrow> string option"
  su_floats :: "'f float64"
  su_json :: "('f, 'b) json_io"
  su_quote :: "string \<Rightarrow> string"

definition new_suite :: "string \<Rightarrow> string \<Rightarrow> duration \<Rightarrow> ('w, 'f, 'b) suite \<Rightarrow> ('w, 'f, 'b) suite" where
  "new_suite base token timeout env = env\<lparr>su_base_url := trim_suffix base ''/'', su_token := token,
     su_timeout := (if timeout \<le> 0 then seconds 15 else timeout)\<rparr>"

definition fail_result :: "check_result \<Rightarrow> string \<Rightarrow> check_result" where
  "fail_result r detail = r\<lparr>cf_outcome := Failed, cf_detail := detail\<rparr>"

definition ellipsis :: string where
  "ellipsis = map char_of [0xE2, 0x80, 0xA6 :: nat]"

definition snippet :: "('w, 'f, 'b) suite \<Rightarrow> 'b \<Rightarrow> string" where
  "snippet S body = (let text = trim_space (jio_text (su_json S) body)
     in if length text > 200 then take 200 text @ ellipsis else text)"

text \<open>One call, with the Authorization header given; a header that is not sent is empty.\<close>

definition suite_call ::
    "('w, 'f, 'b) suite \<Rightarrow> string \<Rightarrow> string \<Rightarrow> (string \<times> string) list \<Rightarrow> ('w, int \<times> 'b) act" where
  "suite_call S auth path query = (case su_bad_url S (su_base_url S @ path) of
     Some e \<Rightarrow> fail_with e
   | None \<Rightarrow> seq (su_send S (su_base_url S) \<lparr>hq_method = ''GET'', hq_path = path, hq_query = query, hq_auth = auth\<rparr>) (\<lambda>e. e)
       (\<lambda>res. ret (hs_code res, jio_limit (su_json S) 4194304 (hs_body res))))"

definition suite_get :: "('w, 'f, 'b) suite \<Rightarrow> string \<Rightarrow> (string \<times> string) list \<Rightarrow> ('w, int \<times> 'b) act" where
  "suite_get S = suite_call S (if su_token S \<noteq> [] then ''Bearer '' @ su_token S else [])"

section \<open>Bodies\<close>

definition shape_complaint :: "('w, 'f, 'b) suite \<Rightarrow> string \<Rightarrow> 'b \<Rightarrow> string" where
  "shape_complaint S capability body = ''response is not the documented shape: '' @ jio_refusal (su_json S) capability body"

definition check_list :: "('w, 'f, 'b) suite \<Rightarrow> string \<Rightarrow> string \<Rightarrow> ('f json \<Rightarrow> 'a slice option) \<Rightarrow> 'b \<Rightarrow> string" where
  "check_list S capability field decode body = (case Option.bind (jio_parse (su_json S) body) decode of
     None \<Rightarrow> shape_complaint S capability body
   | Some None \<Rightarrow> ''response has no `'' @ field @ ''` array''
   | Some (Some _) \<Rightarrow> [])"

definition dec_ingress_field :: "'f json \<Rightarrow> string option option" where
  "dec_ingress_field = with_fields [''publicIp''] (\<lambda>get.
     if get ''publicIp'' = J_null then Some None else map_option Some (dec_str (get ''publicIp'')))"

definition check_body :: "('w, 'f, 'b) suite \<Rightarrow> string \<Rightarrow> 'b \<Rightarrow> string" where
  "check_body S capability body =
     (if capability = capability_instances then check_list S capability ''instances'' (dec_instances (su_floats S)) body
      else if capability = capability_metrics then check_list S capability ''series'' (dec_series_body (su_floats S) (su_json S)) body
      else if capability = capability_alarms then check_list S capability ''alarms'' dec_alarms body
      else if capability = capability_ingress then
        (case Option.bind (jio_parse (su_json S) body) dec_ingress_field of
           None \<Rightarrow> shape_complaint S capability body
         | Some None \<Rightarrow> ''response has no `publicIp` field; an address still pending is the empty string''
         | Some (Some _) \<Rightarrow> [])
      else if capability = capability_backups then check_list S capability ''objects'' (dec_backups (su_json S)) body
      else [])"

section \<open>Checks\<close>

definition check_authentication :: "('w, 'f, 'b) suite \<Rightarrow> 'w \<Rightarrow> check_result \<times> 'w" where
  "check_authentication S w =
     (let blank = \<lparr>cf_capability = ''authentication'', cf_outcome = Pass, cf_detail = []\<rparr> in
      case suite_call S [] path_capabilities [] w of
        (Inl e, w) \<Rightarrow> (fail_result blank e, w)
      | (Inr (code, body), w) \<Rightarrow>
          if code \<noteq> 401
          then (fail_result blank (''a request with no bearer token got '' @ fmt_int code @ '', expected 401''), w)
          else (blank, w))"

definition metric_query :: "string \<Rightarrow> (string \<times> string) list" where
  "metric_query metric = [(''metric'', metric), (''window'', ''300'')]"

fun check_metrics :: "('w, 'f, 'b) suite \<Rightarrow> string list \<Rightarrow> 'w \<Rightarrow> string option \<times> 'w" where
  "check_metrics S [] w = (None, w)"
| "check_metrics S (m # ms) w = (case suite_get S path_metrics (metric_query m) w of
     (Inl e, w) \<Rightarrow> (Some (''metric '' @ m @ '': '' @ e), w)
   | (Inr (code, body), w) \<Rightarrow>
       if code \<noteq> 200
       then (Some (''metric '' @ m @ '': expected 200, got '' @ fmt_int code @ '': '' @ snippet S body), w)
       else (let detail = check_body S capability_metrics body in
         if detail \<noteq> [] then (Some (''metric '' @ m @ '': '' @ detail), w) else check_metrics S ms w))"

definition expect_refused :: "('w, 'f, 'b) suite \<Rightarrow> (string \<times> string) list \<Rightarrow> string \<Rightarrow> 'w \<Rightarrow> string option \<times> 'w" where
  "expect_refused S query what w = (case suite_get S path_metrics query w of
     (Inl e, w) \<Rightarrow> (Some e, w)
   | (Inr (code, body), w) \<Rightarrow> if code \<noteq> 400 then (Some (what @ '' got '' @ fmt_int code @ '', expected 400''), w) else (None, w))"

definition check_every_metric :: "('w, 'f, 'b) suite \<Rightarrow> 'w \<Rightarrow> string option \<times> 'w" where
  "check_every_metric S w = (case check_metrics S contract_metrics w of
     (Some d, w) \<Rightarrow> (Some d, w)
   | (None, w) \<Rightarrow> (case expect_refused S (metric_query ''not.a.contract.metric'') ''a metric the contract does not define'' w of
       (Some d, w) \<Rightarrow> (Some d, w)
     | (None, w) \<Rightarrow> expect_refused S [(''metric'', metric_cpu_utilization)] ''a request with no window'' w))"

definition capability_query :: "string \<Rightarrow> (string \<times> string) list" where
  "capability_query capability = (if capability = capability_metrics then metric_query metric_cpu_utilization else [])"

definition check_capability :: "('w, 'f, 'b) suite \<Rightarrow> string \<Rightarrow> bool \<Rightarrow> 'w \<Rightarrow> check_result \<times> 'w" where
  "check_capability S capability declared w =
     (let blank = \<lparr>cf_capability = capability, cf_outcome = Pass, cf_detail = []\<rparr> in
      case suite_get S (''/v0/infra/'' @ capability) (capability_query capability) w of
        (Inl e, w) \<Rightarrow> (fail_result blank e, w)
      | (Inr (code, body), w) \<Rightarrow>
         if \<not> declared then
           (if code \<noteq> 501
            then (fail_result blank (''not declared in capability discovery, so it must answer 501, but answered '' @ fmt_int code), w)
            else (blank\<lparr>cf_outcome := Not_implemented\<rparr>, w))
         else if code = 501 then (fail_result blank ''declared in capability discovery but answers 501'', w)
         else if code \<noteq> 200 then (fail_result blank (''expected 200, got '' @ fmt_int code @ '': '' @ snippet S body), w)
         else (let detail = check_body S capability body in
           if detail \<noteq> [] then (fail_result blank detail, w)
           else if capability = capability_metrics then
             (case check_every_metric S w of
                (Some d, w) \<Rightarrow> (fail_result blank d, w)
              | (None, w) \<Rightarrow> (blank, w))
           else (blank, w)))"

fun check_capabilities :: "('w, 'f, 'b) suite \<Rightarrow> string list \<Rightarrow> string list \<Rightarrow> 'w \<Rightarrow> check_result list \<times> 'w" where
  "check_capabilities S declared [] w = ([], w)"
| "check_capabilities S declared (c # cs) w = (case check_capability S c (c \<in> set declared) w of
     (r, w) \<Rightarrow> (case check_capabilities S declared cs w of (rs, w) \<Rightarrow> (r # rs, w)))"

section \<open>A run\<close>

definition discovery_results :: "string list \<Rightarrow> check_result list" where
  "discovery_results caps = map (\<lambda>c. \<lparr>cf_capability = c, cf_outcome = Failed,
     cf_detail = ''declared capability is not one the contract defines''\<rparr>) (filter (\<lambda>c. \<not> valid_capability c) caps)"

definition run_suite :: "('w, 'f, 'b) suite \<Rightarrow> ('w, report) act" where
  "run_suite S w = (case suite_get S path_capabilities [] w of
     (Inl e, w) \<Rightarrow> (Inl (''capability discovery: '' @ e), w)
   | (Inr (code, body), w) \<Rightarrow>
      if code \<noteq> 200
      then (Inl (''capability discovery: expected 200, got '' @ fmt_int code @ '': '' @ snippet S body), w)
      else (case Option.bind (jio_parse (su_json S) body) dec_capabilities of
          None \<Rightarrow> (Inl (''capability discovery: '' @ shape_complaint S ''capabilities'' body), w)
        | Some d \<Rightarrow>
           if cb_kind d \<noteq> kind_infra
           then (Inl (''capability discovery: kind '' @ su_quote S (cb_kind d) @ '' is not '' @ su_quote S kind_infra), w)
           else (let caps = slice_list (cb_capabilities d); declared = filter valid_capability caps in
             case check_authentication S w of (auth, w) \<Rightarrow>
             (case check_capabilities S declared infra_capabilities w of (rs, w) \<Rightarrow>
               (Inr \<lparr>rp_provider = cb_provider d, rp_kind = cb_kind d, rp_declared = sort declared,
                  rp_results = discovery_results caps @ auth # rs\<rparr>, w)))))"

end
