(* ===== verification/KubeProvider.thy ===== *)
theory KubeProvider
  imports ProviderServer
begin

text \<open>
  internal/provider/kubernetes: the provider that reads a bare cluster. The Kubernetes API and
  metrics-server are calls of an environment (\<open>'w\<close> the cluster); what the API errors of interest
  are - not found, service unavailable - comes with the error.
\<close>

section \<open>The cluster\<close>

record api_error =
  ae_text :: string
  ae_not_found :: bool
  ae_unavailable :: bool

record 'f kube_node =
  kn_uid :: string
  kn_name :: string
  kn_labels :: "(string \<times> string) list"
  kn_conditions :: "(string \<times> string) list"
  kn_architecture :: string
  kn_cpu :: 'f
  kn_memory :: 'f
  kn_addresses :: "(string \<times> string) list"

record kube_ingress =
  ki_ip :: string
  ki_hostname :: string

text \<open>One item of metrics-server's answer; quantities are text until parsed.\<close>

record usage_item =
  ui_name :: string
  ui_timestamp :: instant
  ui_cpu :: string
  ui_memory :: string

type_synonym ('w, 'a) kube = "'w \<Rightarrow> (api_error + 'a) \<times> 'w"

record ('w, 'f) kube_env =
  ke_list_nodes :: "('w, 'f kube_node list) kube"
  ke_get_service :: "string \<Rightarrow> string \<Rightarrow> ('w, kube_ingress list) kube"
  ke_read_metrics :: "('w, usage_item list result) kube"
  ke_quantity :: "string \<Rightarrow> 'f result"
  ke_quote :: "string \<Rightarrow> string"
  ke_floats :: "'f float64"

section \<open>metrics.go\<close>

record 'f node_metric =
  nm_name :: string
  nm_cpu_cores :: 'f
  nm_memory_bytes :: 'f
  nm_timestamp :: instant

definition metrics_api_path :: string where
  "metrics_api_path = ''/apis/metrics.k8s.io/v1beta1/nodes''"

text \<open>The error of a metrics read: whether it is \<open>ErrMetricsUnavailable\<close>, and its text.\<close>

datatype metrics_error = Metrics_unavailable string | Metrics_failed string

definition err_metrics_unavailable :: string where
  "err_metrics_unavailable = ''metrics API not available on this cluster''"

fun parse_usage :: "('w, 'f) kube_env \<Rightarrow> usage_item list \<Rightarrow> string + 'f node_metric list" where
  "parse_usage E [] = Inr []"
| "parse_usage E (u # us) = (case ke_quantity E (ui_cpu u) of
     Inl e \<Rightarrow> Inl (''node '' @ ui_name u @ '': parse cpu usage '' @ ke_quote E (ui_cpu u) @ '': '' @ e)
   | Inr cpu \<Rightarrow> (case ke_quantity E (ui_memory u) of
       Inl e \<Rightarrow> Inl (''node '' @ ui_name u @ '': parse memory usage '' @ ke_quote E (ui_memory u) @ '': '' @ e)
     | Inr mem \<Rightarrow> (case parse_usage E us of
         Inl e \<Rightarrow> Inl e
       | Inr ms \<Rightarrow> Inr (\<lparr>nm_name = ui_name u, nm_cpu_cores = cpu, nm_memory_bytes = mem, nm_timestamp = ui_timestamp u\<rparr> # ms))))"

definition node_metrics :: "('w, 'f) kube_env \<Rightarrow> 'w \<Rightarrow> (metrics_error + 'f node_metric list) \<times> 'w" where
  "node_metrics E w = (case ke_read_metrics E w of
     (Inl e, w) \<Rightarrow>
        if ae_not_found e \<or> ae_unavailable e
        then (Inl (Metrics_unavailable (ae_text e @ '': '' @ err_metrics_unavailable)), w)
        else (Inl (Metrics_failed (''query '' @ metrics_api_path @ '': '' @ ae_text e)), w)
   | (Inr (Inl e), w) \<Rightarrow> (Inl (Metrics_failed (''decode node metrics: '' @ e)), w)
   | (Inr (Inr items), w) \<Rightarrow> (case parse_usage E items of
       Inl e \<Rightarrow> (Inl (Metrics_failed e), w)
     | Inr ms \<Rightarrow> (Inr ms, w)))"

section \<open>kubernetes.go\<close>

definition label_instance_type :: string where "label_instance_type = ''node.kubernetes.io/instance-type''"
definition label_instance_type_beta :: string where "label_instance_type_beta = ''beta.kubernetes.io/instance-type''"
definition label_zone :: string where "label_zone = ''topology.kubernetes.io/zone''"
definition label_zone_beta :: string where "label_zone_beta = ''failure-domain.beta.kubernetes.io/zone''"
definition state_running :: string where "state_running = ''RUNNING''"
definition state_not_ready :: string where "state_not_ready = ''NOT_READY''"
definition default_ingress_service :: string where
  "default_ingress_service = ''ingress-nginx/ingress-nginx-controller''"
definition bytes_per_gib :: int where "bytes_per_gib = 1024 * 1024 * 1024"

record ('w, 'f) kube_provider =
  kp_env :: "('w, 'f) kube_env"
  kp_metrics :: bool
  kp_ingress_namespace :: string
  kp_ingress_name :: string

definition new_kube_provider :: "('w, 'f) kube_env \<Rightarrow> bool \<Rightarrow> string \<Rightarrow> ('w, 'f) kube_provider result" where
  "new_kube_provider E has_metrics ingress_service =
     (let service = (if ingress_service = [] then default_ingress_service else ingress_service);
          bad = Inl (''ingress service '' @ ke_quote E service @ '' is not in namespace/name form'')
      in case cut (CHR ''/'') service of
        None \<Rightarrow> bad
      | Some (namespace, name) \<Rightarrow> if namespace = [] \<or> name = [] then bad
          else Inr \<lparr>kp_env = E, kp_metrics = has_metrics, kp_ingress_namespace = namespace, kp_ingress_name = name\<rparr>)"

definition kube_capabilities :: "string list" where
  "kube_capabilities = [capability_instances, capability_metrics, capability_ingress]"

fun first_label :: "'f kube_node \<Rightarrow> string list \<Rightarrow> string" where
  "first_label n [] = []"
| "first_label n (k # ks) = (case map_of (kn_labels n) k of
     Some v \<Rightarrow> if v \<noteq> [] then v else first_label n ks | None \<Rightarrow> first_label n ks)"

definition instance_from_node :: "'f float64 \<Rightarrow> 'f kube_node \<Rightarrow> 'f instance_info" where
  "instance_from_node F n =
     (let shape = first_label n [label_instance_type, label_instance_type_beta] in
      \<lparr>ii_id = kn_uid n, ii_name = kn_name n,
       ii_state = (if (''Ready'', ''True'') \<in> set (kn_conditions n) then state_running else state_not_ready),
       ii_shape = (if shape = [] then kn_architecture n else shape),
       ii_ocpus = kn_cpu n, ii_memory_gb = fl_div F (kn_memory n) (fl_of_int F bytes_per_gib),
       ii_fault_domain = first_label n [label_zone, label_zone_beta],
       ii_private_ip = (case List.find (\<lambda>(ty, a). ty = ''InternalIP'') (kn_addresses n) of Some (_, a) \<Rightarrow> a | None \<Rightarrow> [])\<rparr>)"

definition list_nodes :: "('w, 'f) kube_provider \<Rightarrow> ('w, 'f kube_node list) pact" where
  "list_nodes p w = (case ke_list_nodes (kp_env p) w of
     (Inl e, w) \<Rightarrow> (Inl (upstream (''list nodes: '' @ ae_text e)), w)
   | (Inr ns, w) \<Rightarrow> (Inr ns, w))"

definition kube_instances :: "('w, 'f) kube_provider \<Rightarrow> ('w, 'f instance_info slice) pact" where
  "kube_instances p w = (case list_nodes p w of
     (Inl e, w) \<Rightarrow> (Inl e, w)
   | (Inr ns, w) \<Rightarrow> (Inr (Some (map (instance_from_node (ke_floats (kp_env p))) ns)), w))"

text \<open>
  The series of one usage against the capacity of its node: the last node of that name, as a map
  filled in list order keeps it.
\<close>

definition usage_series ::
    "'f float64 \<Rightarrow> string \<Rightarrow> 'f kube_node list \<Rightarrow> 'f node_metric \<Rightarrow> 'f series option" where
  "usage_series F metric ns u =
     (case List.find (\<lambda>n. kn_name n = nm_name u) (rev ns) of
        None \<Rightarrow> None
      | Some n \<Rightarrow>
         (let used = (if metric = metric_cpu_utilization then nm_cpu_cores u else nm_memory_bytes u);
              total = (if metric = metric_cpu_utilization then kn_cpu n else kn_memory n)
          in if fl_le F total (fl_of_int F 0) then None
             else Some \<lparr>sr_dimensions = [(dim_instance, nm_name u)], sr_timestamp = nm_timestamp u,
                    sr_value = fl_mul F (fl_div F used total) (fl_of_int F 100)\<rparr>))"

definition kube_metric :: "('w, 'f) kube_provider \<Rightarrow> string \<Rightarrow> duration \<Rightarrow> ('w, 'f series slice) pact" where
  "kube_metric p metric window w =
     (if metric \<noteq> metric_cpu_utilization \<and> metric \<noteq> metric_memory_utilization then (Inr None, w)
      else if \<not> kp_metrics p then (Inr None, w)
      else (case node_metrics (kp_env p) w of
          (Inl (Metrics_unavailable _), w) \<Rightarrow> (Inr None, w)
        | (Inl (Metrics_failed e), w) \<Rightarrow> (Inl (upstream (''read node metrics: '' @ e)), w)
        | (Inr usage, w) \<Rightarrow> (case list_nodes p w of
            (Inl e, w) \<Rightarrow> (Inl e, w)
          | (Inr ns, w) \<Rightarrow> (Inr (Some (List.map_filter (usage_series (ke_floats (kp_env p)) metric ns) usage)), w))))"

fun first_address :: "kube_ingress list \<Rightarrow> string" where
  "first_address [] = []"
| "first_address (i # is) = (if ki_ip i \<noteq> [] then ki_ip i
     else if ki_hostname i \<noteq> [] then ki_hostname i else first_address is)"

definition kube_ingress_address :: "('w, 'f) kube_provider \<Rightarrow> ('w, string) pact" where
  "kube_ingress_address p w = (case ke_get_service (kp_env p) (kp_ingress_namespace p) (kp_ingress_name p) w of
     (Inl e, w) \<Rightarrow> if ae_not_found e then (Inr [], w)
        else (Inl (upstream (''get service '' @ kp_ingress_namespace p @ ''/'' @ kp_ingress_name p @ '': '' @ ae_text e)), w)
   | (Inr ingress, w) \<Rightarrow> (Inr (first_address ingress), w))"

definition kube_infra :: "('w, 'f) kube_provider \<Rightarrow> ('w, 'f) infra_provider" where
  "kube_infra p = \<lparr>pv_name = ''kubernetes'', pv_capabilities = kube_capabilities,
     pv_instances = kube_instances p, pv_metric = kube_metric p,
     pv_alarms = Pair (Inl err_not_implemented), pv_ingress_address = kube_ingress_address p,
     pv_backup_objects = Pair (Inl err_not_implemented)\<rparr>"

end
