(* ===== verification/ConformanceSpecs.thy ===== *)
theory ConformanceSpecs
  imports Conformance KubeProvider
begin

text \<open>
  What the conformance suite establishes. The platform's own server, over a provider that answers,
  passes it, with exactly the outcomes the provider's declaration calls for; and a body the suite
  passes is one Core's client can read.
\<close>

section \<open>The suite linked to a server\<close>

text \<open>A body that arrives whole within the suite's limit of 4 MiB.\<close>

definition fits :: "('f, 'b) json_io \<Rightarrow> 'f json \<Rightarrow> bool" where
  "fits io v \<longleftrightarrow> (\<exists>b. jio_print io v = Some b \<and> jio_parse io b = Some v \<and> jio_limit io 4194304 b = b)"

lemma fits_read: "fits io v \<Longrightarrow> jio_parse io (jio_limit io 4194304 (hs_body (write_json io code v))) = Some v"
  by (auto simp: fits_def write_json_def)

lemma suite_path: "c \<in> set infra_capabilities \<Longrightarrow> ''/v0/infra/'' @ c = path_for c"
proof -
  have "''/v0/infra/'' @ capability_instances = path_instances" "''/v0/infra/'' @ capability_metrics = path_metrics"
    "''/v0/infra/'' @ capability_alarms = path_alarms" "''/v0/infra/'' @ capability_ingress = path_ingress"
    "''/v0/infra/'' @ capability_backups = path_backups"
    by code_simp+
  then show "c \<in> set infra_capabilities \<Longrightarrow> ''/v0/infra/'' @ c = path_for c"
    by (auto simp: infra_capabilities_def simp del: append.simps)
qed

lemma path_for_contract: "c \<in> set infra_capabilities \<Longrightarrow> path_for c \<in> set contract_paths"
  by (auto simp: infra_capabilities_def path_for_simps)

definition pass :: "string \<Rightarrow> check_result" where
  "pass c = \<lparr>cf_capability = c, cf_outcome = Pass, cf_detail = []\<rparr>"

definition verdict :: "string list \<Rightarrow> string \<Rightarrow> check_result" where
  "verdict caps c = \<lparr>cf_capability = c, cf_outcome = (if c \<in> set caps then Pass else Not_implemented), cf_detail = []\<rparr>"

locale suite_link = guarded_server srv t
  for srv :: "('w, 'f, 'b) provider_server" and t :: string +
  fixes S :: "('w, 'f, 'b) suite"
  assumes sends: "hq_path rq \<in> set contract_paths \<Longrightarrow>
      su_send S (su_base_url S) rq w = (case serve_http srv rq w of (res, w') \<Rightarrow> (Inr res, w'))"
    and reachable: "path \<in> set contract_paths \<Longrightarrow> su_bad_url S (su_base_url S @ path) = None"
    and secret: "su_token S = t" "t \<noteq> []"
    and same_reader: "su_json S = ps_json srv" "su_floats S = ps_floats srv"
begin

lemma asks: "path \<in> set contract_paths \<Longrightarrow> suite_get S path q w = (case served srv t path q w of
    (res, w') \<Rightarrow> (Inr (hs_code res, jio_limit (ps_json srv) 4194304 (hs_body res)), w'))"
  by (simp add: suite_get_def suite_call_def reachable secret same_reader sends served_def act_simps split: prod.split)

lemma refuses_strangers: "check_authentication S w = (pass ''authentication'', w)"
proof -
  have b: "bearer_token [] = []" by (simp add: bearer_token_def)
  have "serve_http srv \<lparr>hq_method = ''GET'', hq_path = path_capabilities, hq_query = [], hq_auth = []\<rparr> w =
      (write_error (ps_json srv) 401 code_unauthorized ''missing or invalid bearer token'', w)"
    using secret(2) by (simp add: serve_http_def Let_def authenticated_def guarded(1) act_simps b)
  then show ?thesis
    by (simp add: check_authentication_def suite_call_def reachable sends act_simps write_error_def write_json_def pass_def)
qed

lemma asks_capability: "c \<in> set infra_capabilities \<Longrightarrow> suite_get S (''/v0/infra/'' @ c) q w = (case served srv t (path_for c) q w of
    (res, w') \<Rightarrow> (Inr (hs_code res, jio_limit (ps_json srv) 4194304 (hs_body res)), w'))"
  by (simp only: suite_path asks path_for_contract)

lemma served_absent:
  assumes "c \<in> set infra_capabilities" "c \<notin> set (ps_caps srv)"
  shows "served srv t (path_for c) q w = (write_error (ps_json srv) 501 code_not_implemented (absent_message srv c), w)"
  using assms by (auto simp: infra_capabilities_def served_instances served_metrics_absent served_alarms served_ingress served_backups)

lemma absent_capability:
  assumes "c \<in> set infra_capabilities" "c \<notin> set (ps_caps srv)"
  shows "check_capability S c False w = (verdict (ps_caps srv) c, w)"
  unfolding check_capability_def asks_capability [OF assms(1)] served_absent [OF assms]
  using assms(2) by (simp add: write_error_def write_json_def verdict_def Let_def del: append.simps)

end

section \<open>A provider that answers\<close>

text \<open>\<open>well_answered\<close>: a read that succeeds in every state with a body that fits and decodes.\<close>

definition well_answered :: "('f, 'b) json_io \<Rightarrow> ('w, 'a) pact \<Rightarrow> ('a \<Rightarrow> 'f json) \<Rightarrow> ('f json \<Rightarrow> 'c option) \<Rightarrow> bool" where
  "well_answered io m encode decode \<longleftrightarrow> (\<forall>w. case m w of
     (Inl e, w') \<Rightarrow> False
   | (Inr x, w') \<Rightarrow> fits io (encode x) \<and> decode (encode x) \<noteq> None)"

lemma well_answeredE:
  assumes "well_answered io m encode decode"
  obtains x w' where "m w = (Inr x, w')" "fits io (encode x)" "decode (encode x) \<noteq> None"
proof -
  have "case m w of (Inl e, w') \<Rightarrow> False | (Inr x, w') \<Rightarrow> fits io (encode x) \<and> decode (encode x) \<noteq> None"
    using assms unfolding well_answered_def by (rule spec)
  then show thesis by (auto split: prod.splits sum.splits intro: that)
qed

definition healthy :: "('w, 'f, 'b) provider_server \<Rightarrow> bool" where
  "healthy srv \<longleftrightarrow> (let p = ps_provider srv; io = ps_json srv; F = ps_floats srv; on = (\<lambda>c. c \<in> set (ps_caps srv)) in
     (on capability_instances \<longrightarrow> well_answered io (pv_instances p) (\<lambda>xs. instances_json F (non_nil xs)) (dec_instances F)) \<and>
     (on capability_metrics \<longrightarrow> (\<forall>m \<in> set contract_metrics. well_answered io (pv_metric p m (seconds 300))
        (\<lambda>xs. series_body_json F io (non_nil xs)) (dec_series_body F io))) \<and>
     (on capability_alarms \<longrightarrow> well_answered io (pv_alarms p) (\<lambda>xs. alarms_json (non_nil xs)) dec_alarms) \<and>
     (on capability_ingress \<longrightarrow> well_answered io (pv_ingress_address p) ingress_json dec_ingress) \<and>
     (on capability_backups \<longrightarrow> well_answered io (pv_backup_objects p) (\<lambda>xs. backups_json F io (non_nil xs)) (dec_backups io)))"

text \<open>A body written from a list that is not nil holds an array.\<close>

lemma dec_slice_array: "dec_slice d (j_slice f (non_nil xs)) = Some r \<Longrightarrow> r \<noteq> None"
  by (cases xs) (auto simp: j_slice_def non_nil_def)

lemma bodies_hold_arrays:
  "dec_instances F (instances_json F (non_nil xs)) = Some r1 \<Longrightarrow> r1 \<noteq> None"
  "dec_series_body F io (series_body_json F io (non_nil ys)) = Some r2 \<Longrightarrow> r2 \<noteq> None"
  "dec_alarms (alarms_json (non_nil zs) :: 'f json) = Some r3 \<Longrightarrow> r3 \<noteq> None"
  "dec_backups io (backups_json F io (non_nil us)) = Some r4 \<Longrightarrow> r4 \<noteq> None"
  by (auto simp: dec_instances_def instances_json_def dec_series_body_def series_body_json_def dec_alarms_def alarms_json_def
      dec_backups_def backups_json_def with_fields_obj get_field_Cons dest: dec_slice_array)

lemma ingress_has_field: "dec_ingress_field (ingress_json ip :: 'f json) = Some (Some ip)"
  by (simp add: dec_ingress_field_def ingress_json_def with_fields_obj get_field_Cons)

text \<open>A list body that decodes to an array draws no complaint.\<close>

lemma check_list_ok:
  assumes "jio_parse (su_json S) body = Some v" "decode v = Some r" "r \<noteq> None"
  shows "check_list S capability field decode body = []"
  using assms by (auto simp: check_list_def)

lemma check_body_simps:
  "check_body S capability_instances body = check_list S capability_instances ''instances'' (dec_instances (su_floats S)) body"
  "check_body S capability_metrics body = check_list S capability_metrics ''series'' (dec_series_body (su_floats S) (su_json S)) body"
  "check_body S capability_alarms body = check_list S capability_alarms ''alarms'' dec_alarms body"
  "check_body S capability_backups body = check_list S capability_backups ''objects'' (dec_backups (su_json S)) body"
  by (simp_all add: check_body_def)

lemma check_ingress_ok: "jio_parse (su_json S) body = Some (ingress_json ip) \<Longrightarrow> check_body S capability_ingress body = []"
  by (simp add: check_body_def ingress_has_field)

lemma metric_query_gets: "query_get (metric_query m) ''metric'' = m" "atoi (query_get (metric_query m) ''window'') = Some 300"
proof -
  have "atoi ''300'' = Some 300" by code_simp
  then show "query_get (metric_query m) ''metric'' = m" "atoi (query_get (metric_query m) ''window'') = Some 300"
    by (simp_all add: metric_query_def query_get_def)
qed

lemma window_300: "wrap64 (seconds 300) = seconds 300"
  by code_simp

context suite_link
begin

text \<open>\<open>approved c q w\<close>: the server's answer to a call of capability \<open>c\<close> is one the suite accepts.\<close>

lemma approved_list:
  assumes "well_answered (ps_json srv) m encode decode"
    and "served srv t path q w = respond srv c m encode w"
    and "\<And>x r. decode (encode x) = Some r \<Longrightarrow> r \<noteq> None"
    and "\<And>body. check_body S c body = check_list S c field decode body"
  shows "\<exists>v w'. served srv t path q w = (write_json (ps_json srv) 200 v, w') \<and>
    check_body S c (jio_limit (ps_json srv) 4194304 (hs_body (write_json (ps_json srv) 200 v))) = []"
proof -
  obtain x w' where x: "m w = (Inr x, w')" "fits (ps_json srv) (encode x)" "decode (encode x) \<noteq> None"
    using assms(1) by (rule well_answeredE)
  then obtain r where r: "decode (encode x) = Some r" by auto
  have "check_body S c (jio_limit (ps_json srv) 4194304 (hs_body (write_json (ps_json srv) 200 (encode x)))) = []"
    unfolding assms(4) using r assms(3) [OF r]
    by (intro check_list_ok) (simp_all add: same_reader fits_read [OF x(2)])
  then show ?thesis using x(1) by (auto simp: assms(2) respond_def)
qed

lemma approved_metric:
  assumes "healthy srv" "capability_metrics \<in> set (ps_caps srv)" "m \<in> set contract_metrics"
  shows "\<exists>v w'. served srv t path_metrics (metric_query m) w = (write_json (ps_json srv) 200 v, w') \<and>
    check_body S capability_metrics (jio_limit (ps_json srv) 4194304 (hs_body (write_json (ps_json srv) 200 v))) = []"
proof (rule approved_list)
  show "well_answered (ps_json srv) (pv_metric (ps_provider srv) m (seconds 300))
      (\<lambda>xs. series_body_json (ps_floats srv) (ps_json srv) (non_nil xs)) (dec_series_body (ps_floats srv) (ps_json srv))"
    using assms by (simp add: healthy_def Let_def)
  show "served srv t path_metrics (metric_query m) w = respond srv capability_metrics (pv_metric (ps_provider srv) m (seconds 300))
      (\<lambda>xs. series_body_json (ps_floats srv) (ps_json srv) (non_nil xs)) w"
    using served_metrics [OF assms(2), of "metric_query m" 300 w] assms(3)
    by (simp add: metric_query_gets valid_metric_def window_300)
qed (erule bodies_hold_arrays, simp only: check_body_simps same_reader)

lemma approved_declared:
  assumes "healthy srv" "c \<in> set (ps_caps srv)" "c \<in> set infra_capabilities"
  shows "\<exists>v w'. served srv t (path_for c) (capability_query c) w = (write_json (ps_json srv) 200 v, w') \<and>
    check_body S c (jio_limit (ps_json srv) 4194304 (hs_body (write_json (ps_json srv) 200 v))) = []"
proof -
  note h = assms(1) [unfolded healthy_def Let_def]
  consider "c = capability_instances" | "c = capability_metrics" | "c = capability_alarms" | "c = capability_ingress" | "c = capability_backups"
    using assms(3) by (auto simp: infra_capabilities_def)
  then show ?thesis
  proof cases
    case 1
    have "well_answered (ps_json srv) (pv_instances (ps_provider srv)) (\<lambda>xs. instances_json (ps_floats srv) (non_nil xs)) (dec_instances (ps_floats srv))"
      using h assms(2) 1 by blast
    then show ?thesis unfolding 1 path_for_simps
      by (rule approved_list) (use assms(2) 1 in \<open>simp add: served_instances\<close>, erule bodies_hold_arrays, simp only: check_body_simps same_reader)
  next
    case 2
    have "metric_cpu_utilization \<in> set contract_metrics" by (simp add: contract_metrics_def)
    from approved_metric [OF assms(1) assms(2) [unfolded 2] this]
    show ?thesis unfolding 2 path_for_simps by (simp add: capability_query_def)
  next
    case 3
    have "well_answered (ps_json srv) (pv_alarms (ps_provider srv)) (\<lambda>xs. alarms_json (non_nil xs)) dec_alarms"
      using h assms(2) 3 by blast
    then show ?thesis unfolding 3 path_for_simps
      by (rule approved_list) (use assms(2) 3 in \<open>simp add: served_alarms\<close>, erule bodies_hold_arrays, simp only: check_body_simps)
  next
    case 4
    have "well_answered (ps_json srv) (pv_ingress_address (ps_provider srv)) ingress_json dec_ingress"
      using h assms(2) 4 by blast
    then obtain ip w' where "pv_ingress_address (ps_provider srv) w = (Inr ip, w')" "fits (ps_json srv) (ingress_json ip)"
      by (rule well_answeredE)
    then show ?thesis unfolding 4 path_for_simps
      using assms(2) 4 by (auto simp: served_ingress respond_def same_reader fits_read intro!: exI [of _ "ingress_json ip"] check_ingress_ok)
  next
    case 5
    have "well_answered (ps_json srv) (pv_backup_objects (ps_provider srv))
        (\<lambda>xs. backups_json (ps_floats srv) (ps_json srv) (non_nil xs)) (dec_backups (ps_json srv))"
      using h assms(2) 5 by blast
    then show ?thesis unfolding 5 path_for_simps
      by (rule approved_list) (use assms(2) 5 in \<open>simp add: served_backups\<close>, erule bodies_hold_arrays, simp only: check_body_simps same_reader)
  qed
qed

lemma metrics_pass:
  assumes "healthy srv" "capability_metrics \<in> set (ps_caps srv)" "set ms \<subseteq> set contract_metrics"
  shows "\<exists>w'. check_metrics S ms w = (None, w')"
  using assms(3)
proof (induction ms arbitrary: w)
  case (Cons m ms)
  obtain v w1 where v: "served srv t path_metrics (metric_query m) w = (write_json (ps_json srv) 200 v, w1)"
    "check_body S capability_metrics (jio_limit (ps_json srv) 4194304 (hs_body (write_json (ps_json srv) 200 v))) = []"
    using approved_metric [OF assms(1,2), of m w] Cons.prems by auto
  moreover have "hs_code (write_json (ps_json srv) 200 v) = 200" by (simp add: write_json_def)
  ultimately show ?case using Cons by (simp add: asks Let_def)
qed simp

lemma refusals:
  assumes "capability_metrics \<in> set (ps_caps srv)" "\<not> valid_metric (query_get q ''metric'') \<or> atoi (query_get q ''window'') = None"
  shows "expect_refused S q what w = (None, w)"
proof -
  obtain e m where "served srv t path_metrics q w = (write_error (ps_json srv) 400 e m, w)"
    using served_metrics_refused [OF assms] by blast
  then show ?thesis by (simp add: expect_refused_def asks write_error_def write_json_def)
qed

lemma every_metric_passes:
  assumes "healthy srv" "capability_metrics \<in> set (ps_caps srv)"
  shows "\<exists>w'. check_every_metric S w = (None, w')"
proof -
  obtain w1 where "check_metrics S contract_metrics w = (None, w1)"
    using metrics_pass [OF assms order_refl] by blast
  moreover have "\<not> valid_metric (query_get (metric_query ''not.a.contract.metric'') ''metric'')"
    unfolding metric_query_gets by code_simp
  moreover have "atoi (query_get [(''metric'', metric_cpu_utilization)] ''window'') = None"
    by (simp add: query_get_def atoi_def)
  ultimately show ?thesis by (simp add: check_every_metric_def refusals [OF assms(2)])
qed

lemma declared_capability:
  assumes "healthy srv" "c \<in> set (ps_caps srv)" "c \<in> set infra_capabilities"
  shows "\<exists>w'. check_capability S c True w = (verdict (ps_caps srv) c, w')"
proof -
  obtain v w1 where v: "served srv t (path_for c) (capability_query c) w = (write_json (ps_json srv) 200 v, w1)"
    "check_body S c (jio_limit (ps_json srv) 4194304 (hs_body (write_json (ps_json srv) 200 v))) = []"
    using approved_declared [OF assms] by blast
  moreover have "hs_code (write_json (ps_json srv) 200 v) = 200" by (simp add: write_json_def)
  moreover obtain w2 where "c = capability_metrics \<Longrightarrow> check_every_metric S w1 = (None, w2)"
    using every_metric_passes [OF assms(1)] assms(2) by blast
  ultimately show ?thesis
    unfolding check_capability_def asks_capability [OF assms(3)] using assms(2)
    by (simp add: Let_def verdict_def del: append.simps)
qed

lemma capabilities_pass:
  assumes "healthy srv" "set cs \<subseteq> set infra_capabilities"
  shows "\<exists>w'. check_capabilities S (declared_by srv) cs w = (map (verdict (ps_caps srv)) cs, w')"
  using assms(2)
proof (induction cs arbitrary: w)
  case (Cons c cs)
  have d: "c \<in> set (declared_by srv) \<longleftrightarrow> c \<in> set (ps_caps srv)" using Cons.prems by (simp add: declared_by_def)
  obtain w1 where "check_capability S c (c \<in> set (declared_by srv)) w = (verdict (ps_caps srv) c, w1)"
    using declared_capability [OF assms(1)] absent_capability Cons.prems d
    by (cases "c \<in> set (ps_caps srv)") (auto, metis)
  moreover obtain w2 where "check_capabilities S (declared_by srv) cs w1 = (map (verdict (ps_caps srv)) cs, w2)"
    using Cons by force
  ultimately show ?case by simp
qed simp

lemma run_passes:
  assumes "healthy srv" "fits (ps_json srv) (capabilities_json (discovery_of srv))"
  shows "\<exists>w'. run_suite S w = (Inr \<lparr>rp_provider = pv_name (ps_provider srv), rp_kind = kind_infra,
    rp_declared = sort (declared_by srv), rp_results = pass ''authentication'' # map (verdict (ps_caps srv)) infra_capabilities\<rparr>, w')"
proof -
  let ?body = "jio_limit (ps_json srv) 4194304 (hs_body (write_json (ps_json srv) 200 (capabilities_json (discovery_of srv))))"
  have "suite_get S path_capabilities [] w = (Inr (200, ?body), w)"
    by (simp add: asks served_capabilities) (simp add: write_json_def)
  moreover have "Option.bind (jio_parse (su_json S) ?body) dec_capabilities = Some (discovery_of srv)"
    by (simp add: same_reader fits_read [OF assms(2)])
  moreover have "cb_kind (discovery_of srv) = kind_infra" "cb_provider (discovery_of srv) = pv_name (ps_provider srv)"
    "slice_list (cb_capabilities (discovery_of srv)) = declared_by srv"
    by (simp_all add: discovery_of_def slice_list_def)
  moreover obtain w' where "check_capabilities S (declared_by srv) infra_capabilities w = (map (verdict (ps_caps srv)) infra_capabilities, w')"
    using capabilities_pass [OF assms(1) order_refl] by blast
  moreover have "discovery_results (declared_by srv) = []"
    by (simp add: discovery_results_def declared_by_def valid_capability_def)
  ultimately show ?thesis
    by (simp add: run_suite_def valid_declared refuses_strangers Let_def)
qed

end

text \<open>
  C6. The platform's server conforms to the contract it publishes: over any provider that answers
  what it declares, linked to the suite by a transport that delivers, with a token, the suite runs
  to the end and passes it, and reports each capability passed if declared, not implemented if not.
\<close>

theorem server_conforms:
  assumes "suite_link srv t S" "healthy srv" "fits (ps_json srv) (capabilities_json (discovery_of srv))"
  shows "\<exists>w' r. run_suite S w = (Inr r, w') \<and> passed r \<and> rp_declared r = sort (declared_by srv) \<and>
    rp_results r = pass ''authentication'' # map (verdict (ps_caps srv)) infra_capabilities"
proof -
  obtain w' where "run_suite S w = (Inr \<lparr>rp_provider = pv_name (ps_provider srv), rp_kind = kind_infra,
    rp_declared = sort (declared_by srv), rp_results = pass ''authentication'' # map (verdict (ps_caps srv)) infra_capabilities\<rparr>, w')"
    using suite_link.run_passes [OF assms] by blast
  then show ?thesis by (simp add: passed_def pass_def verdict_def)
qed

section \<open>A suite linked in memory\<close>

text \<open>The token both sides were given, with a default for none.\<close>

definition agreed :: "string \<Rightarrow> string" where
  "agreed u = (if trim_space u = [] then ''token'' else trim_space u)"

lemma agreed: "trim_space (agreed u) = agreed u" "agreed u \<noteq> []"
proof -
  have "trim_space ''token'' = ''token''" by code_simp
  then show "trim_space (agreed u) = agreed u" "agreed u \<noteq> []" by (simp_all add: agreed_def)
qed

definition loop_suite :: "('w, 'f, 'b) provider_server \<Rightarrow> string \<Rightarrow> ('w, 'f, 'b) suite" where
  "loop_suite srv t = \<lparr>su_base_url = ''http://provider:9090'', su_token = t, su_timeout = seconds 15,
     su_send = (\<lambda>base rq w. case serve_http srv rq w of (res, w') \<Rightarrow> (Inr res, w')), su_bad_url = (\<lambda>u. None),
     su_floats = ps_floats srv, su_json = ps_json srv, su_quote = ps_quote srv\<rparr>"

interpretation tested: suite_link "trusted srv (agreed u)" "agreed u" "loop_suite (trusted srv (agreed u)) (agreed u)"
  for srv u
  by unfold_locales (simp_all add: loop_suite_def trusted_def static_token_def agreed)

lemma id_io_fits [simp]: "fits id_io v"
  by (simp add: fits_def id_io_def)

lemma list_bodies_decode:
  "dec_instances F (instances_json F xs) = Some xs"
  "\<forall>x \<in> set (slice_list ys). time_survives io (sr_timestamp x) \<Longrightarrow> dec_series_body F io (series_body_json F io (non_nil ys)) \<noteq> None"
proof -
  have "dec_slice (dec_instance F) (j_slice (instance_json F) xs) = Some xs" by (rule dec_slice_j_slice) simp
  then show "dec_instances F (instances_json F xs) = Some xs"
    by (simp add: dec_instances_def instances_json_def with_fields_obj get_field_Cons)
  assume "\<forall>x \<in> set (slice_list ys). time_survives io (sr_timestamp x)"
  from dec_series_list [OF this] show "dec_series_body F io (series_body_json F io (non_nil ys)) \<noteq> None"
    by (cases ys) (simp_all add: dec_series_body_def series_body_json_def with_fields_obj get_field_Cons non_nil_def j_slice_def slice_list_def)
qed

lemma dec_ingress_json: "dec_ingress (ingress_json ip :: 'f json) = Some ip"
  by (simp add: dec_ingress_def ingress_json_def with_fields_obj get_field_Cons)

lemma lab_healthy: "healthy (trusted lab_server t)"
proof -
  have t: "time_survives id_io 5" by (rule id_io_time) (simp_all add: int64_def max_duration_def min_duration_def)
  have "dec_series_body int_floats id_io (series_body_json int_floats id_io (non_nil (Some [lab_series]))) \<noteq> None"
    by (rule list_bodies_decode) (simp add: slice_list_def lab_series_def t)
  then have "well_answered id_io (pv_metric lab_provider m d) (\<lambda>xs. series_body_json int_floats id_io (non_nil xs)) (dec_series_body int_floats id_io)" for m d
    by (simp add: well_answered_def lab_provider_def)
  moreover have "well_answered id_io (pv_instances lab_provider) (\<lambda>xs. instances_json int_floats (non_nil xs)) (dec_instances int_floats)"
    by (simp add: well_answered_def lab_provider_def list_bodies_decode)
  ultimately show ?thesis
    by (simp add: healthy_def Let_def trusted_def lab_server_def new_provider_server_def) (simp add: lab_provider_def)
qed

theorem server_conforms_witness:
  "\<exists>w' r. run_suite (loop_suite (trusted lab_server (agreed ''t0ken'')) (agreed ''t0ken'')) () = (Inr r, w') \<and> passed r"
proof -
  have io: "ps_json (trusted lab_server t) = id_io" for t by (simp add: trusted_def lab_server_def new_provider_server_def)
  show ?thesis
    using server_conforms [OF tested.suite_link_axioms lab_healthy, unfolded io, OF id_io_fits, where w = "()"] by blast
qed

section \<open>The Kubernetes provider\<close>

text \<open>
  The cluster's API answers: nodes are listed, the ingress service is found or known to be absent,
  metrics are readable or known to be unavailable. A bare cluster, with neither, answers.
\<close>

definition cluster_answers :: "('w, 'f) kube_provider \<Rightarrow> bool" where
  "cluster_answers p \<longleftrightarrow> (\<forall>w. (case list_nodes p w of (Inl e, w') \<Rightarrow> False | _ \<Rightarrow> True) \<and>
     (case ke_get_service (kp_env p) (kp_ingress_namespace p) (kp_ingress_name p) w of (Inl e, w') \<Rightarrow> ae_not_found e | _ \<Rightarrow> True) \<and>
     (case node_metrics (kp_env p) w of (Inl (Metrics_failed e), w') \<Rightarrow> False | _ \<Rightarrow> True))"

text \<open>What the provider answers can be written and read back.\<close>

definition readable :: "('f, 'b) json_io \<Rightarrow> ('w, 'a) pact \<Rightarrow> ('a \<Rightarrow> 'f json) \<Rightarrow> ('a \<Rightarrow> bool) \<Rightarrow> bool" where
  "readable io m encode ok \<longleftrightarrow> (\<forall>w. case m w of (Inr x, w') \<Rightarrow> fits io (encode x) \<and> ok x | _ \<Rightarrow> True)"

definition kube_readable :: "('f, 'b) json_io \<Rightarrow> 'f float64 \<Rightarrow> ('w, 'f) kube_provider \<Rightarrow> bool" where
  "kube_readable io F p \<longleftrightarrow>
     readable io (kube_instances p) (\<lambda>xs. instances_json F (non_nil xs)) (\<lambda>xs. True) \<and>
     (\<forall>m \<in> set contract_metrics. readable io (kube_metric p m (seconds 300)) (\<lambda>xs. series_body_json F io (non_nil xs))
        (\<lambda>xs. \<forall>x \<in> set (slice_list xs). time_survives io (sr_timestamp x))) \<and>
     readable io (kube_ingress_address p) ingress_json (\<lambda>ip. True)"

lemma well_answered_readable:
  assumes "readable io m encode ok" "\<And>w. \<exists>x w'. m w = (Inr x, w')" "\<And>x. ok x \<Longrightarrow> decode (encode x) \<noteq> None"
  shows "well_answered io m encode decode"
  unfolding well_answered_def
proof
  fix w
  obtain x w' where "m w = (Inr x, w')" using assms(2) by blast
  moreover from this have "fits io (encode x)" "ok x"
    using spec [OF assms(1) [unfolded readable_def], of w] by simp_all
  ultimately show "case m w of (Inl e, w') \<Rightarrow> False | (Inr x, w') \<Rightarrow> fits io (encode x) \<and> decode (encode x) \<noteq> None"
    using assms(3) by simp
qed

lemma kube_answers:
  assumes "cluster_answers p"
  shows "\<exists>x w'. kube_instances p w = (Inr x, w')" "\<exists>x w'. kube_metric p m d w = (Inr x, w')"
    "\<exists>x w'. kube_ingress_address p w = (Inr x, w')"
proof -
  have n: "\<exists>ns w'. list_nodes p w = (Inr ns, w')" for w
    using spec [OF assms [unfolded cluster_answers_def], of w] by (auto split: prod.splits sum.splits)
  show "\<exists>x w'. kube_instances p w = (Inr x, w')"
    using n [of w] by (auto simp: kube_instances_def)
  have g: "case ke_get_service (kp_env p) (kp_ingress_namespace p) (kp_ingress_name p) w of (Inl e, w') \<Rightarrow> ae_not_found e | _ \<Rightarrow> True"
    and m: "case node_metrics (kp_env p) w of (Inl (Metrics_failed e), w') \<Rightarrow> False | _ \<Rightarrow> True"
    using spec [OF assms [unfolded cluster_answers_def], of w] by simp_all
  show "\<exists>x w'. kube_ingress_address p w = (Inr x, w')"
    using g by (auto simp: kube_ingress_address_def split: prod.split sum.splits)
  obtain r w1 where r: "node_metrics (kp_env p) w = (r, w1)" by force
  show "\<exists>x w'. kube_metric p m d w = (Inr x, w')"
    using m n [of w1] by (auto simp: kube_metric_def r split: sum.splits metrics_error.splits)
qed

lemma kube_healthy:
  assumes "ps_provider srv = kube_infra p" "ps_caps srv = kube_capabilities"
    and "cluster_answers p" "kube_readable (ps_json srv) (ps_floats srv) p"
  shows "healthy srv"
proof -
  note a = kube_answers [OF assms(3)]
  note r = assms(4) [unfolded kube_readable_def]
  have "well_answered (ps_json srv) (kube_instances p) (\<lambda>xs. instances_json (ps_floats srv) (non_nil xs)) (dec_instances (ps_floats srv))"
    by (rule well_answered_readable [OF conjunct1 [OF r] a(1)]) (simp add: list_bodies_decode)
  moreover have "\<forall>m \<in> set contract_metrics. well_answered (ps_json srv) (kube_metric p m (seconds 300))
      (\<lambda>xs. series_body_json (ps_floats srv) (ps_json srv) (non_nil xs)) (dec_series_body (ps_floats srv) (ps_json srv))"
  proof
    fix m assume "m \<in> set contract_metrics"
    with r have "readable (ps_json srv) (kube_metric p m (seconds 300)) (\<lambda>xs. series_body_json (ps_floats srv) (ps_json srv) (non_nil xs))
        (\<lambda>xs. \<forall>x \<in> set (slice_list xs). time_survives (ps_json srv) (sr_timestamp x))" by blast
    then show "well_answered (ps_json srv) (kube_metric p m (seconds 300))
        (\<lambda>xs. series_body_json (ps_floats srv) (ps_json srv) (non_nil xs)) (dec_series_body (ps_floats srv) (ps_json srv))"
      by (rule well_answered_readable [OF _ a(2)]) (rule list_bodies_decode)
  qed
  moreover have "well_answered (ps_json srv) (kube_ingress_address p) ingress_json dec_ingress"
    by (rule well_answered_readable [OF conjunct2 [OF conjunct2 [OF r]] a(3)]) (simp add: dec_ingress_json)
  ultimately show ?thesis
    by (simp add: healthy_def Let_def assms(1,2) kube_infra_def kube_capabilities_def)
qed

text \<open>
  C34. The Kubernetes provider this repository ships conforms on every cluster whose API answers,
  with or without metrics-server and an ingress controller: it passes on instances, metrics and
  ingress, and alarms and backups are reported as not implemented rather than as failures.
\<close>

theorem kube_conforms:
  assumes "suite_link srv t S" "ps_provider srv = kube_infra p" "ps_caps srv = kube_capabilities"
    and "cluster_answers p" "kube_readable (ps_json srv) (ps_floats srv) p" "fits (ps_json srv) (capabilities_json (discovery_of srv))"
  shows "\<exists>w' r. run_suite S w = (Inr r, w') \<and> passed r \<and> map (\<lambda>x. (cf_capability x, cf_outcome x)) (rp_results r) =
    [(''authentication'', Pass), (capability_instances, Pass), (capability_metrics, Pass), (capability_alarms, Not_implemented),
     (capability_ingress, Pass), (capability_backups, Not_implemented)]"
proof -
  obtain w' where "run_suite S w = (Inr \<lparr>rp_provider = pv_name (ps_provider srv), rp_kind = kind_infra,
    rp_declared = sort (declared_by srv), rp_results = pass ''authentication'' # map (verdict (ps_caps srv)) infra_capabilities\<rparr>, w')"
    using suite_link.run_passes [OF assms(1) kube_healthy [OF assms(2-5)] assms(6)] by blast
  then show ?thesis
    by (simp add: passed_def pass_def verdict_def assms(3) kube_capabilities_def infra_capabilities_def)
qed

text \<open>One ready node; no metrics-server, no ingress controller.\<close>

definition bare_cluster :: "(unit, int) kube_provider" where
  "bare_cluster = \<lparr>kp_env = \<lparr>
       ke_list_nodes = (\<lambda>w. (Inr [\<lparr>kn_uid = ''u1'', kn_name = ''n1'', kn_labels = [], kn_conditions = [(''Ready'', ''True'')],
         kn_architecture = ''arm64'', kn_cpu = 4, kn_memory = 8 * bytes_per_gib, kn_addresses = [(''InternalIP'', ''10.0.0.4'')]\<rparr>], w)),
       ke_get_service = (\<lambda>ns n w. (Inl \<lparr>ae_text = ''not found'', ae_not_found = True, ae_unavailable = False\<rparr>, w)),
       ke_read_metrics = (\<lambda>w. (Inl \<lparr>ae_text = ''not found'', ae_not_found = True, ae_unavailable = False\<rparr>, w)),
       ke_quantity = (\<lambda>q. Inl ''no quantity''), ke_quote = id, ke_floats = int_floats\<rparr>,
     kp_metrics = True, kp_ingress_namespace = ''ingress-nginx'', kp_ingress_name = ''ingress-nginx-controller''\<rparr>"

definition bare_server :: "(unit, int, int json) provider_server" where
  "bare_server = new_provider_server int_floats id_io id (kube_infra bare_cluster) None"

theorem kube_conforms_witness:
  "\<exists>w' r. run_suite (loop_suite (trusted bare_server (agreed ''t0ken'')) (agreed ''t0ken'')) () = (Inr r, w') \<and> passed r"
proof -
  let ?srv = "trusted bare_server (agreed ''t0ken'')"
  have srv: "ps_provider ?srv = kube_infra bare_cluster" "ps_caps ?srv = kube_capabilities" "ps_json ?srv = id_io" "ps_floats ?srv = int_floats"
    by (simp_all add: trusted_def bare_server_def new_provider_server_def kube_infra_def)
  have "cluster_answers bare_cluster"
    by (simp add: cluster_answers_def bare_cluster_def list_nodes_def node_metrics_def)
  moreover have "kube_metric bare_cluster m d w = (Inr None, w)" for m d w
    by (simp add: kube_metric_def bare_cluster_def node_metrics_def)
  then have "kube_readable id_io int_floats bare_cluster"
    by (simp add: kube_readable_def readable_def slice_list_def split: prod.split sum.split)
  ultimately show ?thesis
    using kube_conforms [OF tested.suite_link_axioms srv(1,2), unfolded srv(3,4), OF _ _ id_io_fits, where w = "()"] by blast
qed

section \<open>What passing means for Core\<close>

text \<open>
  A provider written by anyone else, seen from outside: it answers each request, the same request
  the same way. Both the suite and Core's client reach it, with the same token.
\<close>

definition calls :: "('w, 'f, 'b) suite \<Rightarrow> ('w, 'f, 'b) client \<Rightarrow> (http_request \<Rightarrow> 'b http_response) \<Rightarrow> bool" where
  "calls S c answer \<longleftrightarrow> (\<forall>rq w. hq_path rq \<in> set contract_paths \<longrightarrow>
       su_send S (su_base_url S) rq w = (Inr (answer rq), w) \<and> cl_send c (cl_base_url c) rq w = (Inr (answer rq), w)) \<and>
     (\<forall>path \<in> set contract_paths. su_bad_url S (su_base_url S @ path) = None \<and> cl_bad_url c (cl_base_url c @ path) = None) \<and> su_token S \<noteq> [] \<and> cl_token c = Some (ret (su_token S)) \<and>
     cl_json c = su_json S \<and> cl_floats c = su_floats S"

text \<open>The body of the answer to a capability's call, which arrives within the suite's limit.\<close>

definition answer_to :: "(http_request \<Rightarrow> 'b http_response) \<Rightarrow> ('w, 'f, 'b) suite \<Rightarrow> string \<Rightarrow> 'b http_response" where
  "answer_to answer S cap = answer \<lparr>hq_method = ''GET'', hq_path = path_for cap, hq_query = capability_query cap,
     hq_auth = ''Bearer '' @ su_token S\<rparr>"

lemma suite_sees:
  assumes "calls S c answer" "cap \<in> set infra_capabilities"
  shows "suite_get S (''/v0/infra/'' @ cap) (capability_query cap) w =
    (Inr (hs_code (answer_to answer S cap), jio_limit (su_json S) 4194304 (hs_body (answer_to answer S cap))), w)"
  unfolding suite_path [OF assms(2)]
  using assms(1) path_for_contract [OF assms(2)] by (simp add: calls_def suite_get_def suite_call_def act_simps answer_to_def)

lemma core_sees:
  assumes "calls S c answer" "cap \<in> set infra_capabilities" "hs_code (answer_to answer S cap) = 200"
    and "jio_decode (su_json S) (hs_body (answer_to answer S cap)) = Some v" "decode v = Some x"
  shows "client_get c (path_for cap) (capability_query cap) kind decode w = (Inr x, w)"
  using assms path_for_contract [OF assms(2)] by (simp add: calls_def client_get_def auth_header_def act_simps answer_to_def)

lemma passed_capability:
  assumes "calls S c answer" "cap \<in> set infra_capabilities" "check_capability S cap True w = (r, w')" "cf_outcome r = Pass"
  shows "hs_code (answer_to answer S cap) = 200"
    "check_body S cap (jio_limit (su_json S) 4194304 (hs_body (answer_to answer S cap))) = []"
  using assms(3,4) unfolding check_capability_def suite_sees [OF assms(1,2)]
  by (auto simp: fail_result_def Let_def simp del: append.simps split: if_splits option.splits prod.splits)

lemma check_list_passed:
  assumes "check_list S cap field decode body = []"
  obtains v xs where "jio_parse (su_json S) body = Some v" "decode v = Some (Some xs)"
  using assms by (auto simp: check_list_def shape_complaint_def split: option.splits bind_splits)

lemma list_read:
  assumes "calls S c answer" "cap \<in> set infra_capabilities" "check_capability S cap True w = (r, w')" "cf_outcome r = Pass"
    and "jio_limit (su_json S) 4194304 (hs_body (answer_to answer S cap)) = hs_body (answer_to answer S cap)"
    and "\<forall>b v. jio_parse (su_json S) b = Some v \<longrightarrow> jio_decode (su_json S) b = Some v"
    and "\<And>body. check_body S cap body = check_list S cap field decode body"
  shows "\<exists>xs. client_get c (path_for cap) (capability_query cap) kind decode u = (Inr (Some xs), u)"
proof -
  note p = passed_capability [OF assms(1-4)]
  have "check_list S cap field decode (hs_body (answer_to answer S cap)) = []"
    using p(2) unfolding assms(5,7) .
  then obtain v xs where "jio_parse (su_json S) (hs_body (answer_to answer S cap)) = Some v" "decode v = Some (Some xs)"
    by (rule check_list_passed)
  then show ?thesis using core_sees [OF assms(1,2) p(1), of v decode "Some xs"] assms(6) by simp
qed

lemma ingress_read:
  assumes "calls S c answer" "check_capability S capability_ingress True w = (r, w')" "cf_outcome r = Pass"
    and "jio_limit (su_json S) 4194304 (hs_body (answer_to answer S capability_ingress)) = hs_body (answer_to answer S capability_ingress)"
    and "\<forall>b v. jio_parse (su_json S) b = Some v \<longrightarrow> jio_decode (su_json S) b = Some v"
  shows "\<exists>ip. client_get c path_ingress [] kind dec_ingress u = (Inr ip, u)"
proof -
  have i: "capability_ingress \<in> set infra_capabilities" by (simp add: infra_capabilities_def)
  note p = passed_capability [OF assms(1) i assms(2,3)]
  obtain v where v: "jio_parse (su_json S) (hs_body (answer_to answer S capability_ingress)) = Some v" "dec_ingress_field v \<noteq> None"
    using p(2) unfolding assms(4) by (auto simp: check_body_def shape_complaint_def split: option.splits bind_splits)
  then obtain ip where "dec_ingress v = Some ip"
    by (auto simp: dec_ingress_field_def dec_ingress_def with_fields_def split: option.splits if_splits)
  then show ?thesis
    using core_sees [OF assms(1) i p(1), of v dec_ingress] v(1) assms(5) by (simp add: capability_query_def)
qed

text \<open>
  C35. A capability that passes the suite is one Core can read: when a provider answers as it did
  under test and within the suite's body limit, Core's own call of that capability returns data -
  a list for the four list capabilities, never an error. For metrics the call is the one the suite
  makes, CPU over five minutes.
\<close>

theorem passed_capability_readable:
  assumes "calls S c answer" "cap \<in> set infra_capabilities" "check_capability S cap True w = (r, w')" "cf_outcome r = Pass"
    and "jio_limit (su_json S) 4194304 (hs_body (answer_to answer S cap)) = hs_body (answer_to answer S cap)"
    and "\<forall>b v. jio_parse (su_json S) b = Some v \<longrightarrow> jio_decode (su_json S) b = Some v"
  shows "(cap = capability_instances \<and> (\<exists>xs. client_get c path_instances [] cap (dec_instances (su_floats S)) u = (Inr (Some xs), u))) \<or>
    (cap = capability_metrics \<and> (\<exists>xs. client_get c path_metrics (metric_query metric_cpu_utilization) cap
       (dec_series_body (su_floats S) (su_json S)) u = (Inr (Some xs), u))) \<or>
    (cap = capability_alarms \<and> (\<exists>xs. client_get c path_alarms [] cap dec_alarms u = (Inr (Some xs), u))) \<or>
    (cap = capability_ingress \<and> (\<exists>ip. client_get c path_ingress [] cap dec_ingress u = (Inr ip, u))) \<or>
    (cap = capability_backups \<and> (\<exists>xs. client_get c path_backups [] cap (dec_backups (su_json S)) u = (Inr (Some xs), u)))"
proof -
  have q: "capability_query cap = (if cap = capability_metrics then metric_query metric_cpu_utilization else [])"
    by (simp add: capability_query_def)
  note l = list_read [OF assms, where u = u and kind = cap, unfolded q]
  consider "cap = capability_instances" | "cap = capability_metrics" | "cap = capability_alarms" | "cap = capability_ingress" | "cap = capability_backups"
    using assms(2) by (auto simp: infra_capabilities_def)
  then show ?thesis
  proof cases
    case 1 then show ?thesis using l [of "''instances''" "dec_instances (su_floats S)"] by (simp add: check_body_simps)
  next
    case 2 then show ?thesis using l [of "''series''" "dec_series_body (su_floats S) (su_json S)"] by (simp add: check_body_simps)
  next
    case 3 then show ?thesis using l [of "''alarms''" dec_alarms] by (simp add: check_body_simps)
  next
    case 4 then show ?thesis using ingress_read [OF assms(1) _ assms(4) _ assms(6)] assms(3,5) by simp
  next
    case 5 then show ?thesis using l [of "''objects''" "dec_backups (su_json S)"] by (simp add: check_body_simps)
  qed
qed

text \<open>The server of the tests, without its capability guard's state, as a provider seen from outside.\<close>

definition lab_answer :: "http_request \<Rightarrow> int json http_response" where
  "lab_answer rq = fst (serve_http (trusted lab_server (agreed ''t0ken'')) rq ())"

definition lab_suite :: "(unit, int, int json) suite" where
  "lab_suite = loop_suite (trusted lab_server (agreed ''t0ken'')) (agreed ''t0ken'')"

theorem passed_capability_readable_witness:
  "\<exists>xs. client_get (loopback (trusted lab_server (agreed ''t0ken'')) (agreed ''t0ken'') (Pair 1)) path_instances []
     capability_instances (dec_instances int_floats) () = (Inr (Some xs), ())"
proof -
  let ?srv = "trusted lab_server (agreed ''t0ken'')"
  let ?c = "loopback ?srv (agreed ''t0ken'') (Pair 1)"
  have id: "id_io = ps_json ?srv" "su_json lab_suite = id_io" "su_floats lab_suite = int_floats"
    by (simp_all add: lab_suite_def loop_suite_def trusted_def lab_server_def new_provider_server_def)
  have calls: "calls lab_suite ?c lab_answer"
    by (simp add: calls_def lab_suite_def loop_suite_def loopback_def lab_answer_def static_token_def agreed case_prod_unfold)
  have i: "capability_instances \<in> set (ps_caps ?srv)" "capability_instances \<in> set infra_capabilities"
    by (simp_all add: trusted_def lab_server_def new_provider_server_def lab_provider_def infra_capabilities_def)
  obtain w' where "check_capability lab_suite capability_instances True () = (verdict (ps_caps ?srv) capability_instances, w')"
    using tested.declared_capability [OF lab_healthy i] unfolding lab_suite_def by blast
  note r = passed_capability_readable [OF calls i(2) this, unfolded id(2,3), where u = "()"]
  have "cf_outcome (verdict (ps_caps ?srv) capability_instances) = Pass" using i(1) by (simp add: verdict_def)
  from r [OF this] show ?thesis by (simp add: id_io_def)
qed

end
