(* ===== verification/BuildWire.thy ===== *)
theory BuildWire
  imports BuildTypes Json "HOL-Library.Monad_Syntax" "HOL-Library.Sublist"
begin

text \<open>
  The JSON of internal/build/types/types.go: what the coordinator and its client exchange. A time
  travels as RFC 3339 text; how it is read back is an argument.
\<close>

section \<open>Fields\<close>

definition env_field :: "env_map \<Rightarrow> (string \<times> 'f json) list" where
  "env_field env = (if env = [] then [] else [(''env'', J_obj (map (\<lambda>(k, v). (k, J_str v)) (sort_key fst env)))])"

definition j_time :: "gotime \<Rightarrow> 'f json" where
  "j_time t = J_str (format_time t)"

definition j_time_ptr :: "string \<Rightarrow> gotime option \<Rightarrow> (string \<times> 'f json) list" where
  "j_time_ptr key t = (case t of None \<Rightarrow> [] | Some t \<Rightarrow> [(key, j_time t)])"

fun dec_gotime :: "(string \<Rightarrow> gotime option) \<Rightarrow> 'f json \<Rightarrow> gotime option" where
  "dec_gotime parse J_null = Some zero_time"
| "dec_gotime parse (J_str s) = parse s"
| "dec_gotime parse _ = None"

fun dec_gotime_ptr :: "(string \<Rightarrow> gotime option) \<Rightarrow> 'f json \<Rightarrow> gotime option option" where
  "dec_gotime_ptr parse J_null = Some None"
| "dec_gotime_ptr parse (J_str s) = map_option Some (parse s)"
| "dec_gotime_ptr parse _ = None"

section \<open>Requests and responses\<close>

definition create_build_request_json :: "'f float64 \<Rightarrow> create_build_request \<Rightarrow> 'f json" where
  "create_build_request_json F r = J_obj (j_omit_empty ''name'' (cb_name r) @
     [(''appName'', J_str (cb_app_name r)), (''repoUrl'', J_str (cb_repo_url r)), (''ref'', J_str (cb_ref r)),
      (''replicas'', j_int F (cb_replicas r)), (''port'', j_int F (cb_port r))] @ env_field (cb_env r))"

definition obj_fields :: "string list \<Rightarrow> 'f json \<Rightarrow> (string \<Rightarrow> 'f json) option" where
  "obj_fields names v = map_option (get_field names) (dec_object v)"

definition dec_create_build_request :: "'f json \<Rightarrow> create_build_request option" where
  "dec_create_build_request v = do {
     get \<leftarrow> obj_fields [''name'', ''appName'', ''repoUrl'', ''ref'', ''replicas'', ''port'', ''env''] v;
     n \<leftarrow> dec_str (get ''name''); a \<leftarrow> dec_str (get ''appName''); u \<leftarrow> dec_str (get ''repoUrl''); r \<leftarrow> dec_str (get ''ref'');
     k \<leftarrow> dec_int64 (get ''replicas''); p \<leftarrow> dec_int64 (get ''port''); e \<leftarrow> dec_string_map (get ''env'');
     Some \<lparr>cb_name = n, cb_app_name = a, cb_repo_url = u, cb_ref = r, cb_replicas = k, cb_port = p, cb_env = e\<rparr> }"

definition create_build_response_json :: "create_build_response \<Rightarrow> 'f json" where
  "create_build_response_json r = J_obj [(''appName'', J_str (cr_app_name r)), (''buildId'', J_str (cr_build_id r)),
     (''status'', J_str (cr_status r))]"

definition dec_create_build_response :: "'f json \<Rightarrow> create_build_response option" where
  "dec_create_build_response v = do {
     get \<leftarrow> obj_fields [''appName'', ''buildId'', ''status''] v;
     a \<leftarrow> dec_str (get ''appName''); b \<leftarrow> dec_str (get ''buildId''); s \<leftarrow> dec_str (get ''status'');
     Some \<lparr>cr_app_name = a, cr_build_id = b, cr_status = s\<rparr> }"

section \<open>Jobs\<close>

definition job_names :: "string list" where
  "job_names = [''id'', ''appName'', ''repoUrl'', ''ref'', ''commitSha'', ''framework'', ''image'', ''tag'', ''status'',
     ''attempts'', ''replicas'', ''port'', ''env'', ''gitopsCommitSha'', ''gitopsPath'', ''deployStatus'', ''argoSyncStatus'',
     ''argoHealth'', ''appUrl'', ''verificationError'', ''error'', ''createdAt'', ''updatedAt'', ''startedAt'', ''finishedAt'']"

definition job_fields :: "'f float64 \<Rightarrow> job \<Rightarrow> (string \<times> 'f json) list" where
  "job_fields F j = [(''id'', J_str (j_id j)), (''appName'', J_str (j_app_name j)), (''repoUrl'', J_str (j_repo_url j)),
     (''ref'', J_str (j_ref j)), (''commitSha'', J_str (j_commit_sha j)), (''framework'', J_str (j_framework j)),
     (''image'', J_str (j_image j)), (''tag'', J_str (j_tag j)), (''status'', J_str (j_status j)),
     (''attempts'', j_int F (j_attempts j)), (''replicas'', j_int F (j_replicas j)), (''port'', j_int F (j_port j))] @
     env_field (j_env j) @
     j_omit_empty ''gitopsCommitSha'' (j_gitops_commit_sha j) @ j_omit_empty ''gitopsPath'' (j_gitops_path j) @
     j_omit_empty ''deployStatus'' (j_deploy_status j) @ j_omit_empty ''argoSyncStatus'' (j_argo_sync_status j) @
     j_omit_empty ''argoHealth'' (j_argo_health j) @ j_omit_empty ''appUrl'' (j_app_url j) @
     j_omit_empty ''verificationError'' (j_verification_error j) @ j_omit_empty ''error'' (j_error j) @
     [(''createdAt'', j_time (j_created_at j)), (''updatedAt'', j_time (j_updated_at j))] @
     j_time_ptr ''startedAt'' (j_started_at j) @ j_time_ptr ''finishedAt'' (j_finished_at j)"

definition job_json :: "'f float64 \<Rightarrow> job \<Rightarrow> 'f json" where
  "job_json F j = J_obj (job_fields F j)"

definition dec_job :: "(string \<Rightarrow> gotime option) \<Rightarrow> 'f json \<Rightarrow> job option" where
  "dec_job parse v = do {
     get \<leftarrow> obj_fields job_names v;
     f1 \<leftarrow> dec_str (get ''id''); f2 \<leftarrow> dec_str (get ''appName''); f3 \<leftarrow> dec_str (get ''repoUrl''); f4 \<leftarrow> dec_str (get ''ref'');
     f5 \<leftarrow> dec_str (get ''commitSha''); f6 \<leftarrow> dec_str (get ''framework''); f7 \<leftarrow> dec_str (get ''image''); f8 \<leftarrow> dec_str (get ''tag'');
     f9 \<leftarrow> dec_str (get ''status''); f10 \<leftarrow> dec_int64 (get ''attempts''); f11 \<leftarrow> dec_int64 (get ''replicas'');
     f12 \<leftarrow> dec_int64 (get ''port''); f13 \<leftarrow> dec_string_map (get ''env''); f14 \<leftarrow> dec_str (get ''gitopsCommitSha'');
     f15 \<leftarrow> dec_str (get ''gitopsPath''); f16 \<leftarrow> dec_str (get ''deployStatus''); f17 \<leftarrow> dec_str (get ''argoSyncStatus'');
     f18 \<leftarrow> dec_str (get ''argoHealth''); f19 \<leftarrow> dec_str (get ''appUrl''); f20 \<leftarrow> dec_str (get ''verificationError'');
     f21 \<leftarrow> dec_str (get ''error''); f22 \<leftarrow> dec_gotime parse (get ''createdAt''); f23 \<leftarrow> dec_gotime parse (get ''updatedAt'');
     f24 \<leftarrow> dec_gotime_ptr parse (get ''startedAt''); f25 \<leftarrow> dec_gotime_ptr parse (get ''finishedAt'');
     Some \<lparr>j_id = f1, j_app_name = f2, j_repo_url = f3, j_ref = f4, j_commit_sha = f5, j_framework = f6, j_image = f7,
       j_tag = f8, j_status = f9, j_attempts = f10, j_replicas = f11, j_port = f12, j_env = f13,
       j_gitops_commit_sha = f14, j_gitops_path = f15, j_deploy_status = f16, j_argo_sync_status = f17, j_argo_health = f18,
       j_app_url = f19, j_verification_error = f20, j_error = f21, j_created_at = f22, j_updated_at = f23,
       j_started_at = f24, j_finished_at = f25\<rparr> }"

text \<open>\<open>BuildLogsResponse\<close> and the list of builds; a nil slice of jobs is \<open>null\<close>.\<close>

definition log_line_json :: "'f float64 \<Rightarrow> build_log_line \<Rightarrow> 'f json" where
  "log_line_json F l = J_obj [(''sequence'', j_int F (bl_sequence l)), (''timestamp'', j_time (bl_timestamp l)),
     (''stream'', J_str (bl_stream l)), (''message'', J_str (bl_message l))]"

definition dec_log_line :: "(string \<Rightarrow> gotime option) \<Rightarrow> 'f json \<Rightarrow> build_log_line option" where
  "dec_log_line parse v = do {
     get \<leftarrow> obj_fields [''sequence'', ''timestamp'', ''stream'', ''message''] v;
     n \<leftarrow> dec_int64 (get ''sequence''); t \<leftarrow> dec_gotime parse (get ''timestamp''); s \<leftarrow> dec_str (get ''stream''); m \<leftarrow> dec_str (get ''message'');
     Some \<lparr>bl_sequence = n, bl_timestamp = t, bl_stream = s, bl_message = m\<rparr> }"

definition dec_logs_response :: "(string \<Rightarrow> gotime option) \<Rightarrow> 'f json \<Rightarrow> build_log_line slice option" where
  "dec_logs_response parse v = do {
     get \<leftarrow> obj_fields [''lines''] v; dec_slice (dec_log_line parse) (get ''lines'') }"

text \<open>A list of pointers: \<open>null\<close> decodes to a nil one.\<close>

fun dec_job_ptr :: "(string \<Rightarrow> gotime option) \<Rightarrow> 'f json \<Rightarrow> job option option" where
  "dec_job_ptr parse J_null = Some None"
| "dec_job_ptr parse v = map_option Some (dec_job parse v)"

definition dec_builds :: "(string \<Rightarrow> gotime option) \<Rightarrow> 'f json \<Rightarrow> job option slice option" where
  "dec_builds parse v = do {
     get \<leftarrow> obj_fields [''builds''] v; dec_slice (dec_job_ptr parse) (get ''builds'') }"

section \<open>Round trips\<close>

definition time_reads :: "(string \<Rightarrow> gotime option) \<Rightarrow> gotime \<Rightarrow> bool" where
  "time_reads parse t \<longleftrightarrow> parse (format_time t) = Some t"

definition int_fits :: "int \<Rightarrow> bool" where
  "int_fits n \<longleftrightarrow> min_duration \<le> n \<and> n \<le> max_duration"

text \<open>A job whose environment is listed in sorted order and whose numbers and times fit.\<close>

definition job_travels :: "(string \<Rightarrow> gotime option) \<Rightarrow> job \<Rightarrow> bool" where
  "job_travels parse j \<longleftrightarrow> sorted (map fst (j_env j)) \<and>
     int_fits (j_attempts j) \<and> int_fits (j_replicas j) \<and> int_fits (j_port j) \<and>
     time_reads parse (j_created_at j) \<and> time_reads parse (j_updated_at j) \<and>
     (case j_started_at j of None \<Rightarrow> True | Some t \<Rightarrow> time_reads parse t) \<and>
     (case j_finished_at j of None \<Rightarrow> True | Some t \<Rightarrow> time_reads parse t)"

lemma dec_int64_j_int: "int_fits n \<Longrightarrow> dec_int64 (j_int F n) = Some n"
  by (simp add: int_fits_def j_int_def)

lemma dec_gotime_j_time: "time_reads parse t \<Longrightarrow> dec_gotime parse (j_time t) = Some t"
  by (simp add: time_reads_def j_time_def)

lemma subseq_keys: "subseq xs ys \<Longrightarrow> set xs \<subseteq> set ys \<and> (distinct ys \<longrightarrow> distinct xs)"
  by (induction rule: list_emb.induct) auto

text \<open>The fields of an encoded struct: its keys are field names, in the order of the struct.\<close>

lemma get_field_struct:
  assumes "subseq (map fst kvs) names" "distinct names"
  shows "get_field names kvs n = (case map_of kvs n of Some v \<Rightarrow> v | None \<Rightarrow> J_null)"
proof -
  have sub: "set (map fst kvs) \<subseteq> set names" and d: "distinct (map fst kvs)"
    using subseq_keys [OF assms(1)] assms(2) by blast+
  show ?thesis
  proof (cases "map_of kvs n")
    case None
    have "filter (\<lambda>(k, v). field_for names k = Some n) kvs = []"
      using sub None by (auto simp: filter_empty_conv map_of_eq_None_iff image_subset_iff)
        (metis field_for_exact fst_conv image_eqI option.inject)
    then show ?thesis using None by (simp add: get_field_def)
  next
    case (Some v)
    then show ?thesis using get_field_encoded [OF sub d Some] by simp
  qed
qed

lemma segments [simp]:
  "subseq (map fst (j_omit_empty k v)) [k]" "subseq (map fst (env_field e)) [''env'']" "subseq (map fst (j_time_ptr k t)) [k]"
  "map_of (j_omit_empty k v) n = (if n = k \<and> v \<noteq> [] then Some (J_str v) else None)"
  "map_of (env_field e) n = (if n = ''env'' \<and> e \<noteq> [] then Some (J_obj (map (\<lambda>(k, v). (k, J_str v)) (sort_key fst e))) else None)"
  "map_of (j_time_ptr k t) n = (if n = k then map_option j_time t else None)"
  by (auto simp: j_omit_empty_def env_field_def j_time_ptr_def split: option.split)

lemma obj_fields_obj [simp]: "obj_fields names (J_obj kvs) = Some (get_field names kvs)"
  by (simp add: obj_fields_def)

lemma sorted_env: "sorted (map fst e) \<Longrightarrow> sort_key fst e = e"
  by (rule sort_key_id_if_sorted)

lemma omitted:
  "dec_str (case if v \<noteq> [] then Some (J_str v) else None of None \<Rightarrow> J_null | Some u \<Rightarrow> u) = Some v"
  "sorted (map fst e) \<Longrightarrow> dec_string_map (case if e \<noteq> [] then Some (J_obj (map (\<lambda>(k, v). (k, J_str v)) (sort_key fst e))) else None of
     None \<Rightarrow> J_null | Some u \<Rightarrow> u) = Some e"
  by (auto simp: sorted_env)

lemma append_subseq: "subseq a b \<Longrightarrow> subseq c d \<Longrightarrow> subseq (a @ c) (b @ d)"
  by (rule list_emb_append_mono)

lemma job_keys: "subseq (map fst (job_fields F j)) job_names"
proof -
  have js: "job_names = [''id'', ''appName'', ''repoUrl'', ''ref'', ''commitSha'', ''framework'', ''image'', ''tag'', ''status'',
     ''attempts'', ''replicas'', ''port''] @ [''env''] @ [''gitopsCommitSha''] @ [''gitopsPath''] @ [''deployStatus''] @ [''argoSyncStatus''] @
     [''argoHealth''] @ [''appUrl''] @ [''verificationError''] @ [''error''] @ [''createdAt'', ''updatedAt''] @ [''startedAt''] @ [''finishedAt'']"
    by (simp add: job_names_def)
  show ?thesis
    unfolding job_fields_def map_append js by (intro append_subseq segments) simp_all
qed

lemma job_names_distinct: "distinct job_names"
  by code_simp

lemma job_field: "get_field job_names (job_fields F j) n = (case map_of (job_fields F j) n of Some v \<Rightarrow> v | None \<Rightarrow> J_null)"
  by (rule get_field_struct [OF job_keys job_names_distinct])

lemma map_of_segments: "map_of (xs @ ys) k = (case map_of xs k of Some v \<Rightarrow> Some v | None \<Rightarrow> map_of ys k)"
  by (simp add: map_add_def split: option.split)

lemma job_lookup:
  "map_of (job_fields F j) ''id'' = Some (J_str (j_id j))"
  "map_of (job_fields F j) ''appName'' = Some (J_str (j_app_name j))"
  "map_of (job_fields F j) ''repoUrl'' = Some (J_str (j_repo_url j))"
  "map_of (job_fields F j) ''ref'' = Some (J_str (j_ref j))"
  "map_of (job_fields F j) ''commitSha'' = Some (J_str (j_commit_sha j))"
  "map_of (job_fields F j) ''framework'' = Some (J_str (j_framework j))"
  "map_of (job_fields F j) ''image'' = Some (J_str (j_image j))"
  "map_of (job_fields F j) ''tag'' = Some (J_str (j_tag j))"
  "map_of (job_fields F j) ''status'' = Some (J_str (j_status j))"
  "map_of (job_fields F j) ''attempts'' = Some (j_int F (j_attempts j))"
  "map_of (job_fields F j) ''replicas'' = Some (j_int F (j_replicas j))"
  "map_of (job_fields F j) ''port'' = Some (j_int F (j_port j))"
  "map_of (job_fields F j) ''gitopsCommitSha'' = (if j_gitops_commit_sha j \<noteq> [] then Some (J_str (j_gitops_commit_sha j)) else None)"
  "map_of (job_fields F j) ''gitopsPath'' = (if j_gitops_path j \<noteq> [] then Some (J_str (j_gitops_path j)) else None)"
  "map_of (job_fields F j) ''deployStatus'' = (if j_deploy_status j \<noteq> [] then Some (J_str (j_deploy_status j)) else None)"
  "map_of (job_fields F j) ''argoSyncStatus'' = (if j_argo_sync_status j \<noteq> [] then Some (J_str (j_argo_sync_status j)) else None)"
  "map_of (job_fields F j) ''argoHealth'' = (if j_argo_health j \<noteq> [] then Some (J_str (j_argo_health j)) else None)"
  "map_of (job_fields F j) ''appUrl'' = (if j_app_url j \<noteq> [] then Some (J_str (j_app_url j)) else None)"
  "map_of (job_fields F j) ''verificationError'' = (if j_verification_error j \<noteq> [] then Some (J_str (j_verification_error j)) else None)"
  "map_of (job_fields F j) ''error'' = (if j_error j \<noteq> [] then Some (J_str (j_error j)) else None)"
  "map_of (job_fields F j) ''env'' = (if j_env j \<noteq> [] then Some (J_obj (map (\<lambda>(k, v). (k, J_str v)) (sort_key fst (j_env j)))) else None)"
  "map_of (job_fields F j) ''createdAt'' = Some (j_time (j_created_at j))"
  "map_of (job_fields F j) ''updatedAt'' = Some (j_time (j_updated_at j))"
  "map_of (job_fields F j) ''startedAt'' = map_option j_time (j_started_at j)"
  "map_of (job_fields F j) ''finishedAt'' = map_option j_time (j_finished_at j)"
  unfolding job_fields_def map_of_segments by (simp_all split: option.split)

lemma found:
  "dec_int64 (case Some v of None \<Rightarrow> J_null | Some u \<Rightarrow> u) = dec_int64 v"
  "(case p of None \<Rightarrow> True | Some t \<Rightarrow> time_reads parse t) \<Longrightarrow>
     dec_gotime_ptr parse (case map_option j_time p of None \<Rightarrow> J_null | Some u \<Rightarrow> u) = Some p"
  by (auto simp: time_reads_def j_time_def split: option.split)

lemma dec_job_json: "job_travels parse j \<Longrightarrow> dec_job parse (job_json F j) = Some j"
  by (simp only: job_travels_def dec_job_def job_json_def obj_fields_obj bind.bind_lunit job_field job_lookup found dec_int64_j_int
      omitted option.case dec_str.simps) (simp add: dec_gotime_j_time)

lemma dec_response_json [simp]: "dec_create_build_response (create_build_response_json r) = Some r"
  by (simp add: dec_create_build_response_def create_build_response_json_def get_field_struct)

end
