(* ===== verification/BuildClient.thy ===== *)
theory BuildClient
  imports BuildWire Provider Coordinator
begin

text \<open>
  internal/build/client/client.go: the API's calls of the build coordinator. The HTTP transport is
  a call on the world \<open>'w\<close>; a request is its method, URL, Authorization header and body.
\<close>

record ('w, 'f, 'b) build_client =
  bc_base_url :: string
  bc_token :: string
  bc_send :: "string \<Rightarrow> string \<Rightarrow> string \<Rightarrow> 'b \<Rightarrow> ('w, 'b http_response) act"
  bc_bad_url :: "string \<Rightarrow> string option"
  bc_floats :: "'f float64"
  bc_json :: "('f, 'b) json_io"
  bc_time :: "string \<Rightarrow> gotime option"

definition new_build_client :: "string \<Rightarrow> string \<Rightarrow> ('w, 'f, 'b) build_client \<Rightarrow> ('w, 'f, 'b) build_client" where
  "new_build_client base token env = env\<lparr>bc_base_url := trim_right_char (CHR ''/'') base, bc_token := token\<rparr>"

text \<open>The \<open>error\<close> field of an error body that decodes, else the status line.\<close>

definition error_text :: "('w, 'f, 'b) build_client \<Rightarrow> 'b http_response \<Rightarrow> string" where
  "error_text c res =
     (let e = (case jio_decode (bc_json c) (hs_body res) of None \<Rightarrow> []
         | Some v \<Rightarrow> (case dec_object v of None \<Rightarrow> []
             | Some kvs \<Rightarrow> (case get_field [''error''] kvs ''error'' of J_str m \<Rightarrow> m | _ \<Rightarrow> [])))
      in if e = [] then hs_status res else e)"

definition build_do ::
    "('w, 'f, 'b) build_client \<Rightarrow> string \<Rightarrow> string \<Rightarrow> 'f json option \<Rightarrow> string \<Rightarrow> ('f json \<Rightarrow> 'a option) \<Rightarrow> ('w, 'a) act" where
  "build_do c method path body kind decode =
     (case (case body of None \<Rightarrow> Some (jio_empty (bc_json c)) | Some v \<Rightarrow> jio_print (bc_json c) v) of
        None \<Rightarrow> fail_with (jio_refusal (bc_json c) ''request'' (jio_empty (bc_json c)))
      | Some buf \<Rightarrow> (case bc_bad_url c (bc_base_url c @ path) of
          Some e \<Rightarrow> fail_with e
        | None \<Rightarrow>
           seq (bc_send c method (bc_base_url c @ path) (if bc_token c \<noteq> [] then ''Bearer '' @ bc_token c else []) buf) (\<lambda>e. e)
             (\<lambda>res. if hs_code res < 200 \<or> hs_code res \<ge> 300 then fail_with (error_text c res)
               else (case Option.bind (jio_decode (bc_json c) (hs_body res)) decode of
                   None \<Rightarrow> fail_with (jio_refusal (bc_json c) kind (hs_body res))
                 | Some x \<Rightarrow> ret x))))"

definition client_create_build :: "('w, 'f, 'b) build_client \<Rightarrow> create_build_request \<Rightarrow> ('w, create_build_response) act" where
  "client_create_build c req = build_do c ''POST'' ''/v1/builds'' (Some (create_build_request_json (bc_floats c) req))
     ''build'' dec_create_build_response"

definition client_rebuild_app :: "('w, 'f, 'b) build_client \<Rightarrow> string \<Rightarrow> ('w, create_build_response) act" where
  "client_rebuild_app c app = build_do c ''POST'' (''/v1/apps/'' @ app @ ''/rebuild'') None ''build'' dec_create_build_response"

definition client_get_build :: "('w, 'f, 'b) build_client \<Rightarrow> string \<Rightarrow> ('w, job) act" where
  "client_get_build c jid = build_do c ''GET'' (''/v1/builds/'' @ jid) None ''job'' (dec_job (bc_time c))"

definition client_list_builds :: "('w, 'f, 'b) build_client \<Rightarrow> int \<Rightarrow> ('w, job option slice) act" where
  "client_list_builds c limit = build_do c ''GET'' (''/v1/builds?limit='' @ fmt_int limit) None ''builds'' (dec_builds (bc_time c))"

definition client_get_logs :: "('w, 'f, 'b) build_client \<Rightarrow> string \<Rightarrow> int \<Rightarrow> ('w, build_log_line slice) act" where
  "client_get_logs c jid after = build_do c ''GET'' (''/v1/builds/'' @ jid @ ''/logs?after='' @ fmt_int after) None
     ''logs'' (dec_logs_response (bc_time c))"

section \<open>The coordinator's answers on the wire\<close>

text \<open>
  What the handlers of server.go write: a failure as an object with its message, everything else
  as the JSON of its type. A list of jobs is never nil; a list of log lines is nil when empty.
\<close>

definition answer_status :: "answer \<Rightarrow> int" where
  "answer_status a = (case a of Fail code e \<Rightarrow> code | Created_build r \<Rightarrow> 201 | No_content \<Rightarrow> 204
     | Queued_builds ids \<Rightarrow> 202 | _ \<Rightarrow> 200)"

definition answer_json :: "'f float64 \<Rightarrow> answer \<Rightarrow> 'f json" where
  "answer_json F a = (case a of
     Fail code e \<Rightarrow> J_obj [(''error'', J_str e)]
   | Created_build r \<Rightarrow> create_build_response_json r
   | Builds js \<Rightarrow> J_obj [(''builds'', J_arr (map (job_json F) js))]
   | One_build j \<Rightarrow> job_json F j
   | Log_lines ls \<Rightarrow> J_obj [(''lines'', j_slice (log_line_json F) (if ls = [] then None else Some ls))]
   | Polled None \<Rightarrow> J_obj []
   | Polled (Some j) \<Rightarrow> J_obj [(''job'', job_json F j)]
   | No_content \<Rightarrow> J_null
   | Ignored reason \<Rightarrow> J_obj [(''status'', J_str ''ignored''), (''reason'', J_str reason)]
   | Queued_builds ids \<Rightarrow> J_obj [(''status'', J_str ''queued''), (''builds'', J_arr (map J_str ids))])"

definition answer_http :: "'f float64 \<Rightarrow> ('f, 'b) json_io \<Rightarrow> (int \<Rightarrow> string) \<Rightarrow> answer \<Rightarrow> 'b http_response" where
  "answer_http F io line a = \<lparr>hs_code = answer_status a, hs_status = line (answer_status a),
     hs_body = (case jio_print io (answer_json F a) of Some b \<Rightarrow> b | None \<Rightarrow> jio_empty io)\<rparr>"

section \<open>A client linked to the coordinator\<close>

text \<open>
  \<open>arrives io v\<close>: a value that survives being written and read. A path segment is plain when the
  client's URL and the router leave it as it is: it consists of the characters RFC 3986 calls
  unreserved, and is not one of the two dot segments. Build ids and app names are plain.
\<close>

definition arrives :: "('f, 'b) json_io \<Rightarrow> 'f json \<Rightarrow> bool" where
  "arrives io v \<longleftrightarrow> (\<exists>b. jio_print io v = Some b \<and> jio_decode io b = Some v)"

definition unreserved :: "char \<Rightarrow> bool" where
  "unreserved ch \<longleftrightarrow> CHR ''a'' \<le> ch \<and> ch \<le> CHR ''z'' \<or> CHR ''A'' \<le> ch \<and> ch \<le> CHR ''Z'' \<or> is_digit ch \<or>
     ch \<in> {CHR ''-'', CHR ''.'', CHR ''_'', CHR ''~''}"

definition plain_segment :: "string \<Rightarrow> bool" where
  "plain_segment x \<longleftrightarrow> x \<notin> {[], ''.'', ''..''} \<and> list_all unreserved x"

lemma plain_segmentD: "plain_segment x \<Longrightarrow> x \<noteq> [] \<and> CHR ''/'' \<notin> set x \<and> CHR ''?'' \<notin> set x"
proof -
  have "\<not> unreserved (CHR ''/'')" "\<not> unreserved (CHR ''?'')" by code_simp+
  then show "plain_segment x \<Longrightarrow> x \<noteq> [] \<and> CHR ''/'' \<notin> set x \<and> CHR ''?'' \<notin> set x"
    by (auto simp: plain_segment_def list_all_iff)
qed

text \<open>
  What the client relies on of the transport and the routes: its base URL makes good URLs of the
  three paths it asks for, and each reaches its handler.
\<close>

locale build_link =
  fixes S :: "'w server" and clock :: "nat \<Rightarrow> gotime" and uuid :: string
    and c :: "('w sv, 'f, 'b) build_client" and line :: "int \<Rightarrow> string"
  assumes create_url: "bc_bad_url c (bc_base_url c @ ''/v1/builds'') = None"
    and rebuild_url: "plain_segment app \<Longrightarrow> bc_bad_url c (bc_base_url c @ ''/v1/apps/'' @ app @ ''/rebuild'') = None"
    and get_url: "plain_segment jid \<Longrightarrow> bc_bad_url c (bc_base_url c @ ''/v1/builds/'' @ jid) = None"
    and same_token: "bc_token c = se_token S"
    and create_route: "bc_send c ''POST'' (bc_base_url c @ ''/v1/builds'') a b s =
      (case auth S a (create_build S clock uuid (Option.bind (jio_parse (bc_json c) b) dec_create_build_request)) s of
        (r, s') \<Rightarrow> (Inr (answer_http (bc_floats c) (bc_json c) line r), s'))"
    and rebuild_route: "plain_segment app \<Longrightarrow> bc_send c ''POST'' (bc_base_url c @ ''/v1/apps/'' @ app @ ''/rebuild'') a b s =
      (case auth S a (rebuild_app S clock uuid app) s of (r, s') \<Rightarrow> (Inr (answer_http (bc_floats c) (bc_json c) line r), s'))"
    and get_route: "plain_segment jid \<Longrightarrow> bc_send c ''GET'' (bc_base_url c @ ''/v1/builds/'' @ jid) a b s =
      (case auth S a (get_build jid) s of (r, s') \<Rightarrow> (Inr (answer_http (bc_floats c) (bc_json c) line r), s'))"
begin

lemma admitted: "auth S (if bc_token c \<noteq> [] then ''Bearer '' @ bc_token c else []) h s = h s"
  by (simp add: auth_def same_token)

text \<open>What the client makes of an answer that arrives.\<close>

lemma hears:
  assumes "(case body of None \<Rightarrow> Some (jio_empty (bc_json c)) | Some v \<Rightarrow> jio_print (bc_json c) v) = Some buf"
    and "bc_send c m (bc_base_url c @ path) (if bc_token c \<noteq> [] then ''Bearer '' @ bc_token c else []) buf s =
      (Inr (answer_http (bc_floats c) (bc_json c) line r), s')"
    and "arrives (bc_json c) (answer_json (bc_floats c) r)" and good_url: "bc_bad_url c (bc_base_url c @ path) = None"
  shows "answer_status r \<in> {200..<300} \<Longrightarrow> decode (answer_json (bc_floats c) r) = Some x \<Longrightarrow> build_do c m path body kind decode s = (Inr x, s')"
    "r = Fail code e \<Longrightarrow> code \<notin> {200..<300} \<Longrightarrow> e \<noteq> [] \<Longrightarrow> build_do c m path body kind decode s = (Inl e, s')"
proof -
  obtain b where b: "jio_print (bc_json c) (answer_json (bc_floats c) r) = Some b" "jio_decode (bc_json c) b = Some (answer_json (bc_floats c) r)"
    using assms(3) by (auto simp: arrives_def)
  show "answer_status r \<in> {200..<300} \<Longrightarrow> decode (answer_json (bc_floats c) r) = Some x \<Longrightarrow> build_do c m path body kind decode s = (Inr x, s')"
    by (simp add: build_do_def assms(1,2) good_url act_simps answer_http_def b)
  assume f: "r = Fail code e" "code \<notin> {200..<300}" "e \<noteq> []"
  have "error_text c (answer_http (bc_floats c) (bc_json c) line r) = e"
    using b f by (simp add: error_text_def answer_http_def answer_json_def get_field_Cons)
  moreover have "hs_code (answer_http (bc_floats c) (bc_json c) line r) = code" by (simp add: answer_http_def answer_status_def f)
  ultimately show "build_do c m path body kind decode s = (Inl e, s')"
    using f(2) by (auto simp: build_do_def assms(1,2) good_url act_simps)
qed

end

text \<open>The link in memory: the routes of \<open>Register\<close>, with nothing in between.\<close>

definition mem_routes ::
    "'w server \<Rightarrow> (nat \<Rightarrow> gotime) \<Rightarrow> string \<Rightarrow> ('f, 'b) json_io \<Rightarrow> string \<Rightarrow> string \<Rightarrow> string \<Rightarrow> 'b \<Rightarrow> 'w handler" where
  "mem_routes S clock uuid io base m u b =
     (if m = ''POST'' \<and> u = base @ ''/v1/builds''
      then create_build S clock uuid (Option.bind (jio_parse io b) dec_create_build_request)
      else if m = ''POST'' then rebuild_app S clock uuid (trim_suffix (trim_prefix u (base @ ''/v1/apps/'')) ''/rebuild'')
      else get_build (trim_prefix u (base @ ''/v1/builds/'')))"

definition mem_client ::
    "'w server \<Rightarrow> (nat \<Rightarrow> gotime) \<Rightarrow> string \<Rightarrow> (int \<Rightarrow> string) \<Rightarrow> ('w sv, 'f, 'b) build_client \<Rightarrow> ('w sv, 'f, 'b) build_client" where
  "mem_client S clock uuid line env = env\<lparr>bc_token := se_token S, bc_bad_url := (\<lambda>u. None),
     bc_send := (\<lambda>m u a b s. case auth S a (mem_routes S clock uuid (bc_json env) (bc_base_url env) m u b) s of
       (r, s') \<Rightarrow> (Inr (answer_http (bc_floats env) (bc_json env) line r), s'))\<rparr>"

lemma trim_around: "trim_prefix (p @ x) p = x" "trim_suffix (x @ q) q = x"
  by (simp_all add: trim_prefix_def trim_suffix_def has_prefix_def has_suffix_def)

interpretation mem_link: build_link S clock uuid "mem_client S clock uuid line env" line
  for S :: "'w server" and clock uuid line and env :: "('w sv, 'f, 'b) build_client"
proof unfold_locales
  fix app jid a b s
  show "bc_send (mem_client S clock uuid line env) ''POST'' (bc_base_url (mem_client S clock uuid line env) @ ''/v1/apps/'' @ app @ ''/rebuild'') a b s =
      (case auth S a (rebuild_app S clock uuid app) s of (r, s') \<Rightarrow>
        (Inr (answer_http (bc_floats (mem_client S clock uuid line env)) (bc_json (mem_client S clock uuid line env)) line r), s'))"
    if "plain_segment app"
  proof -
    have t: "trim_suffix (trim_prefix (bc_base_url env @ ''/v1/apps/'' @ app @ ''/rebuild'') (bc_base_url env @ ''/v1/apps/'')) ''/rebuild'' = app"
      using trim_around(1) [of "bc_base_url env @ ''/v1/apps/''" "app @ ''/rebuild''"] trim_around(2) [of app "''/rebuild''"]
      by (simp only: append_assoc)
    have "''/v1/apps/'' @ app @ ''/rebuild'' \<noteq> ''/v1/builds''" by simp
    then have "mem_routes S clock uuid (bc_json env) (bc_base_url env) ''POST'' (bc_base_url env @ ''/v1/apps/'' @ app @ ''/rebuild'') b
        = rebuild_app S clock uuid app"
      unfolding mem_routes_def t by (simp only: same_append_eq) simp
    then show ?thesis by (simp add: mem_client_def del: append.simps)
  qed
  show "bc_send (mem_client S clock uuid line env) ''GET'' (bc_base_url (mem_client S clock uuid line env) @ ''/v1/builds/'' @ jid) a b s =
      (case auth S a (get_build jid) s of (r, s') \<Rightarrow>
        (Inr (answer_http (bc_floats (mem_client S clock uuid line env)) (bc_json (mem_client S clock uuid line env)) line r), s'))"
    if "plain_segment jid"
  proof -
    have t: "trim_prefix (bc_base_url env @ ''/v1/builds/'' @ jid) (bc_base_url env @ ''/v1/builds/'') = jid"
      using trim_around(1) [of "bc_base_url env @ ''/v1/builds/''" jid] by (simp only: append_assoc)
    have "mem_routes S clock uuid (bc_json env) (bc_base_url env) ''GET'' (bc_base_url env @ ''/v1/builds/'' @ jid) b = get_build jid"
      unfolding mem_routes_def t by simp
    then show ?thesis by (simp add: mem_client_def del: append.simps)
  qed
qed (simp_all add: mem_client_def mem_routes_def)

end
