(* ===== verification/BuildClientFacts.thy ===== *)
theory BuildClientFacts
  imports BuildClient CoordinatorSpecs
begin

text \<open>
  The API and the coordinator over HTTP: a build asked for through the client is the coordinator's
  own creation, with the same answer or the coordinator's own words for a refusal, and a build read
  through it is the row the coordinator holds.
\<close>

section \<open>What the handlers can answer\<close>

lemma validation_says:
  assumes "validate_create_app_request uni req = Inl e"
  shows "e \<noteq> []"
  using assms
  by (auto simp: validate_create_app_request_def and_then_def validate_name_def validate_image_def validate_tag_def
      validate_limits_def Let_def split: option.splits if_splits sum.splits)

definition refusal :: "answer \<Rightarrow> bool" where
  "refusal a \<longleftrightarrow> (\<exists>code e. a = Fail code e \<and> code \<notin> {200..<300} \<and> e \<noteq> [])"

lemma refusalI [simp]: "code \<notin> {200..<300} \<Longrightarrow> e \<noteq> [] \<Longrightarrow> refusal (Fail code e)"
  by (simp add: refusal_def)

lemma insert_and_dispatch_answers:
  "(\<exists>r. fst (insert_and_dispatch S clock job s) = Created_build r) \<or> refusal (fst (insert_and_dispatch S clock job s))"
  by (auto simp: insert_and_dispatch_def created_answer_def split: prod.splits sum.splits bool.splits)

lemma create_build_answers:
  "(\<exists>r. fst (create_build S clock uuid body s) = Created_build r) \<or> refusal (fst (create_build S clock uuid body s))"
proof -
  have v: "normalize_and_validate_build_request uni req = Inl e \<Longrightarrow> e \<noteq> []" for uni req e
    by (auto simp: normalize_and_validate_build_request_def Let_def dest: validation_says split: if_splits sum.splits)
  show ?thesis
    unfolding create_build_def
    by (auto simp: Let_def v insert_and_dispatch_answers split: prod.splits sum.splits option.splits bool.splits)
qed

lemma get_build_answers: "(\<exists>j. fst (get_build jid s) = One_build j) \<or> refusal (fst (get_build jid s))"
  by (auto simp: get_build_def split: prod.splits sum.splits)

section \<open>Through the client\<close>

definition request_travels :: "create_build_request \<Rightarrow> bool" where
  "request_travels r \<longleftrightarrow> sorted (map fst (cb_env r)) \<and> int_fits (cb_replicas r) \<and> int_fits (cb_port r)"

lemma dec_request_json: "request_travels r \<Longrightarrow> dec_create_build_request (create_build_request_json F r) = Some r"
proof -
  let ?names = "[''name'', ''appName'', ''repoUrl'', ''ref'', ''replicas'', ''port'', ''env'']"
  let ?mid = "[(''appName'', J_str (cb_app_name r)), (''repoUrl'', J_str (cb_repo_url r)), (''ref'', J_str (cb_ref r)),
      (''replicas'', j_int F (cb_replicas r)), (''port'', j_int F (cb_port r))]"
  let ?kvs = "j_omit_empty ''name'' (cb_name r) @ ?mid @ env_field (cb_env r)"
  have names: "?names = [''name''] @ [''appName'', ''repoUrl'', ''ref'', ''replicas'', ''port''] @ [''env'']" by simp
  have keys: "subseq (map fst ?kvs) ?names"
    unfolding map_append names by (intro append_subseq segments) simp_all
  have d: "distinct ?names" by simp
  have look: "map_of ?kvs ''name'' = (if cb_name r \<noteq> [] then Some (J_str (cb_name r)) else None)"
    "map_of ?kvs ''appName'' = Some (J_str (cb_app_name r))" "map_of ?kvs ''repoUrl'' = Some (J_str (cb_repo_url r))"
    "map_of ?kvs ''ref'' = Some (J_str (cb_ref r))" "map_of ?kvs ''replicas'' = Some (j_int F (cb_replicas r))"
    "map_of ?kvs ''port'' = Some (j_int F (cb_port r))"
    "map_of ?kvs ''env'' = (if cb_env r \<noteq> [] then Some (J_obj (map (\<lambda>(k, v). (k, J_str v)) (sort_key fst (cb_env r)))) else None)"
    unfolding map_of_segments by (simp_all split: option.split)
  show "request_travels r \<Longrightarrow> dec_create_build_request (create_build_request_json F r) = Some r"
    unfolding dec_create_build_request_def create_build_request_json_def obj_fields_obj
    by (simp only: request_travels_def bind.bind_lunit get_field_struct [OF keys d] look omitted found dec_int64_j_int
        option.case dec_str.simps) simp
qed

lemma creation_through:
  assumes "build_link S clock uuid c line" "request_travels req"
    and "jio_print (bc_json c) (create_build_request_json (bc_floats c) req) = Some b"
    and "jio_parse (bc_json c) b = Some (create_build_request_json (bc_floats c) req)"
    and "create_build S clock uuid (Some req) s = (a, s')" "arrives (bc_json c) (answer_json (bc_floats c) a)"
  shows "client_create_build c req s = (case a of Created_build r \<Rightarrow> Inr r | Fail code e \<Rightarrow> Inl e, s')"
proof -
  have body: "(case Some (create_build_request_json (bc_floats c) req) of None \<Rightarrow> Some (jio_empty (bc_json c))
      | Some v \<Rightarrow> jio_print (bc_json c) v) = Some b" using assms(3) by simp
  have "Option.bind (jio_parse (bc_json c) b) dec_create_build_request = Some req"
    using assms(2,4) by (simp add: dec_request_json)
  then have "bc_send c ''POST'' (bc_base_url c @ ''/v1/builds'') (if bc_token c \<noteq> [] then ''Bearer '' @ bc_token c else []) b s =
      (Inr (answer_http (bc_floats c) (bc_json c) line a), s')"
    unfolding build_link.create_route [OF assms(1)] build_link.admitted [OF assms(1)] by (simp add: assms(5))
  note h = build_link.hears [OF assms(1) body this assms(6) build_link.create_url [OF assms(1)]]
  from create_build_answers [of S clock uuid "Some req" s] show ?thesis
  proof
    assume "\<exists>r. fst (create_build S clock uuid (Some req) s) = Created_build r"
    then obtain r where a: "a = Created_build r" by (auto simp: assms(5))
    have "client_create_build c req s = (Inr r, s')"
      unfolding client_create_build_def by (rule h(1)) (simp_all add: a answer_status_def answer_json_def)
    then show ?thesis by (simp add: a)
  next
    assume "refusal (fst (create_build S clock uuid (Some req) s))"
    then obtain code e where a: "a = Fail code e" "code \<notin> {200..<300}" "e \<noteq> []" by (auto simp: assms(5) refusal_def)
    then show ?thesis using h(2) [OF a] by (simp add: client_create_build_def)
  qed
qed

text \<open>
  C7. Creating a build through the client is creating it in the coordinator: the same rows, and the
  client returns the coordinator's answer, or fails with the coordinator's own message.
\<close>

theorem creation_goes_through:
  assumes "build_link S clock uuid c line" "request_travels req"
    and "jio_print (bc_json c) (create_build_request_json (bc_floats c) req) = Some b"
    and "jio_parse (bc_json c) b = Some (create_build_request_json (bc_floats c) req)"
    and "create_build S clock uuid (Some req) s = (a, s')" "arrives (bc_json c) (answer_json (bc_floats c) a)"
  shows "client_create_build c req s = (case a of Created_build r \<Rightarrow> Inr r | Fail code e \<Rightarrow> Inl e, s')"
  by (rule creation_through [OF assms])

text \<open>
  C28. A build read through the client is the coordinator's: every field of the row, its times and
  environment included, or the coordinator's message when there is no such build. The id is of
  unreserved characters, as the ids the coordinator makes.
\<close>

theorem build_read_through:
  assumes "build_link S clock uuid c line" "plain_segment jid" "get_build jid s = (a, s')"
    and "arrives (bc_json c) (answer_json (bc_floats c) a)"
    and "case a of One_build j \<Rightarrow> job_travels (bc_time c) j | _ \<Rightarrow> True"
  shows "client_get_build c jid s = (case a of One_build j \<Rightarrow> Inr j | Fail code e \<Rightarrow> Inl e, s')"
proof -
  have body: "(case None of None \<Rightarrow> Some (jio_empty (bc_json c)) | Some v \<Rightarrow> jio_print (bc_json c) v) = Some (jio_empty (bc_json c))" by simp
  have "bc_send c ''GET'' (bc_base_url c @ ''/v1/builds/'' @ jid) (if bc_token c \<noteq> [] then ''Bearer '' @ bc_token c else [])
      (jio_empty (bc_json c)) s = (Inr (answer_http (bc_floats c) (bc_json c) line a), s')"
    unfolding build_link.get_route [OF assms(1,2)] build_link.admitted [OF assms(1)] by (simp add: assms(3))
  note h = build_link.hears [OF assms(1) body this assms(4) build_link.get_url [OF assms(1,2)]]
  from get_build_answers [of jid s] show ?thesis
  proof
    assume "\<exists>j. fst (get_build jid s) = One_build j"
    then obtain j where a: "a = One_build j" by (auto simp: assms(3))
    have "client_get_build c jid s = (Inr j, s')"
      unfolding client_get_build_def
      by (rule h(1)) (use assms(5) in \<open>simp_all add: a answer_status_def answer_json_def dec_job_json\<close>)
    then show ?thesis by (simp add: a)
  next
    assume "refusal (fst (get_build jid s))"
    then obtain code e where a: "a = Fail code e" "code \<notin> {200..<300}" "e \<noteq> []" by (auto simp: assms(3) refusal_def)
    then show ?thesis using h(2) [OF a] by (simp add: client_get_build_def)
  qed
qed

section \<open>A sample link\<close>

definition plain_io :: "(int, int json) json_io" where
  "plain_io = \<lparr>jio_print = Some, jio_empty = J_null, jio_parse = Some, jio_decode = Some, jio_refusal = (\<lambda>k b. ''refused''),
     jio_limit = (\<lambda>n b. b), jio_text = (\<lambda>b. []), jio_time_text = fmt_int, jio_time_parse = (\<lambda>s. None)\<rparr>"

definition sample_client :: "(mem_repo sv, int, int json) build_client" where
  "sample_client = mem_client (sample_server None quiet_sender) at_noon ''b1'' (\<lambda>n. ''status'')
     \<lparr>bc_base_url = ''http://coordinator:8080'', bc_token = [], bc_send = (\<lambda>m u a b. fail_with ''down''), bc_bad_url = (\<lambda>u. None),
      bc_floats = int_floats, bc_json = plain_io, bc_time = parse_time\<rparr>"

lemma sample_client_link:
  "build_link (sample_server None quiet_sender) at_noon ''b1'' sample_client (\<lambda>n. ''status'')" "bc_json sample_client = plain_io"
  unfolding sample_client_def by (rule mem_link.build_link_axioms) (simp add: mem_client_def)

lemma plain_io_arrives [simp]: "arrives plain_io v" "jio_print plain_io v = Some v" "jio_parse plain_io v = Some v"
  by (simp_all add: arrives_def plain_io_def)

theorem creation_goes_through_witness:
  "\<exists>s'. client_create_build sample_client sample_build (fresh_server [] (lab_repo [])) =
    (Inr \<lparr>cr_app_name = ''shop'', cr_build_id = ''b1'', cr_status = status_queued\<rparr>, s')"
proof -
  have t: "request_travels sample_build"
    by (simp add: request_travels_def sample_build_def int_fits_def min_duration_def max_duration_def)
  obtain s' where c: "create_build (sample_server None quiet_sender) at_noon ''b1'' (Some sample_build) (fresh_server [] (lab_repo [])) =
     (Created_build \<lparr>cr_app_name = ''shop'', cr_build_id = ''b1'', cr_status = status_queued\<rparr>, s')"
    using sample_created by blast
  show ?thesis
    using creation_goes_through [OF sample_client_link(1) t _ _ c, unfolded sample_client_link(2)] by simp
qed

text \<open>The coordinator after that creation, and the job it then holds.\<close>

definition after_creation :: "mem_repo sv" where
  "after_creation = \<lparr>sv_store = \<lparr>jobs = [\<lparr>rowid = 1, cols = sample_row\<rparr>], logs = [], log_counter = 0, faults = []\<rparr>,
     sv_world = lab_repo [], sv_emitted = []\<rparr>"

definition held_job :: job where
  "held_job = (job_for ''b1'' ''shop'' ''https://github.com/a/shop'' ''main'' 2 8080 [])\<lparr>j_created_at := noon, j_updated_at := noon\<rparr>"

theorem build_read_through_witness:
  "client_get_build sample_client ''b1'' after_creation = (Inr held_job, after_creation)"
proof -
  have p: "plain_segment ''b1''" by code_simp
  have n: "parse_time (format_time noon) = Some noon" by (rule parse_format_time) simp
  have g: "get_build ''b1'' after_creation = (One_build held_job, after_creation)"
    by (simp add: get_build_def on_store_def get_job_def after_creation_def db_stmt_def job_where_def sample_row_def
        scan_job_def Let_def row_for_def new_row_def scan_time_def n held_job_def job_for_def)
  have "job_travels parse_time held_job"
    by (simp add: job_travels_def held_job_def job_for_def time_reads_def n int_fits_def min_duration_def max_duration_def)
  moreover have "bc_time sample_client = parse_time" by (simp add: sample_client_def mem_client_def)
  ultimately show ?thesis
    using build_read_through [OF sample_client_link(1) p g, unfolded sample_client_link(2)] by simp
qed

end
