(* ===== verification/Api.thy ===== *)
theory Api
  imports Json
begin

text \<open>
  internal/api/response/response.go and the middleware every /v1 route sits behind
  (internal/api/middleware/auth.go, requestid.go). Fiber is not part of the sources: a request is
  what its accessors return, a response a status and a JSON body.
\<close>

section \<open>Requests and responses\<close>

text \<open>\<open>aq_query k d\<close> and \<open>aq_query_int k d\<close> are \<open>Query\<close> and \<open>QueryInt\<close> with default \<open>d\<close>.\<close>

record api_request =
  aq_path :: string
  aq_param :: "string \<Rightarrow> string"
  aq_query :: "string \<Rightarrow> string \<Rightarrow> string"
  aq_query_int :: "string \<Rightarrow> int \<Rightarrow> int"
  aq_header :: "string \<Rightarrow> string"
  aq_protocol :: string
  aq_hostname :: string
  aq_local_request_id :: "string option"
  aq_local_user :: "string option"

record 'f api_response =
  ar_status :: int
  ar_body :: "'f json"
  ar_headers :: "(string \<times> string) list"

type_synonym ('w, 'f) api_handler = "api_request \<Rightarrow> 'w \<Rightarrow> 'f api_response \<times> 'w"

definition local_string :: "string option \<Rightarrow> string" where
  "local_string v = (case v of Some s \<Rightarrow> s | None \<Rightarrow> [])"

definition request_id :: "api_request \<Rightarrow> string" where
  "request_id rq = local_string (aq_local_request_id rq)"

definition user_of :: "api_request \<Rightarrow> string" where
  "user_of rq = local_string (aq_local_user rq)"

definition reply :: "int \<Rightarrow> 'f json \<Rightarrow> 'f api_response" where
  "reply status body = \<lparr>ar_status = status, ar_body = body, ar_headers = []\<rparr>"

definition json_error :: "'f float64 \<Rightarrow> api_request \<Rightarrow> int \<Rightarrow> string \<Rightarrow> string \<Rightarrow> 'f api_response" where
  "json_error F rq status err_code message = reply status (J_obj [(''error'', J_str err_code), (''message'', J_str message),
     (''requestId'', J_str (request_id rq)), (''status'', j_int F status)])"

definition json_status :: "api_request \<Rightarrow> int \<Rightarrow> 'f json \<Rightarrow> 'f api_response" where
  "json_status rq status data = reply status (J_obj [(''data'', data), (''requestId'', J_str (request_id rq))])"

definition json_ok :: "api_request \<Rightarrow> 'f json \<Rightarrow> 'f api_response" where
  "json_ok rq data = json_status rq 200 data"

definition json_paginated :: "'f float64 \<Rightarrow> api_request \<Rightarrow> 'f json \<Rightarrow> int \<Rightarrow> int \<Rightarrow> int \<Rightarrow> 'f api_response" where
  "json_paginated F rq data limit offset total_count = reply 200 (J_obj [(''data'', data),
     (''pagination'', J_obj [(''limit'', j_int F limit), (''offset'', j_int F offset), (''total'', j_int F total_count)]),
     (''requestId'', J_str (request_id rq))])"

lemma reply_status [simp]:
  "ar_status (reply n b) = n" "ar_status (json_error F rq n e m) = n" "ar_status (json_status rq n d) = n"
  "ar_status (json_ok rq d) = 200" "ar_status (json_paginated F rq d l o' t) = 200"
  by (simp_all add: reply_def json_error_def json_status_def json_ok_def json_paginated_def)

section \<open>Middleware\<close>

definition public_paths :: "string list" where
  "public_paths = [''/v1/health'', ''/metrics'', ''/openapi.json'']"

definition user_header :: string where
  "user_header = ''X-Auth-Request-User''"

definition auth_middleware :: "'f float64 \<Rightarrow> ('w, 'f) api_handler \<Rightarrow> ('w, 'f) api_handler" where
  "auth_middleware F next rq w =
     (if aq_path rq \<in> set public_paths then next rq w
      else (let user = aq_header rq user_header in
        if user = [] then (json_error F rq 401 ''unauthorized''
          ''Missing X-Auth-Request-User header. Please authenticate via OAuth2.'', w)
        else next (rq\<lparr>aq_local_user := Some user\<rparr>) w))"

definition request_id_header :: string where
  "request_id_header = ''X-Request-ID''"

text \<open>\<open>uuid\<close> is a fresh identifier; the header is set on the response whatever the handler does.\<close>

definition request_id_middleware :: "string \<Rightarrow> ('w, 'f) api_handler \<Rightarrow> ('w, 'f) api_handler" where
  "request_id_middleware uuid next rq w =
     (let given = aq_header rq request_id_header; rid = (if given = [] then uuid else given) in
      case next (rq\<lparr>aq_local_request_id := Some rid\<rparr>) w of
        (res, w) \<Rightarrow> (res\<lparr>ar_headers := (request_id_header, rid) # ar_headers res\<rparr>, w))"

definition routed :: "'f float64 \<Rightarrow> string \<Rightarrow> ('w, 'f) api_handler \<Rightarrow> ('w, 'f) api_handler" where
  "routed F uuid h = request_id_middleware uuid (auth_middleware F h)"

section \<open>Pages\<close>

definition paginate_slice :: "int \<Rightarrow> int \<Rightarrow> int \<Rightarrow> int \<times> int \<times> int" where
  "paginate_slice limit offset total_count =
     (let limit = (if limit < 1 then 1 else limit); limit = (if limit > 100 then 100 else limit);
          offset = (if offset < 0 then 0 else offset); offset = (if offset > total_count then total_count else offset);
          end = offset + limit; end = (if end > total_count then total_count else end)
      in (limit, offset, end))"

text \<open>The Go slice \<open>xs[i:j]\<close>, which panics unless \<open>0 \<le> i \<le> j \<le> len(xs)\<close>.\<close>

definition go_slice :: "'a list \<Rightarrow> int \<Rightarrow> int \<Rightarrow> 'a list option" where
  "go_slice xs i j = (if 0 \<le> i \<and> i \<le> j \<and> j \<le> int (length xs) then Some (take (nat (j - i)) (drop (nat i) xs)) else None)"

definition page_of :: "int \<Rightarrow> int \<Rightarrow> 'a list \<Rightarrow> 'a list option" where
  "page_of limit offset xs = (case paginate_slice limit offset (int (length xs)) of (limit, offset, end) \<Rightarrow> go_slice xs offset end)"

lemma paginate_slice_bounds:
  assumes "0 \<le> total_count" "paginate_slice limit offset total_count = (l, i, j)"
  shows "1 \<le> l \<and> l \<le> 100 \<and> 0 \<le> i \<and> i \<le> j \<and> j \<le> total_count \<and> j - i \<le> l"
  using assms by (auto simp: paginate_slice_def Let_def split: if_splits)

text \<open>A page inside the list: \<open>limit\<close> elements from \<open>offset\<close> on, as far as there are any.\<close>

lemma page_of_within:
  "page_of limit offset xs = Some (take (nat (max 1 (min limit 100))) (drop (nat (max 0 (min offset (int (length xs))))) xs))"
proof -
  obtain l i j where p: "paginate_slice limit offset (int (length xs)) = (l, i, j)" by (metis prod_cases3)
  note b = paginate_slice_bounds [OF _ p, simplified]
  have i: "i = max 0 (min offset (int (length xs)))" and l: "l = max 1 (min limit 100)"
    and j: "j = min (i + l) (int (length xs))"
    using p by (auto simp: paginate_slice_def Let_def max_def min_def split: if_splits)
  have "take (nat (j - i)) (drop (nat i) xs) = take (nat l) (drop (nat i) xs)"
  proof (cases "i + l \<le> int (length xs)")
    case True
    then have "j - i = l" using j by simp
    then show ?thesis by simp
  next
    case False
    then have "length (drop (nat i) xs) \<le> nat (j - i)" "length (drop (nat i) xs) \<le> nat l"
      using b j by (auto simp: le_nat_iff)
    then show ?thesis by (simp only: take_all)
  qed
  then show ?thesis using b by (simp add: page_of_def p go_slice_def i l)
qed

text \<open>Successive pages of one size.\<close>

definition pages :: "nat \<Rightarrow> nat \<Rightarrow> 'a list \<Rightarrow> 'a list option list" where
  "pages n k xs = map (\<lambda>i. page_of (int n) (int (i * n)) xs) [0..<k]"

lemma concat_chunks: "length xs \<le> k * n \<Longrightarrow> concat (map (\<lambda>i. take n (drop (i * n) xs)) [0..<k]) = xs"
proof (induction k arbitrary: xs)
  case (Suc k)
  have "map (\<lambda>i. take n (drop (i * n) xs)) [0..<Suc k] = take n xs # map (\<lambda>i. take n (drop (i * n) (drop n xs))) [0..<k]"
    unfolding upt_conv_Cons [OF zero_less_Suc] by (simp add: map_Suc_upt [symmetric] comp_def add.commute del: upt_Suc)
  moreover have "concat (map (\<lambda>i. take n (drop (i * n) (drop n xs))) [0..<k]) = drop n xs"
    by (rule Suc.IH) (use Suc.prems in simp)
  ultimately show ?case by simp
qed simp

text \<open>
  C31. Pagination never slices out of range, whatever limit and offset a client asks for: a page
  holds between none and \<open>limit\<close> elements, itself between 1 and 100, from the clamped offset. And
  the pages of one admissible size, read one after the other, are the list.
\<close>

theorem pages_are_the_list:
  assumes "1 \<le> n" "n \<le> 100" "length xs \<le> k * n"
  shows "(\<exists>ys. page_of limit offset xs = Some ys \<and> int (length ys) \<le> max 1 (min limit 100)) \<and>
    (\<exists>yss. pages n k xs = map Some yss \<and> concat yss = xs)"
proof -
  have "page_of (int n) (int (i * n)) xs = Some (take n (drop (i * n) xs))" for i
  proof -
    have "max 1 (min (int n) 100) = int n" using assms(1,2) by simp
    moreover have "max 0 (min (int (i * n)) (int (length xs))) = int (min (i * n) (length xs))" by (simp del: of_nat_mult)
    moreover have "drop (min (i * n) (length xs)) xs = drop (i * n) xs" by (simp add: min_def)
    ultimately show ?thesis by (simp only: page_of_within nat_int)
  qed
  then have "pages n k xs = map Some (map (\<lambda>i. take n (drop (i * n) xs)) [0..<k])"
    by (simp add: pages_def)
  with concat_chunks [OF assms(3)]
  have "\<exists>yss. pages n k xs = map Some yss \<and> concat yss = xs" by blast
  moreover have "int (min a (nat m)) \<le> m" if "0 \<le> m" for a m using that by simp
  ultimately show ?thesis by (simp add: page_of_within)
qed

theorem pages_are_the_list_witness:
  "\<exists>yss. pages 2 3 [1, 2, 3, 4, 5 :: int] = map Some yss \<and> concat yss = [1, 2, 3, 4, 5]"
  using pages_are_the_list [of 2 "[1, 2, 3, 4, 5 :: int]" 3 0 0] by simp

text \<open>
  C27. Behind the middleware a handler runs only for a request that names its user, and sees that
  user; otherwise, off the three public paths, the answer is 401 and nothing has happened. Every
  answer, refusals included, carries the request id it was given or a fresh one, in the header and
  to the handler alike.
\<close>

theorem api_requires_user:
  "let rid = (if aq_header rq request_id_header = [] then uuid else aq_header rq request_id_header) in
   if aq_path rq \<notin> set public_paths \<and> aq_header rq user_header = []
   then \<exists>res. ar_status res = 401 \<and> (request_id_header, rid) \<in> set (ar_headers res) \<and> (\<forall>h w. routed F uuid h rq w = (res, w))
   else \<exists>rq'. request_id rq' = rid \<and> (aq_path rq \<in> set public_paths \<or> user_of rq' = aq_header rq user_header) \<and>
     (\<forall>h w. routed F uuid h rq w = (case h rq' w of
        (res, w') \<Rightarrow> (res\<lparr>ar_headers := (request_id_header, rid) # ar_headers res\<rparr>, w')))"
proof -
  let ?rid = "if aq_header rq request_id_header = [] then uuid else aq_header rq request_id_header"
  let ?rq = "rq\<lparr>aq_local_request_id := Some ?rid\<rparr>"
  let ?seen = "if aq_path rq \<in> set public_paths then ?rq else ?rq\<lparr>aq_local_user := Some (aq_header rq user_header)\<rparr>"
  let ?refused = "aq_path rq \<notin> set public_paths \<and> aq_header rq user_header = []"
  have a: "\<forall>h w. routed F uuid h rq w = (case h ?seen w of
      (res, w') \<Rightarrow> (res\<lparr>ar_headers := (request_id_header, ?rid) # ar_headers res\<rparr>, w'))"
    if "\<not> ?refused"
    using that by (auto simp: routed_def request_id_middleware_def auth_middleware_def Let_def)
  have b: "request_id ?seen = ?rid" "aq_path rq \<in> set public_paths \<or> user_of ?seen = aq_header rq user_header"
    by (simp_all add: request_id_def user_of_def local_string_def)
  have c: "\<exists>res. ar_status res = 401 \<and> (request_id_header, ?rid) \<in> set (ar_headers res) \<and> (\<forall>h w. routed F uuid h rq w = (res, w))"
    if ?refused
    using that by (simp add: routed_def request_id_middleware_def auth_middleware_def Let_def)
  show ?thesis
  proof (cases ?refused)
    case True
    show ?thesis unfolding Let_def if_P [OF True] by (rule c [OF True])
  next
    case False
    show ?thesis unfolding Let_def if_not_P [OF False]
      by (rule exI [of _ ?seen], intro conjI) (rule b(1), rule b(2), rule a [OF False])
  qed
qed

end
