(* ===== verification/Cluster.thy ===== *)
theory Cluster
  imports GoStrings Json "HOL-Library.Word"
begin

text \<open>
  internal/k8s/client.go: what the API asks of Kubernetes and of Argo CD. The clientset is a record
  of calls on the cluster \<open>'w\<close>; the values it returns are given by the fields the platform reads.
\<close>

section \<open>What the calls return\<close>

text \<open>
  An Argo CD Application, as apimachinery's nested accessors read it: a string field that is missing
  or no string is empty, a list field that is missing or no list is \<open>None\<close>. An element of
  the image list that is no string, or of the resource list that is no object, is \<open>None\<close>.
\<close>

record argo_resource =
  gr_kind :: string
  gr_name :: string
  gr_health :: string

record argo_app =
  ag_name :: string
  ag_namespace :: string
  ag_sync :: string
  ag_health :: string
  ag_revision :: string
  ag_target_revision :: string
  ag_destination_namespace :: string
  ag_repo_url :: string
  ag_path :: string
  ag_images :: "string option list option"
  ag_resources :: "argo_resource option list option"

record container_status =
  st_ready :: bool
  st_waiting_reason :: string
  st_restarts :: "32 word"

record kube_pod =
  po_name :: string
  po_namespace :: string
  po_phase :: string
  po_node :: string
  po_owner_uids :: "string list"
  po_statuses :: "container_status list"
  po_containers :: "string list"
  po_init_containers :: "string list"

record replica_set =
  rs_name :: string
  rs_namespace :: string
  rs_uid :: string
  rs_replicas :: int
  rs_ready :: int
  rs_owner_names :: "string list"

text \<open>\<open>cu_selector\<close> is a Deployment's label selector, formatted; \<open>cu_object\<close> a live object as JSON.\<close>

record ('w, 'f) cluster =
  cu_list_apps :: "('w, argo_app list) act"
  cu_get_app :: "string \<Rightarrow> ('w, argo_app) act"
  cu_patch_app :: "string \<Rightarrow> string \<Rightarrow> ('w, unit) act"
  cu_open_logs :: "string \<Rightarrow> string \<Rightarrow> string \<Rightarrow> int \<Rightarrow> ('w, string result) act"
  cu_selector :: "string \<Rightarrow> string \<Rightarrow> ('w, string) act"
  cu_list_pods :: "string \<Rightarrow> string \<Rightarrow> ('w, kube_pod list) act"
  cu_list_replica_sets :: "string \<Rightarrow> ('w, replica_set list) act"
  cu_get_pod :: "string \<Rightarrow> string \<Rightarrow> ('w, kube_pod) act"
  cu_object :: "string \<Rightarrow> string \<Rightarrow> string \<Rightarrow> ('w, (string \<times> 'f json) list result) act"
  cu_quote :: "string \<Rightarrow> string"

section \<open>Applications\<close>

definition list_applications :: "('w, 'f) cluster \<Rightarrow> ('w, argo_app list) act" where
  "list_applications C = cu_list_apps C"

definition get_application :: "('w, 'f) cluster \<Rightarrow> string \<Rightarrow> ('w, argo_app) act" where
  "get_application C name = cu_get_app C name"

definition sync_patch :: string where
  "sync_patch = ''{\"operation\":{\"sync\":{\"revision\":\"HEAD\",\"prune\":true}}}''"

definition trigger_sync :: "('w, 'f) cluster \<Rightarrow> string \<Rightarrow> ('w, unit) act" where
  "trigger_sync C name = cu_patch_app C name sync_patch"

definition target_patch :: "string \<Rightarrow> string" where
  "target_patch revision = ''{\"spec\":{\"source\":{\"targetRevision\":\"'' @ revision @ ''\"}}}''"

definition patch_target_revision :: "('w, 'f) cluster \<Rightarrow> string \<Rightarrow> string \<Rightarrow> ('w, unit) act" where
  "patch_target_revision C name revision = cu_patch_app C name (target_patch revision)"

definition get_app_target_revision :: "('w, 'f) cluster \<Rightarrow> string \<Rightarrow> ('w, string) act" where
  "get_app_target_revision C name = seq (get_application C name) (\<lambda>e. e) (\<lambda>app. ret (ag_target_revision app))"

section \<open>Pods\<close>

text \<open>Opening the stream may fail, and so may reading it to its end.\<close>

definition get_pod_logs :: "('w, 'f) cluster \<Rightarrow> string \<Rightarrow> string \<Rightarrow> string \<Rightarrow> int \<Rightarrow> ('w, string) act" where
  "get_pod_logs C ns pod container tail = seq (cu_open_logs C ns pod container tail) (\<lambda>e. e) (\<lambda>r w. (r, w))"

definition get_deployment_pods :: "('w, 'f) cluster \<Rightarrow> string \<Rightarrow> string \<Rightarrow> ('w, kube_pod list) act" where
  "get_deployment_pods C ns name = seq (cu_selector C ns name) (\<lambda>e. e) (\<lambda>sel. cu_list_pods C ns sel)"

definition get_pod_containers :: "('w, 'f) cluster \<Rightarrow> string \<Rightarrow> string \<Rightarrow> ('w, string list) act" where
  "get_pod_containers C ns pod = seq (cu_get_pod C ns pod) (\<lambda>e. e) (\<lambda>p. ret (po_containers p))"

definition pod_running :: string where
  "pod_running = ''Running''"

fun waiting_or_unready :: "string \<Rightarrow> container_status list \<Rightarrow> string option" where
  "waiting_or_unready phase [] = None"
| "waiting_or_unready phase (c # cs) =
     (if st_waiting_reason c \<noteq> [] then Some (st_waiting_reason c)
      else if \<not> st_ready c \<and> phase = pod_running then Some ''NotReady''
      else waiting_or_unready phase cs)"

definition pod_health :: "kube_pod \<Rightarrow> string" where
  "pod_health p = (case waiting_or_unready (po_phase p) (po_statuses p) of
     Some h \<Rightarrow> h
   | None \<Rightarrow> if po_phase p = pod_running then ''Healthy'' else po_phase p)"

definition middle_dot :: string where
  "middle_dot = map char_of [0xC2, 0xB7 :: nat]"

text \<open>The sum of the restarts is an \<open>int32\<close>.\<close>

definition pod_detail :: "kube_pod \<Rightarrow> string" where
  "pod_detail p = (let restarts = foldl (\<lambda>n c. n + st_restarts c) 0 (po_statuses p) in
     if 0 <s restarts then fmt_int (sint restarts) @ '' restarts '' @ middle_dot @ '' '' @ po_node p else po_node p)"

section \<open>The resource tree\<close>

datatype resource_node = Resource_node (rn_kind: string) (rn_name: string) (rn_namespace: string)
  (rn_status: string) (rn_health: string) (rn_detail: string) (rn_children: "resource_node list")

definition pod_node :: "kube_pod \<Rightarrow> resource_node" where
  "pod_node p = Resource_node ''Pod'' (po_name p) (po_namespace p) (po_phase p) (pod_health p) (pod_detail p) []"

definition rs_node :: "replica_set \<Rightarrow> resource_node list \<Rightarrow> resource_node" where
  "rs_node r kids = Resource_node ''ReplicaSet'' (rs_name r) (rs_namespace r)
     (fmt_int (rs_ready r) @ ''/'' @ fmt_int (rs_replicas r)) [] [] kids"

text \<open>Appending to the slices of a map from owners.\<close>

definition append_at :: "resource_node \<Rightarrow> (string \<Rightarrow> resource_node list) \<Rightarrow> string \<Rightarrow> string \<Rightarrow> resource_node list" where
  "append_at node m owner = m(owner := m owner @ [node])"

definition index_pods :: "kube_pod list \<Rightarrow> string \<Rightarrow> resource_node list" where
  "index_pods ps = foldl (\<lambda>m p. foldl (append_at (pod_node p)) m (po_owner_uids p)) (\<lambda>_. []) ps"

definition index_replica_sets :: "(string \<Rightarrow> resource_node list) \<Rightarrow> replica_set list \<Rightarrow> string \<Rightarrow> resource_node list" where
  "index_replica_sets pods rss = foldl (\<lambda>m r. let kids = pods (rs_uid r) in
     if kids = [] \<and> rs_replicas r = 0 then m else foldl (append_at (rs_node r kids)) m (rs_owner_names r)) (\<lambda>_. []) rss"

definition expand_top :: "string \<Rightarrow> (string \<Rightarrow> resource_node list) \<Rightarrow> resource_node \<Rightarrow> resource_node" where
  "expand_top ns rss t = Resource_node (rn_kind t) (rn_name t) (if rn_namespace t = [] then ns else rn_namespace t)
     (rn_status t) (rn_health t) (rn_detail t) (if rn_kind t = ''Deployment'' then rss (rn_name t) else rn_children t)"

definition build_resource_tree :: "('w, 'f) cluster \<Rightarrow> string \<Rightarrow> resource_node list \<Rightarrow> 'w \<Rightarrow> resource_node list \<times> 'w" where
  "build_resource_tree C ns tops w =
     (if ns = [] then (tops, w)
      else (case cu_list_replica_sets C ns w of
        (Inl e, w) \<Rightarrow> (tops, w)
      | (Inr rss, w) \<Rightarrow> (case cu_list_pods C ns [] w of
          (Inl e, w) \<Rightarrow> (tops, w)
        | (Inr ps, w) \<Rightarrow> (map (expand_top ns (index_replica_sets (index_pods ps) rss)) tops, w))))"

section \<open>Manifests\<close>

definition known_kinds :: "string list" where
  "known_kinds = [''Pod'', ''Service'', ''Deployment'', ''ReplicaSet'']"

text \<open>A map without a key, and with a key set; \<open>at_key\<close> changes the value of a key that is there.\<close>

definition without_key :: "string \<Rightarrow> (string \<times> 'v) list \<Rightarrow> (string \<times> 'v) list" where
  "without_key k kvs = filter (\<lambda>(k', v). k' \<noteq> k) kvs"

definition at_key :: "string \<Rightarrow> ('v \<Rightarrow> 'v) \<Rightarrow> (string \<times> 'v) list \<Rightarrow> (string \<times> 'v) list" where
  "at_key k f kvs = map (\<lambda>(k', v). (k', if k' = k then f v else v)) kvs"

fun on_object :: "((string \<times> 'f json) list \<Rightarrow> (string \<times> 'f json) list) \<Rightarrow> 'f json \<Rightarrow> 'f json" where
  "on_object f (J_obj kvs) = J_obj (f kvs)"
| "on_object f v = v"

definition last_applied :: string where
  "last_applied = ''kubectl.kubernetes.io/last-applied-configuration''"

definition strip_metadata :: "(string \<times> 'f json) list \<Rightarrow> (string \<times> 'f json) list" where
  "strip_metadata md = at_key ''annotations'' (on_object (without_key last_applied)) (without_key ''managedFields'' md)"

definition tidy_object :: "string \<Rightarrow> (string \<times> 'f json) list \<Rightarrow> (string \<times> 'f json) list" where
  "tidy_object kind obj = without_key ''kind'' (at_key ''metadata'' (on_object strip_metadata) obj) @ [(''kind'', J_str kind)]"

definition get_resource_manifest :: "('w, 'f) cluster \<Rightarrow> string \<Rightarrow> string \<Rightarrow> string \<Rightarrow> ('w, 'f json) act" where
  "get_resource_manifest C ns kind name =
     (if ns = [] \<or> name = [] then fail_with ''namespace and name are required''
      else if kind \<notin> set known_kinds then fail_with (''unsupported kind '' @ cu_quote C kind)
      else seq (cu_object C kind ns name) (\<lambda>e. e) (\<lambda>r. seq (\<lambda>w. (r, w)) (\<lambda>e. e) (\<lambda>obj. ret (J_obj (tidy_object kind obj)))))"

section \<open>What the tree shows\<close>

lemma append_at_all: "foldl (append_at n) m os k = m k @ map (\<lambda>_. n) (filter ((=) k) os)"
  by (induction os arbitrary: m) (auto simp: append_at_def)

lemma index_pods_of:
  "index_pods ps k = concat (map (\<lambda>p. map (\<lambda>_. pod_node p) (filter ((=) k) (po_owner_uids p))) ps)"
proof -
  have "foldl (\<lambda>m p. foldl (append_at (pod_node p)) m (po_owner_uids p)) m ps k =
      m k @ concat (map (\<lambda>p. map (\<lambda>_. pod_node p) (filter ((=) k) (po_owner_uids p))) ps)" for m
    by (induction ps arbitrary: m) (simp_all add: append_at_all)
  then show ?thesis by (simp add: index_pods_def)
qed

lemma index_replica_sets_of:
  "index_replica_sets pods rss k = concat (map (\<lambda>r. map (\<lambda>_. rs_node r (pods (rs_uid r))) (filter ((=) k) (rs_owner_names r)))
     (filter (\<lambda>r. pods (rs_uid r) \<noteq> [] \<or> rs_replicas r \<noteq> 0) rss))"
proof -
  have "foldl (\<lambda>m r. let kids = pods (rs_uid r) in if kids = [] \<and> rs_replicas r = 0 then m
      else foldl (append_at (rs_node r kids)) m (rs_owner_names r)) m rss k =
      m k @ concat (map (\<lambda>r. map (\<lambda>_. rs_node r (pods (rs_uid r))) (filter ((=) k) (rs_owner_names r)))
        (filter (\<lambda>r. pods (rs_uid r) \<noteq> [] \<or> rs_replicas r \<noteq> 0) rss))" for m
    by (induction rss arbitrary: m) (simp_all add: append_at_all Let_def)
  then show ?thesis by (simp add: index_replica_sets_def)
qed

end
