(* ===== verification/Apps.thy ===== *)
theory Apps
  imports Api Cluster BuildClient SnapshotCache
begin

text \<open>
  internal/api/handlers/apps.go, with internal/models/app.go and infra.go: the handlers of the
  API. Kubernetes, the GitOps repository and the build coordinator are reached through a world
  \<open>'w\<close>; the body of a request, parsed or refused, and the readings of the clock are arguments.
\<close>

section \<open>The handlers' environment\<close>

record ('w, 'f, 'b) api_env =
  hl_cluster :: "('w, 'f) cluster"
  hl_git :: "'w git_env"
  hl_git_ops :: git_ops
  hl_deployment_yaml :: "yaml_doc yaml_codec"
  hl_rollbacks_yaml :: "rollbacks_file yaml_codec"
  hl_build :: "('w, 'f, 'b) build_client option"
  hl_floats :: "'f float64"
  hl_unicode :: "string \<Rightarrow> string"

text \<open>A clock reading: local time, UTC, and seconds since 1970.\<close>

record clock_reading =
  cl_local :: gotime
  cl_utc :: gotime
  cl_unix :: int

definition compact_time :: "gotime \<Rightarrow> string" where
  "compact_time t = pad 4 (year t) @ pad 2 (month t) @ pad 2 (day t) @ ''-'' @ pad 2 (hour t) @ pad 2 (minute t) @ pad 2 (second t)"

definition rfc3339 :: "gotime \<Rightarrow> string" where
  "rfc3339 t = format_seconds t @ ''Z''"

text \<open>\<open>attempt m bad ok\<close>: call, answer an error, go on with a result.\<close>

definition attempt :: "('w, 'a) act \<Rightarrow> (string \<Rightarrow> 'r) \<Rightarrow> ('a \<Rightarrow> 'w \<Rightarrow> 'r \<times> 'w) \<Rightarrow> 'w \<Rightarrow> 'r \<times> 'w" where
  "attempt m bad ok w = (case m w of (Inl e, w') \<Rightarrow> (bad e, w') | (Inr x, w') \<Rightarrow> ok x w')"

text \<open>A call whose error is thrown away: its result is the zero value then.\<close>

definition or_zero :: "('w, 'a) act \<Rightarrow> 'a \<Rightarrow> 'w \<Rightarrow> 'a \<times> 'w" where
  "or_zero m z w = (case m w of (Inl e, w') \<Rightarrow> (z, w') | (Inr x, w') \<Rightarrow> (x, w'))"

lemma attempt_simps [simp]:
  "m w = (Inl e, w') \<Longrightarrow> attempt m bad ok w = (bad e, w')"
  "m w = (Inr x, w') \<Longrightarrow> attempt m bad ok w = ok x w'"
  by (simp_all add: attempt_def)

lemma or_zero_simps [simp]:
  "m w = (Inl e, w') \<Longrightarrow> or_zero m z w = (z, w')"
  "m w = (Inr x, w') \<Longrightarrow> or_zero m z w = (x, w')"
  by (simp_all add: or_zero_def)

lemma attempt_cases:
  assumes "\<And>e w'. m w = (Inl e, w') \<Longrightarrow> P (bad e, w')" "\<And>x w'. m w = (Inr x, w') \<Longrightarrow> P (ok x w')"
  shows "P (attempt m bad ok w)"
  using assms by (cases "m w"; cases "fst (m w)") auto

definition bad_request :: "('w, 'f, 'b) api_env \<Rightarrow> api_request \<Rightarrow> string \<Rightarrow> 'f api_response" where
  "bad_request H rq m = json_error (hl_floats H) rq 400 ''bad_request'' m"

definition not_found :: "('w, 'f, 'b) api_env \<Rightarrow> api_request \<Rightarrow> string \<Rightarrow> 'f api_response" where
  "not_found H rq m = json_error (hl_floats H) rq 404 ''not_found'' m"

definition conflict :: "('w, 'f, 'b) api_env \<Rightarrow> api_request \<Rightarrow> string \<Rightarrow> 'f api_response" where
  "conflict H rq m = json_error (hl_floats H) rq 409 ''conflict'' m"

definition internal_error :: "('w, 'f, 'b) api_env \<Rightarrow> api_request \<Rightarrow> string \<Rightarrow> 'f api_response" where
  "internal_error H rq m = json_error (hl_floats H) rq 500 ''internal_error'' m"

definition app_not_found :: "('w, 'f, 'b) api_env \<Rightarrow> api_request \<Rightarrow> string \<Rightarrow> 'f api_response" where
  "app_not_found H rq name = not_found H rq (''Application '' @ [CHR 0x27] @ name @ [CHR 0x27] @ '' not found'')"

definition no_coordinator :: "('w, 'f, 'b) api_env \<Rightarrow> api_request \<Rightarrow> 'f api_response" where
  "no_coordinator H rq = json_error (hl_floats H) rq 503 ''build_coordinator_unavailable'' ''Build coordinator is not configured''"

lemma refusal_status [simp]:
  "ar_status (bad_request H rq m) = 400" "ar_status (not_found H rq m) = 404" "ar_status (conflict H rq m) = 409"
  "ar_status (internal_error H rq m) = 500" "ar_status (app_not_found H rq m) = 404" "ar_status (no_coordinator H rq) = 503"
  by (simp_all add: bad_request_def not_found_def conflict_def internal_error_def app_not_found_def no_coordinator_def)

text \<open>An object of strings, as \<open>fiber.Map\<close> is encoded.\<close>

definition j_strings :: "(string \<times> string) list \<Rightarrow> 'f json" where
  "j_strings kvs = J_obj (map (\<lambda>(k, v). (k, J_str v)) kvs)"

section \<open>Applications\<close>

definition first_image :: "argo_app \<Rightarrow> string" where
  "first_image a = (case ag_images a of Some (Some img # _) \<Rightarrow> img | _ \<Rightarrow> [])"

definition image_tag :: "argo_app \<Rightarrow> string" where
  "image_tag a = (case ag_images a of
     Some (Some img # _) \<Rightarrow> (let parts = split_on (CHR '':'') img in if length parts > 1 then last parts else [])
   | _ \<Rightarrow> [])"

definition rollback_prefix :: string where
  "rollback_prefix = ''rollback/''"

definition app_fields :: "argo_app \<Rightarrow> (string \<times> 'f json) list" where
  "app_fields a = [(''name'', J_str (ag_name a)), (''namespace'', J_str (ag_namespace a)), (''health'', J_str (ag_health a)),
     (''syncStatus'', J_str (ag_sync a)), (''revision'', J_str (ag_revision a)), (''imageTag'', J_str (image_tag a)),
     (''targetRevision'', J_str (ag_target_revision a)), (''lastSyncedAt'', J_str ''0001-01-01T00:00:00Z''),
     (''rollbackStatus'', J_str (if has_prefix (ag_target_revision a) rollback_prefix then ''rollback'' else ''normal''))]"

definition app_resources :: "argo_app \<Rightarrow> (string \<times> string \<times> string) list" where
  "app_resources a = (case ag_resources a of
     None \<Rightarrow> []
   | Some rs \<Rightarrow> List.map_filter (map_option (\<lambda>r. (gr_kind r, gr_name r, if gr_health r = [] then ''Healthy'' else gr_health r))) rs)"

definition resource_json :: "string \<times> string \<times> string \<Rightarrow> 'f json" where
  "resource_json r = (case r of (kind, name, status) \<Rightarrow> j_strings [(''kind'', kind), (''name'', name), (''status'', status)])"

text \<open>\<open>toModelNodes\<close> and the encoding of its result, whose empty fields are omitted.\<close>

fun node_json :: "resource_node \<Rightarrow> 'f json" where
  "node_json (Resource_node kind name ns status health detail kids) = J_obj ([(''kind'', J_str kind), (''name'', J_str name)] @
     j_omit_empty ''namespace'' ns @ j_omit_empty ''status'' status @ j_omit_empty ''health'' health @ j_omit_empty ''detail'' detail @
     (if kids = [] then [] else [(''children'', J_arr (map node_json kids))]))"

definition health :: "('w, 'f) api_handler" where
  "health rq w = (json_ok rq (j_strings [(''status'', ''healthy''), (''version'', ''1.0.0''), (''gitops'', ''self-managed-v4''),
     (''build'', ''standalone-coordinator-runner'')]), w)"

text \<open>A panic is recovered and answered by the error handler of main.go.\<close>

definition recovered :: "('w, 'f, 'b) api_env \<Rightarrow> api_request \<Rightarrow> 'f api_response" where
  "recovered H rq = internal_error H rq ''Internal server error''"

definition list_apps :: "('w, 'f, 'b) api_env \<Rightarrow> ('w, 'f) api_handler" where
  "list_apps H rq = attempt (list_applications (hl_cluster H)) (\<lambda>e. internal_error H rq ''Failed to list applications'')
     (\<lambda>items w.
       let apps = map (\<lambda>a. J_obj (app_fields a)) items; total_count = int (length apps) in
       case paginate_slice (aq_query_int rq ''limit'' 20) (aq_query_int rq ''offset'' 0) total_count of (limit, offset, end) \<Rightarrow>
       (case go_slice apps offset end of
          None \<Rightarrow> (recovered H rq, w)
        | Some paginated \<Rightarrow> (json_paginated (hl_floats H) rq (J_obj [(''apps'', J_arr paginated)]) limit offset total_count, w)))"

definition get_app :: "('w, 'f, 'b) api_env \<Rightarrow> ('w, 'f) api_handler" where
  "get_app H rq = (let name = aq_param rq ''name'' in
     attempt (get_application (hl_cluster H) name) (\<lambda>e. app_not_found H rq name)
     (\<lambda>app w.
       let resources = app_resources app;
           tops = map (\<lambda>(kind, name, status). Resource_node kind name [] status [] [] []) resources in
       case build_resource_tree (hl_cluster H) (ag_destination_namespace app) tops w of (tree, w) \<Rightarrow>
         (json_ok rq (J_obj (app_fields app @ [(''repo'', J_str (ag_repo_url app)), (''path'', J_str (ag_path app)),
            (''resources'', J_arr (map resource_json resources))] @
            (if tree = [] then [] else [(''tree'', J_arr (map node_json tree))]))), w)))"

definition trigger_sync_handler :: "('w, 'f, 'b) api_env \<Rightarrow> clock_reading \<Rightarrow> ('w, 'f) api_handler" where
  "trigger_sync_handler H now rq = (let name = aq_param rq ''name'' in
     attempt (get_application (hl_cluster H) name) (\<lambda>e. app_not_found H rq name) (\<lambda>app.
     attempt (trigger_sync (hl_cluster H) name) (\<lambda>e. internal_error H rq ''Failed to trigger sync'') (\<lambda>_ w.
       (json_ok rq (j_strings [(''operationId'', ''sync-'' @ name @ ''-'' @ fmt_int (cl_unix now)), (''status'', ''syncing''),
          (''message'', ''Sync triggered via Argo CD'')]), w))))"

definition suspend_app :: "('w, 'f, 'b) api_env \<Rightarrow> ('w, 'f) api_handler" where
  "suspend_app H rq = (let name = aq_param rq ''name'' in
     attempt (get_application (hl_cluster H) name) (\<lambda>e. app_not_found H rq name) (\<lambda>app.
     attempt (update_deployment_replicas (hl_git H) (hl_deployment_yaml H) (hl_git_ops H) name 0 (user_of rq))
       (\<lambda>e. internal_error H rq ''Failed to suspend app in GitOps repo'') (\<lambda>_ w.
       (json_ok rq (j_strings [(''name'', name), (''status'', ''suspended''),
          (''message'', ''Deployment scaled to 0 replicas; Argo CD will sync the change'')]), w))))"

section \<open>Builds\<close>

definition rebuild_app_handler :: "('w, 'f, 'b) api_env \<Rightarrow> ('w, 'f) api_handler" where
  "rebuild_app_handler H rq w = (case hl_build H of
     None \<Rightarrow> (no_coordinator H rq, w)
   | Some c \<Rightarrow> (let name = trim_space (aq_param rq ''name'') in
       if name = [] then (bad_request H rq ''App name is required'', w)
       else attempt (client_rebuild_app c name) (\<lambda>e. json_error (hl_floats H) rq 502 ''rebuild_failed'' e)
         (\<lambda>out w. (json_ok rq (create_build_response_json out), w)) w))"

definition complete_request :: "create_build_request \<Rightarrow> create_build_request" where
  "complete_request req = (let app = trim_space (cb_app_name req) in
     req\<lparr>cb_app_name := (if app = [] then trim_space (cb_name req) else app),
         cb_ref := (if cb_ref req = [] then ''main'' else cb_ref req), cb_port := 8080,
         cb_replicas := (if cb_replicas req = 0 then 1 else cb_replicas req)\<rparr>)"

definition check_request :: "(string \<Rightarrow> string) \<Rightarrow> create_build_request \<Rightarrow> unit result" where
  "check_request uni req = (case validate_create_app_request uni (Some \<lparr>car_name = cb_app_name req,
       car_image = ''ghcr.io/placeholder/app'', car_tag = placeholder_tag, car_replicas = cb_replicas req,
       car_port = cb_port req, car_env = []\<rparr>) of
     Inl e \<Rightarrow> Inl e
   | Inr _ \<Rightarrow> if trim_space (cb_repo_url req) = [] then Inl ''repoUrl is required'' else Inr ())"

definition create_app :: "('w, 'f, 'b) api_env \<Rightarrow> create_build_request option \<Rightarrow> ('w, 'f) api_handler" where
  "create_app H body rq w = (case hl_build H of
     None \<Rightarrow> (no_coordinator H rq, w)
   | Some c \<Rightarrow> (case body of
       None \<Rightarrow> (bad_request H rq ''Invalid request body'', w)
     | Some req0 \<Rightarrow> (let req = complete_request req0; name = cb_app_name req in
         case check_request (hl_unicode H) req of
           Inl e \<Rightarrow> (bad_request H rq e, w)
         | Inr _ \<Rightarrow> (case get_application (hl_cluster H) name w of
             (Inr app, w) \<Rightarrow> (conflict H rq (''Application '' @ [CHR 0x27] @ name @ [CHR 0x27] @ '' already exists''), w)
           | (Inl e, w) \<Rightarrow>
               attempt (path_exists (hl_git H) (hl_git_ops H) (''apps/'' @ name))
                 (\<lambda>e. internal_error H rq ''Failed to check GitOps repo'') (\<lambda>there w.
                 if there then (conflict H rq (''App directory '' @ [CHR 0x27] @ ''apps/'' @ name @ [CHR 0x27] @
                   '' already exists in GitOps repo''), w)
                 else attempt (client_create_build c req)
                   (\<lambda>e. json_error (hl_floats H) rq 502 ''build_coordinator_error'' e)
                   (\<lambda>build w. (json_status rq 201 (create_build_response_json build), w)) w) w))))"

definition list_builds_handler :: "('w, 'f, 'b) api_env \<Rightarrow> ('w, 'f) api_handler" where
  "list_builds_handler H rq w = (case hl_build H of
     None \<Rightarrow> (no_coordinator H rq, w)
   | Some c \<Rightarrow> attempt (client_list_builds c (aq_query_int rq ''limit'' 50))
       (\<lambda>e. json_error (hl_floats H) rq 502 ''coordinator_unreachable'' ''Failed to list builds from the coordinator'')
       (\<lambda>builds w. (json_ok rq (J_obj [(''builds'', j_slice (\<lambda>j. case j of None \<Rightarrow> J_null | Some j \<Rightarrow> job_json (hl_floats H) j) builds)]), w)) w)"

definition equal_fold :: "string \<Rightarrow> string \<Rightarrow> bool" where
  "equal_fold a b \<longleftrightarrow> fold_key a = fold_key b"

definition with_app_url :: "job \<Rightarrow> job" where
  "with_app_url j = (if j_app_url j = [] then j\<lparr>j_app_url := app_base_url (j_app_name j)\<rparr> else j)"

definition deploy_verdict :: "argo_app \<Rightarrow> job \<Rightarrow> job" where
  "deploy_verdict app j = (let j = j\<lparr>j_argo_sync_status := ag_sync app, j_argo_health := ag_health app\<rparr> in
     if equal_fold (ag_sync app) ''Synced'' \<and> equal_fold (ag_health app) ''Healthy''
     then j\<lparr>j_deploy_status := ''deployed'', j_verification_error := []\<rparr>
     else if equal_fold (ag_sync app) ''OutOfSync''
     then j\<lparr>j_deploy_status := ''argocd_out_of_sync'', j_verification_error := ''Argo CD Application exists but is out of sync''\<rparr>
     else if equal_fold (ag_health app) ''Degraded''
     then j\<lparr>j_deploy_status := ''degraded'', j_verification_error := ''Argo CD reports the application as degraded''\<rparr>
     else j\<lparr>j_deploy_status := ''argocd_progressing'', j_verification_error := []\<rparr>)"

definition enrich_build :: "('w, 'f, 'b) api_env \<Rightarrow> job \<Rightarrow> 'w \<Rightarrow> job \<times> 'w" where
  "enrich_build H j w =
     (if j_app_name j = [] then (j, w)
      else (let j = with_app_url j in
        if j_status j \<noteq> status_succeeded then (j, w)
        else (case get_application (hl_cluster H) (j_app_name j) w of
            (Inl e, w) \<Rightarrow> (if j_gitops_commit_sha j \<noteq> []
               then j\<lparr>j_deploy_status := ''pending_argocd_application'',
                      j_verification_error := ''GitOps commit exists, but Argo CD has not created the Application yet''\<rparr>
               else j, w)
          | (Inr app, w) \<Rightarrow> (deploy_verdict app j, w))))"

definition get_build_handler :: "('w, 'f, 'b) api_env \<Rightarrow> ('w, 'f) api_handler" where
  "get_build_handler H rq w = (case hl_build H of
     None \<Rightarrow> (no_coordinator H rq, w)
   | Some c \<Rightarrow> attempt (client_get_build c (aq_param rq ''id'')) (\<lambda>e. not_found H rq ''Build not found'')
       (\<lambda>build w. case enrich_build H build w of (build, w) \<Rightarrow> (json_ok rq (job_json (hl_floats H) build), w)) w)"

definition get_build_logs :: "('w, 'f, 'b) api_env \<Rightarrow> ('w, 'f) api_handler" where
  "get_build_logs H rq w = (case hl_build H of
     None \<Rightarrow> (no_coordinator H rq, w)
   | Some c \<Rightarrow> attempt (client_get_logs c (aq_param rq ''id'') (aq_query_int rq ''after'' 0))
       (\<lambda>e. internal_error H rq ''Failed to retrieve build logs'')
       (\<lambda>lines w. (json_ok rq (J_obj [(''lines'', j_slice (log_line_json (hl_floats H)) lines)]), w)) w)"

end
