(* ===== verification/Rollbacks.thy ===== *)
theory Rollbacks
  imports Apps
begin

text \<open>
  The rollback, restore and history handlers of internal/api/handlers/apps.go: validate, look at
  the Application's target revision, publish a branch, point Argo CD at it, record it. The body of
  a request, parsed or refused, and the readings of the clock, one per use, are arguments.
\<close>

record rollback_request =
  rq_target_revision :: string
  rq_reason :: string
  rq_initiated_by :: string

record restore_request =
  rr_reason :: string
  rr_initiated_by :: string

definition is_valid_sha :: "string \<Rightarrow> bool" where
  "is_valid_sha s \<longleftrightarrow> rx_match (rx_times 40 (RClass lower_hex)) s"

definition initiator :: "string \<Rightarrow> string" where
  "initiator by = (if by = [] then ''api'' else by)"

definition rollback_branch :: "string \<Rightarrow> string" where
  "rollback_branch name = ''rollback/'' @ name"

definition blank_entry :: rollback_entry where
  "blank_entry = \<lparr>re_id = [], re_type = [], re_timestamp = [], re_target_revision = [], re_target_image = [],
     re_previous_revision = [], re_previous_image = [], re_restored_to_revision = [], re_restored_to_image = [],
     re_reason = [], re_rollback_branch = [], re_initiated_by = []\<rparr>"

definition rollback_entry_of :: "(nat \<Rightarrow> clock_reading) \<Rightarrow> string \<Rightarrow> rollback_request \<Rightarrow> argo_app \<Rightarrow> rollback_entry" where
  "rollback_entry_of now name req app = blank_entry\<lparr>
     re_id := ''rb-'' @ name @ ''-'' @ compact_time (cl_local (now 0)), re_type := ''rollback'',
     re_timestamp := rfc3339 (cl_utc (now 1)), re_target_revision := rq_target_revision req,
     re_previous_revision := ag_revision app, re_previous_image := first_image app, re_reason := rq_reason req,
     re_rollback_branch := rollback_branch name, re_initiated_by := initiator (rq_initiated_by req)\<rparr>"

text \<open>A failure to record is logged, no more: \<open>or_zero\<close>.\<close>

definition rollback :: "('w, 'f, 'b) api_env \<Rightarrow> (nat \<Rightarrow> clock_reading) \<Rightarrow> rollback_request option \<Rightarrow> ('w, 'f) api_handler" where
  "rollback H now body rq w = (let name = aq_param rq ''name'' in case body of
     None \<Rightarrow> (bad_request H rq ''Invalid request body'', w)
   | Some req \<Rightarrow>
      if rq_target_revision req = [] \<or> \<not> is_valid_sha (rq_target_revision req)
      then (bad_request H rq ''targetRevision must be a 40-character hex SHA'', w)
      else if rq_reason req = [] then (bad_request H rq ''reason is required'', w)
      else attempt (get_application (hl_cluster H) name) (\<lambda>e. app_not_found H rq name) (\<lambda>app w.
        case or_zero (get_app_target_revision (hl_cluster H) name) [] w of (target, w) \<Rightarrow>
        if has_prefix target rollback_prefix then (conflict H rq ''Application is already in rollback state'', w)
        else attempt (validate_sha (hl_git H) (hl_git_ops H) (rq_target_revision req))
          (\<lambda>e. internal_error H rq ''Failed to validate target revision'') (\<lambda>valid w.
          if \<not> valid then (json_error (hl_floats H) rq 422 ''unprocessable_entity'' ''Target revision is not a known-good commit'', w)
          else attempt (create_rollback_branch (hl_git H) (hl_git_ops H) name (rq_target_revision req))
            (\<lambda>e. internal_error H rq ''Failed to create rollback branch'') (\<lambda>_.
            attempt (patch_target_revision (hl_cluster H) name (rollback_branch name))
              (\<lambda>e. internal_error H rq ''Failed to patch Argo CD application'') (\<lambda>_ w.
              let entry = rollback_entry_of now name req app in
              case or_zero (record_rollback (hl_git H) (hl_rollbacks_yaml H) (hl_git_ops H) (rfc3339 (cl_utc (now 2))) name entry) () w of
                (_, w) \<Rightarrow> (json_ok rq (j_strings [(''rollbackId'', re_id entry), (''app'', name),
                   (''rollbackBranch'', rollback_branch name), (''targetRevision'', rq_target_revision req),
                   (''previousRevision'', ag_revision app), (''previousImage'', first_image app), (''status'', ''active''),
                   (''createdAt'', re_timestamp entry)]), w))) w) w) w)"

definition restore_entry_of :: "(nat \<Rightarrow> clock_reading) \<Rightarrow> string \<Rightarrow> restore_request \<Rightarrow> argo_app \<Rightarrow> rollback_entry" where
  "restore_entry_of now name req app = blank_entry\<lparr>
     re_id := ''rs-'' @ name @ ''-'' @ compact_time (cl_local (now 0)), re_type := ''restore'',
     re_timestamp := rfc3339 (cl_utc (now 1)), re_restored_to_revision := ag_revision app,
     re_restored_to_image := first_image app, re_reason := rr_reason req, re_initiated_by := initiator (rr_initiated_by req)\<rparr>"

definition restore :: "('w, 'f, 'b) api_env \<Rightarrow> (nat \<Rightarrow> clock_reading) \<Rightarrow> restore_request option \<Rightarrow> ('w, 'f) api_handler" where
  "restore H now body rq w = (let name = aq_param rq ''name'' in case body of
     None \<Rightarrow> (bad_request H rq ''Invalid request body'', w)
   | Some req \<Rightarrow>
      if rr_reason req = [] then (bad_request H rq ''reason is required'', w)
      else attempt (get_application (hl_cluster H) name) (\<lambda>e. app_not_found H rq name) (\<lambda>app w.
        case or_zero (get_app_target_revision (hl_cluster H) name) [] w of (target, w) \<Rightarrow>
        if \<not> has_prefix target rollback_prefix then (conflict H rq ''Application is not in rollback state'', w)
        else attempt (patch_target_revision (hl_cluster H) name ''main'')
          (\<lambda>e. internal_error H rq ''Failed to restore Argo CD application'') (\<lambda>_ w.
          let entry = restore_entry_of now name req app in
          case or_zero (record_restore (hl_git H) (hl_rollbacks_yaml H) (hl_git_ops H) (rfc3339 (cl_utc (now 2))) name entry True) () w of
            (_, w) \<Rightarrow> (json_ok rq (j_strings [(''restoreId'', re_id entry), (''app'', name),
               (''restoredToRevision'', ag_revision app), (''restoredToImage'', first_image app), (''status'', ''restoring''),
               (''createdAt'', re_timestamp entry)]), w)) w) w)"

text \<open>
  The history has no JSON tags: its fields are encoded under their Go names, and a nil pointer or
  slice as \<open>null\<close>. A list of entries is nil when empty.
\<close>

definition entry_json :: "rollback_entry \<Rightarrow> 'f json" where
  "entry_json e = j_strings [(''ID'', re_id e), (''Type'', re_type e), (''Timestamp'', re_timestamp e),
     (''TargetRevision'', re_target_revision e), (''TargetImage'', re_target_image e), (''PreviousRevision'', re_previous_revision e),
     (''PreviousImage'', re_previous_image e), (''RestoredToRevision'', re_restored_to_revision e),
     (''RestoredToImage'', re_restored_to_image e), (''Reason'', re_reason e), (''RollbackBranch'', re_rollback_branch e),
     (''InitiatedBy'', re_initiated_by e)]"

definition app_rollbacks_json :: "app_rollbacks option \<Rightarrow> 'f json" where
  "app_rollbacks_json a = (case a of
     None \<Rightarrow> J_null
   | Some a \<Rightarrow> J_obj [(''CurrentStatus'', J_str (ap_current_status a)),
       (''ActiveRollback'', (case ap_active_rollback a of None \<Rightarrow> J_null | Some e \<Rightarrow> entry_json e)),
       (''History'', (if ap_history a = [] then J_null else J_arr (map entry_json (ap_history a))))])"

definition list_rollbacks :: "('w, 'f, 'b) api_env \<Rightarrow> clock_reading \<Rightarrow> ('w, 'f) api_handler" where
  "list_rollbacks H now rq = attempt (read_rollbacks (hl_git H) (hl_rollbacks_yaml H) (hl_git_ops H) (rfc3339 (cl_utc now)))
     (\<lambda>e. internal_error H rq ''Failed to read rollback history'')
     (\<lambda>file w. (json_ok rq (J_obj [(''version'', J_str (rf_version file)), (''generatedAt'', J_str (rf_generated_at file)),
        (''apps'', J_obj (map (\<lambda>k. (k, app_rollbacks_json (the (rf_apps file k)))) (sorted_list_of_set (dom (rf_apps file)))))]), w))"

end
