(* ===== verification/Inspect.thy ===== *)
theory Inspect
  imports Apps
begin

text \<open>
  The handlers of internal/api/handlers that only read: pod logs and live objects of an
  application (apps.go), the signed-in user, the infrastructure snapshot (infra.go) and the
  repositories of the platform's GitHub account (github.go).
\<close>

section \<open>Logs and live objects\<close>

definition newline_char :: char where
  "newline_char = CHR 0x0A"

text \<open>The container asked for, else the first of the pod, else its first init container.\<close>

definition default_container :: "kube_pod \<Rightarrow> string option" where
  "default_container p = (case po_containers p of
     c # _ \<Rightarrow> Some c | [] \<Rightarrow> (case po_init_containers p of c # _ \<Rightarrow> Some c | [] \<Rightarrow> None))"

definition log_lines :: "string \<Rightarrow> string list" where
  "log_lines text = (let lines = split_on newline_char (trim_space text) in if lines = [[]] then [] else lines)"

definition get_logs_handler :: "('w, 'f, 'b) api_env \<Rightarrow> ('w, 'f) api_handler" where
  "get_logs_handler H rq = (let name = aq_param rq ''name'' in
     attempt (get_application (hl_cluster H) name) (\<lambda>e. app_not_found H rq name) (\<lambda>app.
       let ns = (if ag_destination_namespace app = [] then ''default'' else ag_destination_namespace app) in
       attempt (get_deployment_pods (hl_cluster H) ns name) (\<lambda>e. not_found H rq ''No pods found for application'') (\<lambda>pods w.
         case pods of
           [] \<Rightarrow> (not_found H rq ''No pods found for application'', w)
         | pod # _ \<Rightarrow> (let asked = aq_query rq ''container'' [] in
             case (if asked = [] then default_container pod else Some asked) of
               None \<Rightarrow> (internal_error H rq ''Pod has no containers'', w)
             | Some container \<Rightarrow>
                 attempt (get_pod_logs (hl_cluster H) ns (po_name pod) container (aq_query_int rq ''tail'' 100))
                   (\<lambda>e. internal_error H rq ''Failed to retrieve pod logs'')
                   (\<lambda>logs w. (json_ok rq (J_obj [(''pod'', J_str (po_name pod)), (''container'', J_str container),
                      (''lines'', J_arr (map J_str (log_lines logs)))]), w)) w))))"

definition get_resource_manifest_handler :: "('w, 'f, 'b) api_env \<Rightarrow> ('w, 'f) api_handler" where
  "get_resource_manifest_handler H rq =
     attempt (get_application (hl_cluster H) (aq_param rq ''name'')) (\<lambda>e. not_found H rq ''Application not found'') (\<lambda>app w.
       let ns = ag_destination_namespace app in
       if ns = [] then (not_found H rq ''Application has no destination namespace'', w)
       else attempt (get_resource_manifest (hl_cluster H) ns (aq_param rq ''kind'') (aq_param rq ''resource''))
         (\<lambda>e. not_found H rq e) (\<lambda>manifest w. (json_ok rq manifest, w)) w)"

text \<open>The names are listed again for the answer; that listing may fail silently (a nil list).\<close>

definition get_pod_logs_handler :: "('w, 'f, 'b) api_env \<Rightarrow> ('w, 'f) api_handler" where
  "get_pod_logs_handler H rq =
     attempt (get_application (hl_cluster H) (aq_param rq ''name'')) (\<lambda>e. not_found H rq ''Application not found'') (\<lambda>app w.
       let ns = ag_destination_namespace app; pod = aq_param rq ''pod'' in
       if ns = [] then (not_found H rq ''Application has no destination namespace'', w)
       else (let asked = aq_query rq ''container'' [];
                 pick = (if asked \<noteq> [] then ret asked
                   else seq (get_pod_containers (hl_cluster H) ns pod) (\<lambda>e. e) (\<lambda>names. ret (case names of [] \<Rightarrow> [] | c # _ \<Rightarrow> c)))
             in attempt pick (\<lambda>e. not_found H rq ''Pod not found'') (\<lambda>container.
                attempt (get_pod_logs (hl_cluster H) ns pod container (aq_query_int rq ''tail'' 200))
                  (\<lambda>e. internal_error H rq e) (\<lambda>logs w.
                  case or_zero (seq (get_pod_containers (hl_cluster H) ns pod) (\<lambda>e. e) (\<lambda>names. ret (Some names))) None w of
                    (containers, w) \<Rightarrow> (json_ok rq (J_obj [(''pod'', J_str pod), (''container'', J_str container),
                       (''containers'', j_slice J_str containers),
                       (''lines'', J_arr (map J_str (split_on newline_char (trim_right_char newline_char logs))))]), w))) w))"

definition me :: "('w, 'f) api_handler" where
  "me rq w = (json_ok rq (j_strings [(''user'', user_of rq), (''email'', aq_header rq ''X-Auth-Request-Email''),
     (''signOutUrl'', ''/oauth2/sign_out?rd='' @ aq_protocol rq @ ''://'' @ aq_hostname rq @ ''/'')]), w)"

section \<open>The snapshot\<close>

text \<open>
  \<open>encode\<close> writes a snapshot. An error of \<open>Get\<close> is told apart by identity; it is \<open>ErrNotReady\<close> or
  wraps it exactly when the cache's text begins with that of \<open>ErrNotReady\<close>.
\<close>

definition is_not_ready :: "string \<Rightarrow> bool" where
  "is_not_ready e \<longleftrightarrow> has_prefix e err_not_ready"

definition get_infra ::
    "'f float64 \<Rightarrow> ('f snapshot \<Rightarrow> 'f json) \<Rightarrow> bool \<Rightarrow> instant \<Rightarrow> instant \<Rightarrow> instant \<Rightarrow> (('c, 'f) cache, 'f) api_handler" where
  "get_infra F encode present n0 n1 n2 rq c =
     (if \<not> present then (json_error F rq 503 ''infra_unavailable'' ''Infrastructure reporting is not configured'', c)
      else (case get_snapshot n0 n1 n2 c of
        (Inl e, c) \<Rightarrow> (if is_not_ready e
           then json_error F rq 503 ''infra_unavailable'' (''Infrastructure snapshot unavailable: '' @ e)
           else json_error F rq 500 ''internal_error'' ''Failed to read infrastructure snapshot'', c)
      | (Inr snap, c) \<Rightarrow> (json_ok rq (encode snap), c)))"

section \<open>GitHub repositories\<close>

record github_repo =
  gh_name :: string
  gh_full_name :: string
  gh_url :: string
  gh_default_branch :: string
  gh_language :: string
  gh_private :: bool

fun dec_bool :: "'f json \<Rightarrow> bool option" where
  "dec_bool J_null = Some False"
| "dec_bool (J_bool b) = Some b"
| "dec_bool _ = None"

definition dec_github_repo :: "'f json \<Rightarrow> github_repo option" where
  "dec_github_repo v = do {
     get \<leftarrow> obj_fields [''name'', ''full_name'', ''html_url'', ''default_branch'', ''language'', ''private''] v;
     n \<leftarrow> dec_str (get ''name''); f \<leftarrow> dec_str (get ''full_name''); u \<leftarrow> dec_str (get ''html_url'');
     b \<leftarrow> dec_str (get ''default_branch''); l \<leftarrow> dec_str (get ''language''); p \<leftarrow> dec_bool (get ''private'');
     Some \<lparr>gh_name = n, gh_full_name = f, gh_url = u, gh_default_branch = b, gh_language = l, gh_private = p\<rparr> }"

definition github_repo_json :: "github_repo \<Rightarrow> 'f json" where
  "github_repo_json r = J_obj [(''name'', J_str (gh_name r)), (''fullName'', J_str (gh_full_name r)), (''url'', J_str (gh_url r)),
     (''defaultBranch'', J_str (gh_default_branch r)), (''language'', J_str (gh_language r)), (''private'', J_bool (gh_private r))]"

record ('w, 'f, 'b) github =
  gi_send :: "string \<Rightarrow> string \<Rightarrow> ('w, 'b http_response) act"
  gi_json :: "('f, 'b) json_io"

definition github_repos_url :: string where
  "github_repos_url = ''https://api.github.com/user/repos?per_page=100&sort=pushed''"

text \<open>The conversion starts from an empty slice, so a \<open>null\<close> answer is an empty list.\<close>

definition fetch_github_repos :: "('w, 'f, 'b) github \<Rightarrow> string \<Rightarrow> ('w, github_repo list) act" where
  "fetch_github_repos G token = seq (gi_send G github_repos_url (''Bearer '' @ token)) (\<lambda>e. e) (\<lambda>res.
     if hs_code res \<noteq> 200 then fail_with (''GitHub API returned '' @ fmt_int (hs_code res))
     else (case Option.bind (jio_decode (gi_json G) (hs_body res)) (dec_slice dec_github_repo) of
         None \<Rightarrow> fail_with (jio_refusal (gi_json G) ''repos'' (hs_body res))
       | Some None \<Rightarrow> ret []
       | Some (Some repos) \<Rightarrow> ret repos))"

record repo_cache =
  rc_repos :: "github_repo list"
  rc_fetched :: instant

definition repo_cache_duration :: duration where
  "repo_cache_duration = seconds 60"

text \<open>The cache is a variable of the package; \<open>n0\<close> is read for the age, \<open>n1\<close> after a fetch.\<close>

definition list_github_repos ::
    "'f float64 \<Rightarrow> ('w, 'f, 'b) github \<Rightarrow> string \<Rightarrow> instant \<Rightarrow> instant \<Rightarrow> api_request \<Rightarrow> repo_cache \<Rightarrow> 'w \<Rightarrow> 'f api_response \<times> repo_cache \<times> 'w" where
  "list_github_repos F G token n0 n1 rq cache w =
     (let answer = (\<lambda>repos. json_ok rq (J_obj [(''repos'', J_arr (map github_repo_json repos))])) in
      if token = [] then (json_error F rq 503 ''github_not_configured'' ''GitHub token is not configured on the server'', cache, w)
      else if rc_repos cache \<noteq> [] \<and> time_sub n0 (rc_fetched cache) < repo_cache_duration
      then (answer (rc_repos cache), cache, w)
      else (case fetch_github_repos G token w of
          (Inl e, w) \<Rightarrow> (json_error F rq 502 ''github_api_error'' (''Failed to fetch GitHub repos: '' @ e), cache, w)
        | (Inr repos, w) \<Rightarrow> (answer repos, \<lparr>rc_repos = repos, rc_fetched = n1\<rparr>, w)))"

end
