(* ===== verification/ClusterFacts.thy ===== *)
theory ClusterFacts
  imports Rollbacks Inspect GitOpsRuns
begin

text \<open>
  What the API shows of the cluster: the resource tree follows the owner references of the cluster,
  and the reads of one application stay in its destination namespace.
\<close>

section \<open>The resource tree\<close>

definition owned_pods :: "kube_pod list \<Rightarrow> replica_set \<Rightarrow> kube_pod list" where
  "owned_pods ps r = filter (\<lambda>p. rs_uid r \<in> set (po_owner_uids p)) ps"

text \<open>A ReplicaSet is shown unless it is scaled down and has no pods left.\<close>

definition shown_sets :: "kube_pod list \<Rightarrow> replica_set list \<Rightarrow> string \<Rightarrow> resource_node list" where
  "shown_sets ps rss name = map (\<lambda>r. rs_node r (map pod_node (owned_pods ps r)))
     (filter (\<lambda>r. name \<in> set (rs_owner_names r) \<and> (owned_pods ps r \<noteq> [] \<or> rs_replicas r \<noteq> 0)) rss)"

lemma filter_once: "distinct xs \<Longrightarrow> filter ((=) k) xs = (if k \<in> set xs then [k] else [])"
  by (induction xs) auto

lemma concat_once:
  "(\<forall>x \<in> set xs. distinct (f x)) \<Longrightarrow> concat (map (\<lambda>x. map (\<lambda>_. g x) (filter ((=) k) (f x))) xs) = map g (filter (\<lambda>x. k \<in> set (f x)) xs)"
  by (induction xs) (auto simp: filter_once)

lemma indexes:
  assumes "\<forall>p \<in> set ps. distinct (po_owner_uids p)" "\<forall>r \<in> set rss. distinct (rs_owner_names r)"
  shows "index_replica_sets (index_pods ps) rss = shown_sets ps rss"
proof
  fix name
  have p: "index_pods ps (rs_uid r) = map pod_node (owned_pods ps r)" for r
    unfolding index_pods_of owned_pods_def by (rule concat_once [OF assms(1)])
  have "\<forall>r \<in> set (filter (\<lambda>r. owned_pods ps r \<noteq> [] \<or> rs_replicas r \<noteq> 0) rss). distinct (rs_owner_names r)"
    using assms(2) by simp
  from concat_once [OF this, of "\<lambda>r. rs_node r (map pod_node (owned_pods ps r))" name]
  show "index_replica_sets (index_pods ps) rss name = shown_sets ps rss name"
    by (simp add: index_replica_sets_of p shown_sets_def conj_commute)
qed

text \<open>What a node has to say of the pod, the ReplicaSet and the resource of the application it stands for.\<close>

definition shows_pod :: "kube_pod \<Rightarrow> resource_node \<Rightarrow> bool" where
  "shows_pod p n \<longleftrightarrow> rn_kind n = ''Pod'' \<and> rn_name n = po_name p \<and> rn_namespace n = po_namespace p \<and>
     rn_status n = po_phase p \<and> rn_health n = pod_health p \<and> rn_detail n = pod_detail p \<and> rn_children n = []"

definition shows_set :: "kube_pod list \<Rightarrow> replica_set \<Rightarrow> resource_node \<Rightarrow> bool" where
  "shows_set ps r n \<longleftrightarrow> rn_kind n = ''ReplicaSet'' \<and> rn_name n = rs_name r \<and> rn_namespace n = rs_namespace r \<and>
     rn_status n = fmt_int (rs_ready r) @ ''/'' @ fmt_int (rs_replicas r) \<and> rn_health n = [] \<and> rn_detail n = [] \<and>
     list_all2 shows_pod (owned_pods ps r) (rn_children n)"

definition live_sets :: "kube_pod list \<Rightarrow> replica_set list \<Rightarrow> string \<Rightarrow> replica_set list" where
  "live_sets ps rss name = filter (\<lambda>r. name \<in> set (rs_owner_names r) \<and> (owned_pods ps r \<noteq> [] \<or> rs_replicas r \<noteq> 0)) rss"

definition shows_resource :: "string \<Rightarrow> kube_pod list \<Rightarrow> replica_set list \<Rightarrow> resource_node \<Rightarrow> resource_node \<Rightarrow> bool" where
  "shows_resource ns ps rss t n \<longleftrightarrow> rn_kind n = rn_kind t \<and> rn_name n = rn_name t \<and>
     rn_namespace n = (if rn_namespace t = [] then ns else rn_namespace t) \<and>
     rn_status n = rn_status t \<and> rn_health n = rn_health t \<and> rn_detail n = rn_detail t \<and>
     (if rn_kind t = ''Deployment'' then list_all2 (shows_set ps) (live_sets ps rss (rn_name t)) (rn_children n)
      else rn_children n = rn_children t)"

lemma pod_node_shows: "shows_pod p (pod_node p)"
  by (simp add: shows_pod_def pod_node_def)

lemma rs_node_shows: "shows_set ps r (rs_node r (map pod_node (owned_pods ps r)))"
  by (simp add: shows_set_def rs_node_def list.rel_map list.rel_refl pod_node_shows)

lemma shown_sets_show: "list_all2 (shows_set ps) (live_sets ps rss name) (shown_sets ps rss name)"
  by (simp add: live_sets_def shown_sets_def list.rel_map list.rel_refl rs_node_shows)

lemma expand_top_shows: "shows_resource ns ps rss t (expand_top ns (shown_sets ps rss) t)"
  using shown_sets_show [of ps rss "rn_name t"] by (simp add: shows_resource_def expand_top_def)

text \<open>
  C20. The tree of an application follows the owner references of the cluster. It has the resources
  of the application in their order, unchanged but for a namespace that was missing. Under each
  Deployment are the ReplicaSets that name it as an owner, but for those scaled down and without
  pods, and under each of these the pods that carry its UID as an owner, each with its health, and
  nothing else; any other resource keeps the children it came with. A listing that fails costs the
  children, never the resources themselves.
\<close>

theorem resource_tree_by_owner:
  assumes "cu_list_replica_sets C ns w = (rss, w1)" "cu_list_pods C ns [] w1 = (ps, w2)"
    and "case (rss, ps) of (Inr rs, Inr qs) \<Rightarrow> (\<forall>q \<in> set qs. distinct (po_owner_uids q)) \<and> (\<forall>r \<in> set rs. distinct (rs_owner_names r)) | _ \<Rightarrow> True"
  shows "case (rss, ps) of
      (Inr rs, Inr qs) \<Rightarrow> if ns = [] then fst (build_resource_tree C ns tops w) = tops
        else list_all2 (shows_resource ns qs rs) tops (fst (build_resource_tree C ns tops w))
    | _ \<Rightarrow> fst (build_resource_tree C ns tops w) = tops"
proof (cases rss; cases ps)
  fix rs qs assume r: "rss = Inr rs" "ps = Inr qs"
  with assms(3) have i: "index_replica_sets (index_pods qs) rs = shown_sets qs rs" by (intro indexes) simp_all
  have "list_all2 (shows_resource ns qs rs) tops (map (expand_top ns (shown_sets qs rs)) tops)"
    by (simp add: list.rel_map list.rel_refl expand_top_shows)
  with r i assms(1,2) show ?thesis by (simp add: build_resource_tree_def)
qed (use assms(1,2) in \<open>simp_all add: build_resource_tree_def\<close>)

text \<open>A cluster with one ReplicaSet and one pod in its only namespace, and one Application.\<close>

definition web_pod :: kube_pod where
  "web_pod = \<lparr>po_name = ''web-1'', po_namespace = ''prod'', po_phase = ''Running'', po_node = ''node-a'', po_owner_uids = [''u1''],
     po_statuses = [], po_containers = [''web''], po_init_containers = []\<rparr>"

definition web_set :: replica_set where
  "web_set = \<lparr>rs_name = ''web-rs'', rs_namespace = ''prod'', rs_uid = ''u1'', rs_replicas = 1, rs_ready = 1, rs_owner_names = [''web'']\<rparr>"

definition web_app :: argo_app where
  "web_app = \<lparr>ag_name = ''web'', ag_namespace = ''argocd'', ag_sync = ''Synced'', ag_health = ''Healthy'', ag_revision = ''abc'',
     ag_target_revision = ''main'', ag_destination_namespace = ''prod'', ag_repo_url = ''repo'', ag_path = ''apps/web'',
     ag_images = None, ag_resources = None\<rparr>"

definition web_cluster :: "string \<Rightarrow> ('w, 'f) cluster" where
  "web_cluster elsewhere = \<lparr>cu_list_apps = ret [web_app], cu_get_app = (\<lambda>_. ret web_app), cu_patch_app = (\<lambda>_ _. ret ()),
     cu_open_logs = (\<lambda>ns _ _ _. ret (Inr (if ns = ''prod'' then ''up'' else elsewhere))), cu_selector = (\<lambda>_ _. ret []),
     cu_list_pods = (\<lambda>_ _. ret [web_pod]), cu_list_replica_sets = (\<lambda>_. ret [web_set]),
     cu_get_pod = (\<lambda>_ _. ret web_pod), cu_object = (\<lambda>_ _ _. fail_with ''none''), cu_quote = (\<lambda>s. s)\<rparr>"

text \<open>Two resources of an application: its Deployment, and a Service with a child of its own.\<close>

definition web_tops :: "resource_node list" where
  "web_tops = [Resource_node ''Deployment'' ''web'' [] [] [] [] [], Resource_node ''Service'' ''web'' ''prod'' [] [] []
     [Resource_node ''EndpointSlice'' ''web-x'' ''prod'' [] [] [] []]]"

theorem resource_tree_by_owner_witness:
  "list_all2 (shows_resource ''prod'' [web_pod] [web_set]) web_tops
     (fst (build_resource_tree (web_cluster [] :: (unit, unit) cluster) ''prod'' web_tops ())) \<and>
   live_sets [web_pod] [web_set] ''web'' = [web_set] \<and> owned_pods [web_pod] web_set = [web_pod]"
proof -
  have "live_sets [web_pod] [web_set] ''web'' = [web_set]" "owned_pods [web_pod] web_set = [web_pod]"
    by (simp_all add: live_sets_def owned_pods_def web_pod_def web_set_def)
  then show ?thesis
    using resource_tree_by_owner [of "web_cluster [] :: (unit, unit) cluster" "''prod''" "()" "Inr [web_set]" "()" "Inr [web_pod]" "()" web_tops]
    by (simp add: web_cluster_def ret_def web_pod_def [of] web_set_def [of])
qed

section \<open>One namespace\<close>

definition same_within :: "string \<Rightarrow> ('w, 'f) cluster \<Rightarrow> ('w, 'f) cluster \<Rightarrow> bool" where
  "same_within ns C D \<longleftrightarrow> (\<forall>kind. cu_object C kind ns = cu_object D kind ns) \<and> cu_get_pod C ns = cu_get_pod D ns \<and>
     cu_open_logs C ns = cu_open_logs D ns"

lemma same_reads:
  assumes "same_within ns C D" "cu_quote C = cu_quote D"
  shows "get_resource_manifest C ns kind name = get_resource_manifest D ns kind name"
    "get_pod_logs C ns = get_pod_logs D ns" "get_pod_containers C ns = get_pod_containers D ns"
proof -
  have o: "cu_object C kind ns = cu_object D kind ns" "cu_get_pod C ns = cu_get_pod D ns" "cu_open_logs C ns = cu_open_logs D ns"
    using assms(1) unfolding same_within_def by simp_all
  show "get_resource_manifest C ns kind name = get_resource_manifest D ns kind name"
    by (simp add: get_resource_manifest_def o assms(2))
  show "get_pod_logs C ns = get_pod_logs D ns"
    by (intro ext) (simp add: get_pod_logs_def o)
  show "get_pod_containers C ns = get_pod_containers D ns"
    by (intro ext) (simp add: get_pod_containers_def o)
qed

lemma refusals_of_cluster:
  "internal_error (H\<lparr>hl_cluster := C\<rparr>) = internal_error H" "not_found (H\<lparr>hl_cluster := C\<rparr>) = not_found H"
  by (intro ext, simp add: internal_error_def not_found_def)+


definition bare_env :: "('w, int) cluster \<Rightarrow> 'w git_env \<Rightarrow> ('w, int, unit) api_env" where
  "bare_env C E = \<lparr>hl_cluster = C, hl_git = E, hl_git_ops = new_gitops (\<lambda>_. []),
     hl_deployment_yaml = \<lparr>y_unmarshal = (\<lambda>_. Inl ''no yaml''), y_marshal = (\<lambda>_. Inl ''no yaml'')\<rparr>,
     hl_rollbacks_yaml = const_codec, hl_build = None, hl_floats = int_floats, hl_unicode = (\<lambda>s. s)\<rparr>"

definition web_request :: api_request where
  "web_request = \<lparr>aq_path = ''/v1/apps/web'', aq_param = (\<lambda>_. ''web''), aq_query = (\<lambda>_ d. d), aq_query_int = (\<lambda>_ d. d),
     aq_header = (\<lambda>_. ''alice''), aq_protocol = ''https'', aq_hostname = ''lab'', aq_local_request_id = Some ''r1'',
     aq_local_user = Some ''alice''\<rparr>"


end
