(* ===== verification/RollbackFacts.thy ===== *)
theory RollbackFacts
  imports Rollbacks GitOpsRuns ClusterFacts
begin

text \<open>
  What the rollback and restore handlers do to Argo CD: the contract of a cluster's Applications,
  an instance of it beside a GitOps repository, and the effect of every answer.
\<close>

section \<open>GitOps operations beside other state\<close>

definition git_keeps :: "('w \<Rightarrow> bool) \<Rightarrow> 'w git_env \<Rightarrow> bool" where
  "git_keeps P E \<longleftrightarrow> (\<forall>d w. P w \<longrightarrow> P (ge_remove_all E d w)) \<and> (\<forall>d u. keeps P (ge_plain_clone E d u)) \<and> keeps P (ge_worktree E) \<and>
     (\<forall>b. keeps P (ge_checkout E b)) \<and> (\<forall>p w. P w \<longrightarrow> P (snd (ge_read_file E p w))) \<and> (\<forall>p c. keeps P (ge_write_file E p c)) \<and>
     (\<forall>p. keeps P (ge_add E p)) \<and> (\<forall>m a e. keeps P (ge_commit E m a e)) \<and> (\<forall>rs w. P w \<longrightarrow> P (snd (ge_push E rs w))) \<and>
     (\<forall>n r m. keeps P (ge_create_branch E n r m)) \<and> (\<forall>r s. keeps P (ge_set_reference E r s)) \<and> keeps P (ge_head E) \<and>
     (\<forall>s. keeps P (ge_commit_object E s))"

lemma keeps_lift_result [intro, simp]: "keeps P (lift_result r)"
  by (simp add: keeps_def lift_result_def)

lemma git_keepsD:
  assumes "git_keeps P E"
  shows "keeps P (ge_plain_clone E d u)" "keeps P (ge_worktree E)" "keeps P (ge_checkout E b)" "keeps P (ge_write_file E p c)"
    "keeps P (ge_add E p)" "keeps P (ge_commit E m a e)" "keeps P (ge_create_branch E n r q)" "keeps P (ge_set_reference E r s)"
    "keeps P (ge_head E)" "keeps P (ge_commit_object E s)"
    "P w \<Longrightarrow> P (ge_remove_all E d w)" "P w \<Longrightarrow> P (snd (ge_read_file E p w))" "P w \<Longrightarrow> P (snd (ge_push E rs w))"
  using assms by (simp_all add: git_keeps_def)

lemma git_keeps_ops:
  assumes "git_keeps P E"
  shows "keeps P (clone_repo E g)" "keeps P (open_main E g)" "keeps P (push_to E rs e)" "keeps P (read_rollbacks_from_disk E Y g t)"
proof -
  note k = git_keepsD [OF assms]
  show c: "keeps P (clone_repo E g)"
  proof (rule keepsI)
    fix w assume "P w"
    then have "P (ge_remove_all E (g_work_dir g) w)" by (rule k)
    moreover have "keeps P (seq (ge_plain_clone E d u) (\<lambda>e. f @ e) ret)" for d u f
      by (intro keeps_seq k keeps_ret)
    ultimately show "P (snd (clone_repo E g w))" unfolding clone_repo_def Let_def by (rule keepsD [rotated])
  qed
  show "keeps P (open_main E g)" unfolding open_main_def by (intro keeps_seq c k keeps_ret)
  show "keeps P (push_to E rs e)"
  proof (rule keepsI)
    fix w assume "P w"
    then have "P (snd (ge_push E rs w))" by (rule k)
    then show "P (snd (push_to E rs e w))"
      by (auto simp: push_to_def split: prod.splits sum.splits push_error.splits)
  qed
  show "keeps P (read_rollbacks_from_disk E Y g t)"
  proof (rule keepsI)
    fix w assume "P w"
    then have "P (snd (ge_read_file E (path_join [g_work_dir g, ''rollbacks'', ''rollbacks.yaml'']) w))" by (rule k)
    then show "P (snd (read_rollbacks_from_disk E Y g t w))"
      by (auto simp: read_rollbacks_from_disk_def split: prod.splits sum.splits os_error.splits)
  qed
qed

lemma git_keeps_rollbacks:
  assumes "git_keeps P E"
  shows "keeps P (validate_sha E g sha)" "keeps P (create_rollback_branch E g app sha)"
    "keeps P (record_rollback E Y g t app entry)" "keeps P (record_restore E Y g t app entry ff)"
proof -
  note k = git_keepsD [OF assms] git_keeps_ops [OF assms]
  have "keeps P (\<lambda>w. case ge_commit_object E sha w of (Inl _, w') \<Rightarrow> (Inr False, w') | (Inr _, w') \<Rightarrow> (Inr True, w'))"
  proof (rule keepsI)
    fix w assume "P w"
    with k(10) [of sha] have "P (snd (ge_commit_object E sha w))" by (rule keepsD)
    then show "P (snd (case ge_commit_object E sha w of (Inl _, w') \<Rightarrow> (Inr False, w') | (Inr _, w') \<Rightarrow> (Inr True, w')))"
      by (auto split: prod.splits sum.splits)
  qed
  then show "keeps P (validate_sha E g sha)" unfolding validate_sha_def by (intro keeps_seq k)
  show "keeps P (create_rollback_branch E g app sha)" unfolding create_rollback_branch_def by (intro keeps_seq k)
  have s: "keeps P (save_rollbacks E Y g f m a)" for f m a
    unfolding save_rollbacks_def by (intro keeps_seq k keeps_lift_result)
  show "keeps P (record_rollback E Y g t app entry)"
    unfolding record_rollback_def by (intro keeps_seq k s keeps_lift_result)
  have "keeps P (if \<not> ff then ret () else seq (ge_head E) h (\<lambda>head. seq (ge_set_reference E r head) i (\<lambda>_. push_to E rs p)))" for h r i rs p
    by (cases ff) (simp_all only: not_True_eq_False not_False_eq_True if_True if_False, intro keeps_seq k, rule keeps_ret)
  then show "keeps P (record_restore E Y g t app entry ff)"
    unfolding record_restore_def by (intro keeps_seq k s keeps_lift_result)
qed

section \<open>The Applications of a cluster\<close>

text \<open>Text that stands for itself inside a JSON string literal.\<close>

definition json_plain :: "string \<Rightarrow> bool" where
  "json_plain s \<longleftrightarrow> list_all (\<lambda>c. c \<noteq> CHR 0x22 \<and> c \<noteq> CHR 0x5C \<and> 32 \<le> (of_char c :: nat)) s"

text \<open>
  \<open>target w n\<close> is the target revision of the Application \<open>n\<close>, \<open>None\<close> when there is none. Kubernetes
  names are JSON-plain, a read changes nothing and returns what is there, a merge patch of the
  target revision sets it; one that reports an error may or may not have been applied.
\<close>

locale argo_repo =
  fixes C :: "('w, 'f) cluster" and target :: "'w \<Rightarrow> string \<Rightarrow> string option"
  assumes get_app_ok: "cu_get_app C n w = (Inr app, w') \<Longrightarrow> target w' = target w \<and> target w n = Some (ag_target_revision app) \<and> json_plain n"
    and get_app_failed: "cu_get_app C n w = (Inl e, w') \<Longrightarrow> target w' = target w"
    and patch_ok: "json_plain r \<Longrightarrow> cu_patch_app C n (target_patch r) w = (Inr (), w') \<Longrightarrow> target w' = (target w)(n \<mapsto> r)"
    and patch_failed: "json_plain r \<Longrightarrow> cu_patch_app C n (target_patch r) w = (Inl e, w') \<Longrightarrow>
      target w' = target w \<or> target w' = (target w)(n \<mapsto> r)"
begin

lemma target_read:
  "get_app_target_revision C n w = (r, w') \<Longrightarrow> target w' = target w \<and> (\<forall>t. r = Inr t \<longrightarrow> target w n = Some t)"
  by (auto simp: get_app_target_revision_def get_application_def seq_def dest: get_app_ok get_app_failed split: prod.splits sum.splits)

end

definition target_effect :: "('w \<Rightarrow> string \<Rightarrow> string option) \<Rightarrow> string \<Rightarrow> string \<Rightarrow> 'w \<Rightarrow> 'f api_response \<times> 'w \<Rightarrow> bool" where
  "target_effect target n r w out \<longleftrightarrow> (case out of (res, w') \<Rightarrow>
     if ar_status res = 200 then target w' = (target w)(n \<mapsto> r)
     else if ar_status res = 500 then target w' = target w \<or> target w' = (target w)(n \<mapsto> r)
     else target w' = target w)"

lemma refusal_effect:
  "target w' = target w \<Longrightarrow> ar_status res \<noteq> 200 \<Longrightarrow> target_effect target n r w (res, w')"
  by (simp add: target_effect_def)

lemma or_zero_keeps: "keeps P m \<Longrightarrow> P w \<Longrightarrow> P (snd (or_zero m z w))"
  using keepsD [of P m w] by (auto simp: or_zero_def split: prod.splits sum.splits)

lemma json_plain_branch: "json_plain n \<Longrightarrow> json_plain (rollback_branch n)"
  by (simp add: json_plain_def rollback_branch_def)

lemma json_plain_main: "json_plain ''main''"
  by (simp add: json_plain_def)

text \<open>From a world with the same target: patch it, record the entry, answer 200.\<close>

lemma patch_and_record:
  assumes "argo_repo C target" "json_plain r" "target v = target w"
    and rec: "\<And>t. keeps (\<lambda>w. target w = t) record_it" and bad: "\<And>e. ar_status (bad e) = 500" and good: "ar_status good = 200"
  shows "target_effect target n r w (attempt (patch_target_revision C n r) bad
    (\<lambda>_ w. case or_zero record_it z w of (_, w) \<Rightarrow> (good, w)) v)"
proof (rule attempt_cases)
  fix e v' assume "patch_target_revision C n r v = (Inl e, v')"
  then have "target v' = target v \<or> target v' = (target v)(n \<mapsto> r)"
    unfolding patch_target_revision_def by (rule argo_repo.patch_failed [OF assms(1,2)])
  then show "target_effect target n r w (bad e, v')" by (simp add: target_effect_def bad assms(3))
next
  fix x v' assume "patch_target_revision C n r v = (Inr x, v')"
  then have "target v' = (target v)(n \<mapsto> r)"
    unfolding patch_target_revision_def by (cases x) (rule argo_repo.patch_ok [OF assms(1,2)], simp)
  then have "target (snd (or_zero record_it z v')) = (target w)(n \<mapsto> r)"
    using or_zero_keeps [OF rec, of v' "(target w)(n \<mapsto> r)"] by (simp add: assms(3))
  then show "target_effect target n r w (case or_zero record_it z v' of (_, w) \<Rightarrow> (good, w))"
    by (cases "or_zero record_it z v'") (simp add: target_effect_def good)
qed

text \<open>
  C11. What a rollback answers is what it did: answered 200, the Application follows the branch
  \<open>rollback/<name>\<close> and the request named a 40-digit revision; answered anything but 500, nothing
  about any Application has changed; and no answer changes another Application.
\<close>

theorem rollback_effect:
  assumes "argo_repo (hl_cluster H) target" "\<And>t. git_keeps (\<lambda>w. target w = t) (hl_git H)"
  shows "target_effect target (aq_param rq ''name'') (''rollback/'' @ aq_param rq ''name'') w (rollback H now body rq w) \<and>
    (ar_status (fst (rollback H now body rq w)) = 200 \<longrightarrow> (\<exists>req. body = Some req \<and> is_valid_sha (rq_target_revision req)))"
proof (cases body)
  case None
  then show ?thesis by (simp add: rollback_def target_effect_def)
next
  case (Some req)
  let ?n = "aq_param rq ''name''" and ?eff = "target_effect target (aq_param rq ''name'') (rollback_branch (aq_param rq ''name'')) w"
  note k = git_keeps_rollbacks [OF assms(2)]
  have kept: "target w' = target v" if "\<And>t. keeps (\<lambda>w. target w = t) m" "m v = (r, w')" for m :: "('a, 'x) act" and v r w'
    using keepsD [OF that(1), of v] that(2) by simp
  have run: "?eff (rollback H now body rq w)"
    if sha: "\<not> (rq_target_revision req = [] \<or> \<not> is_valid_sha (rq_target_revision req))" and reason: "rq_reason req \<noteq> []"
    unfolding rollback_def Let_def Some option.case if_not_P [OF sha] if_not_P [OF reason]
  proof (rule attempt_cases, goal_cases)
    case (1 e w1)
    then show ?case by (simp add: target_effect_def get_application_def argo_repo.get_app_failed [OF assms(1)])
  next
    case (2 app w1)
    then have w1: "target w1 = target w" and plain: "json_plain ?n"
      using argo_repo.get_app_ok [OF assms(1)] by (simp_all add: get_application_def)
    obtain t w2 where o: "or_zero (get_app_target_revision (hl_cluster H) ?n) [] w1 = (t, w2)" by fastforce
    then have w2: "target w2 = target w"
      using w1 argo_repo.target_read [OF assms(1)] by (fastforce simp: or_zero_def split: prod.splits sum.splits)
    show ?case
    proof (cases "has_prefix t rollback_prefix")
      case True
      show ?thesis unfolding o prod.case if_P [OF True] by (rule refusal_effect [where w' = w2]) (simp_all add: w2)
    next
      case False
      show ?thesis unfolding o prod.case if_not_P [OF False]
      proof (rule attempt_cases, goal_cases)
        case (1 e w3)
        then show ?case using kept [OF k(1)] w2 by (simp add: target_effect_def)
      next
        case (2 valid w3)
        then have w3: "target w3 = target w" using kept [OF k(1)] w2 by simp
        show ?case
        proof (cases valid)
          case True
          then have nn: "\<not> \<not> valid" by simp
          show ?thesis unfolding if_not_P [OF nn]
          proof (rule attempt_cases, goal_cases)
            case (1 e w4)
            then show ?case using kept [OF k(2)] w3 by (simp add: target_effect_def)
          next
            case (2 x w4)
            then have w4: "target w4 = target w" using kept [OF k(2)] w3 by simp
            show ?case by (rule patch_and_record [OF assms(1) json_plain_branch [OF plain] w4 k(3)]) simp_all
          qed
        qed (simp add: target_effect_def w3)
      qed
    qed
  qed
  show ?thesis
  proof (cases "rq_target_revision req = [] \<or> \<not> is_valid_sha (rq_target_revision req)")
    case True
    then show ?thesis by (simp add: rollback_def Some target_effect_def)
  next
    case False
    then have "?eff (rollback H now body rq w)"
    proof (cases "rq_reason req = []")
      case True
      with False show ?thesis by (simp add: rollback_def Some target_effect_def)
    qed (rule run)
    with False Some show ?thesis by (simp add: rollback_branch_def)
  qed
qed

text \<open>
  C16. A restore answered 200 has put the Application back on \<open>main\<close>, and found it following a
  rollback branch; answered anything but 500, nothing about any Application has changed; and no
  answer changes another Application.
\<close>

theorem restore_effect:
  assumes "argo_repo (hl_cluster H) target" "\<And>t. git_keeps (\<lambda>w. target w = t) (hl_git H)"
  shows "target_effect target (aq_param rq ''name'') ''main'' w (restore H now body rq w) \<and>
    (ar_status (fst (restore H now body rq w)) = 200 \<longrightarrow>
      (\<exists>t. target w (aq_param rq ''name'') = Some t \<and> has_prefix t rollback_prefix))"
proof (cases body)
  case None
  then show ?thesis by (simp add: restore_def target_effect_def)
next
  case (Some req)
  let ?n = "aq_param rq ''name''" and ?out = "\<lambda>out. target_effect target (aq_param rq ''name'') ''main'' w out \<and>
    (ar_status (fst out) = 200 \<longrightarrow> (\<exists>t. target w (aq_param rq ''name'') = Some t \<and> has_prefix t rollback_prefix))"
  have run: "?out (restore H now body rq w)" if reason: "rr_reason req \<noteq> []"
    unfolding restore_def Let_def Some option.case if_not_P [OF reason]
  proof (rule attempt_cases [where P = ?out], goal_cases)
    case (1 e w1)
    then show ?case by (simp add: target_effect_def get_application_def argo_repo.get_app_failed [OF assms(1)])
  next
    case (2 app w1)
    then have w1: "target w1 = target w"
      using argo_repo.get_app_ok [OF assms(1)] by (simp_all add: get_application_def)
    obtain t w2 where o: "or_zero (get_app_target_revision (hl_cluster H) ?n) [] w1 = (t, w2)" by fastforce
    obtain r where r: "get_app_target_revision (hl_cluster H) ?n w1 = (r, w2)" "t = (case r of Inl _ \<Rightarrow> [] | Inr t \<Rightarrow> t)"
      using o by (cases "get_app_target_revision (hl_cluster H) ?n w1"; cases "fst (get_app_target_revision (hl_cluster H) ?n w1)") auto
    note read = argo_repo.target_read [OF assms(1) r(1)]
    have w2: "target w2 = target w" using w1 read by simp
    show ?case
    proof (cases "has_prefix t rollback_prefix")
      case False
      then show ?thesis by (simp add: o w2 target_effect_def)
    next
      case True
      then have nn: "\<not> \<not> has_prefix t rollback_prefix" by simp
      have "has_prefix [] rollback_prefix = False" by (simp add: has_prefix_def rollback_prefix_def)
      then have t: "target w ?n = Some t" using True read r(2) w1 by (cases r) simp_all
      show ?thesis unfolding o prod.case if_not_P [OF nn]
        using t True by (intro conjI impI exI [of _ t])
          (rule patch_and_record [OF assms(1) json_plain_main w2 git_keeps_rollbacks(4) [OF assms(2)]], simp_all)
    qed
  qed
  show ?thesis
  proof (cases "rr_reason req = []")
    case True
    then show ?thesis by (simp add: restore_def Some target_effect_def)
  qed (rule run)
qed

section \<open>A cluster beside the repository\<close>

definition on_first :: "('v \<Rightarrow> 'r \<times> 'v) \<Rightarrow> 'v \<times> 'x \<Rightarrow> 'r \<times> 'v \<times> 'x" where
  "on_first m w = (case m (fst w) of (r, v) \<Rightarrow> (r, v, snd w))"

definition beside :: "'v git_env \<Rightarrow> ('v \<times> 'x) git_env" where
  "beside E = \<lparr>ge_remove_all = (\<lambda>d w. (ge_remove_all E d (fst w), snd w)),
     ge_plain_clone = (\<lambda>d u. on_first (ge_plain_clone E d u)), ge_worktree = on_first (ge_worktree E),
     ge_checkout = (\<lambda>b. on_first (ge_checkout E b)), ge_stat = (\<lambda>p. on_first (ge_stat E p)),
     ge_mkdir_all = (\<lambda>p. on_first (ge_mkdir_all E p)), ge_read_file = (\<lambda>p. on_first (ge_read_file E p)),
     ge_write_file = (\<lambda>p c. on_first (ge_write_file E p c)), ge_add = (\<lambda>p. on_first (ge_add E p)),
     ge_commit = (\<lambda>m a e. on_first (ge_commit E m a e)), ge_push = (\<lambda>rs. on_first (ge_push E rs)),
     ge_create_branch = (\<lambda>b r m. on_first (ge_create_branch E b r m)), ge_set_reference = (\<lambda>r h. on_first (ge_set_reference E r h)),
     ge_head = on_first (ge_head E), ge_commit_object = (\<lambda>h. on_first (ge_commit_object E h))\<rparr>"

lemma beside_keeps: "git_keeps (\<lambda>w. snd w = t) (beside E)"
  by (simp add: git_keeps_def beside_def keeps_def on_first_def split: prod.split)

text \<open>Applications by name, each with its target revision; the patch of a target revision is undone to read it.\<close>

definition patched_revision :: "string \<Rightarrow> string" where
  "patched_revision p = (let n = length (target_patch []) - 4 in take (length p - length (target_patch [])) (drop n p))"

definition mem_cluster :: "('v \<times> (string \<Rightarrow> string option), 'f) cluster" where
  "mem_cluster = \<lparr>cu_list_apps = ret [],
     cu_get_app = (\<lambda>n w. (case snd w n of
        Some t \<Rightarrow> if json_plain n then (Inr (web_app\<lparr>ag_name := n, ag_target_revision := t\<rparr>), w) else (Inl ''not found'', w)
      | None \<Rightarrow> (Inl ''not found'', w))),
     cu_patch_app = (\<lambda>n p w. if p = target_patch (patched_revision p) \<and> snd w n \<noteq> None
        then (Inr (), fst w, (snd w)(n \<mapsto> patched_revision p)) else (Inl ''not found'', w)),
     cu_open_logs = (\<lambda>_ _ _ _. fail_with ''none''), cu_selector = (\<lambda>_ _. fail_with ''none''), cu_list_pods = (\<lambda>_ _. ret []),
     cu_list_replica_sets = (\<lambda>_. ret []), cu_get_pod = (\<lambda>_ _. fail_with ''none''), cu_object = (\<lambda>_ _ _. fail_with ''none''),
     cu_quote = (\<lambda>s. s)\<rparr>"

lemma patched_revision_of: "patched_revision (target_patch r) = r"
  by (simp add: patched_revision_def target_patch_def)

interpretation mem_argo: argo_repo mem_cluster snd
  by unfold_locales (auto simp: mem_cluster_def patched_revision_of split: option.splits if_splits)

section \<open>One rollback and one restore\<close>

definition shop_request :: api_request where
  "shop_request = web_request\<lparr>aq_param := (\<lambda>_. ''shop'')\<rparr>"

definition shop_world :: "string \<Rightarrow> mem_repo \<times> (string \<Rightarrow> string option)" where
  "shop_world t = (lab_repo [], [''shop'' \<mapsto> t])"

definition may_day :: gotime where
  "may_day = \<lparr>year = 2024, month = 5, day = 1, hour = 12, minute = 0, second = 0, nanos = 0\<rparr>"

definition noon_reading :: clock_reading where
  "noon_reading = \<lparr>cl_local = may_day, cl_utc = may_day, cl_unix = 0\<rparr>"

definition shop_rollback :: rollback_request where
  "shop_rollback = \<lparr>rq_target_revision = replicate 40 (CHR ''a''), rq_reason = ''bad'', rq_initiated_by = []\<rparr>"

abbreviation shop_env :: "(mem_repo \<times> (string \<Rightarrow> string option), int, unit) api_env" where
  "shop_env \<equiv> bare_env mem_cluster (beside mem_git)"

lemma shop_env_contract:
  "argo_repo (hl_cluster shop_env) snd" "git_keeps (\<lambda>w. snd w = t) (hl_git shop_env)"
  by (simp_all add: bare_env_def mem_argo.argo_repo_axioms beside_keeps)

lemma shop_rolled_back:
  "ar_status (fst (rollback shop_env (\<lambda>_. noon_reading) (Some shop_rollback) shop_request (shop_world ''main''))) = 200"
  by code_simp

lemma shop_restored:
  "ar_status (fst (restore shop_env (\<lambda>_. noon_reading) (Some \<lparr>rr_reason = ''fixed'', rr_initiated_by = []\<rparr>) shop_request
     (shop_world ''rollback/shop''))) = 200"
  by code_simp

theorem rollback_effect_witness:
  "snd (snd (rollback shop_env (\<lambda>_. noon_reading) (Some shop_rollback) shop_request (shop_world ''main''))) ''shop'' =
   Some ''rollback/shop''"
  using rollback_effect [OF shop_env_contract, of shop_request "shop_world ''main''" "\<lambda>_. noon_reading" "Some shop_rollback"]
    shop_rolled_back
  by (cases "rollback shop_env (\<lambda>_. noon_reading) (Some shop_rollback) shop_request (shop_world ''main'')")
    (simp add: target_effect_def shop_request_def)

theorem restore_effect_witness:
  "snd (snd (restore shop_env (\<lambda>_. noon_reading) (Some \<lparr>rr_reason = ''fixed'', rr_initiated_by = []\<rparr>) shop_request
     (shop_world ''rollback/shop''))) ''shop'' = Some ''main''"
  using restore_effect [OF shop_env_contract, of shop_request "shop_world ''rollback/shop''" "\<lambda>_. noon_reading"
      "Some \<lparr>rr_reason = ''fixed'', rr_initiated_by = []\<rparr>"] shop_restored
  by (cases "restore shop_env (\<lambda>_. noon_reading) (Some \<lparr>rr_reason = ''fixed'', rr_initiated_by = []\<rparr>) shop_request
       (shop_world ''rollback/shop'')")
    (simp add: target_effect_def shop_request_def)

section \<open>The guard against a second rollback\<close>

text \<open>
  The second read of the Application is only for its target revision, and its error is thrown
  away: when it fails, an Application that already follows a rollback branch is rolled back again.
\<close>

lemma rollback_guard_lost:
  assumes "is_valid_sha (rq_target_revision req)" "rq_reason req \<noteq> []"
    and "cu_get_app (hl_cluster H) (aq_param rq ''name'') w = (Inr app, w1)" "cu_get_app (hl_cluster H) (aq_param rq ''name'') w1 = (Inl e, w2)"
    and "validate_sha (hl_git H) (hl_git_ops H) (rq_target_revision req) w2 = (Inr True, w3)"
    and "create_rollback_branch (hl_git H) (hl_git_ops H) (aq_param rq ''name'') (rq_target_revision req) w3 = (Inr (), w4)"
    and "patch_target_revision (hl_cluster H) (aq_param rq ''name'') (rollback_branch (aq_param rq ''name'')) w4 = (Inr (), w5)"
  shows "ar_status (fst (rollback H now (Some req) rq w)) = 200"
proof -
  have "rq_target_revision req \<noteq> []" using assms(1) by (auto simp: is_valid_sha_def rx_match_iff in_times_class)
  moreover have "get_app_target_revision (hl_cluster H) (aq_param rq ''name'') w1 = (Inl e, w2)"
    using assms(4) by (simp add: get_app_target_revision_def get_application_def seq_def)
  moreover have "has_prefix [] rollback_prefix = False" by (simp add: has_prefix_def rollback_prefix_def)
  ultimately show ?thesis
    using assms by (simp add: rollback_def get_application_def Let_def split: prod.split)
qed

end
