(* ===== verification/OpenApi.thy ===== *)
theory OpenApi
  imports Api
begin

text \<open>
  internal/api/openapi.go: the OpenAPI 3.0 document the API publishes of itself, one definition per
  path and per schema, in the order of the source, and what it means for an answer to be documented.
  \<open>encoding/json\<close> sorts the keys of a map; the order of an object's members means nothing here.
\<close>

section \<open>Pieces of the document\<close>

definition ref_prefix :: string where
  "ref_prefix = ''#/components/schemas/''"

definition ref_to :: "string \<Rightarrow> 'f json" where
  "ref_to name = J_obj [(''$ref'', J_str (ref_prefix @ name))]"

definition typed :: "string \<Rightarrow> (string \<times> 'f json) list \<Rightarrow> 'f json" where
  "typed t annotations = J_obj ((''type'', J_str t) # annotations)"

definition object_of :: "(string \<times> 'f json) list \<Rightarrow> 'f json" where
  "object_of props = J_obj [(''type'', J_str ''object''), (''properties'', J_obj props)]"

definition array_of :: "'f json \<Rightarrow> 'f json" where
  "array_of items = J_obj [(''type'', J_str ''array''), (''items'', items)]"

definition path_param :: "string \<Rightarrow> string \<Rightarrow> 'f json" where
  "path_param name what = J_obj [(''name'', J_str name), (''in'', J_str ''path''), (''required'', J_bool True),
     (''schema'', typed ''string'' []), (''description'', J_str what)]"

definition query_param :: "string \<Rightarrow> 'f json \<Rightarrow> string \<Rightarrow> 'f json" where
  "query_param name schema what = J_obj [(''name'', J_str name), (''in'', J_str ''query''), (''schema'', schema),
     (''description'', J_str what)]"

definition described :: "string \<Rightarrow> 'f json \<Rightarrow> 'f json" where
  "described what schema = J_obj [(''description'', J_str what),
     (''content'', J_obj [(''application/json'', J_obj [(''schema'', schema)])])]"

text \<open>The dash between an endpoint and its summary, in UTF-8.\<close>

definition em_dash :: string where
  "em_dash = map char_of [0xE2, 0x80, 0x94 :: nat]"

definition line_end :: string where
  "line_end = [CHR 0x0A]"

definition unauthorized_response :: "'f json" where
  "unauthorized_response = described ''Unauthorized'' (ref_to ''ErrorResponse'')"

definition error_response :: "'f json" where
  "error_response = described ''Error'' (ref_to ''ErrorResponse'')"

section \<open>Paths and schemas\<close>

definition path_health :: "'f json" where
  "path_health =
    J_obj [
      (''get'', J_obj [
          (''summary'', J_str ''Health check''),
          (''description'', J_str ''Returns API health status and version''),
          (''tags'', J_arr (map J_str [''system''])),
          (''responses'', J_obj [(''200'', described ''API is healthy'' (ref_to ''HealthResponse''))])])]"

definition path_apps :: "'f float64 \<Rightarrow> 'f json" where
  "path_apps F =
    J_obj [
      (''get'', J_obj [
          (''summary'', J_str ''List applications''),
          (''description'', J_str ''Returns a paginated list of all Argo CD applications''),
          (''tags'', J_arr (map J_str [''apps''])),
          (''parameters'', J_arr [
              query_param ''limit'' (typed ''integer'' [
                                       (''default'', j_int F 20)]) ''Maximum number of items to return (1-100)'',
              query_param ''offset'' (typed ''integer'' [(''default'', j_int F 0)]) ''Number of items to skip'']),
          (''responses'', J_obj [
              (''200'', described ''List of applications'' (ref_to ''PaginatedAppsResponse'')),
              (''401'', unauthorized_response), (''500'', error_response)])]),
      (''post'', J_obj [
          (''summary'', J_str ''Create application''),
          (''description'',
            J_str ''Queues a source repository build. The build coordinator commits GitOps manifests after the runner pushes an image.''),
          (''tags'', J_arr (map J_str [''apps''])),
          (''requestBody'', J_obj [
              (''required'', J_bool True),
              (''content'', J_obj [(''application/json'', J_obj [(''schema'', ref_to ''CreateAppRequest'')])])]),
          (''responses'', J_obj [
              (''201'', described ''Build queued'' (ref_to ''CreateAppResponse'')),
              (''400'', error_response), (''401'', unauthorized_response), (''409'', error_response),
              (''500'', error_response)])])]"

definition path_app :: "'f json" where
  "path_app =
    J_obj [
      (''get'', J_obj [
          (''summary'', J_str ''Get application details''),
          (''description'', J_str ''Returns detailed information about a single application''),
          (''tags'', J_arr (map J_str [''apps''])),
          (''parameters'', J_arr [path_param ''name'' ''Application name'']),
          (''responses'', J_obj [
              (''200'', described ''Application details'' (ref_to ''AppDetailResponse'')),
              (''401'', unauthorized_response), (''404'', error_response), (''500'', error_response)])])]"

definition path_app_logs :: "'f float64 \<Rightarrow> 'f json" where
  "path_app_logs F =
    J_obj [
      (''get'', J_obj [
          (''summary'', J_str ''Get application logs''),
          (''description'', J_str ''Returns pod logs for an application''),
          (''tags'', J_arr (map J_str [''apps''])),
          (''parameters'', J_arr [
              path_param ''name'' ''Application name'',
              query_param ''container'' (typed ''string'' [(''default'', J_str ''app'')]) ''Container name'',
              query_param ''tail'' (typed ''integer'' [
                                      (''default'', j_int F 100)]) ''Number of log lines to return'']),
          (''responses'', J_obj [
              (''200'', described ''Pod logs'' (ref_to ''LogResponse'')), (''401'', unauthorized_response),
              (''404'', error_response), (''500'', error_response)])])]"

definition path_app_sync :: "'f json" where
  "path_app_sync =
    J_obj [
      (''post'', J_obj [
          (''summary'', J_str ''Sync application''),
          (''description'', J_str ''Triggers an Argo CD sync for the specified application''),
          (''tags'', J_arr (map J_str [''apps''])),
          (''parameters'', J_arr [path_param ''name'' ''Application name'']),
          (''responses'', J_obj [
              (''202'', described ''Sync triggered'' (ref_to ''SyncResponse'')),
              (''401'', unauthorized_response), (''404'', error_response), (''500'', error_response)])])]"

definition path_app_suspend :: "'f json" where
  "path_app_suspend =
    J_obj [
      (''post'', J_obj [
          (''summary'', J_str ''Suspend application''),
          (''description'', J_str ''Scales app to zero replicas via GitOps commit. History is preserved.''),
          (''tags'', J_arr (map J_str [''apps''])),
          (''parameters'', J_arr [path_param ''name'' ''Application name'']),
          (''responses'', J_obj [
              (''200'', described ''App suspended'' (ref_to ''SuspendResponse'')),
              (''401'', unauthorized_response), (''404'', error_response), (''500'', error_response)])])]"

definition path_app_rollback :: "'f json" where
  "path_app_rollback =
    J_obj [
      (''post'', J_obj [
          (''summary'', J_str ''Rollback application''),
          (''description'', J_str ''Rolls back an application to a specific git revision''),
          (''tags'', J_arr (map J_str [''apps''])),
          (''parameters'', J_arr [path_param ''name'' ''Application name'']),
          (''requestBody'', J_obj [
              (''required'', J_bool True),
              (''content'', J_obj [(''application/json'', J_obj [(''schema'', ref_to ''RollbackRequest'')])])]),
          (''responses'', J_obj [
              (''202'', described ''Rollback initiated'' (ref_to ''RollbackResponse'')),
              (''400'', error_response), (''401'', unauthorized_response), (''404'', error_response),
              (''409'', error_response), (''422'', error_response), (''500'', error_response)])])]"

definition path_app_restore :: "'f json" where
  "path_app_restore =
    J_obj [
      (''post'', J_obj [
          (''summary'', J_str ''Restore application''),
          (''description'', J_str ''Restores an application from rollback state back to main branch''),
          (''tags'', J_arr (map J_str [''apps''])),
          (''parameters'', J_arr [path_param ''name'' ''Application name'']),
          (''requestBody'', J_obj [
              (''required'', J_bool True),
              (''content'', J_obj [(''application/json'', J_obj [(''schema'', ref_to ''RestoreRequest'')])])]),
          (''responses'', J_obj [
              (''202'', described ''Restore initiated'' (ref_to ''RestoreResponse'')),
              (''400'', error_response), (''401'', unauthorized_response), (''404'', error_response),
              (''409'', error_response), (''500'', error_response)])])]"

definition path_github_repos :: "'f json" where
  "path_github_repos =
    J_obj [
      (''get'', J_obj [
          (''summary'', J_str ''List GitHub repositories''),
          (''description'', J_str (''Returns the authenticated user'' @ [
                     CHR 0x27] @ ''s GitHub repositories for the repo picker'')),
          (''tags'', J_arr (map J_str [''github''])),
          (''responses'', J_obj [
              (''200'', described ''List of repositories'' (ref_to ''GitHubReposResponse'')),
              (''401'', unauthorized_response), (''503'', error_response), (''502'', error_response)])])]"

definition path_build :: "'f json" where
  "path_build =
    J_obj [
      (''get'', J_obj [
          (''summary'', J_str ''Get build status''),
          (''description'', J_str ''Returns the status of a queued or running build''),
          (''tags'', J_arr (map J_str [''builds''])), (''parameters'', J_arr [path_param ''id'' ''Build ID'']),
          (''responses'', J_obj [
              (''200'', described ''Build details'' (ref_to ''BuildJob'')), (''401'', unauthorized_response),
              (''404'', error_response), (''500'', error_response)])])]"

definition path_build_logs :: "'f float64 \<Rightarrow> 'f json" where
  "path_build_logs F =
    J_obj [
      (''get'', J_obj [
          (''summary'', J_str ''Get build logs''), (''description'', J_str ''Returns real-time build logs''),
          (''tags'', J_arr (map J_str [''builds''])),
          (''parameters'', J_arr [
              path_param ''id'' ''Build ID'',
              query_param ''after'' (typed ''integer'' [
                                       (''default'', j_int F 0)]) ''Only return logs after this sequence number'']),
          (''responses'', J_obj [
              (''200'', described ''Build logs'' (ref_to ''BuildLogsResponse'')),
              (''401'', unauthorized_response), (''500'', error_response)])])]"

definition path_infra :: "'f json" where
  "path_infra =
    J_obj [
      (''get'', J_obj [
          (''summary'', J_str ''Infrastructure health''),
          (''description'', J_str (''Returns a cached snapshot of the substrate, assembled from this instance'' @ [
                     CHR 0x27] @ ''s providers: nodes with CPU/memory, alarms, ingress backends, backup store, synthetic uptime and free-tier capacity. Refreshed in the background every 60 seconds; `stale` is true when the cache is older than five minutes. Fields are null where a value is genuinely unavailable, and `warnings` names the capabilities that were unimplemented or failed. The provider contract those capabilities are read over is published at `/provider-contract.yaml`.'')),
          (''tags'', J_arr (map J_str [''system''])),
          (''responses'', J_obj [
              (''200'', described ''Infrastructure snapshot'' (typed ''object'' [])),
              (''401'', unauthorized_response), (''503'', error_response)])])]"

definition path_rollbacks :: "'f json" where
  "path_rollbacks =
    J_obj [
      (''get'', J_obj [
          (''summary'', J_str ''List rollback history''),
          (''description'', J_str ''Returns the rollback/restore history for all applications''),
          (''tags'', J_arr (map J_str [''rollbacks''])),
          (''responses'', J_obj [
              (''200'', described ''Rollback history'' (ref_to ''RollbacksResponse'')),
              (''401'', unauthorized_response), (''500'', error_response)])])]"

definition schema_ErrorResponse :: "'f float64 \<Rightarrow> 'f json" where
  "schema_ErrorResponse F =
    J_obj [
      (''type'', J_str ''object''),
      (''properties'', J_obj [
          (''error'', typed ''string'' [(''example'', J_str ''not_found'')]),
          (''message'', typed ''string'' [(''example'', J_str ''App not found'')]),
          (''requestId'', typed ''string'' [(''example'', J_str ''550e8400-e29b-41d4-a716-446655440000'')]),
          (''status'', typed ''integer'' [(''example'', j_int F 404)])]),
      (''required'', J_arr (map J_str [''error'', ''message'', ''requestId'', ''status'']))]"

definition schema_HealthResponse :: "'f json" where
  "schema_HealthResponse =
    object_of [
      (''data'', object_of [
          (''status'', typed ''string'' [(''example'', J_str ''healthy'')]),
          (''version'', typed ''string'' [(''example'', J_str ''1.0.0'')]),
          (''gitops'', typed ''string'' [(''example'', J_str ''self-managed-v4'')]),
          (''build'', typed ''string'' [(''example'', J_str ''standalone-coordinator-runner'')])]),
      (''requestId'', typed ''string'' [])]"

definition schema_App :: "'f json" where
  "schema_App =
    object_of [
      (''name'', typed ''string'' []), (''namespace'', typed ''string'' []),
      (''health'', typed ''string'' [(''example'', J_str ''Healthy'')]),
      (''syncStatus'', typed ''string'' [(''example'', J_str ''Synced'')]), (''revision'', typed ''string'' []),
      (''imageTag'', typed ''string'' []), (''targetRevision'', typed ''string'' []),
      (''rollbackStatus'', typed ''string'' [(''example'', J_str ''normal'')])]"

definition schema_Resource :: "'f json" where
  "schema_Resource =
    object_of [(''kind'', typed ''string'' []), (''name'', typed ''string'' []), (''status'', typed ''string'' [])]"

definition schema_AppDetailResponse :: "'f json" where
  "schema_AppDetailResponse =
    object_of [
      (''data'', J_obj [
          (''type'', J_str ''object''), (''allOf'', J_arr [ref_to ''App'']),
          (''properties'', J_obj [
              (''repo'', typed ''string'' []), (''path'', typed ''string'' []),
              (''resources'', array_of (ref_to ''Resource''))])]),
      (''requestId'', typed ''string'' [])]"

definition schema_PaginatedAppsResponse :: "'f json" where
  "schema_PaginatedAppsResponse =
    object_of [
      (''data'', object_of [(''apps'', array_of (ref_to ''App''))]),
      (''pagination'', object_of [
          (''limit'', typed ''integer'' []), (''offset'', typed ''integer'' []),
          (''total'', typed ''integer'' [])]),
      (''requestId'', typed ''string'' [])]"

definition schema_LogResponse :: "'f json" where
  "schema_LogResponse =
    object_of [
      (''data'', object_of [
          (''pod'', typed ''string'' []), (''container'', typed ''string'' []),
          (''lines'', array_of (typed ''string'' []))]),
      (''requestId'', typed ''string'' [])]"

definition schema_SyncResponse :: "'f json" where
  "schema_SyncResponse =
    object_of [
      (''data'', object_of [
          (''operationId'', typed ''string'' []), (''status'', typed ''string'' []),
          (''message'', typed ''string'' [])]),
      (''requestId'', typed ''string'' [])]"

definition schema_CreateAppRequest :: "'f float64 \<Rightarrow> 'f json" where
  "schema_CreateAppRequest F =
    J_obj [
      (''type'', J_str ''object''),
      (''properties'', J_obj [
          (''name'', typed ''string'' [(''example'', J_str ''my-app'')]),
          (''repoUrl'', typed ''string'' [(''example'', J_str ''https://github.com/user/my-app'')]),
          (''ref'', typed ''string'' [(''example'', J_str ''main'')]),
          (''replicas'', typed ''integer'' [(''example'', j_int F 1)]),
          (''port'', typed ''integer'' [
              (''example'', j_int F 8080), (''default'', j_int F 8080), (''enum'', J_arr [j_int F 8080])]),
          (''env'', J_obj [(''type'', J_str ''object''), (''additionalProperties'', typed ''string'' [])])]),
      (''required'', J_arr (map J_str [''name'', ''repoUrl'']))]"

definition schema_CreateAppResponse :: "'f json" where
  "schema_CreateAppResponse =
    object_of [
      (''data'', object_of [
          (''appName'', typed ''string'' []), (''buildId'', typed ''string'' []),
          (''status'', typed ''string'' [(''example'', J_str ''queued'')])]),
      (''requestId'', typed ''string'' [])]"

definition schema_SuspendResponse :: "'f json" where
  "schema_SuspendResponse =
    object_of [
      (''data'', object_of [
          (''name'', typed ''string'' []), (''status'', typed ''string'' [(''example'', J_str ''suspended'')]),
          (''message'', typed ''string'' [])]),
      (''requestId'', typed ''string'' [])]"

definition schema_RollbackRequest :: "'f json" where
  "schema_RollbackRequest =
    J_obj [
      (''type'', J_str ''object''),
      (''properties'', J_obj [
          (''targetRevision'', typed ''string'' [(''description'', J_str ''40-character git SHA'')]),
          (''reason'', typed ''string'' []), (''initiatedBy'', typed ''string'' [])]),
      (''required'', J_arr (map J_str [''targetRevision'', ''reason'']))]"

definition schema_RollbackResponse :: "'f json" where
  "schema_RollbackResponse =
    object_of [
      (''data'', object_of [
          (''rollbackId'', typed ''string'' []), (''app'', typed ''string'' []),
          (''rollbackBranch'', typed ''string'' []), (''targetRevision'', typed ''string'' []),
          (''status'', typed ''string'' []),
          (''createdAt'', typed ''string'' [(''format'', J_str ''date-time'')])]),
      (''requestId'', typed ''string'' [])]"

definition schema_RestoreRequest :: "'f json" where
  "schema_RestoreRequest =
    J_obj [
      (''type'', J_str ''object''),
      (''properties'', J_obj [(''reason'', typed ''string'' []), (''initiatedBy'', typed ''string'' [])]),
      (''required'', J_arr (map J_str [''reason'']))]"

definition schema_RestoreResponse :: "'f json" where
  "schema_RestoreResponse =
    object_of [
      (''data'', object_of [
          (''restoreId'', typed ''string'' []), (''app'', typed ''string'' []),
          (''restoredToRevision'', typed ''string'' []), (''status'', typed ''string'' []),
          (''createdAt'', typed ''string'' [(''format'', J_str ''date-time'')])]),
      (''requestId'', typed ''string'' [])]"

definition schema_GitHubReposResponse :: "'f json" where
  "schema_GitHubReposResponse =
    object_of [
      (''data'', object_of [(''repos'', array_of (ref_to ''GitHubRepo''))]), (''requestId'', typed ''string'' [])]"

definition schema_GitHubRepo :: "'f json" where
  "schema_GitHubRepo =
    object_of [
      (''name'', typed ''string'' []), (''fullName'', typed ''string'' []), (''url'', typed ''string'' []),
      (''defaultBranch'', typed ''string'' []), (''language'', typed ''string'' []),
      (''private'', typed ''boolean'' [])]"

definition schema_BuildJob :: "'f json" where
  "schema_BuildJob =
    object_of [
      (''data'', object_of [
          (''id'', typed ''string'' []), (''appName'', typed ''string'' []), (''repoUrl'', typed ''string'' []),
          (''ref'', typed ''string'' []), (''commitSha'', typed ''string'' []),
          (''framework'', typed ''string'' []), (''image'', typed ''string'' []),
          (''tag'', typed ''string'' []),
          (''status'',
            typed ''string'' [(''enum'', J_arr (map J_str [''queued'', ''running'', ''succeeded'', ''failed'']))]),
          (''attempts'', typed ''integer'' []), (''replicas'', typed ''integer'' []),
          (''port'', typed ''integer'' []), (''gitopsCommitSha'', typed ''string'' []),
          (''gitopsPath'', typed ''string'' [(''example'', J_str ''apps/my-app'')]),
          (''deployStatus'', typed ''string'' [(''example'', J_str ''deployed'')]),
          (''argoSyncStatus'', typed ''string'' [(''example'', J_str ''Synced'')]),
          (''argoHealth'', typed ''string'' [(''example'', J_str ''Healthy'')]),
          (''appUrl'', typed ''string'' [(''example'', J_str ''https://my-app.sasiru.lk/'')]),
          (''verificationError'', typed ''string'' []), (''error'', typed ''string'' []),
          (''createdAt'', typed ''string'' [(''format'', J_str ''date-time'')]),
          (''updatedAt'', typed ''string'' [(''format'', J_str ''date-time'')]),
          (''startedAt'', typed ''string'' [(''format'', J_str ''date-time'')]),
          (''finishedAt'', typed ''string'' [(''format'', J_str ''date-time'')])]),
      (''requestId'', typed ''string'' [])]"

definition schema_BuildLogsResponse :: "'f json" where
  "schema_BuildLogsResponse =
    object_of [
      (''data'', object_of [(''lines'', array_of (ref_to ''BuildLogLine''))]),
      (''requestId'', typed ''string'' [])]"

definition schema_BuildLogLine :: "'f json" where
  "schema_BuildLogLine =
    object_of [
      (''sequence'', typed ''integer'' []),
      (''timestamp'', typed ''string'' [(''format'', J_str ''date-time'')]), (''stream'', typed ''string'' []),
      (''message'', typed ''string'' [])]"

definition schema_RollbacksResponse :: "'f json" where
  "schema_RollbacksResponse =
    object_of [
      (''data'', object_of [
          (''version'', typed ''string'' []), (''generatedAt'', typed ''string'' []),
          (''apps'', typed ''object'' [])]),
      (''requestId'', typed ''string'' [])]"

definition openapi_paths :: "'f float64 \<Rightarrow> (string \<times> 'f json) list" where
  "openapi_paths F =
    [
      (''/health'', path_health), (''/apps'', path_apps F), (''/apps/{name}'', path_app),
      (''/apps/{name}/logs'', path_app_logs F), (''/apps/{name}/sync'', path_app_sync),
      (''/apps/{name}/suspend'', path_app_suspend), (''/apps/{name}/rollback'', path_app_rollback),
      (''/apps/{name}/restore'', path_app_restore), (''/github/repos'', path_github_repos),
      (''/builds/{id}'', path_build), (''/builds/{id}/logs'', path_build_logs F), (''/infra'', path_infra),
      (''/rollbacks'', path_rollbacks)]"

definition openapi_schemas :: "'f float64 \<Rightarrow> (string \<times> 'f json) list" where
  "openapi_schemas F =
    [
      (''ErrorResponse'', schema_ErrorResponse F), (''HealthResponse'', schema_HealthResponse),
      (''App'', schema_App), (''Resource'', schema_Resource), (''AppDetailResponse'', schema_AppDetailResponse),
      (''PaginatedAppsResponse'', schema_PaginatedAppsResponse), (''LogResponse'', schema_LogResponse),
      (''SyncResponse'', schema_SyncResponse), (''CreateAppRequest'', schema_CreateAppRequest F),
      (''CreateAppResponse'', schema_CreateAppResponse), (''SuspendResponse'', schema_SuspendResponse),
      (''RollbackRequest'', schema_RollbackRequest), (''RollbackResponse'', schema_RollbackResponse),
      (''RestoreRequest'', schema_RestoreRequest), (''RestoreResponse'', schema_RestoreResponse),
      (''GitHubReposResponse'', schema_GitHubReposResponse), (''GitHubRepo'', schema_GitHubRepo),
      (''BuildJob'', schema_BuildJob), (''BuildLogsResponse'', schema_BuildLogsResponse),
      (''BuildLogLine'', schema_BuildLogLine), (''RollbacksResponse'', schema_RollbacksResponse)]"

section \<open>The document\<close>

text \<open>
  What \<open>providerTag\<close> reads of the embedded contract: its description and, per path, the summary of
  its GET. The contract, parsed or refused by the YAML library, is an argument, its paths in the
  order the Go map yields them.
\<close>

definition provider_tag :: "string + string \<times> (string \<times> string) list \<Rightarrow> 'f json" where
  "provider_tag contract = J_obj [
     (''name'', J_str ''providers''),
     (''externalDocs'', J_obj [(''description'', J_str ''The full OpenAPI contract, served by this instance''),
        (''url'', J_str ''/provider-contract.yaml'')]),
     (''description'', J_str (case contract of
        Inl e \<Rightarrow> ''The provider contract could not be read: '' @ e
      | Inr (description, paths) \<Rightarrow> (let endpoints = List.map_filter (\<lambda>(path, summary). if summary = [] then None
            else Some (''- `GET '' @ path @ ''` '' @ em_dash @ '' '' @ summary)) paths in
          description @ line_end @ line_end @ ''### Endpoints'' @ line_end @ line_end @ join_with line_end (sort endpoints) @
          line_end @ line_end @ ''The contract itself is served at `/provider-contract.yaml`.'')))]"

definition openapi_info :: "(string \<times> 'f json) list" where
  "openapi_info = [
     (''openapi'', J_str ''3.0.3''),
     (''info'', J_obj [(''title'', J_str ''TinyCloud API''),
        (''description'', J_str ''API for managing GitOps-driven applications on Kubernetes via Argo CD''),
        (''version'', J_str ''1.0.0''),
        (''contact'', J_obj [(''name'', J_str ''TinyCloud''), (''url'', J_str ''https://github.com/sasiruLK/tinycloud-platform''),
           (''email'', J_str ''support@tinycloud.local'')])]),
     (''servers'', J_arr [
        J_obj [(''url'', J_str ''https://api.tinycloud.local/v1''), (''description'', J_str ''Production'')],
        J_obj [(''url'', J_str ''http://localhost:8080/v1''), (''description'', J_str ''Local development'')]])]"

definition openapi_spec :: "'f float64 \<Rightarrow> string + string \<times> (string \<times> string) list \<Rightarrow> 'f json" where
  "openapi_spec F contract = J_obj (openapi_info @ [(''paths'', J_obj (openapi_paths F)),
     (''components'', J_obj [(''schemas'', J_obj (openapi_schemas F))]), (''tags'', J_arr [provider_tag contract])])"


section \<open>When a value conforms to a schema\<close>

text \<open>
  The keywords the document uses, as OpenAPI 3.0 defines them; any other is an annotation. A
  reference is followed into the document's schemas. The fuel bounds the depth of schemas inside
  schemas, and a schema nested deeper conforms to nothing.
\<close>

definition structural :: "string list" where
  "structural = [''$ref'', ''type'', ''properties'', ''required'', ''items'', ''enum'', ''allOf'', ''additionalProperties'']"

fun has_type :: "'f json \<Rightarrow> 'f json \<Rightarrow> bool" where
  "has_type (J_str t) v = (case v of
     J_null \<Rightarrow> False | J_bool _ \<Rightarrow> t = ''boolean'' | J_num _ i \<Rightarrow> t = ''number'' \<or> (t = ''integer'' \<and> i \<noteq> None)
   | J_str _ \<Rightarrow> t = ''string'' | J_arr _ \<Rightarrow> t = ''array'' | J_obj _ \<Rightarrow> t = ''object'')"
| "has_type _ v = False"

fun members :: "'f json \<Rightarrow> (string \<times> 'f json) list" where
  "members (J_obj kvs) = kvs"
| "members _ = []"

fun elements :: "'f json \<Rightarrow> 'f json list" where
  "elements (J_arr vs) = vs"
| "elements _ = []"

definition at :: "'f json \<Rightarrow> string \<Rightarrow> 'f json" where
  "at v k = (case map_of (members v) k of Some x \<Rightarrow> x | None \<Rightarrow> J_null)"

text \<open>One keyword of the schema \<open>S\<close>, \<open>rec\<close> being conformance to the schemas inside it.\<close>

definition keyword_holds :: "('f json \<Rightarrow> 'f json \<Rightarrow> bool) \<Rightarrow> 'f json \<Rightarrow> 'f json \<Rightarrow> string \<Rightarrow> 'f json \<Rightarrow> bool" where
  "keyword_holds rec S v k a =
     (if k = ''type'' then has_type a v
      else if k = ''properties'' then list_all (\<lambda>(p, T). case map_of (members v) p of Some x \<Rightarrow> rec T x | None \<Rightarrow> True) (members a)
      else if k = ''required'' then list_all (\<lambda>p. p \<in> (\<lambda>(q, x). J_str q) ` set (members v)) (elements a)
      else if k = ''items'' then list_all (rec a) (elements v)
      else if k = ''enum'' then v \<in> set (elements a)
      else if k = ''allOf'' then list_all (\<lambda>T. rec T v) (elements a)
      else if k = ''additionalProperties'' then list_all (\<lambda>(p, x). p \<in> fst ` set (members (at S ''properties'')) \<or> rec a x) (members v)
      else True)"

definition resolve :: "(string \<times> 'f json) list \<Rightarrow> 'f json \<Rightarrow> 'f json option" where
  "resolve D r = (case r of J_str t \<Rightarrow> if has_prefix t ref_prefix then map_of D (drop (length ref_prefix) t) else None | _ \<Rightarrow> None)"

primrec conforms :: "nat \<Rightarrow> (string \<times> 'f json) list \<Rightarrow> 'f json \<Rightarrow> 'f json \<Rightarrow> bool" where
  "conforms 0 D S v = False"
| "conforms (Suc n) D S v = (case map_of (members S) ''$ref'' of
     Some r \<Rightarrow> (case resolve D r of Some T \<Rightarrow> conforms n D T v | None \<Rightarrow> False)
   | None \<Rightarrow> list_all (\<lambda>(k, a). keyword_holds (conforms n D) S v k a) (members S))"

definition schema_depth :: nat where
  "schema_depth = 8"

text \<open>The answers the document lists for an operation, and whether it covers a response.\<close>

definition responses_of :: "'f json \<Rightarrow> string \<Rightarrow> string \<Rightarrow> (string \<times> 'f json) list" where
  "responses_of doc method path = members (at (at (at (at doc ''paths'') path) method) ''responses'')"

definition schemas_of :: "'f json \<Rightarrow> (string \<times> 'f json) list" where
  "schemas_of doc = members (at (at doc ''components'') ''schemas'')"

definition body_schema :: "'f json \<Rightarrow> 'f json" where
  "body_schema r = at (at (at r ''content'') ''application/json'') ''schema''"

definition documented :: "'f json \<Rightarrow> string \<Rightarrow> string \<Rightarrow> 'f api_response \<Rightarrow> bool" where
  "documented doc method path res \<longleftrightarrow> (case map_of (responses_of doc method path) (fmt_int (ar_status res)) of
     None \<Rightarrow> False
   | Some r \<Rightarrow> conforms schema_depth (schemas_of doc) (body_schema r) (ar_body res))"

section \<open>Conformance to the pieces\<close>

lemma at_Cons [simp]: "at (J_obj ((k, x) # kvs)) l = (if l = k then x else at (J_obj kvs) l)"
  by (simp add: at_def)

lemma conforms_ref: "conforms (Suc n) D (ref_to name) v = (case map_of D name of Some T \<Rightarrow> conforms n D T v | None \<Rightarrow> False)"
  by (simp add: ref_to_def resolve_def has_prefix_def)

lemma type_holds: "keyword_holds rec S v ''type'' a = has_type a v"
  by (simp add: keyword_holds_def)

lemma conforms_object_of:
  "conforms (Suc n) D (object_of ps) (J_obj kvs) =
     list_all (\<lambda>(p, T). case map_of kvs p of Some x \<Rightarrow> conforms n D T x | None \<Rightarrow> True) ps"
  by (simp add: object_of_def keyword_holds_def)

lemma conforms_array_of: "conforms (Suc n) D (array_of S) (J_arr vs) = list_all (conforms n D S) vs"
  by (simp add: array_of_def keyword_holds_def)

lemma annotation_holds: "k \<notin> set structural \<Longrightarrow> keyword_holds rec S v k a"
  by (simp add: keyword_holds_def structural_def)

lemma annotations_hold:
  "list_all (\<lambda>(k, a). k \<notin> set structural) kvs \<Longrightarrow> list_all (\<lambda>(k, a). keyword_holds rec S v k a) kvs \<and> map_of kvs ''$ref'' = None"
proof (induction kvs)
  case (Cons e kvs)
  moreover have "''$ref'' \<in> set structural" by (simp add: structural_def)
  ultimately show ?case by (cases e) (auto intro: annotation_holds)
qed simp

lemma conforms_typed:
  assumes "list_all (\<lambda>(k, a). k \<notin> set structural) annotations"
  shows "conforms (Suc n) D (typed t annotations) v = has_type (J_str t) v"
  using annotations_hold [OF assms, of "conforms n D" "typed t annotations" v] by (simp add: typed_def type_holds)

lemma conforms_keywords:
  "map_of kw ''$ref'' = None \<Longrightarrow> conforms (Suc n) D (J_obj kw) v = list_all (\<lambda>(k, a). keyword_holds (conforms n D) (J_obj kw) v k a) kw"
  by simp

text \<open>More depth accepts more.\<close>

lemma if_mono: "(if c then P else Q) \<Longrightarrow> (P \<Longrightarrow> P') \<Longrightarrow> (Q \<Longrightarrow> Q') \<Longrightarrow> (if c then P' else Q')"
  by simp

lemma keyword_mono:
  assumes "\<And>T x. f T x \<Longrightarrow> g T x" and "keyword_holds f S v k a"
  shows "keyword_holds g S v k a"
proof -
  have props: "list_all (\<lambda>(p, T). case map_of (members v) p of Some x \<Rightarrow> f T x | None \<Rightarrow> True) xs \<Longrightarrow>
      list_all (\<lambda>(p, T). case map_of (members v) p of Some x \<Rightarrow> g T x | None \<Rightarrow> True) xs" for xs
    by (induction xs) (auto dest: assms(1) split: option.splits)
  have one: "list_all (f a) xs \<Longrightarrow> list_all (g a) xs" "list_all (\<lambda>T. f T v) ys \<Longrightarrow> list_all (\<lambda>T. g T v) ys"
    "list_all (\<lambda>(p, x). p \<in> N \<or> f a x) kvs \<Longrightarrow> list_all (\<lambda>(p, x). p \<in> N \<or> g a x) kvs" for xs ys kvs N
    by (auto simp: list_all_iff dest: assms(1))
  show ?thesis
    using assms(2) unfolding keyword_holds_def
    by - (erule if_mono, (assumption | erule props | erule one | rule TrueI | erule if_mono)+)
qed

lemma conforms_deeper: "conforms n D S v \<Longrightarrow> conforms (n + k) D S v"
proof (induction n arbitrary: S v)
  case (Suc n)
  from Suc.prems keyword_mono [of "conforms n D" "conforms (n + k) D", OF Suc.IH] Suc.IH show ?case
    by (auto simp: list_all_iff split: option.splits)
qed simp

declare conforms.simps(2) [simp del]

end
