(* ===== verification/Router.thy ===== *)
theory Router
  imports Rollbacks Inspect OpenApi
begin

text \<open>
  How the API is put together: internal/config/config.go, the client and the error handler of
  cmd/api/main.go, and the routes of internal/api/router.go over one world holding everything a
  handler can reach.
\<close>

section \<open>Configuration\<close>

record api_config =
  ac_port :: string
  ac_cors_origins :: string
  ac_kube_config :: string
  ac_github_token :: string
  ac_github_user :: string
  ac_build_url :: string
  ac_build_token :: string
  ac_providers :: string
  ac_providers_file :: string
  ac_oci_compartment :: string
  ac_oci_nlb :: string
  ac_oci_namespace :: string
  ac_oci_bucket :: string

definition env_or :: "string \<Rightarrow> string \<Rightarrow> string" where
  "env_or v d = (if v = [] then d else v)"

definition load_config :: "(string \<Rightarrow> string) \<Rightarrow> api_config" where
  "load_config getenv = \<lparr>ac_port = env_or (getenv ''PORT'') ''8080'', ac_cors_origins = env_or (getenv ''CORS_ORIGINS'') ''*'',
     ac_kube_config = getenv ''KUBECONFIG'', ac_github_token = getenv ''GITHUB_TOKEN'', ac_github_user = getenv ''GITHUB_USERNAME'',
     ac_build_url = getenv ''BUILD_COORDINATOR_URL'', ac_build_token = getenv ''BUILD_COORDINATOR_TOKEN'',
     ac_providers = getenv ''TINYCLOUD_PROVIDERS'', ac_providers_file = getenv ''TINYCLOUD_PROVIDERS_FILE'',
     ac_oci_compartment = getenv ''OCI_COMPARTMENT_ID'', ac_oci_nlb = getenv ''OCI_NLB_ID'',
     ac_oci_namespace = getenv ''OCI_OBJECT_STORAGE_NAMESPACE'', ac_oci_bucket = getenv ''OCI_BACKUP_BUCKET''\<rparr>"

text \<open>Without a coordinator's URL there is no client, and the handlers of builds answer 503.\<close>

definition configured_builds ::
    "(string \<Rightarrow> string \<Rightarrow> ('w, 'f, 'b) build_client) \<Rightarrow> api_config \<Rightarrow> ('w, 'f, 'b) build_client option" where
  "configured_builds client cfg = (if ac_build_url cfg \<noteq> [] then Some (client (ac_build_url cfg) (ac_build_token cfg)) else None)"

section \<open>Errors that reach Fiber\<close>

datatype handler_error = Http_error int string string | Fiber_error int string | Other_error string

definition error_handler :: "'f float64 \<Rightarrow> handler_error \<Rightarrow> api_request \<Rightarrow> 'f api_response" where
  "error_handler F err rq = (case err of
     Http_error code err_code message \<Rightarrow> json_error F rq code err_code message
   | Fiber_error code message \<Rightarrow>
       (if 400 \<le> code \<and> code < 500 then json_error F rq code ''bad_request'' message
        else json_error F rq code ''internal_error'' ''Internal server error'')
   | Other_error e \<Rightarrow> json_error F rq 500 ''internal_error'' ''Internal server error'')"

section \<open>Routes\<close>

text \<open>
  The world of the API: what lies outside the process, the infrastructure cache, and the package
  variable of github.go. The readings of the clocks and the parsed bodies of a request come with it.
\<close>

record ('w, 'c, 'f) api_world =
  wo_outside :: 'w
  wo_infra :: "('c, 'f) cache"
  wo_repos :: repo_cache

record ('w, 'f, 'b) api_server =
  av_env :: "('w, 'f, 'b) api_env"
  av_github :: "('w, 'f, 'b) github"
  av_token :: string
  av_infra_present :: bool
  av_encode :: "'f snapshot \<Rightarrow> 'f json"

record api_inputs =
  ai_now :: "nat \<Rightarrow> clock_reading"
  ai_instant :: "nat \<Rightarrow> instant"
  ai_create :: "create_build_request option"
  ai_rollback :: "rollback_request option"
  ai_restore :: "restore_request option"

definition on_outside :: "('w, 'f) api_handler \<Rightarrow> (('w, 'c, 'f) api_world, 'f) api_handler" where
  "on_outside h rq s = (case h rq (wo_outside s) of (res, w) \<Rightarrow> (res, s\<lparr>wo_outside := w\<rparr>))"

definition on_infra :: "(('c, 'f) cache, 'f) api_handler \<Rightarrow> (('w, 'c, 'f) api_world, 'f) api_handler" where
  "on_infra h rq s = (case h rq (wo_infra s) of (res, c) \<Rightarrow> (res, s\<lparr>wo_infra := c\<rparr>))"

definition on_repos ::
    "(api_request \<Rightarrow> repo_cache \<Rightarrow> 'w \<Rightarrow> 'f api_response \<times> repo_cache \<times> 'w) \<Rightarrow> (('w, 'c, 'f) api_world, 'f) api_handler" where
  "on_repos h rq s = (case h rq (wo_repos s) (wo_outside s) of (res, c, w) \<Rightarrow> (res, s\<lparr>wo_repos := c, wo_outside := w\<rparr>))"

type_synonym ('s, 'f) route = "string \<times> string \<times> ('s, 'f) api_handler"

definition v1_routes :: "('w, 'f, 'b) api_server \<Rightarrow> api_inputs \<Rightarrow> (('w, 'c, 'f) api_world, 'f) route list" where
  "v1_routes V I = (let H = av_env V; now = ai_now I; t = ai_instant I in
     [(''get'', ''/health'', on_outside health),
      (''get'', ''/apps'', on_outside (list_apps H)),
      (''post'', ''/apps'', on_outside (create_app H (ai_create I))),
      (''get'', ''/apps/:name'', on_outside (get_app H)),
      (''get'', ''/apps/:name/logs'', on_outside (get_logs_handler H)),
      (''post'', ''/apps/:name/sync'', on_outside (trigger_sync_handler H (now 0))),
      (''post'', ''/apps/:name/rebuild'', on_outside (rebuild_app_handler H)),
      (''post'', ''/apps/:name/suspend'', on_outside (suspend_app H)),
      (''post'', ''/apps/:name/rollback'', on_outside (rollback H now (ai_rollback I))),
      (''post'', ''/apps/:name/restore'', on_outside (restore H now (ai_restore I))),
      (''get'', ''/me'', on_outside me),
      (''get'', ''/apps/:name/resources/:kind/:resource'', on_outside (get_resource_manifest_handler H)),
      (''get'', ''/apps/:name/pods/:pod/logs'', on_outside (get_pod_logs_handler H)),
      (''get'', ''/builds'', on_outside (list_builds_handler H)),
      (''get'', ''/builds/:id'', on_outside (get_build_handler H)),
      (''get'', ''/builds/:id/logs'', on_outside (get_build_logs H)),
      (''get'', ''/github/repos'', on_repos (list_github_repos (hl_floats H) (av_github V) (av_token V) (t 0) (t 1))),
      (''get'', ''/rollbacks'', on_outside (list_rollbacks H (now 0))),
      (''get'', ''/infra'', on_infra (get_infra (hl_floats H) (av_encode V) (av_infra_present V) (t 0) (t 1) (t 2)))])"

text \<open>A request to a route, through the middleware in front of it.\<close>

definition serve_route :: "('w, 'f, 'b) api_server \<Rightarrow> string \<Rightarrow> ('s, 'f) route \<Rightarrow> ('s, 'f) api_handler" where
  "serve_route V uuid r = routed (hl_floats (av_env V)) uuid (snd (snd r))"

text \<open>A route's path as the document writes it: \<open>:name\<close> is \<open>{name}\<close>.\<close>

definition template_segment :: "string \<Rightarrow> string" where
  "template_segment s = (if has_prefix s '':'' then ''{'' @ drop 1 s @ ''}'' else s)"

definition template_path :: "string \<Rightarrow> string" where
  "template_path p = join_with ''/'' (map template_segment (split_on (CHR ''/'') p))"

end
