(* ===== verification/RouterFacts.thy ===== *)
theory RouterFacts
  imports Router ClusterFacts
begin

text \<open>
  The API's document against the API: the answers of a route are among those its operation lists,
  with a body of the listed schema; and which routes and answers the document does not know.
\<close>

section \<open>Looking things up in the document\<close>

lemma status_texts:
  "fmt_int 200 = ''200''" "fmt_int 401 = ''401''" "fmt_int 404 = ''404''" "fmt_int 500 = ''500''" "fmt_int 502 = ''502''"
  "fmt_int 503 = ''503''" "fmt_int 201 = ''201''" "fmt_int 400 = ''400''" "fmt_int 409 = ''409''" "fmt_int 422 = ''422''"
  by code_simp+

lemma at_J_obj: "at (J_obj kvs) k = (case map_of kvs k of Some x \<Rightarrow> x | None \<Rightarrow> J_null)"
  by (simp add: at_def)

lemma spec_paths: "at (openapi_spec F c) ''paths'' = J_obj (openapi_paths F)"
  by (simp add: openapi_spec_def openapi_info_def)

lemma spec_schemas: "schemas_of (openapi_spec F c) = openapi_schemas F"
  by (simp add: openapi_spec_def openapi_info_def schemas_of_def)

lemma body_schema_described [simp]: "body_schema (described what S) = S"
  by (simp add: body_schema_def described_def)

lemma body_schema_errors [simp]:
  "body_schema error_response = ref_to ''ErrorResponse''" "body_schema unauthorized_response = ref_to ''ErrorResponse''"
  by (simp_all add: error_response_def unauthorized_response_def)

lemma responses:
  "responses_of (openapi_spec F c) ''get'' ''/health'' = [(''200'', described ''API is healthy'' (ref_to ''HealthResponse''))]"
  "responses_of (openapi_spec F c) ''get'' ''/apps'' = [(''200'', described ''List of applications'' (ref_to ''PaginatedAppsResponse'')),
     (''401'', unauthorized_response), (''500'', error_response)]"
  "responses_of (openapi_spec F c) ''get'' ''/apps/{name}'' = [(''200'', described ''Application details'' (ref_to ''AppDetailResponse'')),
     (''401'', unauthorized_response), (''404'', error_response), (''500'', error_response)]"
  "responses_of (openapi_spec F c) ''get'' ''/apps/{name}/logs'' = [(''200'', described ''Pod logs'' (ref_to ''LogResponse'')),
     (''401'', unauthorized_response), (''404'', error_response), (''500'', error_response)]"
  "responses_of (openapi_spec F c) ''post'' ''/apps/{name}/suspend'' = [(''200'', described ''App suspended'' (ref_to ''SuspendResponse'')),
     (''401'', unauthorized_response), (''404'', error_response), (''500'', error_response)]"
  "responses_of (openapi_spec F c) ''get'' ''/github/repos'' = [(''200'', described ''List of repositories'' (ref_to ''GitHubReposResponse'')),
     (''401'', unauthorized_response), (''503'', error_response), (''502'', error_response)]"
  "responses_of (openapi_spec F c) ''get'' ''/rollbacks'' = [(''200'', described ''Rollback history'' (ref_to ''RollbacksResponse'')),
     (''401'', unauthorized_response), (''500'', error_response)]"
  "responses_of (openapi_spec F c) ''get'' ''/infra'' = [(''200'', described ''Infrastructure snapshot'' (typed ''object'' [])),
     (''401'', unauthorized_response), (''503'', error_response)]"
  unfolding responses_of_def spec_paths openapi_paths_def
  by (simp_all add: path_health_def path_apps_def path_app_def path_app_logs_def path_app_suspend_def path_github_repos_def
      path_rollbacks_def path_infra_def)

lemma schema_lookup:
  "map_of (openapi_schemas F) ''ErrorResponse'' = Some (schema_ErrorResponse F)"
  "map_of (openapi_schemas F) ''HealthResponse'' = Some schema_HealthResponse"
  "map_of (openapi_schemas F) ''App'' = Some schema_App"
  "map_of (openapi_schemas F) ''Resource'' = Some schema_Resource"
  "map_of (openapi_schemas F) ''AppDetailResponse'' = Some schema_AppDetailResponse"
  "map_of (openapi_schemas F) ''PaginatedAppsResponse'' = Some schema_PaginatedAppsResponse"
  "map_of (openapi_schemas F) ''LogResponse'' = Some schema_LogResponse"
  "map_of (openapi_schemas F) ''SuspendResponse'' = Some schema_SuspendResponse"
  "map_of (openapi_schemas F) ''GitHubReposResponse'' = Some schema_GitHubReposResponse"
  "map_of (openapi_schemas F) ''GitHubRepo'' = Some schema_GitHubRepo"
  "map_of (openapi_schemas F) ''RollbacksResponse'' = Some schema_RollbacksResponse"
  by (simp_all add: openapi_schemas_def)

section \<open>Bodies\<close>

lemma depth: "schema_depth = Suc (Suc (Suc (Suc (Suc (Suc (Suc (Suc 0)))))))"
  by (simp add: schema_depth_def)

lemmas conforms_pieces = conforms_ref conforms_object_of conforms_array_of conforms_typed conforms_keywords structural_def schema_lookup

lemma error_conforms:
  "conforms (Suc (Suc (Suc n))) (openapi_schemas F) (ref_to ''ErrorResponse'') (J_obj [(''error'', J_str a), (''message'', J_str b),
     (''requestId'', J_str c), (''status'', j_int F k)])"
  by (simp add: conforms_pieces schema_ErrorResponse_def keyword_holds_def j_int_def)

lemma health_conforms:
  "conforms (Suc (Suc (Suc (Suc n)))) (openapi_schemas F) (ref_to ''HealthResponse'') (J_obj [(''data'', j_strings [(''status'', a), (''version'', b),
     (''gitops'', c), (''build'', d)]), (''requestId'', J_str e)])"
  by (simp add: conforms_pieces schema_HealthResponse_def j_strings_def)

lemma app_conforms: "conforms (Suc (Suc n)) (openapi_schemas F) schema_App (J_obj (app_fields a))"
  by (simp add: conforms_pieces schema_App_def app_fields_def)

lemma resource_conforms: "conforms (Suc (Suc n)) (openapi_schemas F) schema_Resource (resource_json r)"
  by (cases r) (simp add: conforms_pieces schema_Resource_def resource_json_def j_strings_def)

lemma apps_conform:
  "list_all (\<lambda>v. \<exists>a. v = J_obj (app_fields a)) vs \<Longrightarrow> conforms (Suc (Suc (Suc (Suc (Suc (Suc (Suc n))))))) (openapi_schemas F) (ref_to ''PaginatedAppsResponse'')
     (J_obj [(''data'', J_obj [(''apps'', J_arr vs)]), (''pagination'', J_obj [(''limit'', j_int F l), (''offset'', j_int F i), (''total'', j_int F t)]),
       (''requestId'', J_str e)])"
  by (auto simp add: conforms_pieces schema_PaginatedAppsResponse_def j_int_def list_all_iff app_conforms)

lemma detail_conforms:
  "conforms (Suc (Suc (Suc (Suc (Suc (Suc (Suc n))))))) (openapi_schemas F) (ref_to ''AppDetailResponse'')
     (J_obj [(''data'', J_obj (app_fields a @ [(''repo'', J_str b), (''path'', J_str c), (''resources'', J_arr (map resource_json rs))] @ rest)),
       (''requestId'', J_str e)])"
  by (simp add: conforms_pieces schema_AppDetailResponse_def schema_App_def app_fields_def keyword_holds_def list_all_iff resource_conforms)

lemma logs_conform:
  "conforms (Suc (Suc (Suc (Suc (Suc n))))) (openapi_schemas F) (ref_to ''LogResponse'')
     (J_obj [(''data'', J_obj [(''pod'', J_str a), (''container'', J_str b), (''lines'', J_arr (map J_str ls))]), (''requestId'', J_str e)])"
  by (simp add: conforms_pieces schema_LogResponse_def list_all_iff)

lemma suspend_conforms:
  "conforms (Suc (Suc (Suc (Suc n)))) (openapi_schemas F) (ref_to ''SuspendResponse'') (J_obj [(''data'', j_strings [(''name'', a), (''status'', b),
     (''message'', c)]), (''requestId'', J_str e)])"
  by (simp add: conforms_pieces schema_SuspendResponse_def j_strings_def)

lemma repo_conforms: "conforms (Suc (Suc n)) (openapi_schemas F) schema_GitHubRepo (github_repo_json r)"
  by (simp add: conforms_pieces schema_GitHubRepo_def github_repo_json_def)

lemma repos_conform:
  "conforms (Suc (Suc (Suc (Suc (Suc (Suc (Suc n))))))) (openapi_schemas F) (ref_to ''GitHubReposResponse'')
     (J_obj [(''data'', J_obj [(''repos'', J_arr (map github_repo_json rs))]), (''requestId'', J_str e)])"
  by (simp add: conforms_pieces schema_GitHubReposResponse_def list_all_iff repo_conforms)

lemma rollbacks_conform:
  "conforms (Suc (Suc (Suc (Suc n)))) (openapi_schemas F) (ref_to ''RollbacksResponse'') (J_obj [(''data'', J_obj [(''version'', J_str a),
     (''generatedAt'', J_str b), (''apps'', J_obj c)]), (''requestId'', J_str e)])"
  by (simp add: conforms_pieces schema_RollbacksResponse_def)

section \<open>Answers\<close>

definition answered :: "'f float64 \<Rightarrow> string \<Rightarrow> string \<Rightarrow> 'f api_response \<Rightarrow> bool" where
  "answered F m p res \<longleftrightarrow> (\<forall>c. documented (openapi_spec F c) m p res)"

lemma answered_headers: "answered F m p (res\<lparr>ar_headers := hs\<rparr>) = answered F m p res"
  by (simp add: answered_def documented_def cong: option.case_cong)

lemma answered_error:
  assumes "\<And>c. \<exists>r. map_of (responses_of (openapi_spec F c) m p) (fmt_int k) = Some r \<and> body_schema r = ref_to ''ErrorResponse''"
  shows "answered F m p (json_error F rq k code msg)"
  unfolding answered_def
proof
  fix c
  obtain r where "map_of (responses_of (openapi_spec F c) m p) (fmt_int k) = Some r" "body_schema r = ref_to ''ErrorResponse''"
    using assms by blast
  then show "documented (openapi_spec F c) m p (json_error F rq k code msg)"
    by (simp add: documented_def json_error_def reply_def spec_schemas depth error_conforms)
qed

lemma answered_ok:
  assumes "\<And>c. \<exists>r. map_of (responses_of (openapi_spec F c) m p) ''200'' = Some r \<and> body_schema r = S"
    and "conforms schema_depth (openapi_schemas F) S (ar_body res)" "ar_status res = 200"
  shows "answered F m p res"
  unfolding answered_def
proof
  fix c
  obtain r where "map_of (responses_of (openapi_spec F c) m p) ''200'' = Some r" "body_schema r = S"
    using assms(1) by blast
  with assms(2,3) show "documented (openapi_spec F c) m p res"
    by (simp add: documented_def spec_schemas status_texts)
qed

text \<open>Behind the middleware: 401 or the handler's answer.\<close>

lemma answered_routed:
  assumes "\<And>rq' s. aq_path rq' = aq_path rq \<Longrightarrow> answered F m p (fst (h rq' s))"
    and "aq_path rq \<in> set public_paths \<or> answered F m p (json_error F (rq\<lparr>aq_local_request_id := Some
      (if aq_header rq request_id_header = [] then uuid else aq_header rq request_id_header)\<rparr>) 401 ''unauthorized''
        ''Missing X-Auth-Request-User header. Please authenticate via OAuth2.'')"
  shows "answered F m p (fst (routed F uuid h rq s))"
proof -
  have h: "answered F m p r" if "h rq' s' = (r, s'')" "aq_path rq' = aq_path rq" for rq' s' r s''
    using assms(1) [of rq' s'] that by simp
  show ?thesis
    using assms(2) by (auto simp: routed_def request_id_middleware_def auth_middleware_def Let_def answered_headers split: prod.split intro: h)
qed

lemma refusals_answered:
  assumes "\<And>c. \<exists>r. map_of (responses_of (openapi_spec (hl_floats H) c) m p) (fmt_int k) = Some r \<and> body_schema r = ref_to ''ErrorResponse''"
  shows "k = 500 \<Longrightarrow> answered (hl_floats H) m p (internal_error H rq msg)" "k = 404 \<Longrightarrow> answered (hl_floats H) m p (not_found H rq msg)"
    "k = 404 \<Longrightarrow> answered (hl_floats H) m p (app_not_found H rq msg)"
  using answered_error [OF assms] by (simp_all add: internal_error_def not_found_def app_not_found_def)

lemma health_answered: "answered F ''get'' ''/health'' (fst (health rq w))"
  by (rule answered_ok [where S = "ref_to ''HealthResponse''"])
    (simp_all add: responses health_def json_ok_def json_status_def reply_def depth health_conforms)

lemma slice_of_apps:
  "go_slice (map (\<lambda>a. J_obj (app_fields a)) items) i j = Some vs \<Longrightarrow> list_all (\<lambda>v. \<exists>a. v = J_obj (app_fields a)) vs"
  by (auto simp: go_slice_def list_all_iff split: if_splits dest!: in_set_takeD in_set_dropD)

lemma list_apps_answered: "answered (hl_floats H) ''get'' ''/apps'' (fst (list_apps H rq w))"
proof -
  have bad: "answered (hl_floats H) ''get'' ''/apps'' (internal_error H rq msg)" for msg
    by (rule refusals_answered(1) [where k = 500]) (simp_all add: responses status_texts)
  have good: "answered (hl_floats H) ''get'' ''/apps'' (json_paginated (hl_floats H) rq (J_obj [(''apps'', J_arr vs)]) l i t)"
    if "list_all (\<lambda>v. \<exists>a. v = J_obj (app_fields a)) vs" for vs l i t
    by (rule answered_ok [where S = "ref_to ''PaginatedAppsResponse''"])
      (simp_all add: responses json_paginated_def reply_def depth apps_conform [OF that])
  show ?thesis
    unfolding list_apps_def Let_def
    by (rule attempt_cases) (auto simp: recovered_def bad intro!: good slice_of_apps split: prod.split option.split)
qed

lemma get_app_answered: "answered (hl_floats H) ''get'' ''/apps/{name}'' (fst (get_app H rq w))"
proof -
  have bad: "answered (hl_floats H) ''get'' ''/apps/{name}'' (app_not_found H rq msg)" for msg
    by (rule refusals_answered(3) [where k = 404]) (simp_all add: responses status_texts)
  have "answered (hl_floats H) ''get'' ''/apps/{name}'' (json_ok rq (J_obj (app_fields a @ [(''repo'', J_str b), (''path'', J_str c),
      (''resources'', J_arr (map resource_json rs))] @ rest)))" for a b c rs rest
    by (rule answered_ok [where S = "ref_to ''AppDetailResponse''"])
      (simp_all add: responses json_ok_def json_status_def reply_def depth detail_conforms [simplified])
  then show ?thesis
    unfolding get_app_def Let_def by (rule_tac attempt_cases) (auto simp: bad split: prod.split)
qed

lemma get_logs_answered: "answered (hl_floats H) ''get'' ''/apps/{name}/logs'' (fst (get_logs_handler H rq w))"
proof -
  have bad: "answered (hl_floats H) ''get'' ''/apps/{name}/logs'' (app_not_found H rq msg)"
      "answered (hl_floats H) ''get'' ''/apps/{name}/logs'' (not_found H rq msg)" for msg
    by (rule refusals_answered(3) [where k = 404] refusals_answered(2) [where k = 404]; simp add: responses status_texts)+
  have 500: "answered (hl_floats H) ''get'' ''/apps/{name}/logs'' (internal_error H rq msg)" for msg
    by (rule refusals_answered(1) [where k = 500]) (simp_all add: responses status_texts)
  have good: "answered (hl_floats H) ''get'' ''/apps/{name}/logs'' (json_ok rq (J_obj [(''pod'', J_str a), (''container'', J_str b),
      (''lines'', J_arr (map J_str ls))]))" for a b ls
    by (rule answered_ok [where S = "ref_to ''LogResponse''"])
      (simp_all add: responses json_ok_def json_status_def reply_def depth logs_conform)
  show ?thesis
    unfolding get_logs_handler_def Let_def
    by (rule attempt_cases, simp add: bad, rule attempt_cases, simp add: bad)
      (auto simp: bad 500 good attempt_def split: list.split option.split prod.split sum.split)
qed

lemma suspend_answered: "answered (hl_floats H) ''post'' ''/apps/{name}/suspend'' (fst (suspend_app H rq w))"
proof -
  have bad: "answered (hl_floats H) ''post'' ''/apps/{name}/suspend'' (app_not_found H rq msg)" for msg
    by (rule refusals_answered(3) [where k = 404]) (simp_all add: responses status_texts)
  have 500: "answered (hl_floats H) ''post'' ''/apps/{name}/suspend'' (internal_error H rq msg)" for msg
    by (rule refusals_answered(1) [where k = 500]) (simp_all add: responses status_texts)
  have "answered (hl_floats H) ''post'' ''/apps/{name}/suspend'' (json_ok rq (j_strings [(''name'', a), (''status'', b), (''message'', c)]))" for a b c
    by (rule answered_ok [where S = "ref_to ''SuspendResponse''"])
      (simp_all add: responses json_ok_def json_status_def reply_def depth suspend_conforms)
  then show ?thesis
    unfolding suspend_app_def Let_def
    by (rule_tac attempt_cases, simp add: bad, rule_tac attempt_cases) (simp_all add: 500)
qed

lemma list_rollbacks_answered: "answered (hl_floats H) ''get'' ''/rollbacks'' (fst (list_rollbacks H now rq w))"
proof -
  have bad: "answered (hl_floats H) ''get'' ''/rollbacks'' (internal_error H rq msg)" for msg
    by (rule refusals_answered(1) [where k = 500]) (simp_all add: responses status_texts)
  have "answered (hl_floats H) ''get'' ''/rollbacks'' (json_ok rq (J_obj [(''version'', J_str a), (''generatedAt'', J_str b), (''apps'', J_obj c)]))" for a b c
    by (rule answered_ok [where S = "ref_to ''RollbacksResponse''"])
      (simp_all add: responses json_ok_def json_status_def reply_def depth rollbacks_conform)
  then show ?thesis unfolding list_rollbacks_def by (rule_tac attempt_cases) (simp_all add: bad)
qed

lemma list_github_repos_answered:
  "answered F ''get'' ''/github/repos'' (fst (list_github_repos F G token n0 n1 rq c w))"
proof -
  have bad: "answered F ''get'' ''/github/repos'' (json_error F rq 503 e msg)" "answered F ''get'' ''/github/repos'' (json_error F rq 502 e msg)" for e msg
    by (rule answered_error; simp add: responses status_texts)+
  have good: "answered F ''get'' ''/github/repos'' (json_ok rq (J_obj [(''repos'', J_arr (map github_repo_json rs))]))" for rs
    by (rule answered_ok [where S = "ref_to ''GitHubReposResponse''"])
      (simp_all add: responses json_ok_def json_status_def reply_def depth repos_conform)
  show ?thesis
    by (simp add: list_github_repos_def Let_def bad good split: prod.split sum.split)
qed

text \<open>Every error of the cache is \<open>ErrNotReady\<close> or wraps it, so the handler's 500 is dead.\<close>

lemma get_snapshot_error: "get_snapshot n0 n1 n2 c = (Inl e, c') \<Longrightarrow> is_not_ready e"
  by (auto simp: get_snapshot_def is_not_ready_def Let_def has_prefix_def split: option.splits if_splits)

lemma get_infra_answered: "answered F ''get'' ''/infra'' (fst (get_infra F encode present n0 n1 n2 rq c))"
proof -
  have bad: "answered F ''get'' ''/infra'' (json_error F rq 503 e msg)" for e msg
    by (rule answered_error) (simp add: responses status_texts)
  have good: "answered F ''get'' ''/infra'' (json_ok rq d)" for d
    by (rule answered_ok [where S = "typed ''object'' []"])
      (simp_all add: responses json_ok_def json_status_def reply_def depth conforms_typed)
  show ?thesis
    by (auto simp add: get_infra_def bad good get_snapshot_error split: prod.split sum.split)
qed

section \<open>Routes and operations\<close>

definition documented_routes :: "(string \<times> string) list" where
  "documented_routes = [(''get'', ''/health''), (''get'', ''/apps''), (''get'', ''/apps/:name''), (''get'', ''/apps/:name/logs''),
     (''post'', ''/apps/:name/suspend''), (''get'', ''/github/repos''), (''get'', ''/rollbacks''), (''get'', ''/infra'')]"

lemma documented_routes_of:
  "filter (\<lambda>r. (fst r, fst (snd r)) \<in> set documented_routes) (v1_routes V I) = (let H = av_env V; t = ai_instant I in
     [(''get'', ''/health'', on_outside health), (''get'', ''/apps'', on_outside (list_apps H)),
      (''get'', ''/apps/:name'', on_outside (get_app H)), (''get'', ''/apps/:name/logs'', on_outside (get_logs_handler H)),
      (''post'', ''/apps/:name/suspend'', on_outside (suspend_app H)),
      (''get'', ''/github/repos'', on_repos (list_github_repos (hl_floats H) (av_github V) (av_token V) (t 0) (t 1))),
      (''get'', ''/rollbacks'', on_outside (list_rollbacks H (ai_now I 0))),
      (''get'', ''/infra'', on_infra (get_infra (hl_floats H) (av_encode V) (av_infra_present V) (t 0) (t 1) (t 2)))])"
  by (simp add: v1_routes_def documented_routes_def Let_def)

lemma template_paths:
  "template_path ''/health'' = ''/health''" "template_path ''/apps'' = ''/apps''" "template_path ''/apps/:name'' = ''/apps/{name}''"
  "template_path ''/apps/:name/logs'' = ''/apps/{name}/logs''" "template_path ''/apps/:name/suspend'' = ''/apps/{name}/suspend''"
  "template_path ''/github/repos'' = ''/github/repos''" "template_path ''/rollbacks'' = ''/rollbacks''" "template_path ''/infra'' = ''/infra''"
  by code_simp+

lemma answered_lifted:
  "(\<And>w. answered F m p (fst (h rq w))) \<Longrightarrow> answered F m p (fst (on_outside h rq s))"
  "(\<And>c. answered F m p (fst (g rq c))) \<Longrightarrow> answered F m p (fst (on_infra g rq s))"
  "(\<And>c w. answered F m p (fst (k rq c w))) \<Longrightarrow> answered F m p (fst (on_repos k rq s))"
  by (simp_all add: on_outside_def on_infra_def on_repos_def split_beta)

lemma answered_unauthorized:
  "(\<And>c. map_of (responses_of (openapi_spec F c) m p) ''401'' = Some unauthorized_response) \<Longrightarrow>
    answered F m p (json_error F rq 401 e msg)"
  by (rule answered_error) (simp add: status_texts)

lemmas route_answered = health_answered list_apps_answered get_app_answered get_logs_answered suspend_answered
  list_github_repos_answered list_rollbacks_answered get_infra_answered

text \<open>
  C9. The document keeps its word: whatever the cluster, the repository, GitHub and the infrastructure
  cache do, the answer of each of eight documented routes, refusals of the middleware included, has
  a status its operation lists, with a body of the schema listed for that status.
\<close>

theorem answers_documented:
  assumes "r \<in> set (v1_routes V I)" "(fst r, fst (snd r)) \<in> set documented_routes"
    and "fst (snd r) = ''/health'' \<longrightarrow> aq_path rq = ''/v1/health''"
  shows "documented (openapi_spec (hl_floats (av_env V)) c) (fst r) (template_path (fst (snd r))) (fst (serve_route V uuid r rq s))"
proof -
  let ?F = "hl_floats (av_env V)"
  have r: "r \<in> set (filter (\<lambda>r. (fst r, fst (snd r)) \<in> set documented_routes) (v1_routes V I))" using assms(1,2) by simp
  have "answered ?F (fst r) (template_path (fst (snd r))) (fst (routed ?F uuid (snd (snd r)) rq s))"
  proof (rule answered_routed)
    show "answered ?F (fst r) (template_path (fst (snd r))) (fst (snd (snd r) rq' s))" for rq' s
      using r unfolding documented_routes_of Let_def
      by (auto simp: template_paths intro!: answered_lifted route_answered)
    show "aq_path rq \<in> set public_paths \<or> answered ?F (fst r) (template_path (fst (snd r))) (json_error ?F (rq\<lparr>aq_local_request_id := Some
        (if aq_header rq request_id_header = [] then uuid else aq_header rq request_id_header)\<rparr>) 401 ''unauthorized''
        ''Missing X-Auth-Request-User header. Please authenticate via OAuth2.'')"
      using r assms(3) unfolding documented_routes_of Let_def
      by (auto simp: template_paths responses public_paths_def intro!: answered_unauthorized)
  qed
  then show ?thesis by (simp add: answered_def serve_route_def)
qed

definition sample_api :: "(mem_repo, int, unit) api_server" where
  "sample_api = \<lparr>av_env = bare_env (web_cluster []) mem_git,
     av_github = \<lparr>gi_send = (\<lambda>_ _. fail_with ''down''), gi_json = \<lparr>jio_print = (\<lambda>_. None), jio_empty = (), jio_parse = (\<lambda>_. None),
       jio_decode = (\<lambda>_. None), jio_refusal = (\<lambda>_ _. ''refused''), jio_limit = (\<lambda>_ b. b), jio_text = (\<lambda>_. []),
       jio_time_text = fmt_int, jio_time_parse = (\<lambda>_. None)\<rparr>\<rparr>,
     av_token = [], av_infra_present = False, av_encode = (\<lambda>_. J_null)\<rparr>"

definition epoch_start :: gotime where
  "epoch_start = \<lparr>year = 1970, month = 1, day = 1, hour = 0, minute = 0, second = 0, nanos = 0\<rparr>"

definition sample_inputs :: api_inputs where
  "sample_inputs = \<lparr>ai_now = (\<lambda>_. \<lparr>cl_local = epoch_start, cl_utc = epoch_start, cl_unix = 0\<rparr>), ai_instant = (\<lambda>_. 0), ai_create = None,
     ai_rollback = None, ai_restore = None\<rparr>"

definition sample_api_world :: "(mem_repo, unit, int) api_world" where
  "sample_api_world = \<lparr>wo_outside = lab_repo [], wo_infra = new_default_cache, wo_repos = \<lparr>rc_repos = [], rc_fetched = 0\<rparr>\<rparr>"

theorem answers_documented_witness:
  "documented (openapi_spec int_floats (Inl ''none'')) ''get'' ''/apps/{name}''
     (fst (serve_route sample_api ''u1'' (''get'', ''/apps/:name'', on_outside (get_app (av_env sample_api))) web_request sample_api_world))"
proof -
  have "(''get'', ''/apps/:name'', on_outside (get_app (av_env sample_api))) \<in> set (v1_routes sample_api sample_inputs)"
    by (simp add: v1_routes_def Let_def)
  moreover have "(''get'', ''/apps/:name'') \<in> set documented_routes" by (simp add: documented_routes_def)
  moreover have "hl_floats (av_env sample_api) = int_floats" by (simp add: sample_api_def bare_env_def)
  ultimately show ?thesis
    using answers_documented [of "(''get'', ''/apps/:name'', on_outside (get_app (av_env sample_api)))" sample_api sample_inputs web_request
        "Inl ''none''" "''u1''" sample_api_world]
    by (simp add: template_paths)
qed

text \<open>The operations the document describes.\<close>

definition operations_of :: "'f json \<Rightarrow> (string \<times> string) list" where
  "operations_of doc = concat (map (\<lambda>(p, item). map (\<lambda>(m, op). (m, p)) (members item)) (members (at doc ''paths'')))"

definition undocumented_routes :: "(string \<times> string) list" where
  "undocumented_routes = [(''post'', ''/apps/{name}/rebuild''), (''get'', ''/me''), (''get'', ''/apps/{name}/resources/{kind}/{resource}''),
     (''get'', ''/apps/{name}/pods/{pod}/logs''), (''get'', ''/builds'')]"

lemma route_templates:
  "template_path ''/apps/:name/sync'' = ''/apps/{name}/sync''" "template_path ''/apps/:name/rebuild'' = ''/apps/{name}/rebuild''"
  "template_path ''/apps/:name/rollback'' = ''/apps/{name}/rollback''" "template_path ''/apps/:name/restore'' = ''/apps/{name}/restore''"
  "template_path ''/me'' = ''/me''" "template_path ''/builds'' = ''/builds''" "template_path ''/builds/:id'' = ''/builds/{id}''"
  "template_path ''/apps/:name/resources/:kind/:resource'' = ''/apps/{name}/resources/{kind}/{resource}''"
  "template_path ''/apps/:name/pods/:pod/logs'' = ''/apps/{name}/pods/{pod}/logs''" "template_path ''/builds/:id/logs'' = ''/builds/{id}/logs''"
  by code_simp+

text \<open>
  The API serves every operation its document describes, each by exactly one route, and just
  five operations more.
\<close>

theorem document_and_routes:
  "mset (map (\<lambda>r. (fst r, template_path (fst (snd r)))) (v1_routes V I)) =
   mset (operations_of (openapi_spec F c)) + mset undocumented_routes"
proof -
  have listed: "operations_of (openapi_spec F c) = [(''get'', ''/health''), (''get'', ''/apps''), (''post'', ''/apps''), (''get'', ''/apps/{name}''),
      (''get'', ''/apps/{name}/logs''), (''post'', ''/apps/{name}/sync''), (''post'', ''/apps/{name}/suspend''),
      (''post'', ''/apps/{name}/rollback''), (''post'', ''/apps/{name}/restore''), (''get'', ''/github/repos''), (''get'', ''/builds/{id}''),
      (''get'', ''/builds/{id}/logs''), (''get'', ''/infra''), (''get'', ''/rollbacks'')]"
    unfolding operations_of_def spec_paths openapi_paths_def
    by (simp add: path_health_def path_apps_def path_app_def path_app_logs_def path_app_sync_def path_app_suspend_def path_app_rollback_def
        path_app_restore_def path_github_repos_def path_build_def path_build_logs_def path_infra_def path_rollbacks_def)
  have served: "map (\<lambda>r. (fst r, template_path (fst (snd r)))) (v1_routes V I) = [(''get'', ''/health''), (''get'', ''/apps''), (''post'', ''/apps''),
      (''get'', ''/apps/{name}''), (''get'', ''/apps/{name}/logs''), (''post'', ''/apps/{name}/sync''), (''post'', ''/apps/{name}/rebuild''),
      (''post'', ''/apps/{name}/suspend''), (''post'', ''/apps/{name}/rollback''), (''post'', ''/apps/{name}/restore''), (''get'', ''/me''),
      (''get'', ''/apps/{name}/resources/{kind}/{resource}''), (''get'', ''/apps/{name}/pods/{pod}/logs''), (''get'', ''/builds''),
      (''get'', ''/builds/{id}''), (''get'', ''/builds/{id}/logs''), (''get'', ''/github/repos''), (''get'', ''/rollbacks''), (''get'', ''/infra'')]"
    by (simp add: v1_routes_def Let_def template_paths route_templates)
  show ?thesis unfolding served listed undocumented_routes_def by (simp add: ac_simps)
qed

text \<open>
  A successful sync, rollback or restore is answered 200, where the document announces 202 and no 200.
\<close>

lemma accepted_responses:
  "responses_of (openapi_spec F c) ''post'' ''/apps/{name}/sync'' = [(''202'', described ''Sync triggered'' (ref_to ''SyncResponse'')),
     (''401'', unauthorized_response), (''404'', error_response), (''500'', error_response)]"
  "responses_of (openapi_spec F c) ''post'' ''/apps/{name}/rollback'' = [(''202'', described ''Rollback initiated'' (ref_to ''RollbackResponse'')),
     (''400'', error_response), (''401'', unauthorized_response), (''404'', error_response), (''409'', error_response),
     (''422'', error_response), (''500'', error_response)]"
  "responses_of (openapi_spec F c) ''post'' ''/apps/{name}/restore'' = [(''202'', described ''Restore initiated'' (ref_to ''RestoreResponse'')),
     (''400'', error_response), (''401'', unauthorized_response), (''404'', error_response), (''409'', error_response), (''500'', error_response)]"
  unfolding responses_of_def spec_paths openapi_paths_def
  by (simp_all add: path_app_sync_def path_app_rollback_def path_app_restore_def)

lemma success_undocumented:
  assumes "p = ''/apps/{name}/sync'' \<or> p = ''/apps/{name}/rollback'' \<or> p = ''/apps/{name}/restore''" "ar_status res = 200"
  shows "\<not> documented (openapi_spec F c) ''post'' p res"
proof -
  have "map_of (responses_of (openapi_spec F c) ''post'' p) ''200'' = None"
    using assms(1) by (elim disjE) (simp_all add: accepted_responses)
  then show ?thesis using assms(2) by (simp add: documented_def status_texts)
qed

text \<open>The log of a build without a line is sent as \<open>null\<close>, where the document announces an array.\<close>

lemma null_lines_undocumented:
  "\<not> documented (openapi_spec F c) ''get'' ''/builds/{id}/logs'' (json_ok rq (J_obj [(''lines'', j_slice f None)]))"
proof -
  have "map_of (responses_of (openapi_spec F c) ''get'' ''/builds/{id}/logs'') ''200'' = Some (described ''Build logs'' (ref_to ''BuildLogsResponse''))"
    unfolding responses_of_def spec_paths openapi_paths_def by (simp add: path_build_logs_def)
  moreover have "map_of (openapi_schemas F) ''BuildLogsResponse'' = Some schema_BuildLogsResponse" by (simp add: openapi_schemas_def)
  moreover have "\<not> conforms (Suc n) D (array_of S) J_null" for n D and S :: "'a json"
    by (simp add: array_of_def conforms_keywords keyword_holds_def)
  ultimately show ?thesis
    by (simp add: documented_def status_texts spec_schemas json_ok_def json_status_def reply_def depth conforms_ref conforms_object_of
        schema_BuildLogsResponse_def j_slice_def)
qed

text \<open>The providers section lists the endpoints in one order, whatever order the contract's map yields them in.\<close>

lemma provider_tag_order_independent:
  assumes "mset ps = mset qs"
  shows "provider_tag (Inr (d, ps)) = provider_tag (Inr (d, qs))"
proof -
  have "mset (List.map_filter f ps) = mset (List.map_filter f qs)" for f :: "string \<times> string \<Rightarrow> string option"
    by (simp add: List.map_filter_def assms)
  then have "sort (List.map_filter f ps) = sort (List.map_filter f qs)" for f :: "string \<times> string \<Rightarrow> string option"
    by (simp flip: sorted_list_of_multiset_mset)
  then show ?thesis by (simp add: provider_tag_def)
qed

end
