(* ===== verification/OciSources.thy ===== *)
theory OciSources
  imports Infra
begin

text \<open>
  internal/infra/ocisources.go: the reads of Oracle Cloud still linked into Core. The SDK's calls are
  a record over a world \<open>'w\<close>; a pointer the SDK may leave nil is an option. A listing comes in
  pages, which the code follows as long as there is a next one.
\<close>

section \<open>What the SDK returns\<close>

record 'f oci_instance =
  oi_id :: "string option"
  oi_display_name :: "string option"
  oi_lifecycle_state :: string
  oi_shape :: "string option"
  oi_fault_domain :: "string option"
  oi_ocpus :: "'f option"
  oi_memory_gbs :: "'f option"

record vnic_attachment =
  va_instance :: "string option"
  va_vnic :: "string option"

record 'f datapoint =
  dp_timestamp :: "instant option"
  dp_value :: "'f option"

record 'f metric_item =
  mi_dimensions :: "(string \<times> string) list"
  mi_datapoints :: "'f datapoint list"

record oci_alarm =
  oa_display_name :: "string option"
  oa_severity :: string
  oa_status :: string

record ip_address =
  ia_public :: "bool option"
  ia_address :: "string option"

record oci_object =
  oo_name :: "string option"
  oo_size :: "int option"
  oo_modified :: "instant option"

type_synonym ('w, 'a) paged = "string option \<Rightarrow> ('w, 'a list \<times> string option) act"

text \<open>\<open>sdk_vnic\<close> is the private address of a VNIC, if its lookup succeeds and there is one.\<close>

record ('w, 'f) oci_sdk =
  sdk_instances :: "string \<Rightarrow> ('w, 'f oci_instance) paged"
  sdk_vnics :: "string \<Rightarrow> ('w, vnic_attachment) paged"
  sdk_vnic :: "string \<Rightarrow> string option"
  sdk_metrics :: "string \<Rightarrow> string \<Rightarrow> string \<Rightarrow> instant \<Rightarrow> instant \<Rightarrow> ('w, 'f metric_item list) act"
  sdk_alarms :: "string \<Rightarrow> ('w, oci_alarm) paged"
  sdk_balancer :: "string \<Rightarrow> ('w, ip_address list) act"
  sdk_objects :: "string \<Rightarrow> string \<Rightarrow> string \<Rightarrow> nat \<Rightarrow> ('w, oci_object) paged"

section \<open>Which sources are wired\<close>

text \<open>The reads that are wired; a read that is not stays nil.\<close>

record oci_wiring =
  ow_instances :: bool
  ow_metrics :: bool
  ow_alarms :: bool
  ow_ingress :: bool
  ow_backups :: bool

definition no_wiring :: oci_wiring where
  "no_wiring = \<lparr>ow_instances = False, ow_metrics = False, ow_alarms = False, ow_ingress = False, ow_backups = False\<rparr>"

text \<open>\<open>client\<close> is the construction of an SDK client, by its name; the first to fail ends it.\<close>

definition sdk_client_names :: "string list" where
  "sdk_client_names = [''compute client'', ''virtual network client'', ''monitoring client'', ''network load balancer client'',
     ''object storage client'']"

fun make_clients :: "(string \<Rightarrow> ('w, unit) act) \<Rightarrow> string list \<Rightarrow> ('w, unit) act" where
  "make_clients client [] = ret ()"
| "make_clients client (n # ns) = seq (client n) (\<lambda>e. n @ '': '' @ e) (\<lambda>_. make_clients client ns)"

definition new_sources_with_provider :: "infra_config \<Rightarrow> (string \<Rightarrow> ('w, unit) act) \<Rightarrow> ('w, oci_wiring) act" where
  "new_sources_with_provider cfg client = seq (make_clients client sdk_client_names) (\<lambda>e. e) (\<lambda>_.
     ret \<lparr>ow_instances = ic_compartment_id cfg \<noteq> [], ow_metrics = ic_compartment_id cfg \<noteq> [], ow_alarms = ic_compartment_id cfg \<noteq> [],
       ow_ingress = ic_nlb_id cfg \<noteq> [], ow_backups = ic_namespace cfg \<noteq> [] \<and> ic_bucket cfg \<noteq> []\<rparr>)"

definition new_sources :: "infra_config \<Rightarrow> ('w, unit) act \<Rightarrow> (string \<Rightarrow> ('w, unit) act) \<Rightarrow> ('w, oci_wiring) act" where
  "new_sources cfg login client =
     (if \<not> oci_configured cfg then ret no_wiring
      else seq login (\<lambda>e. ''instance principal authentication unavailable (this only works on an OCI instance): '' @ e)
        (\<lambda>_. new_sources_with_provider cfg client))"

section \<open>Following pages\<close>

text \<open>A listing that always has a next page is followed for ever: \<open>None\<close>.\<close>

partial_function (option) follow :: "('w, 'a) paged \<Rightarrow> string option \<Rightarrow> 'a list \<Rightarrow> 'w \<Rightarrow> (('a list) result \<times> 'w) option" where
  "follow call page acc w = (case call page w of
     (Inl e, w') \<Rightarrow> Some (Inl e, w')
   | (Inr (items, next), w') \<Rightarrow> (case next of
       None \<Rightarrow> Some (Inr (acc @ items), w')
     | Some p \<Rightarrow> follow call (Some p) (acc @ items) w'))"

definition list_all_pages :: "('w, 'a) paged \<Rightarrow> 'w \<Rightarrow> (('a list) result \<times> 'w) option" where
  "list_all_pages call = follow call None []"

text \<open>Going on with the outcome of a walk that ends.\<close>

definition after :: "('a result \<times> 'w) option \<Rightarrow> (string \<Rightarrow> string) \<Rightarrow> ('a \<Rightarrow> 'w \<Rightarrow> ('b result \<times> 'w) option) \<Rightarrow> ('b result \<times> 'w) option" where
  "after m wrap k = (case m of None \<Rightarrow> None | Some (Inl e, w) \<Rightarrow> Some (Inl (wrap e), w) | Some (Inr x, w) \<Rightarrow> k x w)"

section \<open>Instances\<close>

definition deref :: "string option \<Rightarrow> string" where
  "deref s = (case s of None \<Rightarrow> [] | Some v \<Rightarrow> v)"

definition instance_of :: "'f float64 \<Rightarrow> 'f oci_instance \<Rightarrow> 'f instance_info" where
  "instance_of F i = \<lparr>ii_id = deref (oi_id i), ii_name = deref (oi_display_name i), ii_state = oi_lifecycle_state i,
     ii_shape = deref (oi_shape i), ii_ocpus = (case oi_ocpus i of Some x \<Rightarrow> x | None \<Rightarrow> fl_of_int F 0),
     ii_memory_gb = (case oi_memory_gbs i of Some x \<Rightarrow> x | None \<Rightarrow> fl_of_int F 0),
     ii_fault_domain = deref (oi_fault_domain i), ii_private_ip = []\<rparr>"

definition still_exists :: "'f oci_instance \<Rightarrow> bool" where
  "still_exists i \<longleftrightarrow> oi_lifecycle_state i \<noteq> ''TERMINATED''"

text \<open>The first attachment of an instance is its primary VNIC.\<close>

definition note_attachment :: "(string \<Rightarrow> string option) \<Rightarrow> vnic_attachment \<Rightarrow> string \<Rightarrow> string option" where
  "note_attachment m a = (case (va_vnic a, va_instance a) of
     (Some v, Some i) \<Rightarrow> if m i = None then m(i \<mapsto> v) else m
   | _ \<Rightarrow> m)"

definition with_private_ip :: "(string \<Rightarrow> string option) \<Rightarrow> (string \<Rightarrow> string option) \<Rightarrow> 'f instance_info \<Rightarrow> 'f instance_info" where
  "with_private_ip vnics lookup i = (case Option.bind (vnics (ii_id i)) lookup of
     Some ip \<Rightarrow> i\<lparr>ii_private_ip := ip\<rparr> | None \<Rightarrow> i)"

text \<open>The lookups run concurrently, each writing the entry of its own instance: \<open>order\<close> is the order they finish in.\<close>

definition resolve_in_order :: "(string \<Rightarrow> string option) \<Rightarrow> (string \<Rightarrow> string option) \<Rightarrow> nat list \<Rightarrow> 'f instance_info list \<Rightarrow> 'f instance_info list" where
  "resolve_in_order vnics lookup order is = foldl (\<lambda>is k. is[k := with_private_ip vnics lookup (is ! k)]) is order"

definition attach_private_ips ::
    "('w, 'f) oci_sdk \<Rightarrow> infra_config \<Rightarrow> nat list \<Rightarrow> 'f instance_info list \<Rightarrow> 'w \<Rightarrow> ('f instance_info list result \<times> 'w) option" where
  "attach_private_ips S cfg order is w = (case list_all_pages (sdk_vnics S (ic_compartment_id cfg)) w of
     None \<Rightarrow> None
   | Some (Inl e, w') \<Rightarrow> Some (Inr is, w')
   | Some (Inr as, w') \<Rightarrow> Some (Inr (resolve_in_order (foldl note_attachment (\<lambda>_. None) as) (sdk_vnic S) order is), w'))"

definition oci_list_instances ::
    "'f float64 \<Rightarrow> ('w, 'f) oci_sdk \<Rightarrow> infra_config \<Rightarrow> nat list \<Rightarrow> 'w \<Rightarrow> ('f instance_info list result \<times> 'w) option" where
  "oci_list_instances F S cfg order w = after (list_all_pages (sdk_instances S (ic_compartment_id cfg)) w) (\<lambda>e. ''list instances: '' @ e)
     (\<lambda>items. attach_private_ips S cfg order (map (instance_of F) (filter still_exists items)))"

section \<open>Metrics\<close>

record oci_query =
  oq_namespace :: string
  oq_query :: string
  oq_dimensions :: "(string \<times> string) list"

definition oci_queries :: "(string \<times> oci_query) list" where
  "oci_queries = [
     (metric_cpu_utilization, \<lparr>oq_namespace = ''oci_computeagent'',
        oq_query = ''CpuUtilization[5m].groupBy(resourceDisplayName).mean()'', oq_dimensions = [(''resourceDisplayName'', dim_instance)]\<rparr>),
     (metric_memory_utilization, \<lparr>oq_namespace = ''oci_computeagent'',
        oq_query = ''MemoryUtilization[5m].groupBy(resourceDisplayName).mean()'', oq_dimensions = [(''resourceDisplayName'', dim_instance)]\<rparr>),
     (metric_healthy_backends, \<lparr>oq_namespace = ''oci_nlb'',
        oq_query = ''HealthyBackends[5m].groupBy(backendSetName).max()'', oq_dimensions = [(''backendSetName'', dim_backend_set)]\<rparr>),
     (metric_unhealthy_backends, \<lparr>oq_namespace = ''oci_nlb'',
        oq_query = ''UnhealthyBackends[5m].groupBy(backendSetName).max()'', oq_dimensions = [(''backendSetName'', dim_backend_set)]\<rparr>),
     (metric_uptime_availability, \<lparr>oq_namespace = ''oracle_apm_synthetics'',
        oq_query = ''Availability[1h].groupBy(MonitorName,Target).mean()'',
        oq_dimensions = [(''MonitorName'', dim_monitor), (''Target'', dim_target)]\<rparr>)]"

definition rename_dimensions :: "(string \<times> string) list \<Rightarrow> (string \<times> string) list \<Rightarrow> (string \<times> string) list" where
  "rename_dimensions dims rename = List.map_filter (\<lambda>(from, to). map_option (Pair to) (map_of dims from)) rename"

definition newer_datapoint :: "(instant \<times> 'f) option \<Rightarrow> 'f datapoint \<Rightarrow> (instant \<times> 'f) option" where
  "newer_datapoint best p = (case (dp_timestamp p, dp_value p) of
     (Some t, Some v) \<Rightarrow> (case best of Some (t', v') \<Rightarrow> if t > t' then Some (t, v) else best | None \<Rightarrow> Some (t, v))
   | _ \<Rightarrow> best)"

definition newest_datapoint :: "'f datapoint list \<Rightarrow> (instant \<times> 'f) option" where
  "newest_datapoint ps = foldl newer_datapoint None ps"

definition series_of :: "oci_query \<Rightarrow> 'f metric_item \<Rightarrow> 'f series option" where
  "series_of q item = map_option (\<lambda>(t, v). \<lparr>sr_dimensions = rename_dimensions (mi_dimensions item) (oq_dimensions q),
     sr_timestamp = t, sr_value = v\<rparr>) (newest_datapoint (mi_datapoints item))"

definition oci_query_metric ::
    "('w, 'f) oci_sdk \<Rightarrow> infra_config \<Rightarrow> instant \<Rightarrow> string \<Rightarrow> duration \<Rightarrow> ('w, 'f series list) act" where
  "oci_query_metric S cfg now metric window = (case map_of oci_queries metric of
     None \<Rightarrow> ret []
   | Some q \<Rightarrow> seq (sdk_metrics S (ic_compartment_id cfg) (oq_namespace q) (oq_query q) (now - window) now)
       (\<lambda>e. ''query '' @ metric @ '': '' @ e) (\<lambda>items. ret (List.map_filter (series_of q) items)))"

section \<open>Alarms, ingress, backups\<close>

definition alarm_of :: "oci_alarm \<Rightarrow> alarm_status" where
  "alarm_of a = \<lparr>al_name = deref (oa_display_name a), al_severity = oa_severity a, al_status = oa_status a\<rparr>"

definition oci_list_alarms :: "('w, 'f) oci_sdk \<Rightarrow> infra_config \<Rightarrow> 'w \<Rightarrow> (alarm_status list result \<times> 'w) option" where
  "oci_list_alarms S cfg w = after (list_all_pages (sdk_alarms S (ic_compartment_id cfg)) w) (\<lambda>e. ''list alarm status: '' @ e)
     (\<lambda>items w. Some (Inr (map alarm_of items), w))"

fun first_public :: "ip_address list \<Rightarrow> string option" where
  "first_public [] = None"
| "first_public (a # as) = (if ia_public a = Some True \<and> ia_address a \<noteq> None then ia_address a else first_public as)"

definition oci_ingress_ip :: "('w, 'f) oci_sdk \<Rightarrow> infra_config \<Rightarrow> ('w, string) act" where
  "oci_ingress_ip S cfg = seq (sdk_balancer S (ic_nlb_id cfg)) (\<lambda>e. ''get network load balancer: '' @ e) (\<lambda>as.
     case first_public as of
       Some ip \<Rightarrow> ret ip
     | None \<Rightarrow> fail_with (''network load balancer '' @ ic_nlb_id cfg @ '' has no public IP''))"

definition object_of_oci :: "oci_object \<Rightarrow> object_info" where
  "object_of_oci x = \<lparr>ob_name = deref (oo_name x), ob_size = (case oo_size x of Some n \<Rightarrow> n | None \<Rightarrow> 0),
     ob_modified = (case oo_modified x of Some t \<Rightarrow> t | None \<Rightarrow> zero_instant)\<rparr>"

text \<open>An empty marker ends the walk as a missing one does.\<close>

definition blank_ends :: "('w, 'a) paged \<Rightarrow> ('w, 'a) paged" where
  "blank_ends call page = seq (call page) (\<lambda>e. e) (\<lambda>(items, next). ret (items, if next = Some [] then None else next))"

definition oci_list_objects :: "('w, 'f) oci_sdk \<Rightarrow> infra_config \<Rightarrow> 'w \<Rightarrow> (object_info list result \<times> 'w) option" where
  "oci_list_objects S cfg w =
     after (list_all_pages (blank_ends (sdk_objects S (ic_namespace cfg) (ic_bucket cfg) ''name,size,timeModified'' 1000)) w)
       (\<lambda>e. ''list objects in '' @ ic_bucket cfg @ '': '' @ e) (\<lambda>items w. Some (Inr (map object_of_oci items), w))"

end
