(* ===== verification/OciSourcesFacts.thy ===== *)
theory OciSourcesFacts
  imports OciSources
begin

text \<open>
  The Oracle reads: a listing is read to its end and no further, whatever the size of its pages; the
  concurrent lookups commute; a metric is shown at its newest datapoint; and nothing is contacted
  that is not configured.
\<close>

section \<open>Pages\<close>

inductive pages_from :: "('w, 'a) paged \<Rightarrow> string option \<Rightarrow> 'w \<Rightarrow> 'a list list \<Rightarrow> 'w \<Rightarrow> bool" for call where
  last_page: "call page w = (Inr (items, None), w') \<Longrightarrow> pages_from call page w [items] w'"
| more_pages: "call page w = (Inr (items, Some p), w1) \<Longrightarrow> pages_from call (Some p) w1 rest w' \<Longrightarrow> pages_from call page w (items # rest) w'"

lemma follow_pages: "pages_from call page w iss w' \<Longrightarrow> follow call page acc w = Some (Inr (acc @ concat iss), w')"
proof (induction arbitrary: acc rule: pages_from.induct)
  case (last_page page w items w')
  then show ?case by (subst follow.simps) simp
next
  case (more_pages page w items p w1 rest w')
  then show ?case by (subst follow.simps) simp
qed

lemma follow_returns:
  assumes "follow call page acc w = Some r"
  shows "\<forall>xs w'. r = (Inr xs, w') \<longrightarrow> (\<exists>iss. pages_from call page w iss w' \<and> xs = acc @ concat iss)"
proof (rule follow.raw_induct [where P = "\<lambda>call page acc w r. \<forall>xs w'. r = (Inr xs, w') \<longrightarrow> (\<exists>iss. pages_from call page w iss w' \<and> xs = acc @ concat iss)",
    OF _ assms], goal_cases)
  case (1 rec call page acc w r)
  obtain o' w1 where c: "call page w = (o', w1)" by fastforce
  show ?case
  proof (cases o')
    case (Inl e)
    then show ?thesis using 1(2) c by auto
  next
    case (Inr p)
    obtain items nxt where p: "p = (items, nxt)" by fastforce
    show ?thesis
    proof (cases nxt)
      case None
      then show ?thesis using 1(2) c Inr p by (auto intro!: exI [of _ "[items]"] last_page)
    next
      case (Some t)
      then have "rec call (Some t) (acc @ items) w1 = Some r" using 1(2) c Inr p by simp
      from 1(1) [OF this] show ?thesis using c Inr p Some by (force intro: more_pages)
    qed
  qed
qed

text \<open>A walk ends well exactly when the pages do, and then with all of them.\<close>

lemma list_all_pages_iff:
  "list_all_pages call w = Some (Inr xs, w') \<longleftrightarrow> (\<exists>iss. pages_from call None w iss w' \<and> xs = concat iss)"
  unfolding list_all_pages_def using follow_returns [of call None "[]" w "(Inr xs, w')"] follow_pages [of call None w _ w' "[]"]
  by auto

text \<open>
  A listing in pages: each page is a stretch of one list, whose end has no next page and whose
  tokens stand for positions. Nothing is said of how long a page is.
\<close>

locale paged_listing =
  fixes call :: "('w, 'a) paged" and everything :: "'a list" and position :: "string option \<Rightarrow> nat" and good :: "string option \<Rightarrow> bool"
  assumes start: "position None = 0" "good None"
    and page: "good p \<Longrightarrow> \<exists>items nxt. call p w = (Inr (items, nxt), w) \<and> items = take (length items) (drop (position p) everything) \<and>
      (case nxt of None \<Rightarrow> length everything \<le> position p + length items
       | Some t \<Rightarrow> good (Some t) \<and> items \<noteq> [] \<and> position (Some t) = position p + length items)"
begin

lemma reads_to_the_end: "good p \<Longrightarrow> \<exists>iss. pages_from call p w iss w \<and> concat iss = drop (position p) everything"
proof (induction "length everything - position p" arbitrary: p rule: less_induct)
  case less
  obtain items nxt where c: "call p w = (Inr (items, nxt), w)" "items = take (length items) (drop (position p) everything)"
    and n: "case nxt of None \<Rightarrow> length everything \<le> position p + length items
       | Some t \<Rightarrow> good (Some t) \<and> items \<noteq> [] \<and> position (Some t) = position p + length items"
    using page [OF less.prems] by blast
  show ?case
  proof (cases nxt)
    case None
    then have "take (length items) (drop (position p) everything) = drop (position p) everything" using n by simp
    then show ?thesis using c None by (intro exI [of _ "[items]"]) (auto intro: last_page)
  next
    case (Some t)
    then have t: "good (Some t)" "items \<noteq> []" "position (Some t) = position p + length items" using n by auto
    have "position p < length everything"
    proof (rule ccontr)
      assume "\<not> position p < length everything"
      then have "items = []" using c(2) by simp
      with t(2) show False by simp
    qed
    then have "length everything - position (Some t) < length everything - position p" using t by (cases items) auto
    from less.hyps [OF this t(1)] obtain iss where "pages_from call (Some t) w iss w" "concat iss = drop (position (Some t)) everything" by blast
    moreover from this(2) have "concat (items # iss) = drop (position p) everything"
      using c(2) t(3) by (metis append_take_drop_id concat.simps(2) drop_drop add.commute)
    ultimately show ?thesis using c(1) Some by (blast intro: more_pages)
  qed
qed

lemma walk: "list_all_pages call w = Some (Inr everything, w)"
  using reads_to_the_end [OF start(2)] start(1) by (auto simp: list_all_pages_iff)

end

section \<open>The backup bucket\<close>

text \<open>
  What Oracle documents of listing a bucket. Its objects have names, and are listed in the order of
  the names. A page that starts at a name holds objects from that name on; when it does not hold all
  of them it holds at least one, and its marker is the name of the first it does not hold; when it
  does, the marker is missing or empty. How long a page is is up to the service, on every call anew.
\<close>

definition object_key :: "oci_object \<Rightarrow> string" where
  "object_key x = deref (oo_name x)"

definition named_object :: "oci_object \<Rightarrow> bool" where
  "named_object x \<longleftrightarrow> oo_name x \<noteq> None \<and> object_key x \<noteq> []"

definition from_name :: "string option \<Rightarrow> oci_object list \<Rightarrow> oci_object list" where
  "from_name start xs = (case start of None \<Rightarrow> xs | Some n \<Rightarrow> filter (\<lambda>x. n \<le> object_key x) xs)"

definition names_before :: "string option \<Rightarrow> oci_object list \<Rightarrow> nat" where
  "names_before start xs = (case start of None \<Rightarrow> 0 | Some n \<Rightarrow> length (filter (\<lambda>x. object_key x < n) xs))"

lemma named_objectD: "named_object x \<Longrightarrow> oo_name x = Some (object_key x)"
  by (cases "oo_name x") (auto simp: named_object_def object_key_def deref_def)

lemma from_name_drop:
  assumes "sorted_wrt (<) (map object_key xs)"
  shows "from_name start xs = drop (names_before start xs) xs"
proof (cases start)
  case (Some n)
  have "filter (\<lambda>x. n \<le> object_key x) xs = drop (length (filter (\<lambda>x. object_key x < n) xs)) xs"
    using assms
  proof (induction xs)
    case (Cons x xs)
    show ?case
    proof (cases "object_key x < n")
      case False
      then have "\<forall>y \<in> set xs. n \<le> object_key y" using Cons.prems by fastforce
      then show ?thesis using False by (auto simp: not_less)
    qed (use Cons in auto)
  qed simp
  with Some show ?thesis by (simp add: from_name_def names_before_def)
qed (simp add: from_name_def names_before_def)

lemma names_before_nth:
  assumes "sorted_wrt (<) (map object_key xs)" "i < length xs"
  shows "names_before (Some (object_key (xs ! i))) xs = i"
  using assms
proof (induction xs arbitrary: i)
  case (Cons x xs)
  show ?case
  proof (cases i)
    case 0
    have "filter (\<lambda>y. object_key y < object_key x) xs = []" using Cons.prems(1) by (auto simp: filter_empty_conv)
    then show ?thesis using 0 by (simp add: names_before_def)
  next
    case (Suc j)
    then have "xs ! j \<in> set xs" using Cons.prems(2) by simp
    then have "object_key x < object_key (xs ! j)" using Cons.prems(1) by auto
    then show ?thesis using Cons.IH [of j] Cons.prems Suc by (simp add: names_before_def)
  qed
qed simp

locale bucket_listing =
  fixes call :: "('w, oci_object) paged" and bucket :: "oci_object list"
  assumes named: "\<forall>x \<in> set bucket. named_object x"
    and ordered: "sorted_wrt (<) (map object_key bucket)"
    and serves: "\<exists>k next. call start w = (Inr (take k (from_name start bucket), next), w) \<and>
      (if k < length (from_name start bucket) then 0 < k \<and> next = oo_name (from_name start bucket ! k)
       else next = None \<or> next = Some [])"
begin

lemma walked_page:
  "\<exists>items nxt. blank_ends call p w = (Inr (items, nxt), w) \<and> items = take (length items) (drop (names_before p bucket) bucket) \<and>
    (case nxt of None \<Rightarrow> length bucket \<le> names_before p bucket + length items
     | Some t \<Rightarrow> items \<noteq> [] \<and> names_before (Some t) bucket = names_before p bucket + length items)"
proof -
  let ?pos = "names_before p bucket"
  let ?rest = "drop ?pos bucket"
  obtain k nxt where c: "call p w = (Inr (take k ?rest, nxt), w)"
    and n: "if k < length ?rest then 0 < k \<and> nxt = oo_name (?rest ! k) else nxt = None \<or> nxt = Some []"
    using serves [of p w] unfolding from_name_drop [OF ordered] by blast
  show ?thesis
  proof (cases "k < length ?rest")
    case True
    then have i: "?pos + k < length bucket" "?rest ! k = bucket ! (?pos + k)" by auto
    then have "named_object (bucket ! (?pos + k))" using named by auto
    with n True i have t: "nxt = Some (object_key (bucket ! (?pos + k)))" "object_key (bucket ! (?pos + k)) \<noteq> []" "0 < k"
      by (auto simp: named_objectD named_object_def)
    then have "blank_ends call p w = (Inr (take k ?rest, nxt), w)" using c by (simp add: blank_ends_def seq_def ret_def)
    moreover have "length (take k ?rest) = k" "take k ?rest \<noteq> []" using True t(3) by auto
    ultimately show ?thesis using t(1) names_before_nth [OF ordered i(1)] by auto
  next
    case False
    then have "blank_ends call p w = (Inr (?rest, None), w)" using c n by (auto simp: blank_ends_def seq_def ret_def)
    then show ?thesis by auto
  qed
qed

end

sublocale bucket_listing \<subseteq> walked: paged_listing "blank_ends call" bucket "\<lambda>p. names_before p bucket" "\<lambda>p. True"
proof (unfold_locales, goal_cases)
  case 1
  show ?case by (simp add: names_before_def)
next
  case 2
  show ?case by simp
next
  case (3 p w)
  obtain items nxt where "blank_ends call p w = (Inr (items, nxt), w)" "items = take (length items) (drop (names_before p bucket) bucket)"
    "case nxt of None \<Rightarrow> length bucket \<le> names_before p bucket + length items
     | Some t \<Rightarrow> items \<noteq> [] \<and> names_before (Some t) bucket = names_before p bucket + length items"
    using walked_page by blast
  then show ?case by (intro exI [of _ items] exI [of _ nxt]) (auto split: option.splits)
qed

context bucket_listing begin

lemma whole_bucket: "list_all_pages (blank_ends call) w = Some (Inr bucket, w)"
  by (rule walked.walk)

end

text \<open>A service that keeps the bucket in memory, in pages of \<open>n\<close>; the marker after the last page is empty.\<close>

definition serve_bucket :: "nat \<Rightarrow> oci_object list \<Rightarrow> ('w, oci_object) paged" where
  "serve_bucket n xs start = (let rest = from_name start xs in
     ret (take n rest, if n < length rest then oo_name (rest ! n) else Some []))"

lemma serve_bucket_listing:
  assumes "\<forall>x \<in> set xs. named_object x" "sorted_wrt (<) (map object_key xs)"
  shows "bucket_listing (serve_bucket (Suc n) xs) xs"
  by unfold_locales (use assms in \<open>auto simp: serve_bucket_def Let_def ret_def intro!: exI [of _ "Suc n"]\<close>)

definition three_objects :: "oci_object list" where
  "three_objects = map (\<lambda>n. \<lparr>oo_name = Some n, oo_size = Some 5, oo_modified = Some 0\<rparr>) [''a'', ''b'', ''c'']"

interpretation served: bucket_listing "serve_bucket 2 three_objects" three_objects
proof -
  have "bucket_listing (serve_bucket (Suc 1) three_objects) three_objects"
    by (rule serve_bucket_listing) (auto simp: three_objects_def named_object_def object_key_def deref_def less_char_def)
  then show "bucket_listing (serve_bucket 2 three_objects) three_objects" by (simp add: numeral_2_eq_2)
qed

text \<open>
  C40. The whole backup bucket is read. Over any service that lists the bucket as Oracle documents it,
  in pages of whatever length, with a last marker that is missing or empty, the walk ends, and with
  every object of the bucket once, in order.
\<close>

theorem bucket_walk_complete:
  assumes "bucket_listing (sdk_objects S (ic_namespace cfg) (ic_bucket cfg) ''name,size,timeModified'' 1000) bucket"
  shows "oci_list_objects S cfg w = Some (Inr (map object_of_oci bucket), w)"
proof -
  have "list_all_pages (blank_ends (sdk_objects S (ic_namespace cfg) (ic_bucket cfg) ''name,size,timeModified'' 1000)) w = Some (Inr bucket, w)"
    by (rule bucket_listing.whole_bucket [OF assms])
  then show ?thesis by (simp only: oci_list_objects_def after_def option.case prod.case sum.case)
qed

definition bucket_sdk :: "nat \<Rightarrow> oci_object list \<Rightarrow> (unit, int) oci_sdk" where
  "bucket_sdk n xs = \<lparr>sdk_instances = (\<lambda>_ _. ret ([], None)), sdk_vnics = (\<lambda>_ _. ret ([], None)), sdk_vnic = (\<lambda>_. None),
     sdk_metrics = (\<lambda>_ _ _ _ _. ret []), sdk_alarms = (\<lambda>_ _. ret ([], None)), sdk_balancer = (\<lambda>_. ret []),
     sdk_objects = (\<lambda>_ _ _ _. serve_bucket n xs)\<rparr>"

theorem bucket_walk_complete_witness:
  "oci_list_objects (bucket_sdk 2 three_objects) default_config () = Some (Inr (map object_of_oci three_objects), ())"
proof (rule bucket_walk_complete)
  show "bucket_listing (sdk_objects (bucket_sdk 2 three_objects) (ic_namespace default_config) (ic_bucket default_config)
      ''name,size,timeModified'' 1000) three_objects"
    using served.bucket_listing_axioms by (simp add: bucket_sdk_def)
qed

text \<open>A page that cannot be read ends the walk with its error, whatever was read before.\<close>

lemma bucket_walk_fails:
  assumes "sdk_objects S (ic_namespace cfg) (ic_bucket cfg) ''name,size,timeModified'' 1000 None w = (Inl e, w')"
  shows "oci_list_objects S cfg w = Some (Inl (''list objects in '' @ ic_bucket cfg @ '': '' @ e), w')"
proof -
  have "blank_ends (sdk_objects S (ic_namespace cfg) (ic_bucket cfg) ''name,size,timeModified'' 1000) None w = (Inl e, w')"
    using assms by (simp add: blank_ends_def seq_def)
  then have "list_all_pages (blank_ends (sdk_objects S (ic_namespace cfg) (ic_bucket cfg) ''name,size,timeModified'' 1000)) w = Some (Inl e, w')"
    unfolding list_all_pages_def by (subst follow.simps) simp
  then show ?thesis by (simp only: oci_list_objects_def after_def option.case prod.case sum.case)
qed

section \<open>Addresses\<close>

text \<open>Every lookup writes its own entry, so the order in which they finish is of no consequence.\<close>

lemma resolve_at:
  "distinct order \<Longrightarrow> k < length is \<Longrightarrow> resolve_in_order vnics lookup order is ! k =
     (if k \<in> set order then with_private_ip vnics lookup (is ! k) else is ! k)"
proof (induction order arbitrary: "is")
  case (Cons j order)
  let ?is = "is[j := with_private_ip vnics lookup (is ! j)]"
  have "resolve_in_order vnics lookup (j # order) is ! k = resolve_in_order vnics lookup order ?is ! k"
    by (simp add: resolve_in_order_def)
  also have "\<dots> = (if k \<in> set order then with_private_ip vnics lookup (?is ! k) else ?is ! k)"
    using Cons by simp
  finally show ?case using Cons.prems by (cases "k = j") simp_all
qed (simp add: resolve_in_order_def)

lemma resolve_length: "length (resolve_in_order vnics lookup order is) = length is"
proof (induction order arbitrary: "is")
  case (Cons j order)
  from Cons [of "is[j := with_private_ip vnics lookup (is ! j)]"] show ?case by (simp add: resolve_in_order_def)
qed (simp add: resolve_in_order_def)

lemma resolve_order_independent:
  assumes "distinct order" "{..<length is} \<subseteq> set order"
  shows "resolve_in_order vnics lookup order is = map (with_private_ip vnics lookup) is"
  by (rule nth_equalityI) (use assms in \<open>auto simp: resolve_length resolve_at\<close>)

text \<open>A lookup that fails leaves an instance as it was listed.\<close>

lemma instance_without_address: "vnics (ii_id i) = None \<or> lookup (the (vnics (ii_id i))) = None \<Longrightarrow> with_private_ip vnics lookup i = i"
  by (auto simp: with_private_ip_def bind_eq_Some_conv split: option.split)

section \<open>Datapoints\<close>

definition dated :: "'f datapoint list \<Rightarrow> (instant \<times> 'f) list" where
  "dated ps = concat (map (\<lambda>p. case (dp_timestamp p, dp_value p) of (Some t, Some v) \<Rightarrow> [(t, v)] | _ \<Rightarrow> []) ps)"

lemma newest_datapoint_snoc: "newest_datapoint (ps @ [p]) = newer_datapoint (newest_datapoint ps) p"
  by (simp add: newest_datapoint_def)

text \<open>The first of the newest, among the datapoints that have both a time and a value.\<close>

lemma newest_datapoint_newest:
  "case newest_datapoint ps of None \<Rightarrow> dated ps = []
   | Some b \<Rightarrow> b \<in> set (dated ps) \<and> (\<forall>x \<in> set (dated ps). fst x \<le> fst b)"
proof (induction ps rule: rev_induct)
  case (snoc p ps)
  have d: "dated (ps @ [p]) = dated ps @ (case (dp_timestamp p, dp_value p) of (Some t, Some v) \<Rightarrow> [(t, v)] | _ \<Rightarrow> [])"
    by (simp add: dated_def)
  show ?case
  proof (cases "dp_timestamp p = None \<or> dp_value p = None")
    case True
    then have "newest_datapoint (ps @ [p]) = newest_datapoint ps" "dated (ps @ [p]) = dated ps"
      by (auto simp: newest_datapoint_snoc newer_datapoint_def d split: option.splits)
    with snoc show ?thesis by (simp only:)
  next
    case False
    then obtain t v where p: "dp_timestamp p = Some t" "dp_value p = Some v" by auto
    have "dated (ps @ [p]) = dated ps @ [(t, v)]" by (simp add: d p)
    with snoc p show ?thesis
      by (cases "newest_datapoint ps") (fastforce simp: newest_datapoint_snoc newer_datapoint_def)+
  qed
qed (simp add: newest_datapoint_def dated_def)

text \<open>The contract's dimensions carry the values of the vendor's.\<close>

lemma renamed_dimension:
  assumes "distinct (map snd rename)" "(from_key, to_key) \<in> set rename"
  shows "map_of (rename_dimensions dims rename) to_key = map_of dims from_key"
  using assms
proof (induction rename)
  case (Cons e rename)
  have absent: "to_key \<notin> snd ` set rename \<Longrightarrow> map_of (rename_dimensions dims rename) to_key = None"
    by (force simp: rename_dimensions_def map_of_eq_None_iff List.map_filter_def)
  have "rename_dimensions dims (e # rename) = (case map_of dims (fst e) of None \<Rightarrow> [] | Some v \<Rightarrow> [(snd e, v)]) @ rename_dimensions dims rename"
    by (cases e) (simp add: rename_dimensions_def List.map_filter_def split: option.split)
  with Cons absent show ?case by (cases e) (force split: option.splits)
qed simp

section \<open>What is contacted\<close>

text \<open>With nothing configured, no credential is resolved and no client made; and a read is wired exactly when its identifiers are given.\<close>

lemma unconfigured_contacts_nobody: "\<not> oci_configured cfg \<Longrightarrow> new_sources cfg login client w = (Inr no_wiring, w)"
  by (simp add: new_sources_def)

lemma wired_as_configured:
  assumes "new_sources cfg login client w = (Inr s, w')"
  shows "ow_instances s = (ic_compartment_id cfg \<noteq> []) \<and> ow_metrics s = ow_instances s \<and> ow_alarms s = ow_instances s \<and>
    ow_ingress s = (ic_nlb_id cfg \<noteq> []) \<and> ow_backups s = (ic_namespace cfg \<noteq> [] \<and> ic_bucket cfg \<noteq> [])"
  using assms by (auto simp: new_sources_def new_sources_with_provider_def no_wiring_def oci_configured_def split: if_splits elim!: seq_Inr_E)

end
