(* ===== verification/Migration.thy ===== *)
theory Migration
  imports Prelude GoStrings
begin

text \<open>
  The opening of the build store, internal/build/coordinator/store.go: how \<open>migrate\<close> brings the
  database of any earlier version to the present shape. Here the database is a general one: tables
  with declared columns, rows and indexes, and the statements the code sends. A statement may fail
  in the driver without effect, as in the model of the queue: \<open>db_faults\<close>.
\<close>

section \<open>Databases\<close>

datatype sql_value = V_null | V_text string | V_int int

record column_decl =
  co_type :: string
  co_primary :: bool
  co_not_null :: bool
  co_default :: "sql_value option"

text \<open>\<open>tb_unique\<close> lists the unique indexes of a table, those of its constraints included, by their columns.\<close>

record table =
  tb_cols :: "(string \<times> column_decl) list"
  tb_unique :: "string list list"
  tb_rows :: "(string \<Rightarrow> sql_value) list"

record database =
  da_tables :: "string \<Rightarrow> table option"
  da_indexes :: "(string \<times> string \<times> string list) list"

datatype sql_stmt =
    Create_table_if_missing string "(string \<times> column_decl) list" "string list list"
  | Create_table string "(string \<times> column_decl) list" "string list list"
  | Copy_rows string string "string list"
  | Drop_table string
  | Rename_table string string
  | Create_index_if_missing string string "string list"
  | Add_column string string column_decl

definition new_table :: "(string \<times> column_decl) list \<Rightarrow> string list list \<Rightarrow> table" where
  "new_table cs us = \<lparr>tb_cols = cs, tb_unique = us, tb_rows = []\<rparr>"

definition default_value :: "column_decl \<Rightarrow> sql_value" where
  "default_value d = (case co_default d of Some v \<Rightarrow> v | None \<Rightarrow> V_null)"

text \<open>The row inserted from the columns \<open>cs\<close> of another: the columns not named take their default.\<close>

definition insert_from :: "(string \<times> column_decl) list \<Rightarrow> string list \<Rightarrow> (string \<Rightarrow> sql_value) \<Rightarrow> string \<Rightarrow> sql_value" where
  "insert_from ds cs r c = (if c \<in> set cs then r c else case map_of ds c of Some d \<Rightarrow> default_value d | None \<Rightarrow> V_null)"

definition row_allowed :: "(string \<times> column_decl) list \<Rightarrow> (string \<Rightarrow> sql_value) \<Rightarrow> bool" where
  "row_allowed ds r \<longleftrightarrow> list_all (\<lambda>(c, d). co_not_null d \<longrightarrow> r c \<noteq> V_null) ds"

text \<open>No two rows agree on the columns of a unique index; a NULL agrees with nothing.\<close>

definition unique_on :: "string list \<Rightarrow> (string \<Rightarrow> sql_value) list \<Rightarrow> bool" where
  "unique_on us rs \<longleftrightarrow> distinct (filter (\<lambda>k. V_null \<notin> set k) (map (\<lambda>r. map r us) rs))"

definition no_table :: "string \<Rightarrow> 'a result" where
  "no_table t = Inl (''no such table: '' @ t)"

fun apply_stmt :: "sql_stmt \<Rightarrow> database \<Rightarrow> database result" where
  "apply_stmt (Create_table_if_missing t cs us) d =
     Inr (if da_tables d t = None then d\<lparr>da_tables := (da_tables d)(t \<mapsto> new_table cs us)\<rparr> else d)"
| "apply_stmt (Create_table t cs us) d =
     (if da_tables d t = None then Inr (d\<lparr>da_tables := (da_tables d)(t \<mapsto> new_table cs us)\<rparr>)
      else Inl (''table '' @ t @ '' already exists''))"
| "apply_stmt (Copy_rows dst src cs) d = (case (da_tables d dst, da_tables d src) of
     (Some a, Some b) \<Rightarrow>
       (if \<not> set cs \<subseteq> fst ` set (tb_cols a) \<or> \<not> set cs \<subseteq> fst ` set (tb_cols b) then Inl ''no such column''
        else (let rs = tb_rows a @ map (insert_from (tb_cols a) cs) (tb_rows b) in
          if \<not> list_all (row_allowed (tb_cols a)) rs then Inl ''NOT NULL constraint failed''
          else if \<not> list_all (\<lambda>us. unique_on us rs) (tb_unique a) then Inl ''UNIQUE constraint failed''
          else Inr (d\<lparr>da_tables := (da_tables d)(dst \<mapsto> a\<lparr>tb_rows := rs\<rparr>)\<rparr>)))
   | _ \<Rightarrow> no_table dst)"
| "apply_stmt (Drop_table t) d =
     (if da_tables d t = None then no_table t
      else Inr \<lparr>da_tables = (da_tables d)(t := None), da_indexes = filter (\<lambda>(n, u, cs). u \<noteq> t) (da_indexes d)\<rparr>)"
| "apply_stmt (Rename_table t u) d = (case da_tables d t of
     None \<Rightarrow> no_table t
   | Some a \<Rightarrow> if da_tables d u \<noteq> None then Inl (''table '' @ u @ '' already exists'')
       else Inr \<lparr>da_tables = (da_tables d)(t := None, u \<mapsto> a),
         da_indexes = map (\<lambda>(n, v, cs). (n, if v = t then u else v, cs)) (da_indexes d)\<rparr>)"
| "apply_stmt (Create_index_if_missing n t cs) d = (case da_tables d t of
     None \<Rightarrow> no_table t
   | Some a \<Rightarrow> if n \<in> fst ` set (da_indexes d) then Inr d
       else if \<not> set cs \<subseteq> fst ` set (tb_cols a) then Inl ''no such column''
       else Inr (d\<lparr>da_indexes := da_indexes d @ [(n, t, cs)]\<rparr>))"
| "apply_stmt (Add_column t c decl) d = (case da_tables d t of
     None \<Rightarrow> no_table t
   | Some a \<Rightarrow> if c \<in> fst ` set (tb_cols a) then Inl (''duplicate column name: '' @ c)
       else if co_not_null decl \<and> default_value decl = V_null then Inl ''Cannot add a NOT NULL column with default value NULL''
       else Inr (d\<lparr>da_tables := (da_tables d)(t \<mapsto> a\<lparr>tb_cols := tb_cols a @ [(c, decl)],
              tb_rows := map (\<lambda>r. r(c := default_value decl)) (tb_rows a)\<rparr>)\<rparr>))"

record db_conn =
  db_data :: database
  db_faults :: "string option list"

definition db_call :: "(database \<Rightarrow> 'a result \<times> database) \<Rightarrow> (db_conn, 'a) act" where
  "db_call f s = (case db_faults s of
     Some e # fs \<Rightarrow> (Inl e, s\<lparr>db_faults := fs\<rparr>)
   | fs \<Rightarrow> (case f (db_data s) of (r, d) \<Rightarrow> (r, s\<lparr>db_data := d, db_faults := tl fs\<rparr>)))"

definition db_apply :: "sql_stmt \<Rightarrow> (db_conn, unit) act" where
  "db_apply st = db_call (\<lambda>d. case apply_stmt st d of Inl e \<Rightarrow> (Inl e, d) | Inr d' \<Rightarrow> (Inr (), d'))"

definition db_ask :: "(database \<Rightarrow> 'a) \<Rightarrow> (db_conn, 'a) act" where
  "db_ask q = db_call (\<lambda>d. (Inr (q d), d))"

text \<open>BeginTx, the statements, Commit; any error, the commit's included, rolls back.\<close>

definition db_begin :: "(db_conn, unit) act" where
  "db_begin = db_ask (\<lambda>d. ())"

definition transaction :: "(db_conn, unit) act \<Rightarrow> (db_conn, unit) act" where
  "transaction body = seq db_begin (\<lambda>e. e) (\<lambda>_ s.
     case seq body (\<lambda>e. e) (\<lambda>_. db_ask (\<lambda>d. ())) s of
       (Inl e, s') \<Rightarrow> (Inl e, s'\<lparr>db_data := db_data s\<rparr>)
     | (Inr _, s') \<Rightarrow> (Inr (), s'))"

section \<open>The schema\<close>

definition text_column :: column_decl where
  "text_column = \<lparr>co_type = ''TEXT'', co_primary = False, co_not_null = False, co_default = None\<rparr>"

definition required :: "column_decl \<Rightarrow> column_decl" where
  "required d = d\<lparr>co_not_null := True\<rparr>"

definition with_default :: "column_decl \<Rightarrow> sql_value \<Rightarrow> column_decl" where
  "with_default d v = d\<lparr>co_default := Some v\<rparr>"

definition int_column :: column_decl where
  "int_column = \<lparr>co_type = ''INTEGER'', co_primary = False, co_not_null = False, co_default = None\<rparr>"

definition key_column :: "column_decl \<Rightarrow> column_decl" where
  "key_column d = d\<lparr>co_primary := True\<rparr>"

text \<open>A required text that is empty by default.\<close>

definition blank_text :: column_decl where
  "blank_text = with_default (required text_column) (V_text [])"

definition build_job_columns_ddl :: "(string \<times> column_decl) list" where
  "build_job_columns_ddl = [
     (''id'', key_column text_column),
     (''app_name'', required text_column),
     (''repo_url'', required text_column),
     (''ref'', required text_column),
     (''commit_sha'', blank_text),
     (''framework'', blank_text),
     (''image'', blank_text),
     (''tag'', blank_text),
     (''status'', required text_column),
     (''attempts'', with_default (required int_column) (V_int 0)),
     (''replicas'', with_default (required int_column) (V_int 1)),
     (''port'', with_default (required int_column) (V_int 8080)),
     (''env_json'', with_default (required text_column) (V_text ''{}'')),
     (''gitops_commit_sha'', blank_text),
     (''gitops_path'', blank_text),
     (''deploy_status'', blank_text),
     (''argo_sync_status'', blank_text),
     (''argo_health'', blank_text),
     (''app_url'', blank_text),
     (''verification_error'', blank_text),
     (''error'', blank_text),
     (''created_at'', required text_column),
     (''updated_at'', required text_column),
     (''started_at'', text_column),
     (''finished_at'', text_column)]"

text \<open>The CREATE TABLE of a new database is a text of its own; it gives replicas and port no default.\<close>

definition build_jobs_ddl :: "(string \<times> column_decl) list" where
  "build_jobs_ddl = map (\<lambda>(c, d). (c, if c = ''replicas'' \<or> c = ''port'' then required int_column else d)) build_job_columns_ddl"

definition build_logs_ddl :: "(string \<times> column_decl) list" where
  "build_logs_ddl = [(''id'', key_column int_column), (''job_id'', required text_column), (''sequence'', required int_column),
     (''timestamp'', required text_column), (''stream'', required text_column), (''message'', required text_column)]"

definition jobs_table :: string where
  "jobs_table = ''build_jobs''"

definition initial_stmts :: "sql_stmt list" where
  "initial_stmts = [
     Create_table_if_missing jobs_table build_jobs_ddl [[''id'']],
     Create_table_if_missing ''build_logs'' build_logs_ddl [[''id'']],
     Create_index_if_missing ''idx_build_jobs_status_created'' jobs_table [''status'', ''created_at''],
     Create_index_if_missing ''idx_build_logs_job_sequence'' ''build_logs'' [''job_id'', ''sequence'']]"

fun db_run :: "(sql_stmt \<Rightarrow> string \<Rightarrow> string) \<Rightarrow> sql_stmt list \<Rightarrow> (db_conn, unit) act" where
  "db_run wrap [] = ret ()"
| "db_run wrap (st # sts) = seq (db_apply st) (wrap st) (\<lambda>_. db_run wrap sts)"

section \<open>Reading the shape of a table\<close>

definition columns_of :: "string \<Rightarrow> database \<Rightarrow> string list" where
  "columns_of t d = (case da_tables d t of None \<Rightarrow> [] | Some a \<Rightarrow> map fst (tb_cols a))"

definition build_job_columns :: "(db_conn, string list) act" where
  "build_job_columns = db_ask (columns_of jobs_table)"

definition unique_indexes :: "string \<Rightarrow> database \<Rightarrow> string list list" where
  "unique_indexes t d = (case da_tables d t of None \<Rightarrow> [] | Some a \<Rightarrow> tb_unique a)"

text \<open>The columns of each unique index are asked for in turn, until one is the app name alone.\<close>

fun index_on_app_name :: "string list list \<Rightarrow> (db_conn, bool) act" where
  "index_on_app_name [] = ret False"
| "index_on_app_name (cs # rest) = seq (db_ask (\<lambda>d. cs)) (\<lambda>e. e) (\<lambda>cs. if cs = [''app_name''] then ret True else index_on_app_name rest)"

definition has_unique_app_name :: "(db_conn, bool) act" where
  "has_unique_app_name = seq (db_ask (unique_indexes jobs_table)) (\<lambda>e. e) index_on_app_name"

section \<open>Migrating\<close>

definition additions :: "(string \<times> column_decl) list" where
  "additions = [(''gitops_commit_sha'', blank_text), (''gitops_path'', blank_text), (''deploy_status'', blank_text),
     (''argo_sync_status'', blank_text), (''argo_health'', blank_text), (''app_url'', blank_text), (''verification_error'', blank_text)]"

text \<open>The additions are a Go map, visited in some order.\<close>

fun add_missing :: "string list \<Rightarrow> (string \<times> column_decl) list \<Rightarrow> (db_conn, unit) act" where
  "add_missing present [] = ret ()"
| "add_missing present ((c, decl) # rest) = (if c \<in> set present then add_missing present rest
     else seq (db_apply (Add_column jobs_table c decl)) (\<lambda>e. ''failed to add build_jobs.'' @ c @ '': '' @ e)
       (\<lambda>_. add_missing present rest))"

definition ensure_build_job_columns :: "(string \<times> column_decl) list \<Rightarrow> (db_conn, unit) act" where
  "ensure_build_job_columns order = seq build_job_columns (\<lambda>e. e) (\<lambda>present. add_missing present order)"

definition rebuilt_table :: string where
  "rebuilt_table = ''build_jobs_rebuilt''"

definition rebuild_stmts :: "string list \<Rightarrow> sql_stmt list" where
  "rebuild_stmts carried = [
     Create_table rebuilt_table build_job_columns_ddl [[''id'']],
     Copy_rows rebuilt_table jobs_table carried,
     Drop_table jobs_table,
     Rename_table rebuilt_table jobs_table,
     Create_index_if_missing ''idx_build_jobs_status_created'' jobs_table [''status'', ''created_at''],
     Create_index_if_missing ''idx_build_jobs_app_created'' jobs_table [''app_name'', ''created_at'']]"

definition carried_columns :: "string list \<Rightarrow> string list" where
  "carried_columns existing = filter (\<lambda>c. c \<in> set existing) (map fst build_job_columns_ddl)"

text \<open>The error of a statement of the rebuild is wrapped with the text of the statement.\<close>

fun value_text :: "sql_value \<Rightarrow> string" where
  "value_text V_null = ''NULL''"
| "value_text (V_text s) = [CHR 0x27] @ s @ [CHR 0x27]"
| "value_text (V_int n) = fmt_int n"

definition decl_text :: "column_decl \<Rightarrow> string" where
  "decl_text d = co_type d @ (if co_primary d then '' PRIMARY KEY'' else []) @ (if co_not_null d then '' NOT NULL'' else []) @
     (case co_default d of None \<Rightarrow> [] | Some v \<Rightarrow> '' DEFAULT '' @ value_text v)"

fun stmt_text :: "sql_stmt \<Rightarrow> string" where
  "stmt_text (Create_table_if_missing t ds us) = ''CREATE TABLE IF NOT EXISTS '' @ t @ '' ('' @ join_with '', '' (map (\<lambda>(c, d). c @ '' '' @ decl_text d) ds) @ '')''"
| "stmt_text (Create_table t ds us) = ''CREATE TABLE '' @ t @ '' ('' @ join_with '', '' (map (\<lambda>(c, d). c @ '' '' @ decl_text d) ds) @ '')''"
| "stmt_text (Copy_rows t u cs) = ''INSERT INTO '' @ t @ '' ('' @ join_with '', '' cs @ '') SELECT '' @ join_with '', '' cs @ '' FROM '' @ u"
| "stmt_text (Drop_table t) = ''DROP TABLE '' @ t"
| "stmt_text (Rename_table t u) = ''ALTER TABLE '' @ t @ '' RENAME TO '' @ u"
| "stmt_text (Create_index_if_missing n t cs) = ''CREATE INDEX IF NOT EXISTS '' @ n @ '' ON '' @ t @ ''('' @ join_with '', '' cs @ '')''"
| "stmt_text (Add_column t c d) = ''ALTER TABLE '' @ t @ '' ADD COLUMN '' @ c @ '' '' @ decl_text d"

definition drop_app_name_unique :: "(db_conn, unit) act" where
  "drop_app_name_unique = seq has_unique_app_name (\<lambda>e. e) (\<lambda>u.
     if \<not> u then ret ()
     else seq build_job_columns (\<lambda>e. e) (\<lambda>existing.
       transaction (db_run (\<lambda>st e. ''drop app_name unique: '' @ stmt_text st @ '': '' @ e) (rebuild_stmts (carried_columns existing)))))"

definition migrate :: "(string \<times> column_decl) list \<Rightarrow> (db_conn, unit) act" where
  "migrate order = seq (db_run (\<lambda>st e. e) initial_stmts) (\<lambda>e. e) (\<lambda>_.
     seq (ensure_build_job_columns order) (\<lambda>e. e) (\<lambda>_. drop_app_name_unique))"

text \<open>\<open>opened\<close> is what \<open>sql.Open\<close> returns; a database that cannot be migrated is closed again.\<close>

definition open_store :: "(string \<times> column_decl) list \<Rightarrow> db_conn result \<Rightarrow> db_conn result" where
  "open_store order opened = (case opened of
     Inl e \<Rightarrow> Inl e
   | Inr s \<Rightarrow> (case migrate order s of (Inl e, s') \<Rightarrow> Inl e | (Inr _, s') \<Rightarrow> Inr s'))"

section \<open>What the statements do\<close>

fun apply_all :: "sql_stmt list \<Rightarrow> database \<Rightarrow> database result" where
  "apply_all [] d = Inr d"
| "apply_all (st # sts) d = (case apply_stmt st d of Inl e \<Rightarrow> Inl e | Inr d' \<Rightarrow> apply_all sts d')"

lemma db_call_cases:
  obtains e where "db_call f s = (Inl e, s\<lparr>db_faults := tl (db_faults s)\<rparr>)"
  | "db_call f s = (fst (f (db_data s)), s\<lparr>db_data := snd (f (db_data s)), db_faults := tl (db_faults s)\<rparr>)"
  by (cases "db_faults s"; cases "hd (db_faults s)") (auto simp: db_call_def split_beta intro: that)

lemma db_ask_cases:
  obtains e where "db_ask q s = (Inl e, s\<lparr>db_faults := tl (db_faults s)\<rparr>)"
  | "db_ask q s = (Inr (q (db_data s)), s\<lparr>db_faults := tl (db_faults s)\<rparr>)"
  unfolding db_ask_def by (rule db_call_cases [of "\<lambda>d. (Inr (q d), d)" s]) auto

lemma db_ask_Inr: "db_ask q s = (Inr x, s') \<Longrightarrow> x = q (db_data s) \<and> db_data s' = db_data s"
  by (rule db_ask_cases [of q s]) auto

lemma db_ask_Inl: "db_ask q s = (Inl e, s') \<Longrightarrow> db_data s' = db_data s"
  by (rule db_ask_cases [of q s]) auto

lemma db_apply_Inr: "db_apply st s = (Inr x, s') \<Longrightarrow> apply_stmt st (db_data s) = Inr (db_data s')"
  unfolding db_apply_def by (auto simp: db_call_def split: list.splits option.splits prod.splits sum.splits)

lemma db_apply_Inl: "db_apply st s = (Inl e, s') \<Longrightarrow> db_data s' = db_data s"
  unfolding db_apply_def by (auto simp: db_call_def split: list.splits option.splits prod.splits sum.splits)

lemma db_run_Inr: "db_run wrap sts s = (Inr x, s') \<Longrightarrow> apply_all sts (db_data s) = Inr (db_data s')"
  by (induction sts arbitrary: s) (auto elim!: seq_Inr_E dest!: db_apply_Inr)

text \<open>A property of the data that every successful statement keeps is kept by a run of them.\<close>

lemma db_run_keeps:
  assumes "\<And>st d d'. st \<in> set sts \<Longrightarrow> P d \<Longrightarrow> apply_stmt st d = Inr d' \<Longrightarrow> P d'"
  shows "P (db_data s) \<Longrightarrow> P (db_data (snd (db_run wrap sts s)))"
  using assms
proof (induction sts arbitrary: s)
  case (Cons st sts)
  show ?case
  proof (cases "db_apply st s")
    case (Pair r s1)
    show ?thesis
    proof (cases r)
      case (Inl e)
      then show ?thesis using Pair Cons.prems(1) by (simp add: seq_def db_apply_Inl [of st s e s1])
    next
      case (Inr x)
      then have "P (db_data s1)" using Pair Cons.prems by (auto dest: db_apply_Inr)
      then have "P (db_data (snd (db_run wrap sts s1)))" using Cons.prems(2) by (intro Cons.IH) auto
      then show ?thesis using Pair Inr by (simp add: seq_def)
    qed
  qed
qed simp

lemma index_on_app_name_Inr:
  "index_on_app_name uss s = (Inr b, s') \<Longrightarrow> (b \<longleftrightarrow> [''app_name''] \<in> set uss) \<and> db_data s' = db_data s"
proof (induction uss arbitrary: s)
  case (Cons cs uss)
  from Cons.prems obtain x s1 where a: "db_ask (\<lambda>d. cs) s = (Inr x, s1)"
      "(if x = [''app_name''] then ret True else index_on_app_name uss) s1 = (Inr b, s')"
    by (auto elim: seq_Inr_E)
  from db_ask_Inr [OF a(1)] a(2) Cons.IH [of s1] show ?case by (auto split: if_splits)
qed simp

lemma index_on_app_name_Inl: "index_on_app_name uss s = (Inl e, s') \<Longrightarrow> db_data s' = db_data s"
proof (induction uss arbitrary: s)
  case (Cons cs uss)
  show ?case
  proof (cases "db_ask (\<lambda>d. cs) s")
    case (Pair r s1)
    then show ?thesis using Cons.prems Cons.IH [of s1]
      by (cases r) (auto simp: seq_def split: if_splits dest: db_ask_Inr db_ask_Inl)
  qed
qed simp

lemma has_unique_app_name_Inr:
  "has_unique_app_name s = (Inr b, s') \<Longrightarrow> (b \<longleftrightarrow> [''app_name''] \<in> set (unique_indexes jobs_table (db_data s))) \<and> db_data s' = db_data s"
  unfolding has_unique_app_name_def by (elim seq_Inr_E) (auto dest!: db_ask_Inr index_on_app_name_Inr)

lemma has_unique_app_name_Inl: "has_unique_app_name s = (Inl e, s') \<Longrightarrow> db_data s' = db_data s"
  unfolding has_unique_app_name_def
  by (rule seq_cases [of "db_ask (unique_indexes jobs_table)" s "\<lambda>e. e" index_on_app_name])
    (auto dest!: db_ask_Inl db_ask_Inr index_on_app_name_Inl)

lemma transaction_Inr: "transaction body s = (Inr x, s') \<Longrightarrow> \<exists>s0 s1. db_data s0 = db_data s \<and> body s0 = (Inr (), s1) \<and> db_data s' = db_data s1"
  unfolding transaction_def db_begin_def
  by (elim seq_Inr_E) (auto split: prod.splits sum.splits elim!: seq_Inr_E dest!: db_ask_Inr)

lemma transaction_Inl: "transaction body s = (Inl e, s') \<Longrightarrow> db_data s' = db_data s"
  unfolding transaction_def db_begin_def
  by (rule seq_cases [of "db_ask (\<lambda>d. ())" s "\<lambda>e. e" "\<lambda>_ s. case seq body (\<lambda>e. e) (\<lambda>_. db_ask (\<lambda>d. ())) s of
       (Inl e, s') \<Rightarrow> (Inl e, s'\<lparr>db_data := db_data s\<rparr>) | (Inr _, s') \<Rightarrow> (Inr (), s')"])
    (auto split: prod.splits sum.splits dest!: db_ask_Inl db_ask_Inr)

end
