(* ===== verification/MigrationFacts.thy ===== *)
theory MigrationFacts
  imports Migration
begin

text \<open>
  What opening the store guarantees of a database of any earlier version, whatever statement fails:
  no build is lost, a migrated table allows an app to be built again, and migrating settles.
\<close>

section \<open>The rebuild\<close>

lemma table_names [simp]: "rebuilt_table \<noteq> jobs_table" "jobs_table \<noteq> rebuilt_table" "jobs_table \<noteq> ''build_logs''" "''build_logs'' \<noteq> jobs_table" "''build_logs'' \<noteq> rebuilt_table" "rebuilt_table \<noteq> ''build_logs''"
  by (simp_all add: rebuilt_table_def jobs_table_def)

lemma no_table_fails [simp]: "no_table t \<noteq> Inr x"
  by (simp add: no_table_def)

text \<open>The rebuilt table, and what else the rebuild leaves.\<close>

definition rebuilt :: "string list \<Rightarrow> table \<Rightarrow> table" where
  "rebuilt carried t = \<lparr>tb_cols = build_job_columns_ddl, tb_unique = [[''id'']],
     tb_rows = map (insert_from build_job_columns_ddl carried) (tb_rows t)\<rparr>"

lemma create_copy:
  assumes "da_tables d jobs_table = Some t" "da_tables d rebuilt_table = None"
    and "apply_stmt (Copy_rows rebuilt_table jobs_table carried)
      (d\<lparr>da_tables := (da_tables d)(rebuilt_table \<mapsto> new_table build_job_columns_ddl [[''id'']])\<rparr>) = Inr d'"
  shows "d' = d\<lparr>da_tables := (da_tables d)(rebuilt_table \<mapsto> rebuilt carried t)\<rparr>"
  using assms by (auto simp: new_table_def rebuilt_def Let_def split: if_splits)

lemma create_index_tables: "apply_stmt (Create_index_if_missing n t cs) d = Inr d' \<Longrightarrow>
    da_tables d' = da_tables d \<and> n \<in> fst ` set (da_indexes d') \<and> fst ` set (da_indexes d) \<subseteq> fst ` set (da_indexes d')"
  by (auto split: option.splits if_splits)

lemma rebuild_result:
  assumes "apply_all (rebuild_stmts carried) d = Inr d'" "da_tables d jobs_table = Some t"
  shows "da_tables d' = (da_tables d)(rebuilt_table := None, jobs_table \<mapsto> rebuilt carried t) \<and>
    ''idx_build_jobs_status_created'' \<in> fst ` set (da_indexes d') \<and>
    {n. \<exists>u cs. (n, u, cs) \<in> set (da_indexes d) \<and> u \<noteq> jobs_table} \<subseteq> fst ` set (da_indexes d')"
proof -
  have none: "da_tables d rebuilt_table = None"
    using assms(1) by (auto simp: rebuild_stmts_def split: if_splits)
  let ?d1 = "d\<lparr>da_tables := (da_tables d)(rebuilt_table \<mapsto> new_table build_job_columns_ddl [[''id'']])\<rparr>"
  let ?d2 = "d\<lparr>da_tables := (da_tables d)(rebuilt_table \<mapsto> rebuilt carried t)\<rparr>"
  obtain d2 where c: "apply_stmt (Copy_rows rebuilt_table jobs_table carried) ?d1 = Inr d2"
    and r: "apply_all [Drop_table jobs_table, Rename_table rebuilt_table jobs_table,
      Create_index_if_missing ''idx_build_jobs_status_created'' jobs_table [''status'', ''created_at''],
      Create_index_if_missing ''idx_build_jobs_app_created'' jobs_table [''app_name'', ''created_at'']] d2 = Inr d'"
    using assms(1) none unfolding rebuild_stmts_def
    by (cases "apply_stmt (Copy_rows rebuilt_table jobs_table carried) ?d1") (simp_all del: apply_stmt.simps(3))
  have d2: "d2 = ?d2" by (rule create_copy [OF assms(2) none c])
  let ?d4 = "\<lparr>da_tables = (da_tables d)(rebuilt_table := None, jobs_table \<mapsto> rebuilt carried t),
    da_indexes = map (\<lambda>(n, v, cs). (n, if v = rebuilt_table then jobs_table else v, cs)) (filter (\<lambda>(n, u, cs). u \<noteq> jobs_table) (da_indexes d))\<rparr>"
  have eq: "((da_tables d)(rebuilt_table \<mapsto> rebuilt carried t, jobs_table := None, rebuilt_table := None, jobs_table \<mapsto> rebuilt carried t)) =
      (da_tables d)(rebuilt_table := None, jobs_table \<mapsto> rebuilt carried t)" by (simp add: fun_upd_twist)
  have "apply_stmt (Drop_table jobs_table) ?d2 = Inr \<lparr>da_tables = (da_tables d)(rebuilt_table \<mapsto> rebuilt carried t, jobs_table := None),
      da_indexes = filter (\<lambda>(n, u, cs). u \<noteq> jobs_table) (da_indexes d)\<rparr>" using assms(2) by simp
  moreover have "apply_stmt (Rename_table rebuilt_table jobs_table) \<lparr>da_tables = (da_tables d)(rebuilt_table \<mapsto> rebuilt carried t, jobs_table := None),
      da_indexes = filter (\<lambda>(n, u, cs). u \<noteq> jobs_table) (da_indexes d)\<rparr> = Inr ?d4" using eq by simp
  ultimately obtain d5 where i: "apply_stmt (Create_index_if_missing ''idx_build_jobs_status_created'' jobs_table [''status'', ''created_at'']) ?d4 = Inr d5"
      "apply_stmt (Create_index_if_missing ''idx_build_jobs_app_created'' jobs_table [''app_name'', ''created_at'']) d5 = Inr d'"
    using r unfolding d2 by (auto simp del: apply_stmt.simps split: sum.splits)
  note k = create_index_tables [OF i(1)] create_index_tables [OF i(2)]
  have "{n. \<exists>u cs. (n, u, cs) \<in> set (da_indexes d) \<and> u \<noteq> jobs_table} \<subseteq> fst ` set (da_indexes ?d4)" by force
  then have "{n. \<exists>u cs. (n, u, cs) \<in> set (da_indexes d) \<and> u \<noteq> jobs_table} \<subseteq> fst ` set (da_indexes d')"
    using k by (meson subset_trans)
  with k show ?thesis by (simp add: subset_iff)
qed

section \<open>Builds are kept\<close>

definition carries :: "string list \<Rightarrow> (string \<Rightarrow> sql_value) list \<Rightarrow> (string \<Rightarrow> sql_value) list \<Rightarrow> bool" where
  "carries cs = list_all2 (\<lambda>r r'. \<forall>c \<in> set cs. r' c = r c)"

text \<open>The columns of a table that today's schema knows.\<close>

definition known_columns :: "table \<Rightarrow> string list" where
  "known_columns t = carried_columns (map fst (tb_cols t))"

text \<open>The rows \<open>rs\<close> are there in their order, with their columns \<open>cs\<close>; so is a table of logs, if there was one.\<close>

definition holds_builds :: "string list \<Rightarrow> (string \<Rightarrow> sql_value) list \<Rightarrow> table option \<Rightarrow> database \<Rightarrow> bool" where
  "holds_builds cs rs l d \<longleftrightarrow> (\<exists>t. da_tables d jobs_table = Some t \<and> set cs \<subseteq> fst ` set (tb_cols t) \<and> carries cs rs (tb_rows t)) \<and>
     (l \<noteq> None \<longrightarrow> da_tables d ''build_logs'' = l)"

lemma carries_refl: "carries cs rs rs"
  by (simp add: carries_def list_all2_same)

lemma carries_map: "carries cs rs rs' \<Longrightarrow> (\<And>r c. c \<in> set cs \<Longrightarrow> f r c = r c) \<Longrightarrow> carries cs rs (map f rs')"
  by (auto simp: carries_def list_all2_conv_all_nth)

lemma initial_keeps:
  assumes "st \<in> set initial_stmts" "holds_builds cs rs l d" "apply_stmt st d = Inr d'"
  shows "holds_builds cs rs l d'"
proof -
  have "holds_builds cs rs l d'" if "da_tables d' jobs_table = da_tables d jobs_table" "l \<noteq> None \<longrightarrow> da_tables d' ''build_logs'' = l"
    using that assms(2) by (simp add: holds_builds_def)
  moreover have "da_tables d jobs_table \<noteq> None" "l \<noteq> None \<longrightarrow> da_tables d ''build_logs'' = l" using assms(2) by (auto simp: holds_builds_def)
  ultimately show ?thesis using assms(1,3) by (auto simp: initial_stmts_def split: if_splits option.splits)
qed

lemma add_column_keeps:
  assumes "holds_builds cs rs l d" "apply_stmt (Add_column jobs_table c decl) d = Inr d'"
  shows "holds_builds cs rs l d'"
proof -
  obtain t where t: "da_tables d jobs_table = Some t" "set cs \<subseteq> fst ` set (tb_cols t)" "carries cs rs (tb_rows t)"
    using assms(1) by (auto simp: holds_builds_def)
  then have new: "c \<notin> fst ` set (tb_cols t)" and d': "da_tables d' = (da_tables d)(jobs_table \<mapsto>
      t\<lparr>tb_cols := tb_cols t @ [(c, decl)], tb_rows := map (\<lambda>r. r(c := default_value decl)) (tb_rows t)\<rparr>)"
    using assms(2) by (auto split: if_splits)
  have "carries cs rs (map (\<lambda>r. r(c := default_value decl)) (tb_rows t))"
    by (rule carries_map [OF t(3)]) (use t(2) new in auto)
  with d' t(2) assms(1) show ?thesis by (auto simp: holds_builds_def)
qed

lemma add_missing_keeps: "holds_builds cs rs l (db_data s) \<Longrightarrow> holds_builds cs rs l (db_data (snd (add_missing present order s)))"
proof (induction present order arbitrary: s rule: add_missing.induct)
  case (2 present c decl rest)
  show ?case
  proof (cases "c \<in> set present")
    case False
    show ?thesis
    proof (cases "db_apply (Add_column jobs_table c decl) s")
      case (Pair r s1)
      with False 2 show ?thesis
        by (cases r) (auto simp: seq_def db_apply_Inl dest!: db_apply_Inr simp del: apply_stmt.simps intro: add_column_keeps)
    qed
  qed (use 2 in simp)
qed simp

lemma ensure_keeps:
  assumes "holds_builds cs rs l (db_data s)"
  shows "holds_builds cs rs l (db_data (snd (ensure_build_job_columns order s)))"
proof (cases "build_job_columns s")
  case (Pair r s1)
  then have "db_data s1 = db_data s" unfolding build_job_columns_def by (cases r) (auto dest: db_ask_Inl db_ask_Inr)
  then show ?thesis using Pair assms add_missing_keeps [of cs rs l s1]
    by (cases r) (simp_all add: ensure_build_job_columns_def seq_def)
qed

lemma rebuild_keeps:
  assumes "holds_builds cs rs l d" "set cs \<subseteq> set (carried_columns (columns_of jobs_table d))"
    and "apply_all (rebuild_stmts (carried_columns (columns_of jobs_table d))) d = Inr d'"
  shows "holds_builds cs rs l d'"
proof -
  let ?k = "carried_columns (columns_of jobs_table d)"
  obtain t where t: "da_tables d jobs_table = Some t" "carries cs rs (tb_rows t)"
    using assms(1) by (auto simp: holds_builds_def)
  have "carries cs rs (tb_rows (rebuilt ?k t))"
    unfolding rebuilt_def table.simps by (rule carries_map [OF t(2)]) (use assms(2) in \<open>auto simp: insert_from_def\<close>)
  moreover have "set cs \<subseteq> fst ` set (tb_cols (rebuilt ?k t))"
    using assms(2) by (auto simp: rebuilt_def carried_columns_def)
  ultimately show ?thesis using rebuild_result [OF assms(3) t(1)] assms(1) by (auto simp: holds_builds_def)
qed

abbreviation rebuild_now :: "database \<Rightarrow> database result" where
  "rebuild_now d \<equiv> apply_all (rebuild_stmts (carried_columns (columns_of jobs_table d))) d"

lemma drop_unique_Inr:
  assumes "drop_app_name_unique s = (Inr x, s')"
  shows "if [''app_name''] \<in> set (unique_indexes jobs_table (db_data s)) then rebuild_now (db_data s) = Inr (db_data s') else db_data s' = db_data s"
proof -
  obtain u s1 where u: "has_unique_app_name s = (Inr u, s1)"
    and k: "(if \<not> u then ret () else seq build_job_columns (\<lambda>e. e) (\<lambda>existing. transaction
      (db_run (\<lambda>st e. ''drop app_name unique: '' @ stmt_text st @ '': '' @ e) (rebuild_stmts (carried_columns existing))))) s1 = (Inr x, s')"
    using assms unfolding drop_app_name_unique_def by (rule seq_Inr_E)
  note h = has_unique_app_name_Inr [OF u]
  show ?thesis
  proof (cases u)
    case False
    then show ?thesis using k h by simp
  next
    case True
    then have "seq build_job_columns (\<lambda>e. e) (\<lambda>existing. transaction
      (db_run (\<lambda>st e. ''drop app_name unique: '' @ stmt_text st @ '': '' @ e) (rebuild_stmts (carried_columns existing)))) s1 = (Inr x, s')"
      using k by simp
    then obtain existing s2 where e: "build_job_columns s1 = (Inr existing, s2)"
      and t: "transaction (db_run (\<lambda>st e. ''drop app_name unique: '' @ stmt_text st @ '': '' @ e) (rebuild_stmts (carried_columns existing))) s2 = (Inr x, s')"
      by (rule seq_Inr_E)
    have ex: "existing = columns_of jobs_table (db_data s)" "db_data s2 = db_data s"
      using db_ask_Inr [OF e [unfolded build_job_columns_def]] h by simp_all
    from transaction_Inr [OF t] obtain s0 s3 where "db_data s0 = db_data s2"
        "db_run (\<lambda>st e. ''drop app_name unique: '' @ stmt_text st @ '': '' @ e) (rebuild_stmts (carried_columns existing)) s0 = (Inr (), s3)"
        "db_data s' = db_data s3" by blast
    with db_run_Inr [OF this(2)] ex h True show ?thesis by simp
  qed
qed

lemma drop_unique_Inl:
  assumes "drop_app_name_unique s = (Inl e, s')"
  shows "db_data s' = db_data s"
proof (cases "has_unique_app_name s")
  case (Pair u s1)
  show ?thesis
  proof (cases u)
    case (Inl e1)
    then show ?thesis using assms Pair has_unique_app_name_Inl [of s e1 s1] by (simp add: drop_app_name_unique_def seq_def)
  next
    case (Inr b)
    then have s1: "db_data s1 = db_data s" using Pair has_unique_app_name_Inr [of s b s1] by simp
    obtain c s2 where c: "build_job_columns s1 = (c, s2)" by (cases "build_job_columns s1")
    then have s2: "db_data s2 = db_data s1" unfolding build_job_columns_def by (cases c) (auto dest: db_ask_Inl db_ask_Inr)
    show ?thesis
      using assms Pair Inr s1 s2 c transaction_Inl [of _ s2 e s']
      by (cases c) (auto simp: drop_app_name_unique_def seq_def split: if_splits)
  qed
qed

lemma drop_unique_keeps:
  assumes "holds_builds cs rs l (db_data s)" "set cs \<subseteq> set (map fst build_job_columns_ddl)"
  shows "holds_builds cs rs l (db_data (snd (drop_app_name_unique s)))"
proof -
  have c: "set cs \<subseteq> set (carried_columns (columns_of jobs_table (db_data s)))"
    using assms by (auto simp: holds_builds_def carried_columns_def columns_of_def)
  obtain r s' where d: "drop_app_name_unique s = (r, s')" by fastforce
  have "rebuild_now (db_data s) = Inr (db_data s') \<or> db_data s' = db_data s"
  proof (cases r)
    case (Inl e)
    then show ?thesis using d drop_unique_Inl [of s e s'] by simp
  next
    case (Inr x)
    with d have "drop_app_name_unique s = (Inr x, s')" by simp
    from drop_unique_Inr [OF this] show ?thesis by (simp split: if_splits)
  qed
  then show ?thesis using rebuild_keeps [OF assms(1) c] assms(1) d by auto
qed

text \<open>
  C10. Opening the store loses no build: whatever statement of the migration fails, or none, every
  row of an earlier version's table is there afterwards, in its place and with every column that
  today's schema knows, and so are the logs.
\<close>

theorem migration_keeps_builds:
  assumes "da_tables (db_data s) jobs_table = Some t"
  shows "holds_builds (known_columns t) (tb_rows t) (da_tables (db_data s) ''build_logs'') (db_data (snd (migrate order s)))"
proof -
  let ?P = "holds_builds (known_columns t) (tb_rows t) (da_tables (db_data s) ''build_logs'')"
  have k: "set (known_columns t) \<subseteq> set (map fst build_job_columns_ddl)" by (auto simp: known_columns_def carried_columns_def)
  have "?P (db_data s)" using assms by (auto simp: holds_builds_def known_columns_def carried_columns_def carries_refl)
  then have 1: "?P (db_data (snd (db_run (\<lambda>st e. e) initial_stmts s)))" by (rule db_run_keeps [rotated]) (rule initial_keeps)
  show ?thesis
  proof (cases "db_run (\<lambda>st e. e) initial_stmts s")
    case (Pair r s1)
    have 2: "?P (db_data (snd (ensure_build_job_columns order s1)))" by (rule ensure_keeps) (use 1 Pair in simp)
    show ?thesis
    proof (cases "ensure_build_job_columns order s1")
      case c: (Pair r2 s2)
      have "?P (db_data (snd (drop_app_name_unique s2)))" by (rule drop_unique_keeps [OF _ k]) (use 2 c in simp)
      then show ?thesis using Pair c 1 2 by (cases r; cases r2) (simp_all add: migrate_def seq_def)
    qed
  qed
qed

section \<open>Migrating settles\<close>

text \<open>A database with nothing left to migrate: the columns \<open>names\<close> are there, an app may be built any number of times.\<close>

definition settled :: "string list \<Rightarrow> database \<Rightarrow> bool" where
  "settled names d \<longleftrightarrow> (\<exists>t. da_tables d jobs_table = Some t \<and> set names \<subseteq> fst ` set (tb_cols t) \<and> [''app_name''] \<notin> set (tb_unique t)) \<and>
     da_tables d ''build_logs'' \<noteq> None \<and> ''idx_build_jobs_status_created'' \<in> fst ` set (da_indexes d) \<and>
     ''idx_build_logs_job_sequence'' \<in> fst ` set (da_indexes d)"

lemma no_faults:
  assumes "db_faults s = []"
  shows "db_ask q s = (Inr (q (db_data s)), s)" "apply_stmt st (db_data s) = Inr (db_data s) \<Longrightarrow> db_apply st s = (Inr (), s)"
  using assms by (simp_all add: db_ask_def db_apply_def db_call_def)

lemma apply_no_faults: "db_faults s = [] \<Longrightarrow> apply_stmt st (db_data s) = Inr d \<Longrightarrow> db_apply st s = (Inr (), s\<lparr>db_data := d\<rparr>)"
  by (cases s) (simp add: db_apply_def db_call_def)

lemma add_missing_present: "set (map fst order) \<subseteq> set present \<Longrightarrow> add_missing present order = ret ()"
  by (induction present order rule: add_missing.induct) auto

lemma index_on_app_name_absent: "db_faults s = [] \<Longrightarrow> [''app_name''] \<notin> set uss \<Longrightarrow> index_on_app_name uss s = (Inr False, s)"
  by (induction uss) (auto simp: seq_def no_faults)

lemma index_noop:
  "da_tables d t \<noteq> None \<Longrightarrow> n \<in> fst ` set (da_indexes d) \<Longrightarrow> apply_stmt (Create_index_if_missing n t cs) d = Inr d"
  by (simp split: option.split)

lemma settled_migrates:
  assumes "settled names (db_data s)" "db_faults s = []" "set (map fst order) \<subseteq> set names"
  shows "migrate order s = (Inr (), s)"
proof -
  obtain t where t: "da_tables (db_data s) jobs_table = Some t" "set names \<subseteq> fst ` set (tb_cols t)" "[''app_name''] \<notin> set (tb_unique t)"
    using assms(1) by (auto simp: settled_def)
  have "apply_stmt st (db_data s) = Inr (db_data s)" if "st \<in> set initial_stmts" for st
  proof -
    have "da_tables (db_data s) jobs_table \<noteq> None" "da_tables (db_data s) ''build_logs'' \<noteq> None"
        "''idx_build_jobs_status_created'' \<in> fst ` set (da_indexes (db_data s))" "''idx_build_logs_job_sequence'' \<in> fst ` set (da_indexes (db_data s))"
      using assms(1) unfolding settled_def by blast+
    note k = this(1,2) index_noop [OF this(1,3)] index_noop [OF this(2,4)]
    from that show ?thesis unfolding initial_stmts_def set_simps insert_iff empty_iff
      by (elim disjE FalseE) (hypsubst, simp add: k(1,2), hypsubst, simp add: k(1,2), hypsubst, rule k(3), hypsubst, rule k(4))
  qed
  then have 1: "db_run (\<lambda>st e. e) initial_stmts s = (Inr (), s)"
    using no_faults(2) [OF assms(2)] by (simp add: initial_stmts_def seq_def del: apply_stmt.simps)
  have "columns_of jobs_table (db_data s) = map fst (tb_cols t)" using t by (simp add: columns_of_def)
  then have 2: "ensure_build_job_columns order s = (Inr (), s)"
    using assms(3) t by (auto simp: ensure_build_job_columns_def build_job_columns_def seq_def no_faults [OF assms(2)] add_missing_present)
  have "unique_indexes jobs_table (db_data s) = tb_unique t" using t by (simp add: unique_indexes_def)
  then have 3: "drop_app_name_unique s = (Inr (), s)"
    using t(3) by (simp add: drop_app_name_unique_def has_unique_app_name_def seq_def no_faults [OF assms(2)] index_on_app_name_absent [OF assms(2)])
  show ?thesis by (simp add: migrate_def seq_def 1 2 3)
qed

text \<open>After the first phase the tables and indexes are there, after the second the columns.\<close>

definition founded :: "string list \<Rightarrow> database \<Rightarrow> bool" where
  "founded names d \<longleftrightarrow> (\<exists>t. da_tables d jobs_table = Some t \<and> set names \<subseteq> fst ` set (tb_cols t)) \<and>
     da_tables d ''build_logs'' \<noteq> None \<and> ''idx_build_jobs_status_created'' \<in> fst ` set (da_indexes d) \<and>
     (\<exists>u cs. (''idx_build_logs_job_sequence'', u, cs) \<in> set (da_indexes d) \<and> u \<noteq> jobs_table)"

lemma table_if_missing: "apply_stmt (Create_table_if_missing t ds us) d = Inr d' \<Longrightarrow>
    da_tables d' t \<noteq> None \<and> (\<forall>u. da_tables d u \<noteq> None \<longrightarrow> da_tables d' u \<noteq> None) \<and> da_indexes d' = da_indexes d"
  by (auto split: if_splits)

lemma index_elsewhere: "apply_stmt (Create_index_if_missing n t cs) d = Inr d' \<Longrightarrow> e \<in> set (da_indexes d') \<Longrightarrow>
    e \<in> set (da_indexes d) \<or> e = (n, t, cs)"
  by (auto split: option.splits if_splits)

lemma initial_founds:
  assumes "apply_all initial_stmts d = Inr d'" "\<forall>cs. (''idx_build_logs_job_sequence'', jobs_table, cs) \<notin> set (da_indexes d)"
  shows "founded [] d'"
proof -
  obtain d1 d2 d3 where s: "apply_stmt (Create_table_if_missing jobs_table build_jobs_ddl [[''id'']]) d = Inr d1"
      "apply_stmt (Create_table_if_missing ''build_logs'' build_logs_ddl [[''id'']]) d1 = Inr d2"
      "apply_stmt (Create_index_if_missing ''idx_build_jobs_status_created'' jobs_table [''status'', ''created_at'']) d2 = Inr d3"
      "apply_stmt (Create_index_if_missing ''idx_build_logs_job_sequence'' ''build_logs'' [''job_id'', ''sequence'']) d3 = Inr d'"
    using assms(1) unfolding initial_stmts_def by (auto simp del: apply_stmt.simps split: sum.splits)
  note t = table_if_missing [OF s(1)] table_if_missing [OF s(2)] create_index_tables [OF s(3)] create_index_tables [OF s(4)]
  have "(n, jobs_table, cs) \<notin> set (da_indexes d')" if n: "n = ''idx_build_logs_job_sequence''" for n cs
  proof
    assume "(n, jobs_table, cs) \<in> set (da_indexes d')"
    then have "(n, jobs_table, cs) \<in> set (da_indexes d3)" using index_elsewhere [OF s(4)] by fastforce
    then have "(n, jobs_table, cs) \<in> set (da_indexes d2)" using index_elsewhere [OF s(3)] n by fastforce
    then show False using t assms(2) n by simp
  qed
  moreover obtain u cs where "(''idx_build_logs_job_sequence'', u, cs) \<in> set (da_indexes d')" using t(4) by auto
  ultimately have "\<exists>u cs. (''idx_build_logs_job_sequence'', u, cs) \<in> set (da_indexes d') \<and> u \<noteq> jobs_table" by metis
  moreover have "da_tables d' jobs_table \<noteq> None" "da_tables d' ''build_logs'' \<noteq> None" using t by simp_all
  moreover have "''idx_build_jobs_status_created'' \<in> fst ` set (da_indexes d')" using t(3,4) by blast
  ultimately show ?thesis unfolding founded_def by auto
qed

lemma add_column_founds:
  assumes "founded names d" "apply_stmt (Add_column jobs_table c decl) d = Inr d'"
  shows "founded (c # names) d'"
proof -
  obtain t where t: "da_tables d jobs_table = Some t" "set names \<subseteq> fst ` set (tb_cols t)" using assms(1) unfolding founded_def by blast
  then have "da_tables d' = (da_tables d)(jobs_table \<mapsto>
      t\<lparr>tb_cols := tb_cols t @ [(c, decl)], tb_rows := map (\<lambda>r. r(c := default_value decl)) (tb_rows t)\<rparr>)" "da_indexes d' = da_indexes d"
    using assms(2) by (auto split: if_splits)
  with t assms(1) show ?thesis unfolding founded_def by auto
qed

lemma add_missing_founds:
  assumes "add_missing present order s = (Inr x, s')" "founded names (db_data s)" "set present \<subseteq> set names"
  shows "founded (map fst order @ names) (db_data s')"
  using assms
proof (induction present order arbitrary: s names rule: add_missing.induct)
  case (2 present c decl rest)
  show ?case
  proof (cases "c \<in> set present")
    case True
    with 2 have "founded (map fst rest @ names) (db_data s')" by auto
    moreover have "set (map fst ((c, decl) # rest) @ names) = set (map fst rest @ names)" using True 2(5) by auto
    ultimately show ?thesis unfolding founded_def by simp
  next
    case False
    with 2(3) obtain y s1 where a: "db_apply (Add_column jobs_table c decl) s = (Inr y, s1)" "add_missing present rest s1 = (Inr x, s')"
      by (auto elim: seq_Inr_E)
    have "founded (c # names) (db_data s1)" by (rule add_column_founds [OF 2(4) db_apply_Inr [OF a(1)]])
    from 2(2) [OF False a(2) this] 2(5) have "founded (map fst rest @ c # names) (db_data s')" by auto
    moreover have "set (map fst ((c, decl) # rest) @ names) = set (map fst rest @ c # names)" by auto
    ultimately show ?thesis unfolding founded_def by simp
  qed
qed simp

lemma founded_columns: "founded names d \<Longrightarrow> founded (columns_of jobs_table d) d"
  by (auto simp: founded_def columns_of_def)

lemma founded_mono: "founded names d \<Longrightarrow> set names' \<subseteq> set names \<Longrightarrow> founded names' d"
  unfolding founded_def by blast

lemma drop_unique_settles:
  assumes "drop_app_name_unique s = (Inr x, s')" "founded names (db_data s)" "set names \<subseteq> set (map fst build_job_columns_ddl)"
  shows "settled names (db_data s')"
proof -
  obtain t where t: "da_tables (db_data s) jobs_table = Some t" "set names \<subseteq> fst ` set (tb_cols t)" using assms(2) by (auto simp: founded_def)
  then have u: "unique_indexes jobs_table (db_data s) = tb_unique t" by (simp add: unique_indexes_def)
  have l: "''idx_build_logs_job_sequence'' \<in> {n. \<exists>u cs. (n, u, cs) \<in> set (da_indexes (db_data s)) \<and> u \<noteq> jobs_table}"
      "''idx_build_jobs_status_created'' \<in> fst ` set (da_indexes (db_data s))" "da_tables (db_data s) ''build_logs'' \<noteq> None"
    using assms(2) unfolding founded_def by blast+
  show ?thesis
  proof (cases "[''app_name''] \<in> set (tb_unique t)")
    case False
    then have "db_data s' = db_data s" using drop_unique_Inr [OF assms(1)] u by simp
    moreover have "''idx_build_logs_job_sequence'' \<in> fst ` set (da_indexes (db_data s))" using l(1) by force
    ultimately show ?thesis using False t l unfolding settled_def by simp
  next
    case True
    then have "rebuild_now (db_data s) = Inr (db_data s')" using drop_unique_Inr [OF assms(1)] u by simp
    note r = rebuild_result [OF this t(1)]
    from r l(1) have "''idx_build_logs_job_sequence'' \<in> fst ` set (da_indexes (db_data s'))" by blast
    with r assms(3) l show ?thesis unfolding settled_def by (simp add: rebuilt_def)
  qed
qed

lemma migrate_settles:
  assumes "migrate order s = (Inr x, s')" "set (map fst order) \<subseteq> set (map fst build_job_columns_ddl)"
    and "\<forall>cs. (''idx_build_logs_job_sequence'', jobs_table, cs) \<notin> set (da_indexes (db_data s))"
  shows "settled (map fst order) (db_data s')"
proof -
  obtain s1 s2 where 1: "db_run (\<lambda>st e. e) initial_stmts s = (Inr (), s1)" and 2: "ensure_build_job_columns order s1 = (Inr (), s2)"
    and 3: "drop_app_name_unique s2 = (Inr x, s')"
    using assms(1) unfolding migrate_def by (auto elim!: seq_Inr_E)
  have f: "founded [] (db_data s1)" by (rule initial_founds [OF db_run_Inr [OF 1] assms(3)])
  obtain present s0 where p: "build_job_columns s1 = (Inr present, s0)" "add_missing present order s0 = (Inr (), s2)"
    using 2 unfolding ensure_build_job_columns_def by (rule seq_Inr_E)
  then have "present = columns_of jobs_table (db_data s1)" "db_data s0 = db_data s1"
    using db_ask_Inr [OF p(1) [unfolded build_job_columns_def]] by simp_all
  with founded_columns [OF f] have "founded present (db_data s0)" by simp
  from add_missing_founds [OF p(2) this] have "founded (map fst order @ present) (db_data s2)" by simp
  then have "founded (map fst order) (db_data s2)" by (rule founded_mono) simp
  then show ?thesis by (rule drop_unique_settles [OF 3 _ assms(2)])
qed

text \<open>
  C39. Once a migration has succeeded, apps may be built again and again: no index makes an app's name
  unique, whatever version the database was; and opening the store again finds nothing to do.
\<close>

theorem migration_settles:
  assumes "migrate order s = (Inr (), s')" "set order = set additions" "set order' = set additions"
    and "\<forall>cs. (''idx_build_logs_job_sequence'', jobs_table, cs) \<notin> set (da_indexes (db_data s))" "db_faults s' = []"
  shows "[''app_name''] \<notin> set (unique_indexes jobs_table (db_data s')) \<and> migrate order' s' = (Inr (), s')"
proof -
  have "set (map fst order) \<subseteq> set (map fst build_job_columns_ddl)"
    using assms(2) by (simp add: additions_def build_job_columns_ddl_def)
  from migrate_settles [OF assms(1) this assms(4)] have st: "settled (map fst order) (db_data s')" .
  moreover have "set (map fst order') \<subseteq> set (map fst order)" using assms(2,3) by simp
  ultimately have "migrate order' s' = (Inr (), s')" by (rule settled_migrates [OF _ assms(5)])
  moreover have "[''app_name''] \<notin> set (unique_indexes jobs_table (db_data s'))"
    using st by (auto simp: settled_def unique_indexes_def)
  ultimately show ?thesis by simp
qed

section \<open>An early database\<close>

lemma db_run_no_faults:
  "db_faults s = [] \<Longrightarrow> apply_all sts (db_data s) = Inr d \<Longrightarrow> db_run wrap sts s = (Inr (), s\<lparr>db_data := d\<rparr>)"
proof (induction sts arbitrary: s)
  case (Cons st sts)
  then obtain d1 where "apply_stmt st (db_data s) = Inr d1" "apply_all sts d1 = Inr d" by (auto split: sum.splits)
  then show ?case using Cons.IH [of "s\<lparr>db_data := d1\<rparr>"] Cons.prems(1) by (simp add: seq_def apply_no_faults del: apply_stmt.simps)
qed simp

lemma migrate_no_faults:
  assumes "db_faults s = []" "apply_all initial_stmts (db_data s) = Inr d" "set (map fst order) \<subseteq> set (columns_of jobs_table d)"
    and "unique_indexes jobs_table d = [us, [''app_name'']]" "us \<noteq> [''app_name'']" "rebuild_now d = Inr d'"
  shows "migrate order s = (Inr (), s\<lparr>db_data := d'\<rparr>)"
proof -
  let ?s = "s\<lparr>db_data := d\<rparr>"
  have f: "db_faults ?s = []" using assms(1) by simp
  have e: "ensure_build_job_columns order ?s = (Inr (), ?s)"
    using assms(3) by (simp add: ensure_build_job_columns_def build_job_columns_def seq_def no_faults(1) [OF f] add_missing_present)
  have u: "has_unique_app_name ?s = (Inr True, ?s)"
    using assms(4,5) by (simp add: has_unique_app_name_def seq_def no_faults(1) [OF f])
  have t: "transaction (db_run wrap (rebuild_stmts (carried_columns (columns_of jobs_table d)))) ?s = (Inr (), s\<lparr>db_data := d'\<rparr>)" for wrap
    using db_run_no_faults [OF f, of "rebuild_stmts (carried_columns (columns_of jobs_table d))" d' wrap] assms(1,6)
    by (simp add: transaction_def db_begin_def seq_def no_faults(1))
  have c: "build_job_columns ?s = (Inr (columns_of jobs_table d), ?s)" by (simp add: build_job_columns_def no_faults(1) [OF f])
  have "drop_app_name_unique ?s = (Inr (), s\<lparr>db_data := d'\<rparr>)"
    unfolding drop_app_name_unique_def by (simp only: seq_Inr [where m = has_unique_app_name, OF u] seq_Inr [where m = build_job_columns, OF c] t not_True_eq_False if_False)
  then show ?thesis
    unfolding migrate_def by (simp only: seq_Inr [where m = "db_run (\<lambda>st e. e) initial_stmts", OF db_run_no_faults [OF assms(1,2)]] seq_Inr [where m = "ensure_build_job_columns order", OF e])
qed

text \<open>An earlier version: an app's name unique, no framework; one build, and a driver that may fail.\<close>

definition early_columns :: "(string \<times> column_decl) list" where
  "early_columns = filter (\<lambda>(c, d). c \<noteq> ''framework'') build_jobs_ddl"

definition early_row :: "string \<Rightarrow> sql_value" where
  "early_row c = (if c = ''app_name'' then V_text ''shop'' else V_text ''b1'')"

definition early_jobs :: table where
  "early_jobs = \<lparr>tb_cols = early_columns, tb_unique = [[''id''], [''app_name'']], tb_rows = [early_row]\<rparr>"

definition early_conn :: "string option list \<Rightarrow> db_conn" where
  "early_conn fs = \<lparr>db_data = \<lparr>da_tables = [jobs_table \<mapsto> early_jobs, ''build_logs'' \<mapsto> new_table build_logs_ddl [[''id'']]],
     da_indexes = [(''idx_build_jobs_status_created'', jobs_table, [''status'', ''created_at'']),
       (''idx_build_logs_job_sequence'', ''build_logs'', [''job_id'', ''sequence''])]\<rparr>, db_faults = fs\<rparr>"

theorem migration_keeps_builds_witness:
  "holds_builds (known_columns early_jobs) [early_row] (Some (new_table build_logs_ddl [[''id'']]))
     (db_data (snd (migrate additions (early_conn (replicate 9 None @ [Some ''disk full''])))))"
  using migration_keeps_builds [of "early_conn (replicate 9 None @ [Some ''disk full''])" early_jobs additions]
  by (simp add: early_conn_def early_jobs_def)

definition early_names :: "string list" where
  "early_names = filter (\<lambda>c. c \<noteq> ''framework'') (map fst build_job_columns_ddl)"

lemma early_cols: "map fst early_columns = early_names"
  by (simp add: early_columns_def early_names_def build_jobs_ddl_def build_job_columns_ddl_def)

lemma carried_early: "carried_columns early_names = early_names"
  unfolding carried_columns_def early_names_def by (rule filter_cong [OF refl]) auto

definition migrated_early :: database where
  "migrated_early = \<lparr>da_tables = [jobs_table \<mapsto> rebuilt early_names early_jobs, ''build_logs'' \<mapsto> new_table build_logs_ddl [[''id'']]],
     da_indexes = [(''idx_build_logs_job_sequence'', ''build_logs'', [''job_id'', ''sequence'']),
       (''idx_build_jobs_status_created'', jobs_table, [''status'', ''created_at'']),
       (''idx_build_jobs_app_created'', jobs_table, [''app_name'', ''created_at''])]\<rparr>"

lemma early_migrates: "migrate additions (early_conn []) = (Inr (), (early_conn [])\<lparr>db_data := migrated_early\<rparr>)"
proof (rule migrate_no_faults)
  let ?d = "db_data (early_conn [])"
  have names: "columns_of jobs_table ?d = early_names" by (simp add: columns_of_def early_conn_def early_jobs_def early_cols)
  show "db_faults (early_conn []) = []" by (simp add: early_conn_def)
  show "apply_all initial_stmts ?d = Inr ?d" by (simp add: initial_stmts_def early_conn_def)
  show "set (map fst additions) \<subseteq> set (columns_of jobs_table ?d)"
    unfolding names by (simp add: additions_def early_names_def build_job_columns_ddl_def)
  show "unique_indexes jobs_table ?d = [[''id''], [''app_name'']]" by (simp add: unique_indexes_def early_conn_def early_jobs_def)
  have "set early_names \<subseteq> fst ` set early_columns" using early_cols by (metis list.set_map order_refl)
  moreover have "set early_names \<subseteq> fst ` set build_job_columns_ddl" by (auto simp: early_names_def)
  moreover have "row_allowed build_job_columns_ddl (insert_from build_job_columns_ddl early_names early_row)"
    by (simp add: row_allowed_def build_job_columns_ddl_def insert_from_def early_names_def early_row_def key_column_def text_column_def
        required_def blank_text_def with_default_def int_column_def default_value_def)
  moreover have "unique_on [''id''] [r]" for r by (simp add: unique_on_def)
  ultimately have "apply_stmt (Copy_rows rebuilt_table jobs_table early_names)
      (?d\<lparr>da_tables := (da_tables ?d)(rebuilt_table \<mapsto> new_table build_job_columns_ddl [[''id'']])\<rparr>) =
      Inr (?d\<lparr>da_tables := (da_tables ?d)(rebuilt_table \<mapsto> rebuilt early_names early_jobs)\<rparr>)"
    by (simp add: early_conn_def early_jobs_def new_table_def rebuilt_def)
  moreover have "{''status'', ''created_at'', ''app_name''} \<subseteq> fst ` set build_job_columns_ddl" by (simp add: build_job_columns_ddl_def)
  ultimately show "rebuild_now ?d = Inr migrated_early"
    unfolding names carried_early rebuild_stmts_def
    by (simp add: migrated_early_def early_conn_def rebuilt_def del: apply_stmt.simps(3)) (simp add: fun_upd_twist)
qed simp

theorem migration_settles_witness:
  "[''app_name''] \<in> set (unique_indexes jobs_table (db_data (early_conn []))) \<and>
   migrate additions (snd (migrate additions (early_conn []))) = (Inr (), snd (migrate additions (early_conn [])))"
proof -
  have "\<forall>cs. (''idx_build_logs_job_sequence'', jobs_table, cs) \<notin> set (da_indexes (db_data (early_conn [])))"
    by (simp add: early_conn_def)
  from migration_settles [OF early_migrates refl refl this]
  have "migrate additions ((early_conn [])\<lparr>db_data := migrated_early\<rparr>) = (Inr (), (early_conn [])\<lparr>db_data := migrated_early\<rparr>)"
    by (simp add: early_conn_def)
  moreover have "[''app_name''] \<in> set (unique_indexes jobs_table (db_data (early_conn [])))"
    by (simp add: early_conn_def early_jobs_def unique_indexes_def)
  ultimately show ?thesis by (simp only: early_migrates snd_conv simp_thms)
qed

text \<open>The migrated build: what it had, and the default of what it lacked.\<close>

lemma early_build_migrated:
  "map (\<lambda>r. (r ''app_name'', r ''framework'')) (tb_rows (rebuilt early_names early_jobs)) = [(V_text ''shop'', V_text [])]"
  by (simp add: rebuilt_def early_jobs_def insert_from_def early_names_def build_job_columns_ddl_def early_row_def default_value_def
      blank_text_def with_default_def)

text \<open>The CREATE TABLE of a new database is not the canonical list: replicas and port have no default in it.\<close>

lemma schemas_differ: "build_jobs_ddl \<noteq> build_job_columns_ddl"
  by (simp add: build_jobs_ddl_def build_job_columns_ddl_def with_default_def required_def int_column_def)

end
