(* ===== verification/Programs.thy ===== *)
theory Programs
  imports ConformanceSpecs OciSourcesFacts MigrationFacts Dispatch Emitter Router ProviderConfig SnapshotCacheFacts
begin

text \<open>
  The four commands, src/cmd: how the API, provider-server and build-coordinator turn their
  environment into the servers modelled elsewhere, and what conformance reports to its caller. A
  \<open>log.Fatalf\<close> before the server listens is an error. The request log of middleware/logger.go, which
  only the API installs, is here too.
\<close>

definition env_string :: "(string \<Rightarrow> string) \<Rightarrow> string \<Rightarrow> string \<Rightarrow> string" where
  "env_string getenv key fallback = (if getenv key \<noteq> [] then getenv key else fallback)"

section \<open>api\<close>

text \<open>\<open>NewClient\<close> of internal/k8s/client.go, over the constructors of the client library.\<close>

definition new_k8s_client ::
    "(string \<Rightarrow> string) \<Rightarrow> (string \<Rightarrow> ('w, 'c) act) \<Rightarrow> ('w, 'c) act \<Rightarrow> ('c \<Rightarrow> ('w, 'k) act) \<Rightarrow> ('c \<Rightarrow> ('w, 'd) act) \<Rightarrow> ('w, 'k \<times> 'd) act" where
  "new_k8s_client getenv from_flags in_cluster clientset dynamic =
     seq (if getenv ''KUBECONFIG'' \<noteq> [] then from_flags (getenv ''KUBECONFIG'') else in_cluster) (\<lambda>e. ''failed to build k8s config: '' @ e) (\<lambda>cfg.
       seq (clientset cfg) (\<lambda>e. ''failed to create k8s client: '' @ e) (\<lambda>k.
         seq (dynamic cfg) (\<lambda>e. ''failed to create dynamic client: '' @ e) (\<lambda>d. ret (k, d))))"

text \<open>What the API is assembled from, besides that client, which \<open>connect\<close> yields.\<close>

record ('w, 'f, 'b) api_assembly =
  aa_builds :: "('w, 'f, 'b) build_client option"
  aa_providers :: "provider_entry list"
  aa_infra :: infra_config
  aa_origins :: string
  aa_listen :: string

definition api_main ::
    "(string \<Rightarrow> string) \<Rightarrow> ('w, 'k) act \<Rightarrow> (string \<Rightarrow> string \<Rightarrow> ('w, 'f, 'b) build_client) \<Rightarrow> ('f, string) json_io \<Rightarrow> (string \<Rightarrow> string) \<Rightarrow>
     (string \<Rightarrow> (string \<times> string) result) \<Rightarrow> (string \<Rightarrow> ('w, string) act) \<Rightarrow> ('w, 'k \<times> ('w, 'f, 'b) api_assembly) act" where
  "api_main getenv connect client io quote parse_url read = (let cfg = load_config getenv in
     seq connect (\<lambda>e. ''Failed to create Kubernetes client: '' @ e) (\<lambda>k.
       seq (load_entries io quote parse_url read (ac_providers cfg) (ac_providers_file cfg)) (\<lambda>e. ''Invalid provider configuration: '' @ e)
         (\<lambda>entries. ret (k, \<lparr>aa_builds = configured_builds client cfg, aa_providers = entries,
            aa_infra = config_with_overrides (ac_oci_compartment cfg) (ac_oci_nlb cfg) (ac_oci_namespace cfg) (ac_oci_bucket cfg),
            aa_origins = ac_cors_origins cfg, aa_listen = '':'' @ env_or (ac_port cfg) ''8080''\<rparr>))))"

text \<open>
  The source builder handed to the snapshot cache: the Oracle reads that can be had fill what no
  provider declares. It never fails, so the collector built at the first refresh is built for good.
\<close>

definition wired :: "oci_wiring \<Rightarrow> string \<Rightarrow> bool" where
  "wired s c = (if c = capability_instances then ow_instances s else if c = capability_metrics then ow_metrics s
     else if c = capability_alarms then ow_alarms s else if c = capability_ingress then ow_ingress s
     else c = capability_backups \<and> ow_backups s)"

definition oracle_fallback :: "infra_config \<Rightarrow> ('w, unit) act \<Rightarrow> (string \<Rightarrow> ('w, unit) act) \<Rightarrow> 'w \<Rightarrow> oci_wiring \<times> 'w" where
  "oracle_fallback cfg login client w = (case new_sources cfg login client w of
     (Inl e, w) \<Rightarrow> (no_wiring, w) | (Inr s, w) \<Rightarrow> (s, w))"

definition api_sources ::
    "infra_config \<Rightarrow> ('w, unit) act \<Rightarrow> (string \<Rightarrow> ('w, unit) act) \<Rightarrow> (provider_entry \<Rightarrow> ('w, string list) pact) \<Rightarrow> provider_entry list \<Rightarrow>
     ('w, (string \<times> slot) list) act" where
  "api_sources cfg login client ask entries w = (case oracle_fallback cfg login client w of
     (s, w) \<Rightarrow> (case infra_sources ask (wired s) entries w of (slots, w) \<Rightarrow> (Inr slots, w)))"

text \<open>What \<open>NewDefaultCache\<close> builds a collector from.\<close>

definition api_collector ::
    "infra_config \<Rightarrow> ('w, unit) act \<Rightarrow> (string \<Rightarrow> ('w, unit) act) \<Rightarrow> (provider_entry \<Rightarrow> ('w, string list) pact) \<Rightarrow> provider_entry list \<Rightarrow>
     ('w, infra_config \<times> (string \<times> slot) list) act" where
  "api_collector cfg login client ask entries = seq (api_sources cfg login client ask entries) (\<lambda>e. e)
     (\<lambda>slots. ret (new_collector_config cfg, slots))"

section \<open>The request log\<close>

text \<open>
  \<open>structured_logger\<close> passes a request on and prints one line about its answer; \<open>stamp\<close> and \<open>millis\<close>
  are the formatted time and duration. The line is put together as text: nothing in it is quoted.
\<close>

definition request_log_line :: "string \<Rightarrow> string \<Rightarrow> string \<Rightarrow> api_request \<Rightarrow> int \<Rightarrow> string" where
  "request_log_line stamp millis meth rq status = (let q = [CHR 0x22] in
     ''{'' @ q @ ''time'' @ q @ '':'' @ q @ stamp @ q @ '','' @ q @ ''method'' @ q @ '':'' @ q @ meth @ q @ '','' @
     q @ ''path'' @ q @ '':'' @ q @ aq_path rq @ q @ '','' @ q @ ''status'' @ q @ '':'' @ fmt_int status @ '','' @
     q @ ''duration_ms'' @ q @ '':'' @ millis @ '','' @ q @ ''user'' @ q @ '':'' @ q @ local_string (aq_local_user rq) @ q @ '','' @
     q @ ''requestId'' @ q @ '':'' @ q @ local_string (aq_local_request_id rq) @ q @ ''}'')"

section \<open>provider-server\<close>

text \<open>A token file is read once before anything is served, and again for each request.\<close>

definition main_token_source ::
    "(string \<Rightarrow> string) \<Rightarrow> (string \<Rightarrow> ('w, string) act) \<Rightarrow> ('w, ('w, string) act) act" where
  "main_token_source getenv read = (let path = getenv ''PROVIDER_TOKEN_FILE''; token = getenv ''PROVIDER_TOKEN'' in
     if path \<noteq> [] then seq (file_token read path) (\<lambda>e. e) (\<lambda>_. ret (file_token read path))
     else if token \<noteq> [] then ret (static_token token)
     else fail_with ''one of PROVIDER_TOKEN_FILE or PROVIDER_TOKEN is required'')"

text \<open>
  \<open>from_flags\<close> reads a kubeconfig, \<open>in_cluster\<close> the service account of a pod, \<open>clientset\<close> is
  \<open>NewForConfig\<close>; with a client there is always a source of node metrics.
\<close>

definition cluster_config :: "(string \<Rightarrow> string) \<Rightarrow> (string \<Rightarrow> ('w, 'c) act) \<Rightarrow> ('w, 'c) act \<Rightarrow> ('w, 'c) act" where
  "cluster_config getenv from_flags in_cluster = (let kubeconfig = getenv ''KUBECONFIG'' in
     if kubeconfig \<noteq> [] then seq (from_flags kubeconfig) (\<lambda>e. ''kubeconfig '' @ kubeconfig @ '': '' @ e) ret
     else seq in_cluster (\<lambda>e. ''in-cluster configuration (set KUBECONFIG to run outside a cluster): '' @ e) ret)"

definition new_kubernetes_provider ::
    "(string \<Rightarrow> string) \<Rightarrow> ('w, 'c) act \<Rightarrow> ('c \<Rightarrow> ('w, ('w, 'f) kube_env) act) \<Rightarrow> ('w, ('w, 'f) kube_provider) act" where
  "new_kubernetes_provider getenv config clientset = seq config (\<lambda>e. e) (\<lambda>cfg. seq (clientset cfg) (\<lambda>e. ''kubernetes client: '' @ e)
     (\<lambda>E w. (new_kube_provider E True (getenv ''INGRESS_SERVICE''), w)))"

definition provider_main ::
    "(string \<Rightarrow> string) \<Rightarrow> (string \<Rightarrow> ('w, string) act) \<Rightarrow> (string \<Rightarrow> string) \<Rightarrow> (string \<Rightarrow> ('w, 'c) act) \<Rightarrow> ('w, 'c) act \<Rightarrow>
     ('c \<Rightarrow> ('w, ('w, 'f) kube_env) act) \<Rightarrow> ('w, ('w, 'f) kube_provider \<times> ('w, string) act \<times> string) act" where
  "provider_main getenv read quote from_flags in_cluster clientset = (
     let kind = env_string getenv ''PROVIDER_KIND'' kind_infra; name = env_string getenv ''PROVIDER_NAME'' ''kubernetes'';
         port = env_string getenv ''PORT'' ''9090'' in
     if kind \<noteq> kind_infra then fail_with (''Unsupported provider kind '' @ quote kind @ '': this binary serves '' @ quote kind_infra)
     else seq (main_token_source getenv read) (\<lambda>e. ''Provider token: '' @ e) (\<lambda>token.
       seq (if name = ''kubernetes'' then new_kubernetes_provider getenv (cluster_config getenv from_flags in_cluster) clientset
            else fail_with (''this build has no provider named '' @ quote name))
         (\<lambda>e. ''Failed to start the '' @ name @ '' provider: '' @ e) (\<lambda>p. ret (p, token, '':'' @ port))))"

section \<open>build-coordinator\<close>

record coordinator_wiring =
  cw_dispatcher :: "dispatcher option"
  cw_emitter :: "emitter option"
  cw_token :: string
  cw_webhook_secret :: string
  cw_port :: string

text \<open>
  \<open>db\<close> opens the database file; \<open>oci_login\<close> is the authentication behind the emitter, whose failure
  leaves the coordinator without one.
\<close>

definition dispatch_settings :: "(string \<Rightarrow> string) \<Rightarrow> dispatch_config" where
  "dispatch_settings getenv = \<lparr>dc_token = getenv ''GITHUB_TOKEN'', dc_workflow_repo = getenv ''BUILD_WORKFLOW_REPO'',
     dc_coordinator_url = getenv ''BUILD_COORDINATOR_PUBLIC_URL'', dc_image_prefix = getenv ''IMAGE_PREFIX'', dc_base_url = []\<rparr>"

definition coordinator_main ::
    "(string \<Rightarrow> string) \<Rightarrow> (string \<times> column_decl) list \<Rightarrow> (string \<Rightarrow> db_conn result) \<Rightarrow> unit result \<Rightarrow> (db_conn \<times> coordinator_wiring) result" where
  "coordinator_main getenv order db oci_login = (
     case open_store order (db (env_string getenv ''BUILD_COORDINATOR_DB'' ''/var/lib/tinycloud-build-coordinator/builds.db'')) of
       Inl e \<Rightarrow> Inl (''failed to open store: '' @ e)
     | Inr conn \<Rightarrow> Inr (conn, \<lparr>cw_dispatcher = new_dispatcher (dispatch_settings getenv),
         cw_emitter = (if getenv ''OCI_LOG_ID'' = [] then None
           else case oci_login of Inl e \<Rightarrow> None | Inr _ \<Rightarrow> new_emitter (getenv ''OCI_LOG_ID'')),
         cw_token = getenv ''BUILD_COORDINATOR_TOKEN'', cw_webhook_secret = getenv ''GITHUB_WEBHOOK_SECRET'',
         cw_port = '':'' @ env_string getenv ''PORT'' ''8090''\<rparr>))"

section \<open>conformance\<close>

record cli_flags =
  fl_url :: string
  fl_token :: string
  fl_timeout :: duration
  fl_json :: bool

text \<open>\<open>encodes\<close> says whether the report can be written as JSON to the output. Result: the exit status.\<close>

definition conformance_main ::
    "cli_flags \<Rightarrow> ('w, 'f, 'b) suite \<Rightarrow> (report \<Rightarrow> bool) \<Rightarrow> 'w \<Rightarrow> nat \<times> 'w" where
  "conformance_main flags env encodes w =
     (if fl_url flags = [] then (2, w)
      else (case run_suite (new_suite (fl_url flags) (fl_token flags) (fl_timeout flags) env) w of
          (Inl e, w) \<Rightarrow> (1, w)
        | (Inr report, w) \<Rightarrow> if fl_json flags \<and> \<not> encodes report then (1, w) else (if passed report then 0 else 1, w)))"

section \<open>What they guarantee\<close>

text \<open>
  The Kubernetes provider is never served unauthenticated: when provider-server starts, its token is
  not empty or read afresh from a file that held one.
\<close>

lemma provider_never_open:
  assumes "provider_main getenv read quote from_flags in_cluster clientset w = (Inr (p, token, port), w')"
  shows "getenv ''PROVIDER_TOKEN_FILE'' \<noteq> [] \<and> token = file_token read (getenv ''PROVIDER_TOKEN_FILE'') \<or>
    getenv ''PROVIDER_TOKEN'' \<noteq> [] \<and> token = static_token (getenv ''PROVIDER_TOKEN'')"
  using assms unfolding provider_main_def main_token_source_def Let_def
  by (auto split: if_splits elim!: seq_Inr_E)

text \<open>Started with a store, the coordinator dispatches builds only where a token and a repository were given.\<close>

lemma coordinator_dispatches_iff:
  assumes "coordinator_main getenv order db oci_login = Inr (conn, c)"
  shows "(cw_dispatcher c \<noteq> None) = (trim_space (getenv ''GITHUB_TOKEN'') \<noteq> [] \<and> trim_space (getenv ''BUILD_WORKFLOW_REPO'') \<noteq> [])"
  using assms by (auto simp: coordinator_main_def new_dispatcher_def dispatch_settings_def split: sum.splits)

text \<open>The exit status is 0 exactly when a report was made, written and passed.\<close>

lemma conformance_exit_iff:
  "fst (conformance_main flags env encodes w) = 0 \<longleftrightarrow> fl_url flags \<noteq> [] \<and>
     (\<exists>r w'. run_suite (new_suite (fl_url flags) (fl_token flags) (fl_timeout flags) env) w = (Inr r, w') \<and> passed r \<and> (fl_json flags \<longrightarrow> encodes r))"
  by (auto simp: conformance_main_def split: prod.split sum.split)

section \<open>Where the API reads from\<close>

lemma api_sources_total: "\<exists>slots. fst (api_sources cfg login client ask entries w) = Inr slots"
  by (simp add: api_sources_def split: prod.split)

lemma wired_none [simp]: "\<not> wired no_wiring c"
  by (simp add: wired_def no_wiring_def)

lemma slot_without_fallback: "\<not> fallback c \<Longrightarrow> slot_for a fallback c \<noteq> Fallback_slot"
  by (simp add: slot_for_def split: option.split)

lemma no_fallback_slots: "(\<And>c. \<not> fallback c) \<Longrightarrow> Fallback_slot \<notin> snd ` set (fst (infra_sources ask fallback entries w))"
proof -
  assume f: "\<And>c. \<not> fallback c"
  obtain a w' where "ask_all ask 0 entries nobody_asked w = (a, w')" by force
  then have "snd ` set (fst (infra_sources ask fallback entries w)) = slot_for a fallback ` set infra_capabilities"
    by (simp add: infra_sources_def image_image)
  moreover have "Fallback_slot \<noteq> slot_for a fallback c" for c by (rule slot_without_fallback [of fallback c a, OF f, THEN not_sym])
  ultimately show ?thesis by (simp only: image_iff) blast
qed

lemma api_sources_without_login:
  assumes "new_sources cfg login client w = (Inl e, w')" "fst (api_sources cfg login client ask entries w) = Inr slots"
  shows "Fallback_slot \<notin> snd ` set slots"
proof -
  have "slots = fst (infra_sources ask (wired no_wiring) entries w')"
    using assms by (simp add: api_sources_def oracle_fallback_def split: prod.splits)
  then show ?thesis using no_fallback_slots [of "wired no_wiring" ask entries w'] by simp
qed

lemma collector_kept: "ca_collector c = Some col \<Longrightarrow> ca_collector (cache_step c e) = Some col"
  by (cases e) (simp_all add: prime_def get_snapshot_state finish_refresh_def collect_snapshot_def)

lemma collector_built: "ca_collector c = None \<Longrightarrow> ca_collector (finish_refresh (Some (Inr col)) read now c) = Some col"
  by (simp add: finish_refresh_def collect_snapshot_def)

lemma collector_kept_run: "ca_collector c = Some col \<Longrightarrow> ca_collector (run cache_step c es) = Some col"
  by (induction es arbitrary: c) (simp_all add: collector_kept)

text \<open>
  A defect. The comments of cache.go and ocisources.go have a failing Oracle login show as an error
  of the snapshot and be retried at the next refresh. But the failure is turned into sources without
  Oracle reads, of which a collector is built at the first refresh and kept: when the login happens
  to fail at that moment, no Oracle read is ever wired, and nothing tries again.
\<close>

theorem first_sources_final:
  "\<exists>slots. fst (api_collector cfg login client ask entries w) = Inr (new_collector_config cfg, slots) \<and>
     (\<forall>e w'. new_sources cfg login client w = (Inl e, w') \<longrightarrow> Fallback_slot \<notin> snd ` set slots) \<and>
     (\<forall>c read now es. ca_collector c = None \<longrightarrow>
        ca_collector (run cache_step (finish_refresh (Some (fst (api_collector cfg login client ask entries w))) read now c) es) =
        Some (new_collector_config cfg, slots))"
proof -
  obtain slots where s: "fst (api_sources cfg login client ask entries w) = Inr slots" using api_sources_total [of cfg login client ask entries w] by blast
  then have b: "fst (api_collector cfg login client ask entries w) = Inr (new_collector_config cfg, slots)"
    by (cases "api_sources cfg login client ask entries w") (simp add: api_collector_def seq_def ret_def)
  then show ?thesis using api_sources_without_login [OF _ s] by (auto simp: collector_kept_run collector_built)
qed

theorem first_sources_final_witness:
  "\<exists>slots. fst (api_collector (default_config\<lparr>ic_compartment_id := ''ocid1''\<rparr>) (\<lambda>w. (Inl ''no metadata'', w)) (\<lambda>_. ret ())
       (\<lambda>e w. (Inr [capability_alarms], w)) [\<lparr>pn_kind = kind_infra, pn_name = ''k'', pn_base_url = [], pn_token_file = [], pn_token = ''t''\<rparr>] ()) =
     Inr (default_config\<lparr>ic_compartment_id := ''ocid1''\<rparr>, slots) \<and> Fallback_slot \<notin> snd ` set slots \<and>
     ca_collector (run cache_step (finish_refresh (Some (Inr (default_config\<lparr>ic_compartment_id := ''ocid1''\<rparr>, slots))) (\<lambda>_. undefined) 5
       (new_default_cache :: (infra_config \<times> (string \<times> slot) list, int) cache)) [Primed 6 6]) =
     Some (default_config\<lparr>ic_compartment_id := ''ocid1''\<rparr>, slots)"
proof -
  let ?cfg = "default_config\<lparr>ic_compartment_id := ''ocid1''\<rparr>" and ?login = "\<lambda>w. (Inl ''no metadata'', w)"
  have c: "new_collector_config ?cfg = ?cfg" by (simp add: new_collector_config_def default_config_def seconds_def)
  have n: "ca_collector (new_default_cache :: (infra_config \<times> (string \<times> slot) list, int) cache) = None"
    by (simp add: new_default_cache_def new_cache_def)
  have l: "\<exists>e w'. new_sources ?cfg ?login (\<lambda>_. ret ()) () = (Inl e, w')"
    by (simp add: new_sources_def oci_configured_def seq_def)
  from first_sources_final [of ?cfg ?login "\<lambda>_. ret ()" "\<lambda>e w. (Inr [capability_alarms], w)"
      "[\<lparr>pn_kind = kind_infra, pn_name = ''k'', pn_base_url = [], pn_token_file = [], pn_token = ''t''\<rparr>]" "()"]
  show ?thesis unfolding c using n l by metis
qed

end
