(* ===== verification/Journeys.thy ===== *)
theory Journeys
  imports BuildClientFacts ClusterFacts
begin

text \<open>
  Across components: what an app's creation at the API becomes at the coordinator. Both work on one
  world, in which the API reaches the coordinator through its client.
\<close>

section \<open>One meaning of a request\<close>

text \<open>What the API completes before it checks and sends, the coordinator would have made of it anyway.\<close>

lemma normalize_complete: "normalize_build_request (complete_request r) = normalize_build_request r"
proof -
  have "trim_space ''main'' = ''main''" "trim_space [] = []" by code_simp+
  then show ?thesis by (simp add: normalize_build_request_def complete_request_def Let_def)
qed

lemma check_request_iff:
  "check_request uni (complete_request r) = Inr () \<longleftrightarrow>
     trim_space (cb_repo_url r) \<noteq> [] \<and> (let req = normalize_build_request r in
       dns_label (trim_space (cb_app_name req)) \<and> length (trim_space (cb_app_name req)) \<le> 63 \<and>
       trim_space (cb_app_name req) \<notin> set reserved_names \<and> 1 \<le> cb_replicas req \<and> cb_replicas req \<le> 5)"
proof -
  have v: "validate_create_app_request uni (Some \<lparr>car_name = n, car_image = ''ghcr.io/placeholder/app'',
      car_tag = placeholder_tag, car_replicas = k, car_port = 8080, car_env = []\<rparr>) = Inr () \<longleftrightarrow>
      dns_label (trim_space n) \<and> length (trim_space n) \<le> 63 \<and> trim_space n \<notin> set reserved_names \<and> 1 \<le> k \<and> k \<le> 5" for n k
    unfolding validate_create_app_request_iff acceptable_app_def
    using placeholder_ok by (simp add: to_lower_def)
  have p: "cb_port (complete_request r) = 8080" by (simp add: complete_request_def Let_def)
  have e: "cb_app_name (complete_request r) = cb_app_name (normalize_build_request r)"
    "cb_replicas (complete_request r) = cb_replicas (normalize_build_request r)" "cb_repo_url (complete_request r) = cb_repo_url r"
    by (simp_all add: complete_request_def normalize_build_request_def Let_def)
  show ?thesis
    unfolding check_request_def p e Let_def using v [of "cb_app_name (normalize_build_request r)" "cb_replicas (normalize_build_request r)"]
    by (auto split: sum.splits)
qed

lemma request_read:
  "(\<exists>req. normalize_and_validate_build_request uni r = Inr req) \<longleftrightarrow>
     check_request uni' (complete_request r) = Inr () \<and> has_prefix (trim_space (cb_repo_url r)) github_prefix"
proof -
  have u: "cb_repo_url (normalize_build_request r) = trim_space (cb_repo_url r)" by (simp add: normalize_build_request_def Let_def)
  have "has_prefix (trim_space (cb_repo_url r)) github_prefix \<Longrightarrow> trim_space (cb_repo_url r) \<noteq> []" by (auto simp: github_prefix_def)
  then show ?thesis by (auto simp: build_request_iff check_request_iff acceptable_build_def u Let_def)
qed

text \<open>
  C24. The API and the coordinator read a request the same way, and what the coordinator accepts is
  exactly what the API lets through, with one difference: the API takes any repository address that
  is not blank, the coordinator only an https GitHub one.
\<close>

theorem request_read_alike:
  "normalize_build_request (complete_request r) = normalize_build_request r \<and>
   ((\<exists>req. normalize_and_validate_build_request uni r = Inr req) \<longleftrightarrow>
     check_request uni' (complete_request r) = Inr () \<and> has_prefix (trim_space (cb_repo_url r)) github_prefix)"
  by (simp only: normalize_complete request_read [where uni = uni and uni' = uni'] simp_thms)

section \<open>The API and the coordinator together\<close>

text \<open>The world the two share: looking at the cluster or at the repository leaves the queue alone.\<close>

locale one_platform = build_link S clock uuid c line
  for S :: "'w server" and clock :: "nat \<Rightarrow> gotime" and uuid :: string and c :: "('w sv, 'f, 'b) build_client" and line :: "int \<Rightarrow> string" +
  fixes H :: "('w sv, 'f, 'b) api_env"
  assumes linked: "hl_build H = Some c"
    and cluster_reads: "sv_store (snd (get_application (hl_cluster H) n s)) = sv_store s"
    and git_reads: "sv_store (snd (path_exists (hl_git H) (hl_git_ops H) p s)) = sv_store s"
begin

text \<open>A request is answered by the API alone, with the queue as it was, or goes to the coordinator.\<close>

lemma create_app_cases:
  assumes "create_app H (Some req0) rq s = (res, s')"
  obtains (refused) "ar_status res \<notin> {201, 502}" "sv_store s' = sv_store s"
  | (sent) t e where "sv_store t = sv_store s" "client_create_build c (complete_request req0) t = (Inl e, s')" "ar_status res = 502"
  | (created) t build where "sv_store t = sv_store s" "client_create_build c (complete_request req0) t = (Inr build, s')"
      "res = json_status rq 201 (create_build_response_json build)"
proof (cases "check_request (hl_unicode H) (complete_request req0)")
  case (Inl e)
  then show ?thesis using assms refused by (auto simp: create_app_def linked Let_def bad_request_def)
next
  case (Inr u)
  let ?name = "cb_app_name (complete_request req0)"
  obtain r1 s1 where g: "get_application (hl_cluster H) ?name s = (r1, s1)" by fastforce
  have s1: "sv_store s1 = sv_store s" using cluster_reads [of ?name s] g by simp
  obtain r2 s2 where p: "path_exists (hl_git H) (hl_git_ops H) (''apps/'' @ ?name) s1 = (r2, s2)" by fastforce
  have s2: "sv_store s2 = sv_store s" using git_reads [of "''apps/'' @ ?name" s1] p s1 by simp
  obtain r3 s3 where cl: "client_create_build c (complete_request req0) s2 = (r3, s3)" by fastforce
  note run = assms [unfolded create_app_def linked option.case Let_def Inr sum.case g prod.case]
  show ?thesis
  proof (cases r1)
    case (Inr app)
    then show ?thesis using run refused s1 by (auto simp: conflict_def)
  next
    case (Inl e)
    note run = run [unfolded Inl sum.case attempt_def p prod.case]
    show ?thesis
    proof (cases r2)
      case (Inl e')
      then show ?thesis using run refused s2 by (auto simp: internal_error_def)
    next
      case (Inr there)
      show ?thesis
      proof (cases there)
        case True
        then show ?thesis using run refused s2 Inr by (auto simp: conflict_def)
      next
        case False
        then show ?thesis using run Inr cl s2 sent [OF s2] created [OF s2] by (cases r3) auto
      qed
    qed
  qed
qed

end

text \<open>An API over the coordinator's world, which it reaches beside the queue.\<close>

definition at_world :: "('w \<Rightarrow> 'x \<times> 'w) \<Rightarrow> 'w sv \<Rightarrow> 'x \<times> 'w sv" where
  "at_world m s = (case m (sv_world s) of (r, t) \<Rightarrow> (r, s\<lparr>sv_world := t\<rparr>))"

definition git_beside :: "'w git_env \<Rightarrow> 'w sv git_env" where
  "git_beside E = \<lparr>ge_remove_all = (\<lambda>p s. s\<lparr>sv_world := ge_remove_all E p (sv_world s)\<rparr>),
     ge_plain_clone = (\<lambda>p u. at_world (ge_plain_clone E p u)), ge_worktree = at_world (ge_worktree E),
     ge_checkout = (\<lambda>b. at_world (ge_checkout E b)), ge_stat = (\<lambda>p. at_world (ge_stat E p)),
     ge_mkdir_all = (\<lambda>p. at_world (ge_mkdir_all E p)), ge_read_file = (\<lambda>p. at_world (ge_read_file E p)),
     ge_write_file = (\<lambda>p d. at_world (ge_write_file E p d)), ge_add = (\<lambda>p. at_world (ge_add E p)),
     ge_commit = (\<lambda>m a e. at_world (ge_commit E m a e)), ge_push = (\<lambda>rs. at_world (ge_push E rs)),
     ge_create_branch = (\<lambda>b r m. at_world (ge_create_branch E b r m)), ge_set_reference = (\<lambda>r h. at_world (ge_set_reference E r h)),
     ge_head = at_world (ge_head E), ge_commit_object = (\<lambda>h. at_world (ge_commit_object E h))\<rparr>"

definition cluster_beside :: "('w, 'f) cluster \<Rightarrow> ('w sv, 'f) cluster" where
  "cluster_beside C = \<lparr>cu_list_apps = at_world (cu_list_apps C), cu_get_app = (\<lambda>n. at_world (cu_get_app C n)),
     cu_patch_app = (\<lambda>n p. at_world (cu_patch_app C n p)), cu_open_logs = (\<lambda>a b d n. at_world (cu_open_logs C a b d n)),
     cu_selector = (\<lambda>a b. at_world (cu_selector C a b)), cu_list_pods = (\<lambda>a b. at_world (cu_list_pods C a b)),
     cu_list_replica_sets = (\<lambda>a. at_world (cu_list_replica_sets C a)), cu_get_pod = (\<lambda>a b. at_world (cu_get_pod C a b)),
     cu_object = (\<lambda>a b d. at_world (cu_object C a b d)), cu_quote = cu_quote C\<rparr>"

definition api_beside :: "('w, 'f, 'x) api_env \<Rightarrow> ('w sv, 'f, 'b) build_client \<Rightarrow> ('w sv, 'f, 'b) api_env" where
  "api_beside H c = \<lparr>hl_cluster = cluster_beside (hl_cluster H), hl_git = git_beside (hl_git H), hl_git_ops = hl_git_ops H,
     hl_deployment_yaml = hl_deployment_yaml H, hl_rollbacks_yaml = hl_rollbacks_yaml H, hl_build = Some c,
     hl_floats = hl_floats H, hl_unicode = hl_unicode H\<rparr>"

lemma at_world_store [simp]: "sv_store (snd (at_world m s)) = sv_store s"
  by (simp add: at_world_def split: prod.split)

text \<open>Whatever passes through the calls beside the queue leaves the queue as it is.\<close>

lemma at_world_keeps: "keeps (\<lambda>s. sv_store s = q) (at_world m)"
  by (simp add: keeps_def)

lemma path_exists_beside: "keeps (\<lambda>s. sv_store s = q) (path_exists (git_beside E) g p)"
proof -
  let ?k = "keeps (\<lambda>s. sv_store s = q)"
  have "?k (clone_repo (git_beside E) g)"
  proof (rule keepsI)
    fix s :: "'a sv" assume "sv_store s = q"
    then have 1: "sv_store (ge_remove_all (git_beside E) (g_work_dir g) s) = q" by (simp add: git_beside_def)
    have 2: "ge_plain_clone (git_beside E) d u = at_world (ge_plain_clone E d u)" for d u by (simp add: git_beside_def)
    show "sv_store (snd (clone_repo (git_beside E) g s)) = q"
      unfolding clone_repo_def Let_def 2
      by (rule keepsD [where P = "\<lambda>s. sv_store s = q", OF keeps_seq [OF at_world_keeps] 1]) simp
  qed
  then have o: "?k (open_main (git_beside E) g)"
    unfolding open_main_def by (intro keeps_seq) (simp_all add: git_beside_def at_world_keeps)
  have st: "sv_store (snd (ge_stat (git_beside E) d s)) = sv_store s" for d s by (simp add: git_beside_def)
  show ?thesis
    unfolding path_exists_def
  proof (rule keeps_seq [OF o], rule keepsI)
    fix s :: "'a sv" assume "sv_store s = q"
    then show "sv_store (snd (case ge_stat (git_beside E) (path_join [g_work_dir g, p]) s of
        (Inl (Not_exist _), w') \<Rightarrow> (Inr False, w') | (Inl (Os_failed e), w') \<Rightarrow> (Inl e, w') | (Inr _, w') \<Rightarrow> (Inr True, w'))) = q"
      using st [of "path_join [g_work_dir g, p]" s] by (auto split: prod.splits sum.splits os_error.splits)
  qed
qed

interpretation mem_platform: one_platform S clock uuid "mem_client S clock uuid line env" line "api_beside H (mem_client S clock uuid line env)"
  for S :: "'w server" and clock uuid line and env :: "('w sv, 'f, 'b) build_client" and H :: "('w, 'f, 'x) api_env"
  by unfold_locales (simp_all add: api_beside_def cluster_beside_def get_application_def keepsD [OF path_exists_beside refl])

text \<open>
  C8. Creating an app, from the API to the queue. Answered 201, the request was acceptable, the
  answer names the build, and its row is in the coordinator's queue with the parameters of the
  request as both sides read it; of the rest of the queue only failed builds of the same app are
  gone. Answered by the API alone, the queue is as it was.
\<close>

theorem app_creation_queues:
  assumes "one_platform S clock uuid c line H" "request_travels (complete_request req0)"
    and "\<exists>b. jio_print (bc_json c) (create_build_request_json (bc_floats c) (complete_request req0)) = Some b \<and>
      jio_parse (bc_json c) b = Some (create_build_request_json (bc_floats c) (complete_request req0))"
    and "\<forall>t. arrives (bc_json c) (answer_json (bc_floats c) (fst (create_build S clock uuid (Some (complete_request req0)) t)))"
    and "store_inv (sv_store s)" "create_app H (Some req0) rq s = (res, s')"
  shows "let req = normalize_build_request req0 in
    (ar_status res = 201 \<longrightarrow> acceptable_build req \<and>
       res = json_status rq 201 (create_build_response_json \<lparr>cr_app_name = cb_app_name req, cr_build_id = uuid, cr_status = status_queued\<rparr>) \<and>
       (\<exists>row gone. jobs (sv_store s') = filter (\<lambda>r. r \<notin> gone) (jobs (sv_store s)) @ [row] \<and>
          (\<forall>r \<in> gone. j_app_name (cols r) = cb_app_name req \<and> j_status (cols r) = status_failed) \<and>
          cols row = row_for (clock 0) (job_for uuid (cb_app_name req) (cb_repo_url req) (cb_ref req) (cb_replicas req)
            (cb_port req) (cb_env req)))) \<and>
    (ar_status res \<notin> {201, 502} \<longrightarrow> sv_store s' = sv_store s)"
  using assms(1,6)
proof (rule one_platform.create_app_cases)
  show ?thesis if "ar_status res \<notin> {201, 502}" "sv_store s' = sv_store s" using that by (simp add: Let_def)
  show ?thesis if "ar_status res = 502" using that by (simp add: Let_def)
  fix t build
  assume t: "sv_store t = sv_store s" and cl: "client_create_build c (complete_request req0) t = (Inr build, s')"
    and res: "res = json_status rq 201 (create_build_response_json build)"
  obtain b where b: "jio_print (bc_json c) (create_build_request_json (bc_floats c) (complete_request req0)) = Some b"
    "jio_parse (bc_json c) b = Some (create_build_request_json (bc_floats c) (complete_request req0))" using assms(3) by blast
  obtain a t' where cr: "create_build S clock uuid (Some (complete_request req0)) t = (a, t')" by fastforce
  have ar: "arrives (bc_json c) (answer_json (bc_floats c) a)" using assms(4) cr by (metis fst_conv)
  have link: "build_link S clock uuid c line" using assms(1) by (simp add: one_platform_def)
  note through = creation_through [OF link assms(2) b cr ar]
  have "a = Created_build build \<and> t' = s'"
    using create_build_answers [of S clock uuid "Some (complete_request req0)" t] through cl
    by (auto simp: cr refusal_def)
  with cr t have made: "create_build S clock uuid (Some (complete_request req0)) t = (Created_build build, s')" by simp
  have inv: "store_inv (sv_store t)" using assms(5) t by simp
  from create_build_accepted [OF made inv] show ?thesis
    unfolding t res by (auto simp: normalize_complete Let_def)
qed

section \<open>A sample creation\<close>

text \<open>An API without Applications and with an empty repository, next to the sample coordinator.\<close>

definition still_git :: "mem_repo git_env" where
  "still_git = mem_git\<lparr>ge_remove_all := (\<lambda>p w. w), ge_plain_clone := (\<lambda>p u. ret ()), ge_checkout := (\<lambda>b. ret ()),
     ge_stat := (\<lambda>p w. (Inl (Not_exist []), w))\<rparr>"

definition sample_api :: "(mem_repo sv, int, int json) api_env" where
  "sample_api = api_beside (bare_env ((web_cluster [])\<lparr>cu_get_app := (\<lambda>n. fail_with ''not found'')\<rparr>) still_git) sample_client"

lemma sample_platform: "one_platform (sample_server None quiet_sender) at_noon ''b1'' sample_client (\<lambda>n. ''status'') sample_api"
  unfolding sample_api_def sample_client_def by (rule mem_platform.one_platform_axioms)

lemma sample_travels: "request_travels (complete_request sample_build)"
  by (simp add: request_travels_def sample_build_def complete_request_def Let_def int_fits_def min_duration_def max_duration_def)

lemma create_build_completed: "create_build S clock u (Some (complete_request r)) s = create_build S clock u (Some r) s"
  by (simp add: create_build_def normalize_and_validate_build_request_def normalize_complete)

lemma sample_answered:
  "\<exists>s'. create_app sample_api (Some sample_build) web_request (fresh_server [] (lab_repo [])) =
     (json_status web_request 201 (create_build_response_json \<lparr>cr_app_name = ''shop'', cr_build_id = ''b1'', cr_status = status_queued\<rparr>), s')"
proof -
  let ?s = "fresh_server [] (lab_repo [])" and ?r = "complete_request sample_build"
  obtain s' where cr: "create_build (sample_server None quiet_sender) at_noon ''b1'' (Some ?r) ?s =
     (Created_build \<lparr>cr_app_name = ''shop'', cr_build_id = ''b1'', cr_status = status_queued\<rparr>, s')"
    using sample_created unfolding create_build_completed by blast
  have cl: "client_create_build sample_client ?r ?s = (Inr \<lparr>cr_app_name = ''shop'', cr_build_id = ''b1'', cr_status = status_queued\<rparr>, s')"
    using creation_through [OF sample_client_link(1) sample_travels _ _ cr, unfolded sample_client_link(2)] by simp
  have chk: "check_request uni ?r = Inr ()" for uni
    using sample_build_ok [of uni] request_read [where r = sample_build and uni = uni and uni' = uni] by blast
  have g: "get_application (hl_cluster sample_api) n ?s = (Inl ''not found'', ?s)" for n
    by (simp add: sample_api_def api_beside_def bare_env_def cluster_beside_def get_application_def at_world_def)
  have p: "path_exists (hl_git sample_api) ops d ?s = (Inr False, ?s)" for ops d
    by (simp add: sample_api_def api_beside_def bare_env_def git_beside_def path_exists_def open_main_def clone_repo_def
        still_git_def mem_git_def at_world_def seq_def ret_def Let_def)
  have b: "hl_build sample_api = Some sample_client" by (simp add: sample_api_def api_beside_def)
  show ?thesis by (simp add: create_app_def b Let_def chk g p cl attempt_def)
qed

theorem app_creation_queues_witness:
  "\<exists>s'. snd (create_app sample_api (Some sample_build) web_request (fresh_server [] (lab_repo []))) = s' \<and>
     (\<exists>row. jobs (sv_store s') = [row] \<and> j_app_name (cols row) = ''shop'' \<and> j_status (cols row) = status_queued)"
proof -
  obtain s' where c: "create_app sample_api (Some sample_build) web_request (fresh_server [] (lab_repo [])) =
     (json_status web_request 201 (create_build_response_json \<lparr>cr_app_name = ''shop'', cr_build_id = ''b1'', cr_status = status_queued\<rparr>), s')"
    using sample_answered by blast
  have inv: "store_inv (sv_store (fresh_server [] (lab_repo [])))"
    using fresh_server_ok [of "[]" "lab_repo []"] by (simp add: sv_ok_def queue_ok_def)
  have "normalize_build_request sample_build = sample_build\<lparr>cb_port := 8080\<rparr>"
    using sample_build_ok [of "\<lambda>s. s", unfolded build_request_iff] by (rule conjunct1 [OF _, THEN sym])
  then have n: "cb_app_name (normalize_build_request sample_build) = ''shop''" by (simp add: sample_build_def)
  from app_creation_queues [OF sample_platform sample_travels _ _ inv c, unfolded sample_client_link(2)] show ?thesis
    unfolding c by (auto simp: Let_def n fresh_server_def empty_store_def row_for_def new_row_def job_for_def)
qed

end
