(* ===== verification/Routes.thy ===== *)
theory Routes
  imports BuildClientFacts WebhookSpecs
begin

text \<open>
  The routes of the build coordinator, \<open>NewServer\<close> and \<open>Register\<close> of server.go: which handler a request
  reaches, and past which check. The router compares the segments of a path without regard to case
  and takes the entries in the order they were registered in.
\<close>

section \<open>Routing\<close>

record http_in =
  hi_method :: string
  hi_path :: "string list"
  hi_auth :: string

datatype served = Healthy | Answered answer | Unrouted

type_synonym 'w responder = "'w sv \<Rightarrow> served \<times> 'w sv"

datatype 'w entry =
    Route string "string list" "(string \<Rightarrow> string) \<Rightarrow> 'w responder"
  | Use "string list" "string \<Rightarrow> 'w responder \<Rightarrow> 'w responder"

definition same_segment :: "string \<Rightarrow> string \<Rightarrow> bool" where
  "same_segment p s \<longleftrightarrow> map lower_byte p = map lower_byte s"

text \<open>A segment \<open>:name\<close> of a pattern takes any segment that is not empty.\<close>

fun match_path :: "string list \<Rightarrow> string list \<Rightarrow> (string \<times> string) list option" where
  "match_path [] [] = Some []"
| "match_path (p # ps) (s # ss) =
     (if has_prefix p '':'' then (if s = [] then None else map_option (Cons (drop 1 p, s)) (match_path ps ss))
      else if same_segment p s then match_path ps ss else None)"
| "match_path _ _ = None"

fun under :: "string list \<Rightarrow> string list \<Rightarrow> bool" where
  "under [] ss \<longleftrightarrow> True"
| "under (p # ps) (s # ss) \<longleftrightarrow> same_segment p s \<and> under ps ss"
| "under (p # ps) [] \<longleftrightarrow> False"

definition param_of :: "(string \<times> string) list \<Rightarrow> string \<Rightarrow> string" where
  "param_of ps k = (case map_of ps k of Some v \<Rightarrow> v | None \<Rightarrow> [])"

fun dispatch_route :: "'w entry list \<Rightarrow> http_in \<Rightarrow> 'w responder" where
  "dispatch_route [] rq s = (Unrouted, s)"
| "dispatch_route (Route m p h # es) rq s =
     (if m = hi_method rq then (case match_path p (hi_path rq) of Some ps \<Rightarrow> h (param_of ps) s | None \<Rightarrow> dispatch_route es rq s)
      else dispatch_route es rq s)"
| "dispatch_route (Use p g # es) rq s =
     (if under p (hi_path rq) then g (hi_auth rq) (dispatch_route es rq) s else dispatch_route es rq s)"

section \<open>Register\<close>

text \<open>What the handlers of a request are given: the clock, fresh ids, parsed bodies and query values.\<close>

record coordinator_inputs =
  ci_clock :: "nat \<Rightarrow> gotime"
  ci_uuid :: string
  ci_clocks :: "nat \<Rightarrow> nat \<Rightarrow> gotime"
  ci_uuids :: "nat \<Rightarrow> string"
  ci_create :: "create_build_request option"
  ci_log :: "runner_log_request option"
  ci_status :: "runner_status_request option"
  ci_webhook :: webhook_request
  ci_query_int :: "string \<Rightarrow> int \<Rightarrow> int"

definition answering :: "'w handler \<Rightarrow> 'w responder" where
  "answering h s = (case h s of (a, s) \<Rightarrow> (Answered a, s))"

text \<open>The middleware \<open>auth\<close>: refused, a request goes no further.\<close>

definition auth_middle :: "'w server \<Rightarrow> string \<Rightarrow> 'w responder \<Rightarrow> 'w responder" where
  "auth_middle S authorization next s = (case auth S authorization (\<lambda>s. (No_content, s)) s of
     (Fail code e, s) \<Rightarrow> (Answered (Fail code e), s)
   | (_, s) \<Rightarrow> next s)"

definition coordinator_routes :: "'w server \<Rightarrow> coordinator_inputs \<Rightarrow> 'w entry list" where
  "coordinator_routes S I = [
     Route ''GET'' [''health''] (\<lambda>ps s. (Healthy, s)),
     Route ''POST'' [''v1'', ''webhooks'', ''github''] (\<lambda>ps. answering (github_webhook S (ci_clocks I) (ci_uuids I) (ci_webhook I))),
     Use [''v1''] (auth_middle S),
     Route ''POST'' [''v1'', ''builds''] (\<lambda>ps. answering (create_build S (ci_clock I) (ci_uuid I) (ci_create I))),
     Route ''POST'' [''v1'', ''apps'', '':name'', ''rebuild''] (\<lambda>ps. answering (rebuild_app S (ci_clock I) (ci_uuid I) (ps ''name''))),
     Route ''GET'' [''v1'', ''builds''] (\<lambda>ps. answering (list_builds (ci_query_int I ''limit'' 50))),
     Route ''GET'' [''v1'', ''builds'', '':id''] (\<lambda>ps. answering (get_build (ps ''id''))),
     Route ''GET'' [''v1'', ''builds'', '':id'', ''logs''] (\<lambda>ps. answering (get_logs (ps ''id'') (ci_query_int I ''after'' 0))),
     Route ''POST'' [''v1'', ''runner'', ''poll''] (\<lambda>ps. answering (poll_runner (ci_clock I))),
     Route ''POST'' [''v1'', ''runner'', ''jobs'', '':id'', ''logs''] (\<lambda>ps. answering (append_runner_log S (ci_clock I) (ps ''id'') (ci_log I))),
     Route ''POST'' [''v1'', ''runner'', ''jobs'', '':id'', ''status''] (\<lambda>ps. answering (update_runner S (ci_clock I) (ps ''id'') (ci_status I)))]"

definition serve_coordinator :: "'w server \<Rightarrow> coordinator_inputs \<Rightarrow> http_in \<Rightarrow> 'w responder" where
  "serve_coordinator S I = dispatch_route (coordinator_routes S I)"

section \<open>Without the token\<close>

lemma auth_middle_iff:
  "auth_middle S a next s = (if se_token S = [] \<or> a = ''Bearer '' @ se_token S then next s else (Answered (Fail 401 ''unauthorized''), s))"
  by (simp add: auth_middle_def auth_def)

lemma under_match: "match_path (p # ps) ss = Some qs \<Longrightarrow> \<not> has_prefix p '':'' \<Longrightarrow> under [p] ss"
  by (cases ss) (auto split: if_splits)

lemma v1_literal: "\<not> has_prefix ''v1'' '':''"
  by (simp add: has_prefix_def)

text \<open>A request that is refused at the door: what it gets does not depend on the state, which stays.\<close>

definition inert :: "'w responder \<Rightarrow> bool" where
  "inert r \<longleftrightarrow> (\<exists>a. \<forall>s. r s = (a, s))"

lemma inert_Unrouted: "(\<And>s. r s = (a, s)) \<Longrightarrow> inert r"
  by (auto simp: inert_def)

lemma inert_if: "inert a \<Longrightarrow> inert b \<Longrightarrow> inert (\<lambda>s. if c then a s else b s)"
  by (cases c) simp_all

fun entry_under :: "string \<Rightarrow> 'w entry \<Rightarrow> bool" where
  "entry_under p (Route m q h) \<longleftrightarrow> (\<exists>qs. q = p # qs)"
| "entry_under p (Use q g) \<longleftrightarrow> False"

lemma not_under_unrouted:
  "\<forall>e \<in> set es. entry_under p e \<Longrightarrow> \<not> has_prefix p '':'' \<Longrightarrow> \<not> under [p] (hi_path rq) \<Longrightarrow> dispatch_route es rq s = (Unrouted, s)"
proof (induction es)
  case (Cons e es)
  then obtain m qs h where e: "e = Route m (p # qs) h" by (cases e) auto
  have "match_path (p # qs) (hi_path rq) = None" using under_match Cons.prems by (cases "match_path (p # qs) (hi_path rq)") blast+
  with Cons e show ?case by simp
qed simp

lemma guarded_inert:
  assumes "\<forall>e \<in> set es. entry_under ''v1'' e" "se_token S \<noteq> []" "hi_auth rq \<noteq> ''Bearer '' @ se_token S"
  shows "inert (dispatch_route (Use [''v1''] (auth_middle S) # es) rq)"
proof (cases "under [''v1''] (hi_path rq)")
  case True
  then show ?thesis
    using assms by (intro inert_Unrouted [of _ "Answered (Fail 401 ''unauthorized'')"]) (simp add: auth_middle_iff)
next
  case False
  then show ?thesis
    using not_under_unrouted [OF assms(1) v1_literal False] by (intro inert_Unrouted [of _ Unrouted]) simp
qed

lemma unsigned_inert:
  assumes "se_webhook_secret S = [] \<or> \<not> valid_signature (se_webhook_secret S) (wr_body req) (wr_signature req)"
  shows "inert (answering (github_webhook S clocks uuids req))"
proof -
  have "fst (github_webhook S clocks uuids req s) = (if se_webhook_secret S = [] then Fail 503 ''webhooks not configured'' else Fail 401 ''unauthorized'')"
    "snd (github_webhook S clocks uuids req s) = s" for s
    using assms unfolding github_webhook_def by (cases "se_webhook_secret S = []"; simp)+
  then show ?thesis by (intro inert_Unrouted) (simp add: answering_def split_beta)
qed

text \<open>The routes before the check: the health of the service, and GitHub, which cannot present a token.\<close>

lemma routes_open:
  "coordinator_routes S I = Route ''GET'' [''health''] (\<lambda>ps s. (Healthy, s)) #
     Route ''POST'' [''v1'', ''webhooks'', ''github''] (\<lambda>ps. answering (github_webhook S (ci_clocks I) (ci_uuids I) (ci_webhook I))) #
     Use [''v1''] (auth_middle S) # drop 3 (coordinator_routes S I)"
  by (simp add: coordinator_routes_def)

lemma routes_guarded: "\<forall>e \<in> set (drop 3 (coordinator_routes S I)). entry_under ''v1'' e"
  by (simp add: coordinator_routes_def)

lemma serve_cases:
  assumes "inert (dispatch_route (Use [''v1''] (auth_middle S) # drop 3 (coordinator_routes S I)) rq)"
    and "inert (answering (github_webhook S (ci_clocks I) (ci_uuids I) (ci_webhook I)))"
  shows "inert (serve_coordinator S I rq)"
proof -
  have h: "inert (\<lambda>s. (Healthy, s))" by (rule inert_Unrouted) simp
  have eq: "serve_coordinator S I rq s =
      (if hi_method rq = ''GET'' \<and> match_path [''health''] (hi_path rq) \<noteq> None then (Healthy, s)
       else if hi_method rq = ''POST'' \<and> match_path [''v1'', ''webhooks'', ''github''] (hi_path rq) \<noteq> None
       then answering (github_webhook S (ci_clocks I) (ci_uuids I) (ci_webhook I)) s
       else dispatch_route (Use [''v1''] (auth_middle S) # drop 3 (coordinator_routes S I)) rq s)" for s
    unfolding serve_coordinator_def by (subst routes_open) (simp del: match_path.simps split: option.split)
  show ?thesis by (subst ext [OF eq]) (intro inert_if h assms)
qed

text \<open>
  C25. Whoever has neither the coordinator's token nor a signature under the webhook secret changes
  nothing and learns nothing: whatever is requested, on whatever path, the answer is the same in every
  state of the coordinator, and leaves it as it is.
\<close>

theorem strangers_inert:
  assumes "se_token S \<noteq> []" "hi_auth rq \<noteq> ''Bearer '' @ se_token S"
    and "se_webhook_secret S = [] \<or> \<not> signed_with (se_webhook_secret S) (ci_webhook I)"
  shows "\<exists>a. \<forall>s. serve_coordinator S I rq s = (a, s)"
  using serve_cases [OF guarded_inert [OF routes_guarded assms(1,2)] unsigned_inert [OF assms(3) [folded valid_signature_iff]]]
  by (simp only: inert_def)

definition sample_inputs :: coordinator_inputs where
  "sample_inputs = \<lparr>ci_clock = at_noon, ci_uuid = ''b1'', ci_clocks = (\<lambda>_. at_noon), ci_uuids = (\<lambda>_. ''b2''), ci_create = None, ci_log = None,
     ci_status = None, ci_webhook = \<lparr>wr_body = ''{}'', wr_signature = [], wr_event = ''push'', wr_decoded = None\<rparr>, ci_query_int = (\<lambda>_ d. d)\<rparr>"

theorem strangers_inert_witness:
  "\<exists>a. \<forall>s. serve_coordinator (sample_server None quiet_sender) sample_inputs
     \<lparr>hi_method = ''POST'', hi_path = [''v1'', ''runner'', ''poll''], hi_auth = ''Bearer guess''\<rparr> s = (a, s)"
  by (rule strangers_inert)
    (simp_all add: sample_server_def sample_inputs_def signed_with_def signature_prefix_def)

section \<open>With the token\<close>

text \<open>How the path of a URL arrives, and a client whose calls go through the routes.\<close>

definition url_path :: "string \<Rightarrow> string \<Rightarrow> string list" where
  "url_path base u = split_on (CHR ''/'') (drop 1 (takeWhile (\<lambda>c. c \<noteq> CHR ''?'') (trim_prefix u base)))"

definition served_http :: "'f float64 \<Rightarrow> ('f, 'b) json_io \<Rightarrow> (int \<Rightarrow> string) \<Rightarrow> served \<Rightarrow> 'b http_response" where
  "served_http F io line r = (case r of
     Answered a \<Rightarrow> answer_http F io line a
   | Healthy \<Rightarrow> \<lparr>hs_code = 200, hs_status = line 200,
       hs_body = (case jio_print io (J_obj [(''status'', J_str ''healthy'')]) of Some b \<Rightarrow> b | None \<Rightarrow> jio_empty io)\<rparr>
   | Unrouted \<Rightarrow> \<lparr>hs_code = 404, hs_status = line 404, hs_body = jio_empty io\<rparr>)"

definition routed_client ::
    "'w server \<Rightarrow> coordinator_inputs \<Rightarrow> (int \<Rightarrow> string) \<Rightarrow> ('w sv, 'f, 'b) build_client \<Rightarrow> ('w sv, 'f, 'b) build_client" where
  "routed_client S I line env = env\<lparr>bc_token := se_token S, bc_bad_url := (\<lambda>u. None),
     bc_send := (\<lambda>m u a b s.
       case serve_coordinator S (I\<lparr>ci_create := Option.bind (jio_parse (bc_json env) b) dec_create_build_request\<rparr>)
           \<lparr>hi_method = m, hi_path = url_path (bc_base_url env) u, hi_auth = a\<rparr> s of
         (r, s') \<Rightarrow> (Inr (served_http (bc_floats env) (bc_json env) line r), s'))\<rparr>"

lemma take_query: "CHR ''?'' \<notin> set x \<Longrightarrow> takeWhile (\<lambda>c. c \<noteq> CHR ''?'') x = x"
  by (auto simp: takeWhile_eq_all_conv)

lemma same_segment_refl [simp]: "same_segment s s"
  by (simp add: same_segment_def)

lemma literal_segments:
  "\<not> same_segment ''health'' ''v1''" "\<not> same_segment ''webhooks'' ''builds''" "\<not> same_segment ''webhooks'' ''apps''"
  "\<not> same_segment ''builds'' ''apps''" "\<not> same_segment ''apps'' ''builds''" "\<not> same_segment ''runner'' ''builds''"
  by code_simp+

lemma has_prefix_literals:
  "has_prefix '':name'' '':''" "has_prefix '':id'' '':''" "\<not> has_prefix ''health'' '':''" "\<not> has_prefix ''v1'' '':''" "\<not> has_prefix ''webhooks'' '':''"
  "\<not> has_prefix ''builds'' '':''" "\<not> has_prefix ''apps'' '':''" "\<not> has_prefix ''runner'' '':''" "\<not> has_prefix ''rebuild'' '':''"
  by (simp_all add: has_prefix_def)

lemmas routing = serve_coordinator_def coordinator_routes_def literal_segments has_prefix_literals param_of_def

lemma serve_creation:
  "serve_coordinator S I \<lparr>hi_method = ''POST'', hi_path = [''v1'', ''builds''], hi_auth = a\<rparr> s =
     (case auth S a (create_build S (ci_clock I) (ci_uuid I) (ci_create I)) s of (r, s') \<Rightarrow> (Answered r, s'))"
  by (simp add: routing auth_middle_iff auth_def answering_def)

lemma serve_rebuild:
  "app \<noteq> [] \<Longrightarrow> serve_coordinator S I \<lparr>hi_method = ''POST'', hi_path = [''v1'', ''apps'', app, ''rebuild''], hi_auth = a\<rparr> s =
     (case auth S a (rebuild_app S (ci_clock I) (ci_uuid I) app) s of (r, s') \<Rightarrow> (Answered r, s'))"
  by (simp add: routing auth_middle_iff auth_def answering_def)

lemma serve_build:
  "jid \<noteq> [] \<Longrightarrow> serve_coordinator S I \<lparr>hi_method = ''GET'', hi_path = [''v1'', ''builds'', jid], hi_auth = a\<rparr> s =
     (case auth S a (get_build jid) s of (r, s') \<Rightarrow> (Answered r, s'))"
  by (simp add: routing auth_middle_iff auth_def answering_def)

lemma url_paths:
  "url_path base (base @ ''/v1/builds'') = [''v1'', ''builds'']"
  "plain_segment x \<Longrightarrow> url_path base (base @ ''/v1/builds/'' @ x) = [''v1'', ''builds'', x]"
  "plain_segment x \<Longrightarrow> url_path base (base @ ''/v1/apps/'' @ x @ ''/rebuild'') = [''v1'', ''apps'', x, ''rebuild'']"
proof -
  show "url_path base (base @ ''/v1/builds'') = [''v1'', ''builds'']"
    by (simp add: url_path_def trim_around)
  assume p: "plain_segment x"
  then have q: "CHR ''?'' \<notin> set x" "CHR ''/'' \<notin> set x" by (simp_all add: plain_segmentD)
  from q show "url_path base (base @ ''/v1/builds/'' @ x) = [''v1'', ''builds'', x]"
    by (simp add: url_path_def trim_around take_query split_on_last)
  have t: "takeWhile (\<lambda>c. c \<noteq> CHR ''?'') (x @ ''/rebuild'') = x @ ''/rebuild''" by (rule take_query) (use q in simp)
  from q show "url_path base (base @ ''/v1/apps/'' @ x @ ''/rebuild'') = [''v1'', ''apps'', x, ''rebuild'']"
    by (simp add: url_path_def trim_around t split_on_block)
qed

text \<open>The link between client and coordinator, by way of the routes: what the client relies on is what is registered.\<close>

interpretation routed_link: build_link S "ci_clock I" "ci_uuid I" "routed_client S I line env" line
  for S :: "'w server" and I line and env :: "('w sv, 'f, 'b) build_client"
  by unfold_locales
    (auto simp: routed_client_def url_paths serve_creation serve_rebuild serve_build plain_segmentD served_http_def
      simp del: append.simps split: prod.split)

end
