(* ===== verification/Spec2Isabelle.thy ===== *)
theory Spec2Isabelle
  imports ManifestFacts StoreReads GitOpsRuns RunnerSpecs WebhookSpecs EmitterFacts SnapshotCacheFacts
    ProviderConfig ConformanceSpecs BuildClientFacts RollbackFacts RouterFacts Programs Journeys Routes
begin

text \<open>
  A verification library for tinycloud-platform.

  The program. TinyCloud runs applications on small Kubernetes clusters. Four commands (src/cmd) are
  built from the packages under src/internal. The API (cmd/api) serves the dashboard: it lists Argo CD
  Applications, has apps created and rebuilt, rolls them back and restores them, and shows a snapshot
  of the infrastructure. The build coordinator (cmd/build-coordinator) keeps a queue of builds in
  SQLite, hands them to GitHub Actions or to a polling runner, takes the runner's reports, and commits
  the manifests of a finished build to the GitOps repository, which Argo CD follows. A provider server
  (cmd/provider-server) answers what the infrastructure looks like over the /v0 contract; the API reads
  any number of providers through a client, and the conformance command checks one from outside.

  Conventions. A Go error is \<^verbatim>\<open>Inl\<close> of its text, a call that may fail and moves a state is an
  \<^verbatim>\<open>act\<close>, a function from a state to a result and a state (Prelude); \<^verbatim>\<open>seq\<close> is "call, wrap the error,
  go on". The state is explicit: \<^verbatim>\<open>conn\<close> for the queue, \<^verbatim>\<open>sv\<close> for the coordinator (queue, emitted events
  and the world beyond), \<^verbatim>\<open>cache\<close> for the snapshot cache, and a type variable for what lies outside the
  process. A nil pointer or interface is \<^verbatim>\<open>None\<close>; a nil slice, where JSON tells it from an empty one, is a
  \<^verbatim>\<open>slice\<close>. Go integers are \<^verbatim>\<open>int\<close> where the code cannot reach the ends of their range, and 64-bit words
  or an explicit \<^verbatim>\<open>wrap64\<close> where it can (byte totals, durations, cursors). Strings are lists of bytes. The
  iteration order of a map, the order in which goroutines finish, every reading of the clock and every
  fresh identifier is an argument, so a theorem holds for each of them.

  Shared theories. Prelude: results, actions, driver faults, histories of a step function and their
  invariant rule, what \<^verbatim>\<open>sort.Slice\<close> may do. GoStrings: the functions of strings, strconv and fmt.
  GoRegex: the anchored patterns, by derivatives. GoTime and Instants: calendar times with their
  RFC 3339 text, and times only compared and subtracted. Json: encoding/json, its text an argument
  (\<^verbatim>\<open>json_io\<close>), decoding into structs as Go does it. Sha256: SHA-256, HMAC and the webhook signature.

  Building an app.
  \<^item> Templates, Manifests, ManifestFacts: internal/manifests/generator.go. What a request must look like
    (\<^verbatim>\<open>validate_create_app_request_iff\<close>), defaults, the exchange sort of the environment, the files
    generated, for every iteration order of the two maps.
  \<^item> BuildTypes, BuildWire: internal/build/types/types.go, the jobs and their JSON.
  \<^item> Store, StoreFacts, StoreRuns, StoreReads: internal/build/coordinator/store.go from line 290, the
    queue: each query and update, over tables in rowid order, any statement failing in the driver. The
    invariant along every history, claims, round trips, log cursors, the order of textual times.
  \<^item> Migration, MigrationFacts: the same file before it, opening a database of any earlier version.
    Builds survive whatever statement fails; a second opening changes nothing.
  \<^item> Dispatch: internal/build/dispatch/dispatch.go, the request that starts a workflow.
  \<^item> GitOps, GitOpsFacts, GitOpsRuns: internal/git/gitops.go, every write to the repository, over the
    contract \<^verbatim>\<open>git_repo\<close> of git and the disk; \<^verbatim>\<open>mem_git\<close> is an instance of it.
  \<^item> Coordinator, CoordinatorFacts, CoordinatorRuns, CoordinatorSpecs, RunnerSpecs: server.go, one
    definition per handler; \<^verbatim>\<open>server_step\<close> is the machine of requests handled one after the other, in
    which an app never has two builds in progress as long as its creations sort in the order they
    happen (\<^verbatim>\<open>server_ok\<close>: always across seconds, within one second not necessarily, as
    \<^verbatim>\<open>newest_job_within_second\<close> shows); \<^verbatim>\<open>overlapping_requests\<close> shows what happens when they overlap.
  \<^item> Webhook, WebhookSpecs: webhook.go, what a signed push rebuilds.
  \<^item> Routes: \<^verbatim>\<open>Register\<close> of server.go, the routes in the order the router takes them. What a caller without
    token or signature can do, and an instance \<^verbatim>\<open>routed_link\<close> of the transport contract below through them.
  \<^item> Emitter, EmitterFacts: internal/ocilog, the log shipper as a machine of its worker and its callers.
  \<^item> BuildClient, BuildClientFacts: internal/build/client/client.go, over the contract \<^verbatim>\<open>build_link\<close> of an
    HTTP transport between it and the coordinator's routes; \<^verbatim>\<open>mem_link\<close> is an instance. The contract
    speaks of the URLs the client makes, with path segments of unreserved characters only.

  Showing the infrastructure.
  \<^item> Infra, InfraFacts: internal/infra/snapshot.go and collect.go, a snapshot from five sources read
    concurrently. It does not depend on the order they finish in, and shows nothing unread as a number.
  \<^item> SnapshotCache, SnapshotCacheFacts: cache.go, whose steps run under its mutex. Refreshes are spaced,
    none is ever the last, and each that reads everything is served; \<^verbatim>\<open>outage_replaces_last_good\<close> is
    where the code departs from its comments.
  \<^item> OciSources, OciSourcesFacts: ocisources.go, the Oracle reads, over a record of the SDK's calls.
    Following pages is a partial function: a listing that always has a next page is \<^verbatim>\<open>None\<close>. A walk over
    a \<^verbatim>\<open>paged_listing\<close> ends; \<^verbatim>\<open>bucket_listing\<close>, the contract of Oracle's own listing of a bucket, is
    one by way of the code's reading of its markers, and \<^verbatim>\<open>serve_bucket\<close> meets it.
  \<^item> Provider, ProviderServer, ProviderClient, ProviderSpecs, ProviderConfig: internal/provider, the
    contract, both of its ends and the routing of capabilities. Tokens, read-through of every
    capability over a transport that takes the paths of the contract, which provider each source is
    read from (\<^verbatim>\<open>second_silent_provider_dropped\<close>: with more than one out of reach, not as documented).
  \<^item> KubeProvider: internal/provider/kubernetes. Conformance, ConformanceSpecs: internal/conformance,
    the suite; the platform's own server passes it, and what passes it the client can read.

  The API.
  \<^item> Api: internal/api/response and the middleware. Cluster, ClusterFacts: internal/k8s/client.go, the
    calls, the resource tree by owner references (ReplicaSets by the owner's name, pods by its UID) and
    the confinement of reads to an application's namespace.
  \<^item> Apps, Rollbacks, Inspect, RollbackFacts: internal/api/handlers and internal/models, one definition
    per handler; the effect of rollback and restore over the contract \<^verbatim>\<open>argo_repo\<close>, met by \<^verbatim>\<open>mem_argo\<close>.
  \<^item> OpenApi, Router, RouterFacts: internal/api/openapi.go and router.go, internal/config: the document
    in full, the routes, and which answers the document covers. \<^verbatim>\<open>conforms\<close> follows references to a
    depth of 8, more than the document nests (\<^verbatim>\<open>conforms_deeper\<close>: more depth accepts no less).
  \<^item> Programs: src/cmd, what each command makes of its environment, where the API's snapshots come
    from (\<^verbatim>\<open>first_sources_final\<close> is a defect), and the request log line. Journeys: an app's creation from the API to the queue.

  What is not of this repository is an argument: SQLite is modelled by what each statement of the code
  does to the tables; git, YAML, the Kubernetes API, metrics-server, GitHub, the Oracle SDK, HTTP and
  JSON text are records of calls, with what the theorems need of them as a named contract or
  hypothesis and an instance that meets it. Floats are any type with the operations used (\<^verbatim>\<open>float64\<close>).

  Bounds. The only fuel is that of schema references. The emitter's drain and the exchange sort are
  total with a measure; regular expressions and string scans recurse on their input.

  Not modelled. Fiber and net/http beyond the accessors and routes (start-up, CORS, panics, the metrics
  handler), contexts and their deadlines except where a call's outcome may be an error anyway, log
  output besides the request log and the build events, the embedded contract document (contract.go),
  the user interface, scripts and deployment files. Two goroutines inside one handler appear only as
  the order in which they finish.
\<close>

end
